(* ===== verification/Prelude.thy ===== *)
theory Prelude
  imports Main "HOL-Library.Word"
begin

text \<open>
  Shared vocabulary of the development: the types that stand for Go's built-in ones (bytes,
  strings, errors, 64-bit integers, instants and durations), the collections of facts that
  component proofs use, and generic list lemmas.

  A Go \<open>string\<close> is a sequence of bytes, and Isabelle's \<open>char\<close> is an 8-bit value, so a Go string
  is a HOL \<open>string\<close>; a \<open>[]byte\<close> that is encrypted or framed is a list of 8-bit words.  Both
  conversions of Go are total and inverse to each other.
\<close>

section \<open>Collections of facts\<close>

named_theorems go_simps \<open>evaluation of the Go string functions on literals\<close>

section \<open>Bytes, strings, results\<close>

type_synonym byte = "8 word"
type_synonym bytes = "byte list"

type_synonym 'a result = "string + 'a"  \<comment> \<open>Go's \<open>(value, error)\<close>: the error message or the value\<close>

definition go_bytes :: "string \<Rightarrow> bytes" where
  "go_bytes s = map (\<lambda>c. of_nat (of_char c)) s"

definition go_string :: "bytes \<Rightarrow> string" where
  "go_string bs = map (\<lambda>b. char_of (unat b)) bs"

lemma go_string_go_bytes [simp]: "go_string (go_bytes s) = s"
proof -
  have "char_of (unat (of_nat (of_char c) :: byte)) = c" for c :: char
    by (simp add: unat_of_nat)
  then show ?thesis by (simp add: go_string_def go_bytes_def map_idI)
qed

lemma go_bytes_go_string [simp]: "go_bytes (go_string bs) = bs"
proof -
  have "(of_nat (of_char (char_of (unat b) :: char)) :: byte) = b" for b
  proof -
    have "unat b < 2 ^ LENGTH(8)" by (rule unsigned_less)
    then have "unat b < 256" by simp
    then have "(of_char (char_of (unat b) :: char) :: nat) = unat b" by simp
    then show ?thesis by simp
  qed
  then show ?thesis by (simp add: go_string_def go_bytes_def map_idI)
qed

lemma go_bytes_inject [simp]: "go_bytes a = go_bytes b \<longleftrightarrow> a = b"
  by (metis go_string_go_bytes)

lemma go_string_inject [simp]: "go_string a = go_string b \<longleftrightarrow> a = b"
  by (metis go_bytes_go_string)

lemma length_go_bytes [simp]: "length (go_bytes s) = length s"
  by (simp add: go_bytes_def)

lemma length_go_string [simp]: "length (go_string s) = length s"
  by (simp add: go_string_def)

section \<open>64-bit integers, instants and durations\<close>

text \<open>
  \<open>int\<close>, \<open>int64\<close> and \<open>time.Duration\<close> are 64-bit two's complement; \<open>wrap64\<close> is the value an
  overflowing arithmetic expression keeps.  A \<open>time.Time\<close> is an unbounded count of nanoseconds
  since the epoch; \<open>Time.Sub\<close> saturates and \<open>Time.UnixNano\<close> wraps, as the standard library does.
\<close>

definition max_int64 :: int where "max_int64 = 2 ^ 63 - 1"
definition min_int64 :: int where "min_int64 = - (2 ^ 63)"

definition wrap64 :: "int \<Rightarrow> int" where
  "wrap64 i = (i + 2 ^ 63) mod 2 ^ 64 - 2 ^ 63"

definition time_sub :: "int \<Rightarrow> int \<Rightarrow> int" where
  "time_sub a b = max min_int64 (min max_int64 (a - b))"

definition second :: int where "second = 1000000000"
definition minute :: int where "minute = 60 * second"
definition hour :: int where "hour = 60 * minute"

lemmas duration_defs = second_def minute_def hour_def

lemma wrap64_id: "min_int64 \<le> i \<Longrightarrow> i \<le> max_int64 \<Longrightarrow> wrap64 i = i"
  by (simp add: wrap64_def min_int64_def max_int64_def)

lemma wrap64_range: "min_int64 \<le> wrap64 i" "wrap64 i \<le> max_int64"
  by (simp_all add: wrap64_def min_int64_def max_int64_def)

lemma time_sub_exact:
  "min_int64 \<le> a - b \<Longrightarrow> a - b \<le> max_int64 \<Longrightarrow> time_sub a b = a - b"
  by (simp add: time_sub_def)

lemma time_sub_self [simp]: "time_sub a a = 0"
  by (simp add: time_sub_def min_int64_def max_int64_def)

section \<open>Lists\<close>

text \<open>\<open>dedup\<close> keeps the first occurrence of each element (\<open>remdups\<close> keeps the last).\<close>

fun dedup :: "'a list \<Rightarrow> 'a list" where
  "dedup [] = []"
| "dedup (x # xs) = x # filter (\<lambda>y. y \<noteq> x) (dedup xs)"

lemma set_dedup [simp]: "set (dedup xs) = set xs"
  by (induction xs) auto

lemma distinct_dedup [simp]: "distinct (dedup xs)"
  by (induction xs) auto

lemma dedup_distinct: "distinct xs \<Longrightarrow> dedup xs = xs"
  by (induction xs) (auto simp: filter_id_conv)

lemma dedup_filter: "dedup (filter P xs) = filter P (dedup xs)"
  by (induction xs) (auto intro!: filter_cong)

lemma dedup_append:
  "dedup (xs @ ys) = dedup xs @ filter (\<lambda>y. y \<notin> set xs) (dedup ys)"
  by (induction xs) (auto intro!: filter_cong)

lemma dedup_snoc:
  "dedup (xs @ [x]) = (if x \<in> set xs then dedup xs else dedup xs @ [x])"
  by (simp add: dedup_append)

lemma dedup_skip [simp]: "x \<in> set xs \<Longrightarrow> dedup (xs @ x # ys) = dedup (xs @ ys)"
  by (auto simp: dedup_append intro!: filter_cong)

lemma dedup_dedup_append [simp]: "dedup (dedup xs @ ys) = dedup (xs @ ys)"
  by (simp add: dedup_append dedup_distinct)

lemma distinct_map_filter: "distinct (map f xs) \<Longrightarrow> distinct (map f (filter P xs))"
  by (induction xs) auto

lemma length_filter_remove1_key:
  "distinct (map f xs) \<Longrightarrow> x \<in> set xs \<Longrightarrow>
   length (filter (\<lambda>y. f y \<noteq> f x) xs) = length xs - 1"
proof (induction xs)
  case Nil
  then show ?case by simp
next
  case (Cons a xs)
  show ?case
  proof (cases "a = x")
    case True
    with Cons.prems have "filter (\<lambda>y. f y \<noteq> f x) xs = xs"
      by (auto simp: filter_id_conv image_iff)
    with True show ?thesis by simp
  next
    case False
    with Cons.prems have x: "x \<in> set xs" and d: "distinct (map f xs)" by auto
    with Cons.prems False have "f a \<noteq> f x" by (auto simp: image_iff)
    moreover from x have "0 < length xs" by (cases xs) auto
    ultimately show ?thesis using Cons.IH [OF d x] by simp
  qed
qed

end
