(* ===== verification/Go_Strings.thy ===== *)
theory Go_Strings
  imports Prelude
begin

text \<open>
  The functions of Go's \<open>strings\<close> and \<open>strconv\<close> packages that the program calls, under their Go
  names in lower case.  Case mapping and white space are the ASCII ones: the program applies them
  to host names, header names and mailbox names.  On bytes above 127 (which the standard library
  maps by Unicode tables) the model leaves the byte as it is.
\<close>

section \<open>Characters\<close>

definition char_code :: "char \<Rightarrow> nat" where
  "char_code c = of_char c"

definition is_upper :: "char \<Rightarrow> bool" where
  "is_upper c \<longleftrightarrow> 65 \<le> char_code c \<and> char_code c \<le> 90"

definition is_lower :: "char \<Rightarrow> bool" where
  "is_lower c \<longleftrightarrow> 97 \<le> char_code c \<and> char_code c \<le> 122"

definition is_digit :: "char \<Rightarrow> bool" where
  "is_digit c \<longleftrightarrow> 48 \<le> char_code c \<and> char_code c \<le> 57"

definition lower_char :: "char \<Rightarrow> char" where
  "lower_char c = (if is_upper c then char_of (char_code c + 32) else c)"

definition upper_char :: "char \<Rightarrow> char" where
  "upper_char c = (if is_lower c then char_of (char_code c - 32) else c)"

definition is_space :: "char \<Rightarrow> bool" where
  "is_space c \<longleftrightarrow> char_code c \<in> {9, 10, 11, 12, 13, 32}"

lemma char_code_bound [simp]: "char_code c < 256"
  by (simp add: char_code_def)

lemma char_code_inject [simp]: "char_code c = char_code d \<longleftrightarrow> c = d"
  by (simp add: char_code_def)

lemma char_code_char_of: "n < 256 \<Longrightarrow> char_code (char_of n) = n"
  by (simp add: char_code_def)

section \<open>Case mapping and trimming\<close>

definition to_lower :: "string \<Rightarrow> string" where
  "to_lower s = map lower_char s"

definition to_upper :: "string \<Rightarrow> string" where
  "to_upper s = map upper_char s"

definition equal_fold :: "string \<Rightarrow> string \<Rightarrow> bool" where
  "equal_fold s t \<longleftrightarrow> to_lower s = to_lower t"

definition trim_right_func :: "(char \<Rightarrow> bool) \<Rightarrow> string \<Rightarrow> string" where
  "trim_right_func p s = rev (dropWhile p (rev s))"

definition trim_space :: "string \<Rightarrow> string" where
  "trim_space s = trim_right_func is_space (dropWhile is_space s)"

lemma lower_char_not_upper [simp]: "\<not> is_upper (lower_char c)"
proof (cases "is_upper c")
  case True
  then have "char_code c + 32 < 256" by (simp add: is_upper_def)
  then have "char_code (lower_char c) = char_code c + 32"
    using True by (simp add: lower_char_def char_code_char_of)
  with True show ?thesis by (simp add: is_upper_def)
next
  case False
  then show ?thesis by (simp add: lower_char_def)
qed

lemma lower_char_idem [simp]: "lower_char (lower_char c) = lower_char c"
  using lower_char_not_upper [of c] by (simp add: lower_char_def)

lemma to_lower_idem [simp]: "to_lower (to_lower s) = to_lower s"
  by (simp add: to_lower_def)

lemma length_to_lower [simp]: "length (to_lower s) = length s"
  by (simp add: to_lower_def)

lemma to_lower_append [simp]: "to_lower (s @ t) = to_lower s @ to_lower t"
  by (simp add: to_lower_def)

lemma to_lower_Cons [simp]: "to_lower (c # t) = lower_char c # to_lower t"
  by (simp add: to_lower_def)

lemma to_lower_Nil [simp]: "to_lower [] = []"
  by (simp add: to_lower_def)

section \<open>Prefixes, suffixes, cutting and splitting\<close>

definition has_prefix :: "string \<Rightarrow> string \<Rightarrow> bool" where
  "has_prefix s p \<longleftrightarrow> take (length p) s = p"

definition has_suffix :: "string \<Rightarrow> string \<Rightarrow> bool" where
  "has_suffix s p \<longleftrightarrow> length p \<le> length s \<and> drop (length s - length p) s = p"

definition cut_prefix :: "string \<Rightarrow> string \<Rightarrow> string \<times> bool" where
  "cut_prefix s p = (if has_prefix s p then (drop (length p) s, True) else (s, False))"

definition cut_suffix :: "string \<Rightarrow> string \<Rightarrow> string \<times> bool" where
  "cut_suffix s p = (if has_suffix s p then (take (length s - length p) s, True) else (s, False))"

definition trim_suffix :: "string \<Rightarrow> string \<Rightarrow> string" where
  "trim_suffix s p = fst (cut_suffix s p)"

text \<open>\<open>strings.Cut\<close> with a separator of one byte: before, after, found.\<close>

fun cut :: "char \<Rightarrow> string \<Rightarrow> string \<times> string \<times> bool" where
  "cut c [] = ([], [], False)"
| "cut c (x # xs) =
     (if x = c then ([], xs, True)
      else case cut c xs of (before, after, found) \<Rightarrow> (x # before, after, found))"

text \<open>\<open>strings.Split\<close> with a separator of one byte: the parts, empty ones included.\<close>

fun split_on :: "char \<Rightarrow> string \<Rightarrow> string list" where
  "split_on c [] = [[]]"
| "split_on c (x # xs) =
     (if x = c then [] # split_on c xs
      else case split_on c xs of [] \<Rightarrow> [[x]] | p # ps \<Rightarrow> (x # p) # ps)"

text \<open>\<open>strings.FieldsFunc\<close>: the maximal runs of characters that fail the test.\<close>

function fields_func :: "(char \<Rightarrow> bool) \<Rightarrow> string \<Rightarrow> string list" where
  "fields_func p s =
     (case dropWhile p s of
        [] \<Rightarrow> []
      | x # xs \<Rightarrow> (x # takeWhile (\<lambda>c. \<not> p c) xs)
                    # fields_func p (dropWhile (\<lambda>c. \<not> p c) xs))"
  by pat_completeness auto
termination
proof (relation "measure (\<lambda>(p, s). length s)")
  fix p :: "char \<Rightarrow> bool" and s xs x
  assume "dropWhile p s = x # xs"
  then have "length xs < length s"
    by (metis length_Cons length_dropWhile_le less_eq_Suc_le)
  then show "((p, dropWhile (\<lambda>c. \<not> p c) xs), p, s) \<in> measure (\<lambda>(p, s). length s)"
    using length_dropWhile_le [of "\<lambda>c. \<not> p c" xs] by simp
qed simp

declare fields_func.simps [simp del]

fun join :: "string \<Rightarrow> string list \<Rightarrow> string" where
  "join sep [] = []"
| "join sep [x] = x"
| "join sep (x # xs) = x @ sep @ join sep xs"

text \<open>\<open>strings.IndexByte\<close>, with \<open>None\<close> for \<open>-1\<close>.\<close>

fun index_byte :: "string \<Rightarrow> char \<Rightarrow> nat option" where
  "index_byte [] c = None"
| "index_byte (x # xs) c = (if x = c then Some 0 else map_option Suc (index_byte xs c))"

fun last_index_byte :: "string \<Rightarrow> char \<Rightarrow> nat option" where
  "last_index_byte [] c = None"
| "last_index_byte (x # xs) c =
     (case last_index_byte xs c of Some i \<Rightarrow> Some (Suc i) | None \<Rightarrow> if x = c then Some 0 else None)"

fun contains_sub :: "string \<Rightarrow> string \<Rightarrow> bool" where
  "contains_sub [] sub = (sub = [])"
| "contains_sub (x # xs) sub = (has_prefix (x # xs) sub \<or> contains_sub xs sub)"

definition count_char :: "string \<Rightarrow> char \<Rightarrow> nat" where
  "count_char s c = length (filter (\<lambda>x. x = c) s)"

text \<open>\<open>strings.ReplaceAll\<close> for a non-empty pattern (the program's patterns are literals).\<close>

function replace_all :: "string \<Rightarrow> string \<Rightarrow> string \<Rightarrow> string" where
  "replace_all s old new =
     (if old = [] \<or> s = [] then s
      else if has_prefix s old then new @ replace_all (drop (length old) s) old new
      else hd s # replace_all (tl s) old new)"
  by pat_completeness auto
termination
  by (relation "measure (\<lambda>(s, old, new). length s)") auto

declare replace_all.simps [simp del]

text \<open>
  The runes of a string, each in its UTF-8 encoding; a byte that starts no valid encoding is
  the replacement character U+FFFD, as the conversion \<open>[]rune(s)\<close> makes it.
\<close>

definition code_in :: "nat \<Rightarrow> nat \<Rightarrow> char \<Rightarrow> bool" where
  "code_in lo hi c \<longleftrightarrow> lo \<le> char_code c \<and> char_code c \<le> hi"

definition utf8_len :: "string \<Rightarrow> nat" where
  "utf8_len s =
     (let cont = code_in 128 191 in
      case s of
        [] \<Rightarrow> 0
      | a # s1 \<Rightarrow>
          if char_code a < 128 then 1
          else (case s1 of
            [] \<Rightarrow> 0
          | b # s2 \<Rightarrow>
              if code_in 194 223 a \<and> cont b then 2
              else (case s2 of
                [] \<Rightarrow> 0
              | c # s3 \<Rightarrow>
                  if cont c \<and> (char_code a = 224 \<and> code_in 160 191 b
                       \<or> code_in 225 236 a \<and> cont b
                       \<or> char_code a = 237 \<and> code_in 128 159 b
                       \<or> code_in 238 239 a \<and> cont b) then 3
                  else (case s3 of
                    [] \<Rightarrow> 0
                  | d # s4 \<Rightarrow>
                      if cont c \<and> cont d \<and> (char_code a = 240 \<and> code_in 144 191 b
                           \<or> code_in 241 243 a \<and> cont b
                           \<or> char_code a = 244 \<and> code_in 128 143 b) then 4
                      else 0))))"

definition rune_error :: string where
  "rune_error = [CHR 0xEF, CHR 0xBF, CHR 0xBD]"

function utf8_runes :: "string \<Rightarrow> string list" where
  "utf8_runes s =
     (if s = [] then []
      else if utf8_len s = 0 then rune_error # utf8_runes (tl s)
      else take (utf8_len s) s # utf8_runes (drop (utf8_len s) s))"
  by pat_completeness auto
termination
  by (relation "measure length") auto

declare utf8_runes.simps [simp del]

lemma utf8_runes_ascii: "list_all (\<lambda>c. char_code c < 128) s \<Longrightarrow> utf8_runes s = map (\<lambda>c. [c]) s"
proof (induction s)
  case Nil
  then show ?case by (simp add: utf8_runes.simps)
next
  case (Cons c s)
  then have "utf8_len (c # s) = 1" by (simp add: utf8_len_def Let_def)
  with Cons show ?case by (simp add: utf8_runes.simps [of "c # s"])
qed

lemma has_prefix_append [simp]: "has_prefix (p @ s) p"
  by (simp add: has_prefix_def)

lemma has_prefix_iff: "has_prefix s p \<longleftrightarrow> (\<exists>r. s = p @ r)"
  by (metis append_eq_conv_conj append_take_drop_id has_prefix_def)

lemma has_suffix_append [simp]: "has_suffix (s @ p) p"
  by (simp add: has_suffix_def)

lemma has_suffix_iff: "has_suffix s p \<longleftrightarrow> (\<exists>r. s = r @ p)"
  by (metis append_take_drop_id has_suffix_append has_suffix_def)

lemma cut_suffix_append [simp]: "cut_suffix (s @ p) p = (s, True)"
  by (simp add: cut_suffix_def)

lemma length_cut_after: "cut c s = (b, a, f) \<Longrightarrow> s \<noteq> [] \<Longrightarrow> length a < length s"
proof (induction s arbitrary: b a f)
  case Nil
  then show ?case by simp
next
  case (Cons x xs)
  then show ?case
    by (cases "xs = []") (fastforce split: if_splits prod.splits)+
qed

lemma cut_eq:
  "cut c s = (takeWhile (\<lambda>x. x \<noteq> c) s, drop (Suc (length (takeWhile (\<lambda>x. x \<noteq> c) s))) s, c \<in> set s)"
  by (induction s) auto

lemma split_on_not_Nil [simp]: "split_on c s \<noteq> []"
  by (induction s) (auto split: list.splits)

lemma split_on_no_sep: "c \<notin> set s \<Longrightarrow> split_on c s = [s]"
  by (induction s) auto

lemma split_on_append_sep:
  "c \<notin> set p \<Longrightarrow> split_on c (p @ c # s) = p # split_on c s"
  by (induction p) auto

lemma split_on_cut:
  "split_on c s = (case cut c s of (b, a, f) \<Rightarrow> b # (if f then split_on c a else []))"
  by (induction s) (auto split: prod.splits list.splits if_splits)

lemma set_split_on: "p \<in> set (split_on c s) \<Longrightarrow> c \<notin> set p"
proof (induction s arbitrary: p)
  case Nil
  then show ?case by simp
next
  case (Cons x xs)
  then show ?case
    by (cases "split_on c xs") (auto split: if_splits)
qed

section \<open>Numbers\<close>

fun digits_value :: "int \<Rightarrow> string \<Rightarrow> int option" where
  "digits_value acc [] = Some acc"
| "digits_value acc (c # cs) =
     (if is_digit c then digits_value (10 * acc + (int (char_code c) - 48)) cs else None)"

text \<open>\<open>strconv.Atoi\<close>: an optional sign, at least one digit, and the value must fit in 64 bits.\<close>

definition atoi :: "string \<Rightarrow> int option" where
  "atoi s =
     (let (neg, ds) = (case s of
            [] \<Rightarrow> (False, [])
          | c # cs \<Rightarrow> if c = CHR ''-'' then (True, cs)
                      else if c = CHR ''+'' then (False, cs) else (False, s))
      in if ds = [] then None
         else case digits_value 0 ds of
                None \<Rightarrow> None
              | Some v \<Rightarrow> let w = (if neg then - v else v)
                          in if min_int64 \<le> w \<and> w \<le> max_int64 then Some w else None)"

fun nat_digits :: "nat \<Rightarrow> string" where
  "nat_digits n = (if n < 10 then [char_of (48 + n)]
                   else nat_digits (n div 10) @ [char_of (48 + n mod 10)])"

declare nat_digits.simps [simp del]

definition itoa :: "int \<Rightarrow> string" where
  "itoa i = (if i < 0 then CHR ''-'' # nat_digits (nat (- i)) else nat_digits (nat i))"

text \<open>\<open>fmt\<close>'s \<open>%q\<close> on printable ASCII.\<close>

definition go_quote :: "string \<Rightarrow> string" where
  "go_quote s = CHR 0x22 # concat (map (\<lambda>c. if c = CHR 0x22 \<or> c = CHR 0x5C then [CHR 0x5C, c] else [c]) s)
                  @ [CHR 0x22]"

lemma digits_value_append:
  "digits_value acc (xs @ ys) = (case digits_value acc xs of None \<Rightarrow> None | Some v \<Rightarrow> digits_value v ys)"
  by (induction xs arbitrary: acc) auto

lemma is_digit_char_of: "d < 10 \<Longrightarrow> is_digit (char_of (48 + d)) \<and> char_code (char_of (48 + d)) = 48 + d"
  by (simp add: is_digit_def char_code_char_of)

lemma digits_value_nat_digits: "digits_value 0 (nat_digits n) = Some (int n)"
proof (induction n rule: nat_digits.induct)
  case (1 n)
  show ?case
  proof (cases "n < 10")
    case True
    with is_digit_char_of [OF True] show ?thesis by (simp add: nat_digits.simps)
  next
    case False
    have d: "n mod 10 < 10" by simp
    from False have "digits_value 0 (nat_digits n)
        = digits_value (int (n div 10)) [char_of (48 + n mod 10)]"
      by (subst nat_digits.simps) (simp add: digits_value_append 1)
    also have "\<dots> = Some (10 * int (n div 10) + int (n mod 10))"
      using is_digit_char_of [OF d] by simp
    also have "10 * int (n div 10) + int (n mod 10) = int n"
      by (metis of_nat_add of_nat_mult of_nat_numeral mult_div_mod_eq)
    finally show ?thesis .
  qed
qed

lemma nat_digits_hd: "\<exists>c cs. nat_digits n = c # cs \<and> is_digit c"
proof (induction n rule: nat_digits.induct)
  case (1 n)
  show ?case
  proof (cases "n < 10")
    case True
    with is_digit_char_of [OF True] show ?thesis by (simp add: nat_digits.simps)
  next
    case False
    then obtain c cs where "nat_digits (n div 10) = c # cs" "is_digit c" using 1 by blast
    with False show ?thesis by (subst nat_digits.simps) simp
  qed
qed

lemma atoi_itoa: "min_int64 \<le> i \<Longrightarrow> i \<le> max_int64 \<Longrightarrow> atoi (itoa i) = Some i"
proof -
  assume r: "min_int64 \<le> i" "i \<le> max_int64"
  obtain c cs where c: "nat_digits (nat i) = c # cs" "is_digit c" using nat_digits_hd by blast
  obtain d ds where d: "nat_digits (nat (- i)) = d # ds" using nat_digits_hd by blast
  from c(2) have n: "c \<noteq> CHR ''-''" "c \<noteq> CHR ''+''"
    by (auto simp: is_digit_def char_code_def)
  show ?thesis
  proof (cases "i < 0")
    case True
    with r d digits_value_nat_digits [of "nat (- i)"] show ?thesis
      by (simp add: itoa_def atoi_def)
  next
    case False
    with r c n digits_value_nat_digits [of "nat i"] show ?thesis
      by (simp add: itoa_def atoi_def)
  qed
qed

end
