(* ===== verification/Oob_Types.thy ===== *)
theory Oob_Types
  imports Go_Strings
begin

text \<open>
  The types the client package \<open>oobclient\<close> exports and the server shares: the correlation-id
  alphabet (\<open>client.go\<close>), the captured interaction (\<open>interaction.go\<close>), the stored HTTP response
  (\<open>options.go\<close>) and the client's error values (\<open>errors.go\<close>).  The facts say which stored
  responses an unauthenticated server accepts.
\<close>

definition CIDEncodingAlphabet :: string where
  "CIDEncodingAlphabet = ''0123456789abcdefghijklmnopqrstuv''"

record Interaction =
  Protocol :: string
  InteractionUniqueID :: string
  FullId :: string
  QType :: string
  RawRequest :: string
  RawResponse :: string
  SMTPFrom :: string
  SMTPTo :: string
  RemoteAddress :: string
  Timestamp :: int   \<comment> \<open>nanoseconds since the epoch, UTC\<close>

text \<open>A composite literal leaves the fields it does not name at their zero values.\<close>

definition zero_Interaction :: Interaction where
  "zero_Interaction = \<lparr>Protocol = [], InteractionUniqueID = [], FullId = [], QType = [],
     RawRequest = [], RawResponse = [], SMTPFrom = [], SMTPTo = [], RemoteAddress = [],
     Timestamp = 0\<rparr>"

record ResponseConfig =
  StatusCode :: int
  Headers :: "string list"
  Body :: string

datatype client_error =
    ErrSessionEvicted
  | ErrUnauthorized
  | ErrClientClosed
  | ErrAlreadyPolling
  | OtherError string

section \<open>Responses allowed on an unauthenticated server\<close>

text \<open>The header loop: any header that is not a Location ends it; at least one must be seen.\<close>

fun only_location_headers :: "string list \<Rightarrow> bool \<Rightarrow> bool" where
  "only_location_headers [] hasLocation = hasLocation"
| "only_location_headers (h # hs) hasLocation =
     (case cut CHR '':'' h of (name, _, ok) \<Rightarrow>
        if \<not> ok then False
        else if \<not> equal_fold (trim_space name) ''location'' then False
        else only_location_headers hs True)"

fun IsAllowedUnauthenticated :: "ResponseConfig option \<Rightarrow> bool" where
  "IsAllowedUnauthenticated None = True"
| "IsAllowedUnauthenticated (Some c) =
     (if StatusCode c \<noteq> 302 \<and> StatusCode c \<noteq> 307 then False
      else if Body c \<noteq> [] then False
      else only_location_headers (Headers c) False)"

definition header_name_is_location :: "string \<Rightarrow> bool" where
  "header_name_is_location h \<longleftrightarrow>
     CHR '':'' \<in> set h \<and> equal_fold (trim_space (takeWhile (\<lambda>x. x \<noteq> CHR '':'') h)) ''location''"

lemma only_location_headers_iff:
  "only_location_headers hs b \<longleftrightarrow> (b \<or> hs \<noteq> []) \<and> (\<forall>h \<in> set hs. header_name_is_location h)"
  by (induction hs b rule: only_location_headers.induct)
     (auto simp: cut_eq header_name_is_location_def)

lemma IsAllowedUnauthenticated_iff:
  "IsAllowedUnauthenticated (Some c) \<longleftrightarrow>
     StatusCode c \<in> {302, 307} \<and> Body c = [] \<and> Headers c \<noteq> []
     \<and> (\<forall>h \<in> set (Headers c). header_name_is_location h)"
  by (auto simp: only_location_headers_iff)

end
