(* ===== verification/Go_Encoding.thy ===== *)
theory Go_Encoding
  imports Go_Strings
begin

text \<open>
  The standard-library encodings the program uses: \<open>encoding/base64\<close> (\<open>StdEncoding\<close>),
  \<open>encoding/hex\<close> and \<open>encoding/binary\<close> (big-endian \<open>uint32\<close>), each with its round trip.
\<close>

unbundle bit_operations_syntax

section \<open>Base 64\<close>

definition b64_alphabet :: string where
  "b64_alphabet = ''ABCDEFGHIJKLMNOPQRSTUVWXYZabcdefghijklmnopqrstuvwxyz0123456789+/''"

definition b64_char :: "nat \<Rightarrow> char" where
  "b64_char n = b64_alphabet ! n"

definition b64_index :: "char \<Rightarrow> nat option" where
  "b64_index c = index_byte b64_alphabet c"

text \<open>A group of up to three bytes as a number of 24 bits, and its four sextets.\<close>

definition b64_group :: "byte \<Rightarrow> byte \<Rightarrow> byte \<Rightarrow> nat" where
  "b64_group a b c = unat a * 65536 + unat b * 256 + unat c"

definition b64_sextets :: "nat \<Rightarrow> string" where
  "b64_sextets n = [b64_char (n div 262144 mod 64), b64_char (n div 4096 mod 64),
                    b64_char (n div 64 mod 64), b64_char (n mod 64)]"

fun b64_encode :: "bytes \<Rightarrow> string" where
  "b64_encode [] = []"
| "b64_encode [a] = take 2 (b64_sextets (b64_group a 0 0)) @ ''==''"
| "b64_encode [a, b] = take 3 (b64_sextets (b64_group a b 0)) @ ''=''"
| "b64_encode (a # b # c # r) = b64_sextets (b64_group a b c) @ b64_encode r"

definition b64_bytes :: "nat \<Rightarrow> nat \<Rightarrow> nat \<Rightarrow> nat \<Rightarrow> bytes" where
  "b64_bytes i j k l =
     (let n = i * 262144 + j * 4096 + k * 64 + l
      in [of_nat (n div 65536), of_nat (n div 256), of_nat n])"

text \<open>
  Decoding skips carriage returns and line feeds, then reads groups of four; padding may only
  end the last group.
\<close>

fun b64_decode_groups :: "string \<Rightarrow> bytes option" where
  "b64_decode_groups [] = Some []"
| "b64_decode_groups (w # x # y # z # r) =
     (case (b64_index w, b64_index x) of
        (Some i, Some j) \<Rightarrow>
          if y = CHR ''='' then
            (if z = CHR ''='' \<and> r = [] then Some (take 1 (b64_bytes i j 0 0)) else None)
          else (case b64_index y of
              None \<Rightarrow> None
            | Some k \<Rightarrow>
                if z = CHR ''='' then (if r = [] then Some (take 2 (b64_bytes i j k 0)) else None)
                else (case b64_index z of
                    None \<Rightarrow> None
                  | Some l \<Rightarrow> map_option (\<lambda>rest. b64_bytes i j k l @ rest) (b64_decode_groups r)))
      | _ \<Rightarrow> None)"
| "b64_decode_groups _ = None"

definition b64_decode :: "string \<Rightarrow> bytes option" where
  "b64_decode s = b64_decode_groups (filter (\<lambda>c. c \<noteq> CHR 0x0A \<and> c \<noteq> CHR 0x0D) s)"

lemma b64_index_char: "n < 64 \<Longrightarrow> b64_index (b64_char n) = Some n"
proof -
  have "list_all (\<lambda>n. b64_index (b64_char n) = Some n) [0 ..< 64]"
    by code_simp
  then show "n < 64 \<Longrightarrow> b64_index (b64_char n) = Some n" by (simp add: list_all_iff)
qed

lemma b64_char_plain:
  assumes "n < 64"
  shows "b64_char n \<noteq> CHR ''=''" "b64_char n \<noteq> CHR 0x0A" "b64_char n \<noteq> CHR 0x0D"
proof -
  have "list_all (\<lambda>n. b64_char n \<noteq> CHR ''='' \<and> b64_char n \<noteq> CHR 0x0A \<and> b64_char n \<noteq> CHR 0x0D)
          [0 ..< 64]"
    by code_simp
  with assms show "b64_char n \<noteq> CHR ''=''" "b64_char n \<noteq> CHR 0x0A" "b64_char n \<noteq> CHR 0x0D"
    by (simp_all add: list_all_iff)
qed

lemma unat_byte_bound: "unat (a :: byte) < 256"
proof -
  have "unat a < 2 ^ LENGTH(8)" by (rule unsigned_less)
  then show ?thesis by simp
qed

lemma b64_group_bound: "b64_group a b c < 16777216"
  using unat_byte_bound [of a] unat_byte_bound [of b] unat_byte_bound [of c]
  by (simp add: b64_group_def)

lemma sextets_value:
  "n < 16777216 \<Longrightarrow>
   n div 262144 mod 64 * 262144 + n div 4096 mod 64 * 4096 + n div 64 mod 64 * 64 + n mod 64 = (n::nat)"
proof -
  assume n: "n < 16777216"
  have "n mod 4096 = 64 * (n div 64 mod 64) + n mod 64"
    using mod_mult2_eq [of n 64 64] by simp
  moreover have "n mod 262144 = 4096 * (n div 4096 mod 64) + n mod 4096"
    using mod_mult2_eq [of n 4096 64] by simp
  moreover have "n = 262144 * (n div 262144) + n mod 262144" by simp
  moreover have "n div 262144 mod 64 = n div 262144"
    using n by (simp add: less_mult_imp_div_less)
  ultimately show ?thesis by linarith
qed

lemma b64_bytes_group:
  "b64_bytes (n div 262144 mod 64) (n div 4096 mod 64) (n div 64 mod 64) (n mod 64) = [a, b, c]"
  if "n = b64_group a b c"
proof -
  note bounds = unat_byte_bound [of a] unat_byte_bound [of b] unat_byte_bound [of c]
  have n: "n < 16777216" unfolding that by (rule b64_group_bound)
  have "n div 65536 = unat a" "n div 256 = unat a * 256 + unat b"
    unfolding that b64_group_def using bounds by auto
  moreover have "(of_nat (unat a * 256 + unat b) :: byte) = b"
    and "(of_nat (unat a * 65536 + unat b * 256 + unat c) :: byte) = c"
    using bounds by (simp_all add: word_unat_eq_iff unat_word_ariths unat_of_nat)
  ultimately show ?thesis
    by (simp add: b64_bytes_def Let_def sextets_value [OF n]) (simp add: that b64_group_def)
qed

lemmas b64_bytes_of_group = b64_bytes_group [OF refl]

lemma b64_decode_encode_groups: "b64_decode_groups (b64_encode bs) = Some bs"
proof (induction bs rule: b64_encode.induct)
  case 1
  then show ?case by simp
next
  case (2 a)
  let ?n = "b64_group a 0 0"
  have "?n div 64 mod 64 = 0" "?n mod 64 = 0" by (simp_all add: b64_group_def)
  with b64_bytes_of_group [of a 0 0]
  have "b64_bytes (?n div 262144 mod 64) (?n div 4096 mod 64) 0 0 = [a, 0, 0]" by simp
  then show ?case by (simp add: b64_sextets_def b64_index_char numeral_2_eq_2)
next
  case (3 a b)
  let ?n = "b64_group a b 0"
  have "?n mod 64 = 0" by (simp add: b64_group_def)
  with b64_bytes_of_group [of a b 0]
  have "b64_bytes (?n div 262144 mod 64) (?n div 4096 mod 64) (?n div 64 mod 64) 0 = [a, b, 0]"
    by simp
  then show ?case by (simp add: b64_sextets_def b64_index_char b64_char_plain numeral_3_eq_3)
next
  case (4 a b c r)
  then show ?case
    by (simp add: b64_sextets_def b64_index_char b64_char_plain b64_bytes_of_group)
qed

lemma b64_encode_plain: "c \<in> set (b64_encode bs) \<Longrightarrow> c \<noteq> CHR 0x0A \<and> c \<noteq> CHR 0x0D"
  by (induction bs rule: b64_encode.induct)
     (auto simp: b64_sextets_def b64_char_plain numeral_2_eq_2 numeral_3_eq_3)

theorem b64_decode_encode [simp]: "b64_decode (b64_encode bs) = Some bs"
proof -
  have "filter (\<lambda>c. c \<noteq> CHR 0x0A \<and> c \<noteq> CHR 0x0D) (b64_encode bs) = b64_encode bs"
    using b64_encode_plain by (auto simp: filter_id_conv)
  then show ?thesis by (simp add: b64_decode_def b64_decode_encode_groups)
qed

section \<open>Hexadecimal\<close>

definition hex_digit :: "nat \<Rightarrow> char" where
  "hex_digit n = ''0123456789abcdef'' ! n"

definition hex_byte :: "byte \<Rightarrow> string" where
  "hex_byte b = [hex_digit (unat b div 16), hex_digit (unat b mod 16)]"

definition hex_encode :: "bytes \<Rightarrow> string" where
  "hex_encode bs = concat (map hex_byte bs)"

lemma length_hex_encode [simp]: "length (hex_encode bs) = 2 * length bs"
  by (induction bs) (simp_all add: hex_encode_def hex_byte_def)

section \<open>Big-endian 32-bit integers\<close>

text \<open>\<open>PutUint32(b, uint32(n))\<close>: the conversion keeps the low 32 bits of the length.\<close>

definition be32 :: "nat \<Rightarrow> bytes" where
  "be32 n = [of_nat (n div 16777216), of_nat (n div 65536), of_nat (n div 256), of_nat n]"

definition be32_value :: "bytes \<Rightarrow> nat" where
  "be32_value bs = (case bs of
      [a, b, c, d] \<Rightarrow> unat a * 16777216 + unat b * 65536 + unat c * 256 + unat d
    | _ \<Rightarrow> 0)"

lemma length_be32 [simp]: "length (be32 n) = 4"
  by (simp add: be32_def)

lemma be32_value_be32: "be32_value (be32 n) = n mod 4294967296"
proof -
  have "n mod 65536 = 256 * (n div 256 mod 256) + n mod 256"
    using mod_mult2_eq [of n 256 256] by simp
  moreover have "n mod 16777216 = 65536 * (n div 65536 mod 256) + n mod 65536"
    using mod_mult2_eq [of n 65536 256] by simp
  moreover have "n mod 4294967296 = 16777216 * (n div 16777216 mod 256) + n mod 16777216"
    using mod_mult2_eq [of n 16777216 256] by simp
  ultimately show ?thesis by (simp add: be32_value_def be32_def unat_of_nat)
qed

end
