(* ===== verification/Encrypt.thy ===== *)
theory Encrypt
  imports Go_Encoding
begin

text \<open>
  Encryption of interactions (\<open>oobsrv/encrypt.go\<close>) and the client's decryption
  (\<open>decryptInteraction\<close> of \<open>oobclient/client.go\<close>).  The AES block function, the RSA-OAEP
  primitive, the PEM and X.509 decoders and the random source are parameters: a block function
  maps a key to a permutation of blocks, of which the code relies only on the block length, and
  RSA-OAEP decryption with the private key undoes encryption with the public key.
\<close>

type_synonym block_cipher = "bytes \<Rightarrow> bytes \<Rightarrow> bytes"  \<comment> \<open>key, block\<close>

definition aes_BlockSize :: nat where
  "aes_BlockSize = 16"

text \<open>\<open>aes.NewCipher\<close> accepts keys of 16, 24 or 32 bytes.\<close>

definition NewCipher :: "block_cipher \<Rightarrow> bytes \<Rightarrow> (bytes \<Rightarrow> bytes) result" where
  "NewCipher aes key =
     (if length key \<in> {16, 24, 32} then Inr (aes key)
      else Inl (''crypto/aes: invalid key size '' @ itoa (int (length key))))"

section \<open>Counter mode\<close>

text \<open>The counter is a big-endian integer; incrementing wraps.\<close>

fun incr_le :: "bytes \<Rightarrow> bytes" where
  "incr_le [] = []"
| "incr_le (b # bs) = (if b = 255 then 0 # incr_le bs else (b + 1) # bs)"

definition ctr_incr :: "bytes \<Rightarrow> bytes" where
  "ctr_incr ctr = rev (incr_le (rev ctr))"

text \<open>\<open>cipher.NewCTR(block, iv).XORKeyStream\<close>, one block of key stream at a time.\<close>

function ctr_xor :: "(bytes \<Rightarrow> bytes) \<Rightarrow> bytes \<Rightarrow> bytes \<Rightarrow> bytes" where
  "ctr_xor block ctr data =
     (if data = [] then []
      else map2 (XOR) (take aes_BlockSize data) (block ctr)
             @ ctr_xor block (ctr_incr ctr) (drop aes_BlockSize data))"
  by pat_completeness auto
termination
  by (relation "measure (\<lambda>(block, ctr, data). length data)") (auto simp: aes_BlockSize_def)

declare ctr_xor.simps [simp del]

definition block_ok :: "(bytes \<Rightarrow> bytes) \<Rightarrow> bool" where
  "block_ok block \<longleftrightarrow> (\<forall>x. length x = aes_BlockSize \<longrightarrow> length (block x) = aes_BlockSize)"

lemma length_incr_le [simp]: "length (incr_le bs) = length bs"
  by (induction bs rule: incr_le.induct) auto

lemma length_ctr_incr [simp]: "length (ctr_incr ctr) = length ctr"
  by (simp add: ctr_incr_def)

lemma map2_xor_involution:
  "length (ks :: bytes) \<ge> length xs \<Longrightarrow> map2 (XOR) (map2 (XOR) xs ks) ks = xs"
proof (induction xs arbitrary: ks)
  case Nil
  then show ?case by simp
next
  case (Cons x xs)
  then obtain k ks' where "ks = k # ks'" by (cases ks) auto
  with Cons show ?case by (simp add: xor.assoc)
qed

lemma length_ctr_xor:
  "block_ok block \<Longrightarrow> length ctr = aes_BlockSize \<Longrightarrow> length (ctr_xor block ctr data) = length data"
proof (induction block ctr data rule: ctr_xor.induct)
  case (1 block ctr data)
  show ?case
  proof (cases "data = []")
    case True
    then show ?thesis by (simp add: ctr_xor.simps)
  next
    case False
    with 1 show ?thesis
      by (subst ctr_xor.simps) (auto simp: block_ok_def min_def)
  qed
qed

lemma ctr_xor_involution:
  "block_ok block \<Longrightarrow> length ctr = aes_BlockSize \<Longrightarrow>
   ctr_xor block ctr (ctr_xor block ctr data) = data"
proof (induction block ctr data rule: ctr_xor.induct)
  case (1 block ctr data)
  show ?case
  proof (cases "data = []")
    case True
    then show ?thesis by (simp add: ctr_xor.simps)
  next
    case False
    define here where "here = map2 (XOR) (take aes_BlockSize data) (block ctr)"
    define rest where "rest = ctr_xor block (ctr_incr ctr) (drop aes_BlockSize data)"
    have blk: "length (block ctr) = aes_BlockSize" using 1 by (simp add: block_ok_def)
    have enc: "ctr_xor block ctr data = here @ rest"
      using False by (simp add: ctr_xor.simps [of block ctr data] here_def rest_def)
    have len: "length here = min aes_BlockSize (length data)" using blk by (simp add: here_def)
    have ne: "here @ rest \<noteq> []"
      using len False by (cases data) (auto simp: aes_BlockSize_def min_def split: if_splits)
    have parts: "take aes_BlockSize (here @ rest) = here \<and> drop aes_BlockSize (here @ rest) = rest"
    proof (cases "aes_BlockSize \<le> length data")
      case True
      with len have "length here = aes_BlockSize" by simp
      then show ?thesis by simp
    next
      case short: False
      then have "rest = []" by (simp add: rest_def ctr_xor.simps)
      with len short show ?thesis by simp
    qed
    have "ctr_xor block ctr (here @ rest)
        = map2 (XOR) here (block ctr) @ ctr_xor block (ctr_incr ctr) rest"
      using parts by (subst ctr_xor.simps) (simp only: ne if_False parts)
    also have "map2 (XOR) here (block ctr) = take aes_BlockSize data"
      unfolding here_def using blk by (intro map2_xor_involution) simp
    also have "ctr_xor block (ctr_incr ctr) rest = drop aes_BlockSize data"
      unfolding rest_def using 1 False by simp
    finally show ?thesis by (simp add: enc)
  qed
qed

section \<open>The server's operations\<close>

text \<open>
  \<open>rand.Read\<close> is a parameter: its outcome is the bytes it writes, or an error.
\<close>

definition GenerateAESKey :: "bytes result \<Rightarrow> bytes result" where
  "GenerateAESKey rand = (case rand of
      Inl err \<Rightarrow> Inl (''failed to generate AES key: '' @ err)
    | Inr key \<Rightarrow> Inr key)"

definition EncryptInteractionBlock :: "bytes result \<Rightarrow> bytes \<Rightarrow> (bytes \<Rightarrow> bytes) \<Rightarrow> bytes result" where
  "EncryptInteractionBlock rand plaintext block = (case rand of
      Inl err \<Rightarrow> Inl (''failed to generate IV: '' @ err)
    | Inr iv \<Rightarrow> Inr (iv @ ctr_xor block iv plaintext))"

definition EncryptInteraction :: "block_cipher \<Rightarrow> bytes result \<Rightarrow> bytes \<Rightarrow> bytes \<Rightarrow> bytes result" where
  "EncryptInteraction aes rand plaintext aesKey = (case NewCipher aes aesKey of
      Inl err \<Rightarrow> Inl (''failed to create AES cipher: '' @ err)
    | Inr block \<Rightarrow> EncryptInteractionBlock rand plaintext block)"

record rsa_public_key =
  rsa_N :: int
  rsa_E :: int

definition EncryptAESKey ::
  "(rsa_public_key \<Rightarrow> bytes \<Rightarrow> bytes result) \<Rightarrow> bytes \<Rightarrow> rsa_public_key \<Rightarrow> string result" where
  "EncryptAESKey rsa_encrypt aesKey publicKey =
     (if aesKey = [] then Inr []
      else case rsa_encrypt publicKey aesKey of
          Inl err \<Rightarrow> Inl (''failed to encrypt AES key: '' @ err)
        | Inr encrypted \<Rightarrow> Inr (b64_encode encrypted))"

text \<open>
  The key a client sends is base64 of a PEM block of a PKIX key.  The decoders are parameters;
  a PKIX key is an RSA key or one of another kind.
\<close>

datatype public_key = RSAKey rsa_public_key | OtherKey

record key_decoders =
  pem_decode :: "bytes \<Rightarrow> bytes option"   \<comment> \<open>the bytes of the first block, if there is one\<close>
  parse_pkix :: "bytes \<Rightarrow> public_key result"

definition ParsePublicKey :: "key_decoders \<Rightarrow> string \<Rightarrow> rsa_public_key result" where
  "ParsePublicKey dec b64Key = (case b64_decode b64Key of
      None \<Rightarrow> Inl ''invalid base64: illegal base64 data''
    | Some decoded \<Rightarrow> (case pem_decode dec decoded of
        None \<Rightarrow> Inl ''failed to decode PEM block''
      | Some block \<Rightarrow> (case parse_pkix dec block of
          Inl err \<Rightarrow> Inl (''failed to parse public key: '' @ err)
        | Inr OtherKey \<Rightarrow> Inl ''not an RSA public key''
        | Inr (RSAKey k) \<Rightarrow> Inr k)))"

section \<open>The client's decryption\<close>

definition decryptInteraction ::
  "block_cipher \<Rightarrow> (bytes \<Rightarrow> bytes result) \<Rightarrow> string \<Rightarrow> string \<Rightarrow> bytes result" where
  "decryptInteraction aes rsa_decrypt aesKeyB64 ciphertextB64 = (case b64_decode aesKeyB64 of
      None \<Rightarrow> Inl ''failed to decode AES key: illegal base64 data''
    | Some encryptedKey \<Rightarrow> (case rsa_decrypt encryptedKey of
        Inl err \<Rightarrow> Inl (''failed to decrypt AES key: '' @ err)
      | Inr aesKey \<Rightarrow> (case b64_decode ciphertextB64 of
          None \<Rightarrow> Inl ''failed to decode ciphertext: illegal base64 data''
        | Some ciphertext \<Rightarrow>
            if length ciphertext < aes_BlockSize then Inl ''ciphertext too short''
            else (case NewCipher aes aesKey of
                Inl err \<Rightarrow> Inl (''failed to create AES cipher: '' @ err)
              | Inr block \<Rightarrow>
                  Inr (ctr_xor block (take aes_BlockSize ciphertext)
                         (drop aes_BlockSize ciphertext))))))"

text \<open>The facts about the cipher that a proof about encrypted data uses.\<close>

definition aes_ok :: "block_cipher \<Rightarrow> bool" where
  "aes_ok aes \<longleftrightarrow> (\<forall>key. block_ok (aes key))"

definition rsa_pair_ok ::
  "(rsa_public_key \<Rightarrow> bytes \<Rightarrow> bytes result) \<Rightarrow> (bytes \<Rightarrow> bytes result) \<Rightarrow> rsa_public_key \<Rightarrow> bool" where
  "rsa_pair_ok rsa_encrypt rsa_decrypt pk \<longleftrightarrow>
     (\<forall>m c. rsa_encrypt pk m = Inr c \<longrightarrow> rsa_decrypt c = Inr m)"

text \<open>
  C20: the client recovers what the server encrypted.  For any AES block function, any RSA pair
  whose decryption undoes its encryption and any 16-byte IV, decrypting the polled key and the
  polled ciphertext gives back the plaintext of the interaction.
\<close>

theorem decrypt_encrypt:
  assumes "aes_ok aes" and "rsa_pair_ok rsa_encrypt rsa_decrypt pk"
    and "NewCipher aes aesKey = Inr block" and "length iv = aes_BlockSize"
    and "EncryptInteractionBlock (Inr iv) plaintext block = Inr raw"
    and "EncryptAESKey rsa_encrypt aesKey pk = Inr keyB64"
  shows "decryptInteraction aes rsa_decrypt keyB64 (b64_encode raw) = Inr plaintext"
proof -
  from assms(3) have key: "aesKey \<noteq> []" "block = aes aesKey"
    by (auto simp: NewCipher_def split: if_splits)
  with assms(6) obtain enc where "rsa_encrypt pk aesKey = Inr enc" "keyB64 = b64_encode enc"
    by (auto simp: EncryptAESKey_def split: sum.splits)
  moreover from this assms(2) have "rsa_decrypt enc = Inr aesKey" by (simp add: rsa_pair_ok_def)
  moreover have "raw = iv @ ctr_xor block iv plaintext"
    using assms(5) by (simp add: EncryptInteractionBlock_def)
  moreover have "ctr_xor block iv (ctr_xor block iv plaintext) = plaintext"
    using assms(1,4) key by (intro ctr_xor_involution) (auto simp: aes_ok_def)
  ultimately show ?thesis
    using assms(3,4) by (simp add: decryptInteraction_def)
qed

text \<open>A toy cipher (each key byte added into the block) and a toy RSA pair (reversal).\<close>

theorem decrypt_encrypt_witness:
  "decryptInteraction (\<lambda>k x. map (\<lambda>b. b + hd k) x) (\<lambda>c. Inr (rev c))
     (b64_encode (rev (replicate 32 7)))
     (b64_encode (replicate 16 1 @ ctr_xor (\<lambda>x. map (\<lambda>b. b + 7) x) (replicate 16 1) [72, 105]))
   = Inr [72, 105]"
proof -
  let ?aes = "\<lambda>k x. map (\<lambda>b. b + hd k) x :: bytes"
  have "aes_ok ?aes" by (simp add: aes_ok_def block_ok_def)
  moreover have "rsa_pair_ok (\<lambda>_ m. Inr (rev m)) (\<lambda>c. Inr (rev c)) \<lparr>rsa_N = 15, rsa_E = 3\<rparr>"
    by (auto simp: rsa_pair_ok_def)
  moreover have "NewCipher ?aes (replicate 32 7) = Inr (\<lambda>x. map (\<lambda>b. b + 7) x)"
    by (simp add: NewCipher_def)
  moreover have "length (replicate 16 (1::byte)) = aes_BlockSize" by (simp add: aes_BlockSize_def)
  moreover have "EncryptInteractionBlock (Inr (replicate 16 1)) [72, 105] (\<lambda>x. map (\<lambda>b. b + 7) x)
      = Inr (replicate 16 1 @ ctr_xor (\<lambda>x. map (\<lambda>b. b + 7) x) (replicate 16 1) [72, 105])"
    by (simp add: EncryptInteractionBlock_def)
  moreover have "EncryptAESKey (\<lambda>_ m. Inr (rev m)) (replicate 32 7) \<lparr>rsa_N = 15, rsa_E = 3\<rparr>
      = Inr (b64_encode (rev (replicate 32 7)))"
    by (simp add: EncryptAESKey_def)
  ultimately show ?thesis by (rule decrypt_encrypt)
qed

end
