(* ===== verification/Server_Config.thy ===== *)
theory Server_Config
  imports Go_Encoding
begin

text \<open>
  The server's configuration (\<open>oobsrv/config.go\<close>): the record, its defaults, \<open>Validate\<close>, and the
  derived body cap; \<open>UnmarshalYAML\<close>'s rewriting of comma-separated scalars; and the part of
  \<open>interactsh-srv/main.go\<close> between flag parsing and server creation that decides the final
  configuration (flag overrides, automatic authentication, the environment override).
\<close>

section \<open>The record and its defaults\<close>

record Config =
  Domains :: "string list"
  IPs :: "string list"
  ListenIP :: string
  Eviction :: int
  NoEviction :: bool
  EvictionStrategy :: string
  Auth :: bool
  Token :: string
  ACAOUrl :: string
  SkipACME :: bool
  ScanEverywhere :: bool
  CorrelationIdLength :: int
  CertFile :: string
  PrivKeyFile :: string
  OriginIPHeader :: string
  MaxRequestSize :: int
  MaxBodySize :: int
  Resolvers :: "string list"
  DynamicResp :: bool
  CustomRecords :: string
  HTTPIndex :: string
  HTTPDirectory :: string
  DefaultHTTPResponse :: string
  Disk :: bool
  DiskPath :: string
  ServerHeader :: string
  DisableVersion :: bool
  DNSPort :: int
  HTTPPort :: int
  HTTPSPort :: int
  SMTPPort :: int
  SMTPSPort :: int
  SMTPAutoTLSPort :: int
  LDAPPort :: int
  LDAP :: bool
  Wildcard :: bool
  FTP :: bool
  FTPPort :: int
  FTPSPort :: int
  FTPDir :: string
  Debug :: bool
  EnablePprof :: bool
  Metrics :: bool
  ConfigVersion :: string
  MaxSharedInteractions :: int

definition EvictionSliding :: string where "EvictionSliding = ''sliding''"
definition EvictionFixed :: string where "EvictionFixed = ''fixed''"
definition defaultEvictionDays :: int where "defaultEvictionDays = 30"
definition defaultMaxBodySizeMB :: int where "defaultMaxBodySizeMB = 8"

definition zero_Config :: Config where
  "zero_Config = \<lparr>Domains = [], IPs = [], ListenIP = [], Eviction = 0, NoEviction = False,
     EvictionStrategy = [], Auth = False, Token = [], ACAOUrl = [], SkipACME = False,
     ScanEverywhere = False, CorrelationIdLength = 0, CertFile = [], PrivKeyFile = [],
     OriginIPHeader = [], MaxRequestSize = 0, MaxBodySize = 0, Resolvers = [],
     DynamicResp = False, CustomRecords = [], HTTPIndex = [], HTTPDirectory = [],
     DefaultHTTPResponse = [], Disk = False, DiskPath = [], ServerHeader = [],
     DisableVersion = False, DNSPort = 0, HTTPPort = 0, HTTPSPort = 0, SMTPPort = 0,
     SMTPSPort = 0, SMTPAutoTLSPort = 0, LDAPPort = 0, LDAP = False, Wildcard = False,
     FTP = False, FTPPort = 0, FTPSPort = 0, FTPDir = [], Debug = False, EnablePprof = False,
     Metrics = False, ConfigVersion = [], MaxSharedInteractions = 0\<rparr>"

definition DefaultConfig :: Config where
  "DefaultConfig = zero_Config\<lparr>
     ListenIP := ''0.0.0.0'',
     Eviction := defaultEvictionDays,
     EvictionStrategy := EvictionSliding,
     ACAOUrl := ''*'',
     CorrelationIdLength := 20,
     DNSPort := 53,
     HTTPPort := 80,
     HTTPSPort := 443,
     SMTPPort := 25,
     SMTPSPort := 587,
     SMTPAutoTLSPort := 465,
     LDAPPort := 389,
     FTPPort := 21,
     FTPSPort := 990,
     MaxRequestSize := 100,
     MaxBodySize := defaultMaxBodySizeMB,
     MaxSharedInteractions := 10000\<rparr>"

section \<open>Validation\<close>

definition Validate :: "Config \<Rightarrow> string option" where
  "Validate c =
     (if Domains c = [] then Some ''at least one domain is required (--domain)''
      else if CorrelationIdLength c < 3
        then Some (''correlation-id-length must be >= 3, got '' @ itoa (CorrelationIdLength c))
      else if Disk c \<and> DiskPath c = []
        then Some ''--disk-path is required when --disk is enabled''
      else if FTP c \<and> \<not> Auth c
        then Some ''--ftp requires authentication (--auth or --token)''
      else if LDAP c \<and> \<not> Auth c
        then Some ''--ldap requires authentication (--auth or --token)''
      else if Wildcard c \<and> \<not> Auth c
        then Some ''--wildcard requires authentication (--auth or --token)''
      else if Auth c \<and> Token c = []
        then Some ''--token is required when authentication is enabled''
      else if EvictionStrategy c \<noteq> EvictionSliding \<and> EvictionStrategy c \<noteq> EvictionFixed
        then Some (''eviction-strategy must be '' @ go_quote EvictionSliding @ '' or ''
                @ go_quote EvictionFixed @ '', got '' @ go_quote (EvictionStrategy c))
      else None)"

definition maxBodyBytes :: "Config \<Rightarrow> int" where
  "maxBodyBytes c =
     (if MaxBodySize c \<le> 0 then defaultMaxBodySizeMB * 1024 * 1024
      else wrap64 (MaxBodySize c * 1024 * 1024))"

text \<open>
  \<open>UnmarshalYAML\<close>: a scalar given for one of the list fields becomes the list of its trimmed,
  non-empty comma-separated parts before the ordinary decoding.
\<close>

datatype yaml_node = Scalar string | Sequence "yaml_node list" | MappingNode "(string \<times> yaml_node) list"

definition comma_parts :: "string \<Rightarrow> string list" where
  "comma_parts v = filter (\<lambda>p. p \<noteq> []) (map trim_space (split_on CHR '','' v))"

fun expand_scalar_lists :: "yaml_node \<Rightarrow> yaml_node" where
  "expand_scalar_lists (MappingNode kvs) =
     MappingNode (map (\<lambda>(key, val). (key,
       case val of
         Scalar v \<Rightarrow> if key \<in> {''domain'', ''ip'', ''resolvers''}
                     then Sequence (map Scalar (comma_parts v)) else val
       | _ \<Rightarrow> val)) kvs)"
| "expand_scalar_lists node = node"

section \<open>The final configuration\<close>

text \<open>
  \<open>flagChanged\<close> asks whether any of a flag's spellings was set; \<open>changed\<close> is the set of
  spellings given on the command line, \<open>fl\<close> the values the flags hold.  Each override replaces
  one field.
\<close>

definition flagChanged :: "string set \<Rightarrow> string list \<Rightarrow> bool" where
  "flagChanged changed names \<longleftrightarrow> (\<exists>n \<in> set names. n \<in> changed)"

definition override_input :: "string set \<Rightarrow> Config \<Rightarrow> Config \<Rightarrow> Config" where
  "override_input ch fl c = c\<lparr>
     Domains := if flagChanged ch [''domain''] then Domains fl else Domains c,
     IPs := if flagChanged ch [''ip''] then IPs fl else IPs c,
     ListenIP := if flagChanged ch [''listen-ip'', ''lip''] then ListenIP fl else ListenIP c,
     Eviction := if flagChanged ch [''eviction''] then Eviction fl else Eviction c,
     NoEviction := if flagChanged ch [''no-eviction'', ''ne''] then NoEviction fl else NoEviction c,
     EvictionStrategy := if flagChanged ch [''eviction-strategy'', ''es'']
       then EvictionStrategy fl else EvictionStrategy c,
     Auth := if flagChanged ch [''auth''] then Auth fl else Auth c,
     Token := if flagChanged ch [''token''] then Token fl else Token c,
     ACAOUrl := if flagChanged ch [''acao-url''] then ACAOUrl fl else ACAOUrl c,
     SkipACME := if flagChanged ch [''skip-acme'', ''sa''] then SkipACME fl else SkipACME c,
     ScanEverywhere := if flagChanged ch [''scan-everywhere'', ''se'']
       then ScanEverywhere fl else ScanEverywhere c,
     CorrelationIdLength := if flagChanged ch [''correlation-id-length'', ''cidl'']
       then CorrelationIdLength fl else CorrelationIdLength c,
     CertFile := if flagChanged ch [''cert''] then CertFile fl else CertFile c,
     PrivKeyFile := if flagChanged ch [''privkey''] then PrivKeyFile fl else PrivKeyFile c,
     OriginIPHeader := if flagChanged ch [''origin-ip-header'', ''oih'']
       then OriginIPHeader fl else OriginIPHeader c,
     MaxRequestSize := if flagChanged ch [''max-request-size'', ''mrs'']
       then MaxRequestSize fl else MaxRequestSize c,
     MaxBodySize := if flagChanged ch [''max-body-size'', ''mbs'']
       then MaxBodySize fl else MaxBodySize c\<rparr>"

definition override_config :: "string set \<Rightarrow> Config \<Rightarrow> Config \<Rightarrow> Config" where
  "override_config ch fl c = c\<lparr>
     Resolvers := if flagChanged ch [''resolvers''] then Resolvers fl else Resolvers c,
     DynamicResp := if flagChanged ch [''dynamic-resp'', ''dr''] then DynamicResp fl else DynamicResp c,
     CustomRecords := if flagChanged ch [''custom-records'', ''cr'']
       then CustomRecords fl else CustomRecords c,
     HTTPIndex := if flagChanged ch [''http-index'', ''hi''] then HTTPIndex fl else HTTPIndex c,
     HTTPDirectory := if flagChanged ch [''http-directory'', ''hd'']
       then HTTPDirectory fl else HTTPDirectory c,
     DefaultHTTPResponse := if flagChanged ch [''default-http-response'', ''dhr'']
       then DefaultHTTPResponse fl else DefaultHTTPResponse c,
     Disk := if flagChanged ch [''disk'', ''ds''] then Disk fl else Disk c,
     DiskPath := if flagChanged ch [''disk-path'', ''dsp''] then DiskPath fl else DiskPath c,
     ServerHeader := if flagChanged ch [''server-header'', ''csh''] then ServerHeader fl else ServerHeader c,
     DisableVersion := if flagChanged ch [''disable-version'', ''dv'']
       then DisableVersion fl else DisableVersion c\<rparr>"

definition override_services :: "string set \<Rightarrow> Config \<Rightarrow> Config \<Rightarrow> Config" where
  "override_services ch fl c = c\<lparr>
     DNSPort := if flagChanged ch [''dns-port''] then DNSPort fl else DNSPort c,
     HTTPPort := if flagChanged ch [''http-port''] then HTTPPort fl else HTTPPort c,
     HTTPSPort := if flagChanged ch [''https-port''] then HTTPSPort fl else HTTPSPort c,
     SMTPPort := if flagChanged ch [''smtp-port''] then SMTPPort fl else SMTPPort c,
     SMTPSPort := if flagChanged ch [''smtps-port''] then SMTPSPort fl else SMTPSPort c,
     SMTPAutoTLSPort := if flagChanged ch [''smtp-autotls-port'']
       then SMTPAutoTLSPort fl else SMTPAutoTLSPort c,
     LDAPPort := if flagChanged ch [''ldap-port''] then LDAPPort fl else LDAPPort c,
     LDAP := if flagChanged ch [''ldap''] then LDAP fl else LDAP c,
     Wildcard := if flagChanged ch [''wildcard'', ''wc''] then Wildcard fl else Wildcard c,
     FTP := if flagChanged ch [''ftp''] then FTP fl else FTP c,
     FTPPort := if flagChanged ch [''ftp-port''] then FTPPort fl else FTPPort c,
     FTPSPort := if flagChanged ch [''ftps-port''] then FTPSPort fl else FTPSPort c,
     FTPDir := if flagChanged ch [''ftp-dir''] then FTPDir fl else FTPDir c,
     Debug := if flagChanged ch [''debug''] then Debug fl else Debug c,
     EnablePprof := if flagChanged ch [''enable-pprof'', ''ep''] then EnablePprof fl else EnablePprof c,
     Metrics := if flagChanged ch [''metrics''] then Metrics fl else Metrics c\<rparr>"

text \<open>
  Authentication is switched on by a token or by any service that needs it; a missing token is
  32 random bytes in hexadecimal (the outcome of \<open>rand.Read\<close> is a parameter).
\<close>

definition auto_auth :: "bytes result \<Rightarrow> Config \<Rightarrow> Config result" where
  "auto_auth rand c =
     (if Auth c \<or> Token c \<noteq> [] \<or> FTP c \<or> LDAP c \<or> Wildcard c
      then let c1 = c\<lparr>Auth := True\<rparr>
           in if Token c1 = []
              then (case rand of
                      Inl err \<Rightarrow> Inl (''Could not generate auth token: '' @ err)
                    | Inr tokenBytes \<Rightarrow> Inr (c1\<lparr>Token := hex_encode tokenBytes\<rparr>))
              else Inr c1
      else Inr c)"

text \<open>
  \<open>ExpandResolvers\<close>: an entry that names a file is replaced by the file's comma- or
  line-separated parts.  The file system is a parameter: what a path names, and what it holds.
\<close>

datatype path_kind = NoPath | Directory | RegularFile

primrec ExpandResolvers ::
  "(string \<Rightarrow> path_kind) \<Rightarrow> (string \<Rightarrow> string result) \<Rightarrow> string list \<Rightarrow> string list result" where
  "ExpandResolvers stat read_file [] = Inr []"
| "ExpandResolvers stat read_file (r # rs) =
     (let rest = (\<lambda>xs. case ExpandResolvers stat read_file rs of
                       Inl err \<Rightarrow> Inl err | Inr ys \<Rightarrow> Inr (xs @ ys))
      in if stat r = RegularFile
         then (case read_file r of
                 Inl err \<Rightarrow> Inl err
               | Inr data \<Rightarrow> rest (concat (map comma_parts (split_on CHR 0x0A data))))
         else rest [r])"

definition env_max_shared :: "string \<Rightarrow> Config \<Rightarrow> Config" where
  "env_max_shared envMax c =
     (if envMax = [] then c
      else case atoi envMax of
          Some v \<Rightarrow> if v > 0 then c\<lparr>MaxSharedInteractions := v\<rparr> else c
        | None \<Rightarrow> c)"

definition prepare_config ::
  "string set \<Rightarrow> Config \<Rightarrow> bytes result \<Rightarrow> (string list \<Rightarrow> string list result) \<Rightarrow> string \<Rightarrow> string
     \<Rightarrow> Config \<Rightarrow> Config result" where
  "prepare_config changed flags rand expand envMax version loaded =
     (case auto_auth rand (override_services changed flags (override_config changed flags
             (override_input changed flags loaded))) of
        Inl err \<Rightarrow> Inl err
      | Inr c1 \<Rightarrow>
          (case (if Resolvers c1 = [] then Inr [] else expand (Resolvers c1)) of
             Inl err \<Rightarrow> Inl (''Could not expand resolvers: '' @ err)
           | Inr rs \<Rightarrow>
               let c2 = env_max_shared envMax (c1\<lparr>Resolvers := rs\<rparr>)
               in case Validate c2 of
                    Some err \<Rightarrow> Inl err
                  | None \<Rightarrow> Inr (c2\<lparr>ConfigVersion := version\<rparr>)))"

text \<open>\<open>LoadConfig\<close>: a missing file is an error only if it was named explicitly.\<close>

datatype file_read = FileMissing | FileFailed string | FileData string

definition LoadConfig ::
  "(string \<Rightarrow> file_read) \<Rightarrow> (string \<Rightarrow> Config \<Rightarrow> string option \<times> Config) \<Rightarrow> string \<Rightarrow> bool
     \<Rightarrow> string option \<times> Config" where
  "LoadConfig read_file yaml_unmarshal path mustExist =
     (case read_file path of
        FileMissing \<Rightarrow> (if mustExist then Some (''config file not found: '' @ path) else None, DefaultConfig)
      | FileFailed err \<Rightarrow> (Some err, DefaultConfig)
      | FileData data \<Rightarrow> yaml_unmarshal data DefaultConfig)"

section \<open>What a validated configuration guarantees\<close>

lemma Validate_None_iff:
  "Validate c = None \<longleftrightarrow> Domains c \<noteq> [] \<and> 3 \<le> CorrelationIdLength c
     \<and> (Disk c \<longrightarrow> DiskPath c \<noteq> []) \<and> (FTP c \<or> LDAP c \<or> Wildcard c \<longrightarrow> Auth c)
     \<and> (Auth c \<longrightarrow> Token c \<noteq> []) \<and> EvictionStrategy c \<in> {EvictionSliding, EvictionFixed}"
  by (auto simp: Validate_def)

lemma auto_auth_ok:
  assumes "auto_auth rand c = Inr c1" and "\<And>bs. rand = Inr bs \<Longrightarrow> bs \<noteq> []"
  shows "(Auth c1 \<longrightarrow> Token c1 \<noteq> []) \<and> (FTP c1 \<or> LDAP c1 \<or> Wildcard c1 \<longrightarrow> Auth c1)
    \<and> Domains c1 = Domains c \<and> CorrelationIdLength c1 = CorrelationIdLength c
    \<and> Disk c1 = Disk c \<and> DiskPath c1 = DiskPath c \<and> EvictionStrategy c1 = EvictionStrategy c"
  using assms
  by (auto simp: auto_auth_def Let_def hex_encode_def hex_byte_def neq_Nil_conv
      split: if_splits sum.splits)

lemma env_max_shared_keeps [simp]:
  "Auth (env_max_shared e c) = Auth c" "Token (env_max_shared e c) = Token c"
  "FTP (env_max_shared e c) = FTP c" "LDAP (env_max_shared e c) = LDAP c"
  "Wildcard (env_max_shared e c) = Wildcard c" "Domains (env_max_shared e c) = Domains c"
  "CorrelationIdLength (env_max_shared e c) = CorrelationIdLength c"
  "Disk (env_max_shared e c) = Disk c" "DiskPath (env_max_shared e c) = DiskPath c"
  "EvictionStrategy (env_max_shared e c) = EvictionStrategy c"
  by (auto simp: env_max_shared_def split: option.splits)

text \<open>
  Whatever the flags and the file say, a configuration that \<open>main\<close> accepts never serves an
  authentication-only feature without a token, and \<open>Validate\<close> never has to reject one for that
  reason: the errors it can still give are the missing domain, the id length, the disk path and
  the eviction strategy.
\<close>

theorem prepare_config_authenticated:
  assumes "\<And>bs. rand = Inr bs \<Longrightarrow> bs \<noteq> []"
  shows "case prepare_config changed flags rand expand envMax version loaded of
      Inr c \<Rightarrow> Validate c = None \<and> (FTP c \<or> LDAP c \<or> Wildcard c \<longrightarrow> Auth c \<and> Token c \<noteq> [])
                \<and> (Auth c \<longrightarrow> Token c \<noteq> []) \<and> ConfigVersion c = version
    | Inl err \<Rightarrow> err \<notin> {''--ftp requires authentication (--auth or --token)'',
                        ''--ldap requires authentication (--auth or --token)'',
                        ''--wildcard requires authentication (--auth or --token)'',
                        ''--token is required when authentication is enabled''}"
proof -
  let ?c0 = "override_services changed flags (override_config changed flags
             (override_input changed flags loaded))"
  show ?thesis
  proof (cases "auto_auth rand ?c0")
    case (Inl err)
    then show ?thesis
      by (auto simp: prepare_config_def auto_auth_def Let_def split: if_splits sum.splits)
  next
    case (Inr c1)
    note ok = auto_auth_ok [OF Inr assms]
    show ?thesis
    proof (cases "if Resolvers c1 = [] then Inr [] else expand (Resolvers c1)")
      case (Inl err)
      with \<open>auto_auth rand ?c0 = Inr c1\<close> show ?thesis by (simp add: prepare_config_def)
    next
      case (Inr rs)
      define c2 where "c2 = env_max_shared envMax (c1\<lparr>Resolvers := rs\<rparr>)"
      have run: "prepare_config changed flags rand expand envMax version loaded
          = (case Validate c2 of Some err \<Rightarrow> Inl err | None \<Rightarrow> Inr (c2\<lparr>ConfigVersion := version\<rparr>))"
        unfolding prepare_config_def c2_def Let_def
        using Inr \<open>auto_auth rand ?c0 = Inr c1\<close> by simp
      have auth: "Auth c2 \<longrightarrow> Token c2 \<noteq> []" "FTP c2 \<or> LDAP c2 \<or> Wildcard c2 \<longrightarrow> Auth c2"
        using ok by (simp_all add: c2_def)
      show ?thesis
      proof (cases "Validate c2")
        case None
        then have "Validate (c2\<lparr>ConfigVersion := version\<rparr>) = None" by (simp add: Validate_None_iff)
        with None auth show ?thesis by (simp add: run)
      next
        case (Some err)
        with auth show ?thesis by (auto simp: run Validate_def split: if_splits)
      qed
    qed
  qed
qed

theorem prepare_config_authenticated_witness:
  "case prepare_config {''domain'', ''ftp''}
      (zero_Config\<lparr>Domains := [''a.com''], FTP := True\<rparr>) (Inr [1, 2]) Inr [] ''v1'' DefaultConfig of
      Inr c \<Rightarrow> Validate c = None \<and> (FTP c \<or> LDAP c \<or> Wildcard c \<longrightarrow> Auth c \<and> Token c \<noteq> [])
                \<and> (Auth c \<longrightarrow> Token c \<noteq> []) \<and> ConfigVersion c = ''v1''
    | Inl err \<Rightarrow> err \<notin> {''--ftp requires authentication (--auth or --token)'',
                        ''--ldap requires authentication (--auth or --token)'',
                        ''--wildcard requires authentication (--auth or --token)'',
                        ''--token is required when authentication is enabled''}"
  by (rule prepare_config_authenticated) simp

end
