(* ===== verification/Memory_Storage.thy ===== *)
theory Memory_Storage
  imports Oob_Types Encrypt Server_Config
begin

text \<open>
  The in-memory storage backend (\<open>memoryStorage\<close> of \<open>oobsrv/storage.go\<close>).

  Sessions are shared through pointers: the map holds a pointer to a \<open>Session\<close>, a poll handle and
  an append in flight hold others.  The model keeps an explicit heap of sessions, so a pointer that
  outlives its map entry still reaches its own session.  The LRU list holds elements with an
  identity, as \<open>container/list\<close> does, and \<open>lruMap\<close> maps an id to its element.

  Every critical section of the code is one function on the state: an operation that releases the
  lock between two sections is a composition of such functions, and the theory
  \<open>Memory_Concurrency\<close> interleaves the sections of several calls.  The clock is an argument; one
  section reads one instant.  The two hooks that the disk backend installs act on \<open>backing\<close>.
\<close>

section \<open>State\<close>

record Session =
  PublicKey :: rsa_public_key
  AESKey :: bytes
  AESBlock :: "bytes \<Rightarrow> bytes"
  SecretKey :: bytes
  Response :: "ResponseConfig option"
  interactions :: "bytes list"
  lastAccess :: int
  createdAt :: int

type_synonym elem = "nat \<times> string"  \<comment> \<open>element identity, \<open>lruEntry.correlationID\<close>\<close>

record 'd memoryStorage =
  sessions :: "string \<rightharpoonup> nat"
  heap :: "nat \<rightharpoonup> Session"
  next_session :: nat
  lruList :: "elem list"
  lruMap :: "string \<rightharpoonup> nat"
  next_elem :: nat
  ttl :: int
  noEviction :: bool
  slidingTTL :: bool
  hits :: "64 word"
  misses :: "64 word"
  evictions :: "64 word"
  sessionsTotal :: "64 word"
  onEvict :: "(string \<Rightarrow> nat option \<Rightarrow> 'd \<Rightarrow> 'd) option"
  onRegister :: "(string \<Rightarrow> 'd \<Rightarrow> 'd) option"
  backing :: 'd

definition maxCacheCapacity :: nat where
  "maxCacheCapacity = 2500000"

definition NewMemoryStorage :: "Config \<Rightarrow> 'd \<Rightarrow> 'd memoryStorage" where
  "NewMemoryStorage cfg d =
     (let evictionDays = (if Eviction cfg < 1 then defaultEvictionDays else Eviction cfg)
      in \<lparr>sessions = Map.empty, heap = Map.empty, next_session = 0, lruList = [],
          lruMap = Map.empty, next_elem = 0, ttl = wrap64 (evictionDays * 24 * hour),
          noEviction = NoEviction cfg, slidingTTL = (EvictionStrategy cfg = EvictionSliding),
          hits = 0, misses = 0, evictions = 0, sessionsTotal = 0,
          onEvict = None, onRegister = None, backing = d\<rparr>)"

text \<open>\<open>m.sessions[id]\<close>: the pointer and the session it reaches.\<close>

definition find_session :: "'d memoryStorage \<Rightarrow> string \<Rightarrow> (nat \<times> Session) option" where
  "find_session m cid = (case sessions m cid of
      None \<Rightarrow> None
    | Some a \<Rightarrow> map_option (\<lambda>s. (a, s)) (heap m a))"

definition isExpired :: "int \<Rightarrow> 'd memoryStorage \<Rightarrow> Session \<Rightarrow> bool" where
  "isExpired now m s =
     (if noEviction m then False
      else if slidingTTL m then time_sub now (lastAccess s) > ttl m
      else time_sub now (createdAt s) > ttl m)"

definition update_session :: "nat \<Rightarrow> (Session \<Rightarrow> Session) \<Rightarrow> 'd memoryStorage \<Rightarrow> 'd memoryStorage" where
  "update_session a f m = m\<lparr>heap := (heap m)(a := map_option f (heap m a))\<rparr>"

definition touchSession :: "int \<Rightarrow> nat \<Rightarrow> 'd memoryStorage \<Rightarrow> 'd memoryStorage" where
  "touchSession now a m = update_session a (\<lambda>s. s\<lparr>lastAccess := wrap64 now\<rparr>) m"

definition touch_if_sliding :: "int \<Rightarrow> nat \<Rightarrow> 'd memoryStorage \<Rightarrow> 'd memoryStorage" where
  "touch_if_sliding now a m = (if slidingTTL m then touchSession now a m else m)"

definition hit :: "'d memoryStorage \<Rightarrow> 'd memoryStorage" where
  "hit m = m\<lparr>hits := hits m + 1\<rparr>"

definition miss :: "'d memoryStorage \<Rightarrow> 'd memoryStorage" where
  "miss m = m\<lparr>misses := misses m + 1\<rparr>"

definition evicted :: "'d memoryStorage \<Rightarrow> 'd memoryStorage" where
  "evicted m = m\<lparr>evictions := evictions m + 1\<rparr>"

section \<open>The LRU list\<close>

definition list_remove :: "nat \<Rightarrow> elem list \<Rightarrow> elem list" where
  "list_remove e xs = filter (\<lambda>x. fst x \<noteq> e) xs"

definition list_move_to_back :: "nat \<Rightarrow> elem list \<Rightarrow> elem list" where
  "list_move_to_back e xs = filter (\<lambda>x. fst x \<noteq> e) xs @ filter (\<lambda>x. fst x = e) xs"

definition removeLocked :: "string \<Rightarrow> 'd memoryStorage \<Rightarrow> 'd memoryStorage" where
  "removeLocked cid m =
     (let session = sessions m cid;
          m1 = m\<lparr>sessions := (sessions m)(cid := None)\<rparr>;
          m2 = (case lruMap m1 cid of
                  Some e \<Rightarrow> m1\<lparr>lruList := list_remove e (lruList m1), lruMap := (lruMap m1)(cid := None)\<rparr>
                | None \<Rightarrow> m1)
      in case onEvict m2 of
           Some f \<Rightarrow> m2\<lparr>backing := f cid session (backing m2)\<rparr>
         | None \<Rightarrow> m2)"

definition promoteLRU :: "string \<Rightarrow> 'd memoryStorage \<Rightarrow> 'd memoryStorage" where
  "promoteLRU cid m = (case lruMap m cid of
      Some e \<Rightarrow> m\<lparr>lruList := list_move_to_back e (lruList m)\<rparr>
    | None \<Rightarrow> m)"

text \<open>
  The probe of \<open>evictLRU\<close> looks at up to \<open>n\<close> elements from the front, drops elements whose
  session is gone, and keeps the id with the smallest last access seen.
\<close>

primrec evict_probe ::
  "nat \<Rightarrow> elem list \<Rightarrow> 'd memoryStorage \<Rightarrow> string \<Rightarrow> int \<Rightarrow> 'd memoryStorage \<times> string" where
  "evict_probe 0 elems m victimID victimTime = (m, victimID)"
| "evict_probe (Suc n) elems m victimID victimTime = (case elems of
      [] \<Rightarrow> (m, victimID)
    | (e, cid) # next \<Rightarrow> (case find_session m cid of
        None \<Rightarrow> evict_probe n next
                  (m\<lparr>lruList := list_remove e (lruList m), lruMap := (lruMap m)(cid := None)\<rparr>)
                  victimID victimTime
      | Some (_, s) \<Rightarrow>
          if lastAccess s < victimTime then evict_probe n next m cid (lastAccess s)
          else evict_probe n next m victimID victimTime))"

definition maxProbe :: nat where
  "maxProbe = 8"

definition evictLRU :: "'d memoryStorage \<Rightarrow> 'd memoryStorage" where
  "evictLRU m = (case evict_probe maxProbe (lruList m) m [] max_int64 of
      (m1, victimID) \<Rightarrow> if victimID \<noteq> [] then evicted (removeLocked victimID m1) else m1)"

section \<open>Registration\<close>

text \<open>
  The second component of a successful result says whether the session is new.  \<open>insert_session\<close>
  is the tail of the operation; \<open>fresh\<close> is the session literal.
\<close>

definition insert_session :: "string \<Rightarrow> Session \<Rightarrow> 'd memoryStorage \<Rightarrow> 'd memoryStorage" where
  "insert_session cid s m0 =
     (let m = (case onRegister m0 of Some f \<Rightarrow> m0\<lparr>backing := f cid (backing m0)\<rparr> | None \<Rightarrow> m0)
      in m\<lparr>sessions := (sessions m)(cid \<mapsto> next_session m),
           heap := (heap m)(next_session m \<mapsto> s),
           next_session := Suc (next_session m),
           lruList := lruList m @ [(next_elem m, cid)],
           lruMap := (lruMap m)(cid \<mapsto> next_elem m),
           next_elem := Suc (next_elem m),
           sessionsTotal := sessionsTotal m + 1\<rparr>)"

definition register_new ::
  "block_cipher \<Rightarrow> int \<Rightarrow> bytes result \<Rightarrow> string \<Rightarrow> rsa_public_key \<Rightarrow> string \<Rightarrow> ResponseConfig option
     \<Rightarrow> 'd memoryStorage \<Rightarrow> (bytes \<times> bool) result \<times> 'd memoryStorage" where
  "register_new aes now rand cid publicKey secretKey response m0 =
     (let m1 = miss m0;
          m2 = (if card (dom (sessions m1)) \<ge> maxCacheCapacity then evictLRU m1 else m1)
      in case GenerateAESKey rand of
           Inl err \<Rightarrow> (Inl (''failed to generate AES key: '' @ err), m2)
         | Inr aesKey \<Rightarrow> (case NewCipher aes aesKey of
             Inl err \<Rightarrow> (Inl (''failed to create AES cipher: '' @ err), m2)
           | Inr aesBlock \<Rightarrow>
               (Inr (aesKey, True),
                insert_session cid
                  \<lparr>PublicKey = publicKey, AESKey = aesKey, AESBlock = aesBlock,
                   SecretKey = go_bytes secretKey, Response = response, interactions = [],
                   lastAccess = wrap64 now, createdAt = now\<rparr> m2)))"

definition registerInternal ::
  "block_cipher \<Rightarrow> int \<Rightarrow> bytes result \<Rightarrow> string \<Rightarrow> rsa_public_key \<Rightarrow> string \<Rightarrow> ResponseConfig option
     \<Rightarrow> 'd memoryStorage \<Rightarrow> (bytes \<times> bool) result \<times> 'd memoryStorage" where
  "registerInternal aes now rand cid publicKey secretKey response m =
     (case find_session m cid of
        Some (a, existing) \<Rightarrow>
          if isExpired now m existing
          then register_new aes now rand cid publicKey secretKey response (evicted (removeLocked cid m))
          else let m1 = hit m
               in if SecretKey existing \<noteq> go_bytes secretKey
                  then (Inl ''correlation-id provided already exists'', m1)
                  else (Inr (AESKey existing, False), promoteLRU cid (touch_if_sliding now a m1))
      | None \<Rightarrow> register_new aes now rand cid publicKey secretKey response m)"

definition Register ::
  "block_cipher \<Rightarrow> int \<Rightarrow> bytes result \<Rightarrow> string \<Rightarrow> rsa_public_key \<Rightarrow> string \<Rightarrow> ResponseConfig option
     \<Rightarrow> 'd memoryStorage \<Rightarrow> bytes result \<times> 'd memoryStorage" where
  "Register aes now rand cid publicKey secretKey response m =
     (case registerInternal aes now rand cid publicKey secretKey response m of
        (Inl err, m1) \<Rightarrow> (Inl err, m1)
      | (Inr (key, _), m1) \<Rightarrow> (Inr key, m1))"

section \<open>Polling\<close>

text \<open>
  \<open>getSession\<close> reads under the read lock; on a live session with the right secret it then
  touches it without a lock and promotes it under the write lock; on an expired one it checks
  again under the write lock, and touches after releasing it.
\<close>

datatype get_next = GetFailed string | GetLive nat | GetExpired

definition getSession_read ::
  "int \<Rightarrow> string \<Rightarrow> string \<Rightarrow> 'd memoryStorage \<Rightarrow> get_next \<times> 'd memoryStorage" where
  "getSession_read now cid secretKey m = (case find_session m cid of
      None \<Rightarrow> (GetFailed ''could not get correlation-id'', miss m)
    | Some (a, s) \<Rightarrow>
        if \<not> isExpired now m s
        then if SecretKey s \<noteq> go_bytes secretKey
             then (GetFailed ''invalid secret key passed for user'', m)
             else (GetLive a, m)
        else (GetExpired, m))"

definition getSession_touch :: "int \<Rightarrow> nat \<Rightarrow> 'd memoryStorage \<Rightarrow> 'd memoryStorage" where
  "getSession_touch now a m = touch_if_sliding now a (hit m)"

definition getSession_locked ::
  "int \<Rightarrow> string \<Rightarrow> string \<Rightarrow> 'd memoryStorage \<Rightarrow> nat result \<times> 'd memoryStorage" where
  "getSession_locked now cid secretKey m = (case find_session m cid of
      None \<Rightarrow> (Inl ''could not get correlation-id'', miss m)
    | Some (a, s) \<Rightarrow>
        if isExpired now m s
        then (Inl ''could not get correlation-id'', miss (evicted (removeLocked cid m)))
        else if SecretKey s \<noteq> go_bytes secretKey
        then (Inl ''invalid secret key passed for user'', m)
        else (Inr a, promoteLRU cid m))"

definition getSession ::
  "int \<Rightarrow> string \<Rightarrow> string \<Rightarrow> 'd memoryStorage \<Rightarrow> nat result \<times> 'd memoryStorage" where
  "getSession now cid secretKey m = (case getSession_read now cid secretKey m of
      (GetFailed err, m1) \<Rightarrow> (Inl err, m1)
    | (GetLive a, m1) \<Rightarrow> (Inr a, promoteLRU cid (getSession_touch now a m1))
    | (GetExpired, m1) \<Rightarrow> (case getSession_locked now cid secretKey m1 of
          (Inl err, m2) \<Rightarrow> (Inl err, m2)
        | (Inr a, m2) \<Rightarrow> (Inr a, getSession_touch now a m2)))"

text \<open>The handle is the session pointer; draining swaps the session's interactions for nil.\<close>

definition handle_AESKey :: "nat \<Rightarrow> 'd memoryStorage \<Rightarrow> bytes" where
  "handle_AESKey a m = (case heap m a of Some s \<Rightarrow> AESKey s | None \<Rightarrow> [])"

definition handle_PublicKey :: "nat \<Rightarrow> 'd memoryStorage \<Rightarrow> rsa_public_key option" where
  "handle_PublicKey a m = map_option PublicKey (heap m a)"

definition GetAndClearInteractions :: "nat \<Rightarrow> 'd memoryStorage \<Rightarrow> bytes list result \<times> 'd memoryStorage" where
  "GetAndClearInteractions a m =
     (Inr (case heap m a of Some s \<Rightarrow> interactions s | None \<Rightarrow> []),
      update_session a (\<lambda>s. s\<lparr>interactions := []\<rparr>) m)"

section \<open>Appending\<close>

definition append_lookup :: "string \<Rightarrow> 'd memoryStorage \<Rightarrow> nat option \<times> 'd memoryStorage" where
  "append_lookup cid m = (case find_session m cid of
      None \<Rightarrow> (None, miss m)
    | Some (a, s) \<Rightarrow> (Some a, hit m))"

definition append_encrypt ::
  "int \<Rightarrow> bytes result \<Rightarrow> bytes \<Rightarrow> nat \<Rightarrow> 'd memoryStorage \<Rightarrow> bytes option \<times> 'd memoryStorage" where
  "append_encrypt now rand interaction a m =
     (let m1 = touch_if_sliding now a m
      in case heap m1 a of
           None \<Rightarrow> (None, m1)
         | Some s \<Rightarrow> (case EncryptInteractionBlock rand interaction (AESBlock s) of
               Inl err \<Rightarrow> (None, m1)
             | Inr encrypted \<Rightarrow> (Some encrypted, m1)))"

definition append_store :: "nat \<Rightarrow> bytes \<Rightarrow> 'd memoryStorage \<Rightarrow> 'd memoryStorage" where
  "append_store a encrypted m =
     update_session a (\<lambda>s. s\<lparr>interactions := interactions s @ [encrypted]\<rparr>) m"

definition AppendInteraction ::
  "int \<Rightarrow> bytes result \<Rightarrow> string \<Rightarrow> bytes \<Rightarrow> 'd memoryStorage \<Rightarrow> 'd memoryStorage" where
  "AppendInteraction now rand cid interaction m = (case append_lookup cid m of
      (None, m1) \<Rightarrow> m1
    | (Some a, m1) \<Rightarrow> (case append_encrypt now rand interaction a m1 of
        (None, m2) \<Rightarrow> m2
      | (Some encrypted, m2) \<Rightarrow> append_store a encrypted m2))"

section \<open>Deletion and queries\<close>

definition Delete :: "string \<Rightarrow> string \<Rightarrow> 'd memoryStorage \<Rightarrow> string option \<times> 'd memoryStorage" where
  "Delete cid secretKey m = (case find_session m cid of
      None \<Rightarrow> (Some ''could not get correlation-id'', miss m)
    | Some (a, s) \<Rightarrow>
        let m1 = hit m
        in if SecretKey s \<noteq> go_bytes secretKey
           then (Some ''invalid secret key passed for user'', m1)
           else (None, removeLocked cid m1))"

text \<open>\<open>None\<close>: expired when read, decide again under the write lock.\<close>

definition has_read :: "int \<Rightarrow> string \<Rightarrow> 'd memoryStorage \<Rightarrow> bool option" where
  "has_read now cid m = (case find_session m cid of
      None \<Rightarrow> Some False
    | Some (a, s) \<Rightarrow> if \<not> isExpired now m s then Some True else None)"

definition has_locked :: "int \<Rightarrow> string \<Rightarrow> 'd memoryStorage \<Rightarrow> bool \<times> 'd memoryStorage" where
  "has_locked now cid m = (case find_session m cid of
      None \<Rightarrow> (False, m)
    | Some (a, s) \<Rightarrow> if isExpired now m s then (False, evicted (removeLocked cid m)) else (True, m))"

definition HasCorrelationID :: "int \<Rightarrow> string \<Rightarrow> 'd memoryStorage \<Rightarrow> bool \<times> 'd memoryStorage" where
  "HasCorrelationID now cid m = (case has_read now cid m of
      Some b \<Rightarrow> (b, m)
    | None \<Rightarrow> has_locked now cid m)"

definition GetResponse :: "int \<Rightarrow> string \<Rightarrow> 'd memoryStorage \<Rightarrow> ResponseConfig option" where
  "GetResponse now cid m = (case find_session m cid of
      None \<Rightarrow> None
    | Some (a, s) \<Rightarrow> if isExpired now m s then None else Response s)"

definition SessionCount :: "'d memoryStorage \<Rightarrow> 64 word" where
  "SessionCount m = of_nat (card (dom (sessions m)))"

end
