(* ===== verification/Memory_Invariant.thy ===== *)
theory Memory_Invariant
  imports Memory_Storage
begin

text \<open>
  The invariant of the in-memory storage and its preservation by every critical section: the LRU
  list, the LRU map and the session map always hold the same ids, list elements and session
  pointers are never shared, and the capacity bound is never exceeded.
\<close>

section \<open>The invariant\<close>

definition lru_ok :: "'d memoryStorage \<Rightarrow> bool" where
  "lru_ok m \<longleftrightarrow> distinct (map fst (lruList m)) \<and> distinct (map snd (lruList m))
     \<and> (\<forall>cid e. lruMap m cid = Some e \<longleftrightarrow> (e, cid) \<in> set (lruList m))
     \<and> dom (sessions m) = snd ` set (lruList m)
     \<and> (\<forall>x \<in> set (lruList m). fst x < next_elem m)"

definition ptr_ok :: "'d memoryStorage \<Rightarrow> bool" where
  "ptr_ok m \<longleftrightarrow> inj_on (sessions m) (dom (sessions m)) \<and> ran (sessions m) \<subseteq> dom (heap m)
     \<and> (\<forall>a \<in> dom (heap m). a < next_session m)"

definition clock_ok :: "int \<Rightarrow> bool" where
  "clock_ok now \<longleftrightarrow> 0 \<le> now \<and> now < max_int64"

definition session_ok :: "block_cipher \<Rightarrow> Session \<Rightarrow> bool" where
  "session_ok aes s \<longleftrightarrow> lastAccess s < max_int64 \<and> length (AESKey s) = 32 \<and> AESBlock s = aes (AESKey s)"

definition mem_ok :: "block_cipher \<Rightarrow> 'd memoryStorage \<Rightarrow> bool" where
  "mem_ok aes m \<longleftrightarrow> lru_ok m \<and> ptr_ok m \<and> (\<forall>a s. heap m a = Some s \<longrightarrow> session_ok aes s)
     \<and> card (dom (sessions m)) \<le> maxCacheCapacity \<and> sessions m [] = None"

lemma mem_okI [intro]:
  "\<lbrakk>lru_ok m; ptr_ok m; \<And>a s. heap m a = Some s \<Longrightarrow> session_ok aes s;
    card (dom (sessions m)) \<le> maxCacheCapacity; sessions m [] = None\<rbrakk> \<Longrightarrow> mem_ok aes m"
  by (auto simp: mem_ok_def)

lemma lru_sessions_finite: "lru_ok m \<Longrightarrow> finite (dom (sessions m))"
  by (simp add: lru_ok_def)

lemma lru_card: "lru_ok m \<Longrightarrow> card (dom (sessions m)) = length (lruList m)"
  by (simp add: lru_ok_def distinct_map card_image distinct_card)

lemma clock_wrap: "clock_ok now \<Longrightarrow> wrap64 now = now"
  by (simp add: clock_ok_def wrap64_id min_int64_def)

lemma find_session_Some:
  "find_session m cid = Some (a, s) \<longleftrightarrow> sessions m cid = Some a \<and> heap m a = Some s"
  by (auto simp: find_session_def split: option.splits)

lemma find_session_None: "ptr_ok m \<Longrightarrow> find_session m cid = None \<longleftrightarrow> sessions m cid = None"
  by (auto simp: find_session_def ptr_ok_def ran_def split: option.splits)

section \<open>What each helper leaves alone\<close>

lemma counters_simps [simp]:
  "sessions (hit m) = sessions m" "sessions (miss m) = sessions m" "sessions (evicted m) = sessions m"
  "heap (hit m) = heap m" "heap (miss m) = heap m" "heap (evicted m) = heap m"
  "lruList (hit m) = lruList m" "lruList (miss m) = lruList m" "lruList (evicted m) = lruList m"
  "lruMap (hit m) = lruMap m" "lruMap (miss m) = lruMap m" "lruMap (evicted m) = lruMap m"
  "next_session (hit m) = next_session m" "next_session (miss m) = next_session m"
  "next_session (evicted m) = next_session m"
  "next_elem (hit m) = next_elem m" "next_elem (miss m) = next_elem m"
  "next_elem (evicted m) = next_elem m"
  "ttl (hit m) = ttl m" "ttl (miss m) = ttl m" "ttl (evicted m) = ttl m"
  "noEviction (hit m) = noEviction m" "noEviction (miss m) = noEviction m"
  "noEviction (evicted m) = noEviction m"
  "slidingTTL (hit m) = slidingTTL m" "slidingTTL (miss m) = slidingTTL m"
  "slidingTTL (evicted m) = slidingTTL m"
  by (simp_all add: hit_def miss_def evicted_def)

lemma update_session_simps [simp]:
  "sessions (update_session a f m) = sessions m"
  "heap (update_session a f m) b = (if b = a then map_option f (heap m a) else heap m b)"
  "dom (heap (update_session a f m)) = dom (heap m)"
  "lruList (update_session a f m) = lruList m" "lruMap (update_session a f m) = lruMap m"
  "next_session (update_session a f m) = next_session m"
  "next_elem (update_session a f m) = next_elem m" "ttl (update_session a f m) = ttl m"
  "noEviction (update_session a f m) = noEviction m" "slidingTTL (update_session a f m) = slidingTTL m"
  by (auto simp: update_session_def)

lemma removeLocked_simps [simp]:
  "sessions (removeLocked cid m) = (sessions m)(cid := None)"
  "heap (removeLocked cid m) = heap m"
  "lruMap (removeLocked cid m) = (lruMap m)(cid := None)"
  "next_session (removeLocked cid m) = next_session m"
  "next_elem (removeLocked cid m) = next_elem m" "ttl (removeLocked cid m) = ttl m"
  "noEviction (removeLocked cid m) = noEviction m" "slidingTTL (removeLocked cid m) = slidingTTL m"
  by (auto simp: removeLocked_def Let_def split: option.splits)

lemma promoteLRU_simps [simp]:
  "sessions (promoteLRU cid m) = sessions m" "heap (promoteLRU cid m) = heap m"
  "lruMap (promoteLRU cid m) = lruMap m" "next_session (promoteLRU cid m) = next_session m"
  "next_elem (promoteLRU cid m) = next_elem m" "ttl (promoteLRU cid m) = ttl m"
  "noEviction (promoteLRU cid m) = noEviction m" "slidingTTL (promoteLRU cid m) = slidingTTL m"
  by (auto simp: promoteLRU_def split: option.splits)

lemma insert_session_simps [simp]:
  "sessions (insert_session cid s m) = (sessions m)(cid \<mapsto> next_session m)"
  "heap (insert_session cid s m) = (heap m)(next_session m \<mapsto> s)"
  "lruList (insert_session cid s m) = lruList m @ [(next_elem m, cid)]"
  "lruMap (insert_session cid s m) = (lruMap m)(cid \<mapsto> next_elem m)"
  "next_session (insert_session cid s m) = Suc (next_session m)"
  "next_elem (insert_session cid s m) = Suc (next_elem m)" "ttl (insert_session cid s m) = ttl m"
  "noEviction (insert_session cid s m) = noEviction m" "slidingTTL (insert_session cid s m) = slidingTTL m"
  by (auto simp: insert_session_def Let_def split: option.splits)

lemma isExpired_cong:
  "noEviction m' = noEviction m \<Longrightarrow> slidingTTL m' = slidingTTL m \<Longrightarrow> ttl m' = ttl m \<Longrightarrow>
   isExpired now m' s = isExpired now m s"
  by (simp add: isExpired_def)

lemma isExpired_simps [simp]:
  "isExpired now (hit m) s = isExpired now m s" "isExpired now (miss m) s = isExpired now m s"
  "isExpired now (evicted m) s = isExpired now m s"
  "isExpired now (update_session a f m) s = isExpired now m s"
  "isExpired now (promoteLRU cid m) s = isExpired now m s"
  "isExpired now (removeLocked cid m) s = isExpired now m s"
  by (simp_all add: isExpired_def)

section \<open>Preservation by the helpers\<close>

lemma mem_ok_counters [simp]:
  "mem_ok aes (hit m) = mem_ok aes m" "mem_ok aes (miss m) = mem_ok aes m" "mem_ok aes (evicted m) = mem_ok aes m"
  by (simp_all add: mem_ok_def lru_ok_def ptr_ok_def)

lemma lru_ok_update_session [simp]: "lru_ok (update_session a f m) = lru_ok m"
  by (simp add: lru_ok_def)

lemma ptr_ok_update_session [simp]: "ptr_ok (update_session a f m) = ptr_ok m"
  unfolding ptr_ok_def by simp

lemma mem_ok_update_session:
  "mem_ok aes m \<Longrightarrow> (\<And>s. session_ok aes s \<Longrightarrow> session_ok aes (f s)) \<Longrightarrow> mem_ok aes (update_session a f m)"
  by (auto simp: mem_ok_def split: if_splits)

lemma mem_ok_touchSession: "mem_ok aes m \<Longrightarrow> clock_ok now \<Longrightarrow> mem_ok aes (touchSession now a m)"
  unfolding touchSession_def
  by (rule mem_ok_update_session) (auto simp: session_ok_def clock_wrap, simp add: clock_ok_def)

lemma mem_ok_touch_if_sliding:
  "mem_ok aes m \<Longrightarrow> clock_ok now \<Longrightarrow> mem_ok aes (touch_if_sliding now a m)"
  by (simp add: touch_if_sliding_def mem_ok_touchSession)

lemma removeLocked_lruList:
  assumes "lru_ok m"
  shows "lruList (removeLocked cid m) = filter (\<lambda>x. snd x \<noteq> cid) (lruList m)"
proof (cases "lruMap m cid")
  case None
  with assms have "\<forall>x \<in> set (lruList m). snd x \<noteq> cid"
    by (metis lru_ok_def option.distinct(1) prod.collapse)
  with None show ?thesis
    by (auto simp: removeLocked_def Let_def filter_id_conv split: option.splits)
next
  case (Some e)
  with assms have e: "(e, cid) \<in> set (lruList m)" by (auto simp: lru_ok_def)
  have "fst x \<noteq> e \<longleftrightarrow> snd x \<noteq> cid" if "x \<in> set (lruList m)" for x
  proof -
    have "inj_on fst (set (lruList m))" "inj_on snd (set (lruList m))"
      using assms by (simp_all add: lru_ok_def distinct_map)
    with that e show ?thesis by (metis fst_conv inj_onD snd_conv)
  qed
  then have "list_remove e (lruList m) = filter (\<lambda>x. snd x \<noteq> cid) (lruList m)"
    unfolding list_remove_def by (intro filter_cong) auto
  with Some show ?thesis
    by (auto simp: removeLocked_def Let_def split: option.splits)
qed

lemma lru_ok_removeLocked: "lru_ok m \<Longrightarrow> lru_ok (removeLocked cid m)"
  unfolding lru_ok_def [of "removeLocked cid m"] removeLocked_lruList
  by (auto simp: lru_ok_def distinct_map_filter)

lemma ptr_ok_removeLocked: "ptr_ok m \<Longrightarrow> ptr_ok (removeLocked cid m)"
  unfolding ptr_ok_def by (auto simp: inj_on_def ran_def)

lemma mem_ok_removeLocked: "mem_ok aes m \<Longrightarrow> mem_ok aes (removeLocked cid m)"
  by (rule mem_okI)
     (auto simp: mem_ok_def lru_ok_removeLocked ptr_ok_removeLocked
           intro: order_trans [OF card_mono] dest: lru_sessions_finite)

lemma list_move_to_back_set [simp]: "set (list_move_to_back e xs) = set xs"
  by (auto simp: list_move_to_back_def)

lemma list_move_to_back_distinct:
  "distinct (map f xs) \<Longrightarrow> distinct (map f (list_move_to_back e xs))"
  by (auto simp: list_move_to_back_def distinct_map_filter)
     (auto simp: distinct_map inj_on_def)

lemma promoteLRU_set: "set (lruList (promoteLRU cid m)) = set (lruList m)"
  by (simp add: promoteLRU_def split: option.splits)

lemma mem_ok_promoteLRU: "mem_ok aes m \<Longrightarrow> mem_ok aes (promoteLRU cid m)"
proof -
  have d: "distinct (map f (lruList m)) \<Longrightarrow> distinct (map f (lruList (promoteLRU cid m)))" for f :: "elem \<Rightarrow> 'x"
    by (auto simp: promoteLRU_def list_move_to_back_distinct split: option.splits)
  assume "mem_ok aes m"
  then show ?thesis
    unfolding mem_ok_def lru_ok_def ptr_ok_def promoteLRU_set promoteLRU_simps
    by (intro conjI; (elim conjE)?) (assumption | erule d)+
qed

lemma mem_ok_insert_session:
  assumes m: "mem_ok aes m" and new: "sessions m cid = None"
    and room: "card (dom (sessions m)) < maxCacheCapacity" and s: "session_ok aes s"
    and id: "cid \<noteq> []"
  shows "mem_ok aes (insert_session cid s m)"
proof
  have "dom (sessions m) = snd ` set (lruList m)"
    using m by (simp add: mem_ok_def lru_ok_def)
  with new have fresh: "cid \<notin> snd ` set (lruList m)" by (metis domIff)
  have "\<And>x. x \<in> set (lruList m) \<Longrightarrow> fst x < next_elem m"
    using m by (auto simp: mem_ok_def lru_ok_def)
  have lm: "lruMap m c = Some e \<longleftrightarrow> (e, c) \<in> set (lruList m)" for c e
    using m by (auto simp: mem_ok_def lru_ok_def)
  show "lru_ok (insert_session cid s m)"
    using m new fresh lm by (auto simp: mem_ok_def lru_ok_def image_iff)
  have "heap m (next_session m) = None"
    using m by (auto simp: mem_ok_def ptr_ok_def)
  moreover have "next_session m \<notin> ran (sessions m)"
    using m by (auto simp: mem_ok_def ptr_ok_def)
  ultimately show "ptr_ok (insert_session cid s m)"
    using m new by (auto simp: mem_ok_def ptr_ok_def inj_on_def ran_def intro: less_SucI)
  show "card (dom (sessions (insert_session cid s m))) \<le> maxCacheCapacity"
    using room m new by (simp add: card_insert_if lru_sessions_finite mem_ok_def)
  show "session_ok aes s'" if "heap (insert_session cid s m) a = Some s'" for a s'
    using that m s by (auto simp: mem_ok_def split: if_splits)
  show "sessions (insert_session cid s m) [] = None"
    using id m by (simp add: mem_ok_def)
qed

section \<open>Eviction\<close>

definition last_access :: "'d memoryStorage \<Rightarrow> string \<Rightarrow> int" where
  "last_access m cid = (case find_session m cid of Some (_, s) \<Rightarrow> lastAccess s | None \<Rightarrow> max_int64)"

lemma mem_ok_find:
  assumes "mem_ok aes m" and "x \<in> set (lruList m)"
  obtains a s where "find_session m (snd x) = Some (a, s)" "session_ok aes s"
proof -
  have "snd x \<in> dom (sessions m)"
    using assms by (auto simp: mem_ok_def lru_ok_def)
  moreover have "ptr_ok m" using assms by (simp add: mem_ok_def)
  ultimately obtain a s where "find_session m (snd x) = Some (a, s)"
    by (metis domIff find_session_None not_None_eq prod.collapse)
  moreover from this assms(1) have "session_ok aes s" by (auto simp: mem_ok_def find_session_Some)
  ultimately show ?thesis using that by blast
qed

text \<open>
  While every element has a session the probe changes nothing and finds the least recently used of
  the elements it looks at.
\<close>

lemma evict_probe_live:
  assumes "\<And>x. x \<in> set elems \<Longrightarrow> \<exists>a s. find_session m (snd x) = Some (a, s)"
  shows "\<exists>v'. evict_probe n elems m v t = (m, v')
     \<and> (v' = v \<and> (\<forall>x \<in> set (take n elems). t \<le> last_access m (snd x))
        \<or> (\<exists>x \<in> set (take n elems). v' = snd x \<and> last_access m (snd x) < t
             \<and> (\<forall>y \<in> set (take n elems). last_access m (snd x) \<le> last_access m (snd y))))"
  using assms
proof (induction n arbitrary: elems v t)
  case 0
  then show ?case by simp
next
  case (Suc n)
  show ?case
  proof (cases elems)
    case Nil
    then show ?thesis by simp
  next
    case (Cons x xs)
    have "x \<in> set elems" using Cons by simp
    then obtain a s where s: "find_session m (snd x) = Some (a, s)" using Suc.prems by blast
    then have la: "last_access m (snd x) = lastAccess s" by (simp add: last_access_def)
    define t' where "t' = (if lastAccess s < t then lastAccess s else t)"
    define w where "w = (if lastAccess s < t then snd x else v)"
    have step: "evict_probe (Suc n) elems m v t = evict_probe n xs m w t'"
      using s Cons by (cases x) (simp add: w_def t'_def)
    have live: "\<And>y. y \<in> set xs \<Longrightarrow> \<exists>a s. find_session m (snd y) = Some (a, s)"
      using Suc.prems Cons by simp
    have ts: "set (take (Suc n) elems) = insert x (set (take n xs))" using Cons by simp
    obtain v' where v': "evict_probe n xs m w t' = (m, v')"
      "v' = w \<and> (\<forall>x \<in> set (take n xs). t' \<le> last_access m (snd x))
       \<or> (\<exists>x \<in> set (take n xs). v' = snd x \<and> last_access m (snd x) < t'
            \<and> (\<forall>y \<in> set (take n xs). last_access m (snd x) \<le> last_access m (snd y)))"
      using Suc.IH [where v = w and t = t' and elems = xs, OF live] by blast
    show ?thesis unfolding step ts using v'
      by (intro exI [of _ v'] conjI, simp)
         (cases "lastAccess s < t"; force simp: w_def t'_def la)
  qed
qed

lemma evictLRU_live:
  assumes m: "mem_ok aes m" and ne: "lruList m \<noteq> []"
  obtains x where "x \<in> set (take maxProbe (lruList m))"
    "evictLRU m = evicted (removeLocked (snd x) m)"
    "\<And>y. y \<in> set (take maxProbe (lruList m)) \<Longrightarrow> last_access m (snd x) \<le> last_access m (snd y)"
proof -
  have live: "\<exists>a s. find_session m (snd x) = Some (a, s)" if "x \<in> set (lruList m)" for x
    using mem_ok_find [OF m that] by blast
  obtain v where v: "evict_probe maxProbe (lruList m) m [] max_int64 = (m, v)"
    "v = [] \<and> (\<forall>x \<in> set (take maxProbe (lruList m)). max_int64 \<le> last_access m (snd x))
     \<or> (\<exists>x \<in> set (take maxProbe (lruList m)). v = snd x \<and> last_access m (snd x) < max_int64
         \<and> (\<forall>y \<in> set (take maxProbe (lruList m)). last_access m (snd x) \<le> last_access m (snd y)))"
    using evict_probe_live [of "lruList m" m maxProbe "[]" max_int64, OF live] by blast
  have hd: "hd (lruList m) \<in> set (take maxProbe (lruList m))"
    using ne by (cases "lruList m") (auto simp: maxProbe_def)
  obtain a s where "find_session m (snd (hd (lruList m))) = Some (a, s)" "session_ok aes s"
    using mem_ok_find [OF m hd_in_set [OF ne]] by blast
  then have "last_access m (snd (hd (lruList m))) < max_int64"
    by (simp add: last_access_def session_ok_def)
  then have "\<not> (\<forall>x \<in> set (take maxProbe (lruList m)). max_int64 \<le> last_access m (snd x))"
    using hd by (meson linorder_not_le)
  with v(2) obtain x where x: "x \<in> set (take maxProbe (lruList m))" "v = snd x"
    "\<And>y. y \<in> set (take maxProbe (lruList m)) \<Longrightarrow> last_access m (snd x) \<le> last_access m (snd y)"
    by blast
  have "snd x \<in> dom (sessions m)"
    using m x(1) by (auto simp: mem_ok_def lru_ok_def dest: in_set_takeD)
  with m have "snd x \<noteq> []" by (auto simp: mem_ok_def)
  with v(1) x have "evictLRU m = evicted (removeLocked (snd x) m)" by (simp add: evictLRU_def)
  with x that show ?thesis by blast
qed

lemma evictLRU_sessions:
  assumes "mem_ok aes m"
  shows "\<exists>cid. sessions (evictLRU m) = (sessions m)(cid := None)" "heap (evictLRU m) = heap m"
    "next_session (evictLRU m) = next_session m" "mem_ok aes (evictLRU m)"
    "ttl (evictLRU m) = ttl m" "noEviction (evictLRU m) = noEviction m"
    "slidingTTL (evictLRU m) = slidingTTL m"
proof -
  have empty: "evictLRU m = m" if "lruList m = []" using that by (simp add: evictLRU_def maxProbe_def eval_nat_numeral)
  have "sessions m = (sessions m)([] := None)" using assms by (simp add: mem_ok_def fun_upd_idem)
  with empty evictLRU_live [OF assms] assms mem_ok_removeLocked [OF assms]
  show "\<exists>cid. sessions (evictLRU m) = (sessions m)(cid := None)" "heap (evictLRU m) = heap m"
    "next_session (evictLRU m) = next_session m" "mem_ok aes (evictLRU m)" "ttl (evictLRU m) = ttl m"
    "noEviction (evictLRU m) = noEviction m" "slidingTTL (evictLRU m) = slidingTTL m"
    by (cases "lruList m = []"; metis counters_simps mem_ok_counters removeLocked_simps)+
qed

lemma evictLRU_room:
  assumes "mem_ok aes m" and "card (dom (sessions m)) = maxCacheCapacity"
  shows "card (dom (sessions (evictLRU m))) < maxCacheCapacity"
proof -
  have "lruList m \<noteq> []"
    using assms lru_card [of m] by (auto simp: mem_ok_def maxCacheCapacity_def)
  from evictLRU_live [OF assms(1) this] obtain x where
    x: "x \<in> set (take maxProbe (lruList m))" "evictLRU m = evicted (removeLocked (snd x) m)" by blast
  then have "snd x \<in> dom (sessions m)"
    using assms by (auto simp: mem_ok_def lru_ok_def dest: in_set_takeD)
  moreover have "finite (dom (sessions m))" using assms by (simp add: mem_ok_def lru_sessions_finite)
  ultimately have "card (dom (sessions m) - {snd x}) < card (dom (sessions m))"
    by (intro card_Diff1_less)
  with x assms show ?thesis by simp
qed

section \<open>Preservation by the operations\<close>

lemma find_session_cong:
  "sessions m' = sessions m \<Longrightarrow> heap m' = heap m \<Longrightarrow> find_session m' cid = find_session m cid"
  by (simp add: find_session_def split: option.split)

definition rand_ok :: "bytes result \<Rightarrow> nat \<Rightarrow> bool" where
  "rand_ok r n \<longleftrightarrow> (case r of Inl _ \<Rightarrow> True | Inr bs \<Rightarrow> length bs = n)"

lemma register_new_cases:
  assumes "register_new aes now rand cid pk sk resp m = (r, m')"
  defines "m2 \<equiv> if card (dom (sessions (miss m))) \<ge> maxCacheCapacity then evictLRU (miss m) else miss m"
  obtains err where "r = Inl err" "m' = m2"
  | k where "rand = Inr k" "r = Inr (k, True)"
      "m' = insert_session cid \<lparr>PublicKey = pk, AESKey = k, AESBlock = aes k, SecretKey = go_bytes sk,
             Response = resp, interactions = [], lastAccess = wrap64 now, createdAt = now\<rparr> m2"
  using assms
  by (auto simp: register_new_def Let_def GenerateAESKey_def NewCipher_def
        split: sum.splits option.splits if_splits)

lemma mem_ok_evict_if_full:
  assumes "mem_ok aes m"
  defines "m2 \<equiv> if card (dom (sessions (miss m))) \<ge> maxCacheCapacity then evictLRU (miss m) else miss m"
  shows "mem_ok aes m2" "card (dom (sessions m2)) < maxCacheCapacity" "heap m2 = heap m"
    "next_session m2 = next_session m" "\<exists>v. sessions m2 = (sessions m)(v := None)
     \<or> sessions m2 = sessions m"
    "ttl m2 = ttl m" "noEviction m2 = noEviction m" "slidingTTL m2 = slidingTTL m"
proof -
  have m: "mem_ok aes (miss m)" using assms by simp
  have le: "card (dom (sessions m)) \<le> maxCacheCapacity" using assms by (simp add: mem_ok_def)
  show "mem_ok aes m2" "heap m2 = heap m" "next_session m2 = next_session m"
    "\<exists>v. sessions m2 = (sessions m)(v := None) \<or> sessions m2 = sessions m"
    "ttl m2 = ttl m" "noEviction m2 = noEviction m" "slidingTTL m2 = slidingTTL m"
    using evictLRU_sessions [OF m] m unfolding m2_def by auto
  show "card (dom (sessions m2)) < maxCacheCapacity"
    using evictLRU_room [OF m] le unfolding m2_def by (auto simp: not_le)
qed

lemma mem_ok_register_new:
  assumes reg: "register_new aes now rand cid pk sk resp m = (r, m')"
    and m: "mem_ok aes m" "sessions m cid = None"
    and ok: "cid \<noteq> []" "clock_ok now" "rand_ok rand 32"
  shows "mem_ok aes m'"
  using reg
proof (cases rule: register_new_cases)
  case 1
  then show ?thesis using mem_ok_evict_if_full [OF m(1)] by simp
next
  case (2 k)
  show ?thesis unfolding 2
    using mem_ok_evict_if_full(1,2,5) [OF m(1)] m(2) ok 2(1)
    by (intro mem_ok_insert_session)
       (auto simp: session_ok_def rand_ok_def clock_wrap, auto simp: clock_ok_def)
qed

lemma registerInternal_cases:
  assumes "registerInternal aes now rand cid pk sk resp m = (r, m')"
  obtains (fresh) "find_session m cid = None" "register_new aes now rand cid pk sk resp m = (r, m')"
  | (replace) a s where "find_session m cid = Some (a, s)" "isExpired now m s"
      "register_new aes now rand cid pk sk resp (evicted (removeLocked cid m)) = (r, m')"
  | (taken) a s where "find_session m cid = Some (a, s)" "\<not> isExpired now m s"
      "SecretKey s \<noteq> go_bytes sk" "r = Inl ''correlation-id provided already exists''" "m' = hit m"
  | (keep_alive) a s where "find_session m cid = Some (a, s)" "\<not> isExpired now m s"
      "SecretKey s = go_bytes sk" "r = Inr (AESKey s, False)"
      "m' = promoteLRU cid (touch_if_sliding now a (hit m))"
  using assms by (auto simp: registerInternal_def Let_def split: option.splits if_splits)

lemma mem_ok_registerInternal:
  assumes reg: "registerInternal aes now rand cid pk sk resp m = (r, m')" and m: "mem_ok aes m"
    and ok: "cid \<noteq> []" "clock_ok now" "rand_ok rand 32"
  shows "mem_ok aes m'"
  using reg
proof (cases rule: registerInternal_cases)
  case fresh
  with m have "sessions m cid = None" by (simp add: mem_ok_def find_session_None)
  with fresh m ok show ?thesis by (blast intro: mem_ok_register_new)
next
  case replace
  with m ok show ?thesis
    by (intro mem_ok_register_new [OF replace(3)]) (simp_all add: mem_ok_removeLocked)
qed (use m ok in \<open>simp_all add: mem_ok_promoteLRU mem_ok_touch_if_sliding\<close>)

lemma mem_ok_Register:
  assumes "Register aes now rand cid pk sk resp m = (r, m')" "mem_ok aes m"
    "cid \<noteq> []" "clock_ok now" "rand_ok rand 32"
  shows "mem_ok aes m'"
  using assms mem_ok_registerInternal
  by (fastforce simp: Register_def split: prod.splits sum.splits)

lemma mem_ok_getSession_parts:
  assumes "mem_ok aes m"
  shows "mem_ok aes (snd (getSession_read now cid sk m))"
    "mem_ok aes (snd (getSession_locked now cid sk m))"
    "clock_ok now \<Longrightarrow> mem_ok aes (getSession_touch now a m)"
  using assms
  by (auto simp: getSession_read_def getSession_locked_def getSession_touch_def mem_ok_removeLocked
        mem_ok_promoteLRU mem_ok_touch_if_sliding split: option.split)

lemma mem_ok_getSession:
  assumes m: "mem_ok aes m" and now: "clock_ok now"
  shows "mem_ok aes (snd (getSession now cid sk m))"
proof -
  obtain g m1 where g: "getSession_read now cid sk m = (g, m1)" by (cases "getSession_read now cid sk m")
  have m1: "mem_ok aes m1" using mem_ok_getSession_parts(1) [OF m, of now cid sk] g by simp
  obtain r m2 where r: "getSession_locked now cid sk m1 = (r, m2)"
    by (cases "getSession_locked now cid sk m1")
  have m2: "mem_ok aes m2" using mem_ok_getSession_parts(2) [OF m1, of now cid sk] r by simp
  show ?thesis
    using g r m1 m2 now
    by (auto simp: getSession_def mem_ok_promoteLRU mem_ok_getSession_parts(3)
          split: get_next.split sum.split)
qed

lemma mem_ok_drain: "mem_ok aes m \<Longrightarrow> mem_ok aes (snd (GetAndClearInteractions a m))"
  by (auto simp: GetAndClearInteractions_def session_ok_def intro!: mem_ok_update_session)

lemma mem_ok_append_store: "mem_ok aes m \<Longrightarrow> mem_ok aes (append_store a x m)"
  by (auto simp: append_store_def session_ok_def intro!: mem_ok_update_session)

lemma mem_ok_append_parts:
  assumes "mem_ok aes m"
  shows "mem_ok aes (snd (append_lookup cid m))"
    "clock_ok now \<Longrightarrow> mem_ok aes (snd (append_encrypt now rand x a m))"
  using assms
  by (auto simp: append_lookup_def append_encrypt_def Let_def mem_ok_touch_if_sliding
        split: option.split sum.split)

lemma mem_ok_AppendInteraction:
  assumes "mem_ok aes m" "clock_ok now"
  shows "mem_ok aes (AppendInteraction now rand cid x m)"
proof -
  obtain l m1 where l: "append_lookup cid m = (l, m1)" by (cases "append_lookup cid m")
  have m1: "mem_ok aes m1" using mem_ok_append_parts(1) [OF assms(1), of cid] l by simp
  have enc: "mem_ok aes m2" if "append_encrypt now rand x a m1 = (e, m2)" for a e m2
    using mem_ok_append_parts(2) [OF m1 assms(2), of rand x a] that by simp
  from l m1 show ?thesis
    by (auto simp: AppendInteraction_def mem_ok_append_store dest: enc split: option.split prod.split)
qed

lemma mem_ok_Delete: "mem_ok aes m \<Longrightarrow> mem_ok aes (snd (Delete cid sk m))"
  by (auto simp: Delete_def Let_def mem_ok_removeLocked split: option.split)

lemma mem_ok_HasCorrelationID: "mem_ok aes m \<Longrightarrow> mem_ok aes (snd (HasCorrelationID now cid m))"
  by (auto simp: HasCorrelationID_def has_read_def has_locked_def mem_ok_removeLocked
        split: option.splits if_splits)

lemma mem_ok_has_locked: "mem_ok aes m \<Longrightarrow> mem_ok aes (snd (has_locked now cid m))"
  by (auto simp: has_locked_def mem_ok_removeLocked split: option.split)

lemma mem_ok_NewMemoryStorage: "mem_ok aes (NewMemoryStorage cfg d)"
  by (simp add: mem_ok_def lru_ok_def ptr_ok_def NewMemoryStorage_def Let_def)

end
