(* ===== verification/Correlation.thy ===== *)
theory Correlation
  imports Oob_Types
begin

text \<open>
  Correlation-id matching (\<open>oobsrv/correlation.go\<close>): the two-tier sliding window over
  dot-separated labels, its three callers, and the reduction of all of them to one list of
  candidates.  The \<open>lookup\<close> callback is \<open>Storage.HasCorrelationID\<close>, which may evict sessions, so
  every scan threads the state that the callback works on.

  The locale \<open>registry\<close> is the contract the scanner needs from that callback: its answer is
  membership in a set of live ids, and asking does not change the set.  Inside it each matcher
  is shown equal to a reference list.
\<close>

section \<open>Character classes\<close>

definition cidAlphabetTable :: "char \<Rightarrow> bool" where
  "cidAlphabetTable c \<longleftrightarrow> c \<in> set CIDEncodingAlphabet"

definition alphanumericTable :: "char \<Rightarrow> bool" where
  "alphanumericTable c \<longleftrightarrow> is_lower c \<or> is_digit c"

definition minNonceLength :: nat where
  "minNonceLength = 3"

definition isCIDBase32 :: "string \<Rightarrow> bool" where
  "isCIDBase32 s \<longleftrightarrow> s \<noteq> [] \<and> list_all cidAlphabetTable s"

definition isAlphanumeric :: "string \<Rightarrow> bool" where
  "isAlphanumeric s \<longleftrightarrow> s \<noteq> [] \<and> list_all alphanumericTable s"

definition reverseString :: "string \<Rightarrow> string" where
  "reverseString s = concat (rev (utf8_runes s))"

section \<open>Scanning labels\<close>

text \<open>
  Callbacks take and return the state.  A scan returns whether it may go on (no callback has
  returned false) and the state.
\<close>

type_synonym 's lookup = "string \<Rightarrow> 's \<Rightarrow> bool \<times> 's"
type_synonym 's on_match = "string \<Rightarrow> string \<Rightarrow> 's \<Rightarrow> bool \<times> 's"

primrec scan_positions ::
  "nat \<Rightarrow> 's lookup \<Rightarrow> 's on_match \<Rightarrow> string \<Rightarrow> nat list \<Rightarrow> 's \<Rightarrow> bool \<times> 's" where
  "scan_positions cidLength lookup onMatch label [] s = (True, s)"
| "scan_positions cidLength lookup onMatch label (pos # ps) s =
     (let window = take (cidLength + minNonceLength) (drop pos label);
          candidate = take cidLength window
      in if \<not> isCIDBase32 candidate \<or> \<not> isAlphanumeric (drop cidLength window)
         then scan_positions cidLength lookup onMatch label ps s
         else case lookup candidate s of (hit, s1) \<Rightarrow>
           if hit
           then (case onMatch candidate label s1 of (go, s2) \<Rightarrow>
                   if go then scan_positions cidLength lookup onMatch label ps s2
                   else (False, s2))
           else scan_positions cidLength lookup onMatch label ps s1)"

function scan_windows ::
  "nat \<Rightarrow> 's lookup \<Rightarrow> 's on_match \<Rightarrow> string \<Rightarrow> 's \<Rightarrow> bool \<times> 's" where
  "scan_windows cidLength lookup onMatch remaining s =
     (if remaining = [] then (True, s)
      else case cut CHR ''.'' remaining of (label, rest, _) \<Rightarrow>
        if length label < cidLength + minNonceLength
        then scan_windows cidLength lookup onMatch rest s
        else case scan_positions cidLength lookup onMatch label
                    [0 ..< length label - (cidLength + minNonceLength) + 1] s of (go, s1) \<Rightarrow>
          if go then scan_windows cidLength lookup onMatch rest s1 else (False, s1))"
  by pat_completeness auto
termination
  by (relation "measure (\<lambda>(n, lk, om, r, s). length r)") (auto dest: length_cut_after [OF sym])

function scan_bare ::
  "nat \<Rightarrow> 's lookup \<Rightarrow> 's on_match \<Rightarrow> string \<Rightarrow> 's \<Rightarrow> bool \<times> 's" where
  "scan_bare cidLength lookup onMatch remaining s =
     (if remaining = [] then (True, s)
      else case cut CHR ''.'' remaining of (label, rest, _) \<Rightarrow>
        if length label \<noteq> cidLength \<or> \<not> isCIDBase32 label
        then scan_bare cidLength lookup onMatch rest s
        else case lookup label s of (hit, s1) \<Rightarrow>
          if hit
          then (case onMatch label label s1 of (go, s2) \<Rightarrow>
                  if go then scan_bare cidLength lookup onMatch rest s2 else (False, s2))
          else scan_bare cidLength lookup onMatch rest s1)"
  by pat_completeness auto
termination
  by (relation "measure (\<lambda>(n, lk, om, r, s). length r)") (auto dest: length_cut_after [OF sym])

declare scan_windows.simps [simp del] scan_bare.simps [simp del]

definition scanLabels :: "string \<Rightarrow> nat \<Rightarrow> 's lookup \<Rightarrow> 's on_match \<Rightarrow> 's \<Rightarrow> 's" where
  "scanLabels input cidLength lookup onMatch s =
     (case scan_windows cidLength lookup onMatch input s of (go, s1) \<Rightarrow>
        if go then snd (scan_bare cidLength lookup onMatch input s1) else s1)"

section \<open>The matchers\<close>

record Match =
  UniqueID :: string
  FullID :: string

definition matchesContain :: "Match list \<Rightarrow> string \<Rightarrow> bool" where
  "matchesContain matches cid \<longleftrightarrow> (\<exists>m \<in> set matches. UniqueID m = cid)"

primrec extractFullID :: "string \<Rightarrow> string list \<Rightarrow> string" where
  "extractFullID input [] = input"
| "extractFullID input (domain # domains) =
     (case cut_suffix input (CHR ''.'' # domain) of (result, ok) \<Rightarrow>
        if ok then result else extractFullID input domains)"

text \<open>A closure that captures a variable of its caller works on a pair: the variable, the state.\<close>

definition lift_lookup :: "'s lookup \<Rightarrow> ('v \<times> 's) lookup" where
  "lift_lookup lookup c vs =
     (case vs of (v, s) \<Rightarrow> case lookup c s of (hit, s1) \<Rightarrow> (hit, (v, s1)))"

definition collect_match :: "(Match list \<times> 's) on_match" where
  "collect_match candidate label vs =
     (case vs of (matches, s) \<Rightarrow>
        if matchesContain matches candidate then (True, (matches, s))
        else (True, (matches @ [\<lparr>UniqueID = candidate, FullID = []\<rparr>], s)))"

definition set_full_id :: "string \<Rightarrow> Match list \<Rightarrow> Match list" where
  "set_full_id fullID matches = map (\<lambda>m. m\<lparr>FullID := fullID\<rparr>) matches"

definition MatchCorrelationID ::
  "string \<Rightarrow> nat \<Rightarrow> string list \<Rightarrow> 's lookup \<Rightarrow> 's \<Rightarrow> Match list \<times> 's" where
  "MatchCorrelationID input0 cidLength domains lookup s0 =
     (let input = to_lower input0
      in case scanLabels input cidLength (lift_lookup lookup) collect_match ([], s0) of
           (matches, s1) \<Rightarrow> (set_full_id (extractFullID input domains) matches, s1))"

definition scanEverywhereDelimiters :: "char \<Rightarrow> bool" where
  "scanEverywhereDelimiters c \<longleftrightarrow>
     c \<in> {CHR ''.'', CHR 0x0A, CHR 0x09, CHR 0x22, CHR 0x27}"

primrec scan_everywhere ::
  "nat \<Rightarrow> 's lookup \<Rightarrow> string \<Rightarrow> nat list \<Rightarrow> Match list \<Rightarrow> string set \<Rightarrow> 's
    \<Rightarrow> Match list \<times> string set \<times> 's" where
  "scan_everywhere cidLength lookup chunk [] matches seen s = (matches, seen, s)"
| "scan_everywhere cidLength lookup chunk (pos # ps) matches seen s =
     (let window = take (cidLength + minNonceLength) (drop pos chunk);
          candidate = take cidLength window
      in if \<not> isCIDBase32 candidate \<or> \<not> isAlphanumeric (drop cidLength window)
         then scan_everywhere cidLength lookup chunk ps matches seen s
         else if candidate \<in> seen then scan_everywhere cidLength lookup chunk ps matches seen s
         else case lookup candidate s of (hit, s1) \<Rightarrow>
           if hit
           then scan_everywhere cidLength lookup chunk ps
                  (matches @ [\<lparr>UniqueID = candidate, FullID = window\<rparr>])
                  (insert candidate seen) s1
           else scan_everywhere cidLength lookup chunk ps matches seen s1)"

primrec scan_chunks ::
  "nat \<Rightarrow> 's lookup \<Rightarrow> string list \<Rightarrow> Match list \<Rightarrow> string set \<Rightarrow> 's
    \<Rightarrow> Match list \<times> string set \<times> 's" where
  "scan_chunks cidLength lookup [] matches seen s = (matches, seen, s)"
| "scan_chunks cidLength lookup (chunk # chunks) matches seen s =
     (if length chunk < cidLength + minNonceLength
      then scan_chunks cidLength lookup chunks matches seen s
      else case scan_everywhere cidLength lookup chunk
                  [0 ..< length chunk - (cidLength + minNonceLength) + 1] matches seen s of
             (matches1, seen1, s1) \<Rightarrow> scan_chunks cidLength lookup chunks matches1 seen1 s1)"

definition MatchCorrelationIDEverywhere ::
  "string \<Rightarrow> nat \<Rightarrow> 's lookup \<Rightarrow> 's \<Rightarrow> Match list \<times> 's" where
  "MatchCorrelationIDEverywhere input cidLength lookup s =
     (case scan_chunks cidLength lookup
             (fields_func scanEverywhereDelimiters (to_lower input)) [] {} s of
        (matches, _, s1) \<Rightarrow> (matches, s1))"

text \<open>The LDAP matcher skips ids it already holds before it asks the storage.\<close>

definition ldap_lookup :: "Match list \<Rightarrow> 's lookup \<Rightarrow> (Match list \<times> 's) lookup" where
  "ldap_lookup matches lookup candidate vs =
     (case vs of (partMatches, s) \<Rightarrow>
        if matchesContain matches candidate \<or> matchesContain partMatches candidate
        then (False, (partMatches, s))
        else case lookup candidate s of (hit, s1) \<Rightarrow> (hit, (partMatches, s1)))"

definition ldap_on_match :: "(Match list \<times> 's) on_match" where
  "ldap_on_match candidate label vs =
     (case vs of (partMatches, s) \<Rightarrow>
        (True, (partMatches @ [\<lparr>UniqueID = candidate, FullID = []\<rparr>], s)))"

primrec ldap_parts ::
  "nat \<Rightarrow> string list \<Rightarrow> 's lookup \<Rightarrow> string list \<Rightarrow> Match list \<Rightarrow> 's \<Rightarrow> Match list \<times> 's" where
  "ldap_parts cidLength domains lookup [] matches s = (matches, s)"
| "ldap_parts cidLength domains lookup (part0 # parts) matches s =
     (let part = to_lower (trim_space part0)
      in if part = [] then ldap_parts cidLength domains lookup parts matches s
         else case scanLabels part cidLength (ldap_lookup matches lookup) ldap_on_match ([], s) of
                (partMatches, s1) \<Rightarrow>
                  ldap_parts cidLength domains lookup parts
                    (matches @ set_full_id (extractFullID part domains) partMatches) s1)"

definition MatchLDAPCorrelationID ::
  "string \<Rightarrow> nat \<Rightarrow> string list \<Rightarrow> 's lookup \<Rightarrow> 's \<Rightarrow> Match list \<times> 's" where
  "MatchLDAPCorrelationID baseDN cidLength domains lookup s =
     ldap_parts cidLength domains lookup
       (fields_func (\<lambda>r. r = CHR ''='' \<or> r = CHR '','') baseDN) [] s"

section \<open>Scans as one pass over a list of candidates\<close>

text \<open>
  The candidates of an input, each with the label it occurs in: first every window of every
  label, then every label that is a bare id.  \<open>scan_list\<close> is the loop body over such a list.
\<close>

definition label_candidates :: "nat \<Rightarrow> string \<Rightarrow> string list" where
  "label_candidates n label =
     (if length label < n + minNonceLength then []
      else map (take n)
             (filter (\<lambda>w. isCIDBase32 (take n w) \<and> isAlphanumeric (drop n w))
                (map (\<lambda>pos. take (n + minNonceLength) (drop pos label))
                   [0 ..< length label - (n + minNonceLength) + 1])))"

definition bare_candidates :: "nat \<Rightarrow> string \<Rightarrow> string list" where
  "bare_candidates n label = (if length label = n \<and> isCIDBase32 label then [label] else [])"

definition candidates :: "nat \<Rightarrow> string \<Rightarrow> string list" where
  "candidates n input =
     concat (map (label_candidates n) (split_on CHR ''.'' input))
     @ concat (map (bare_candidates n) (split_on CHR ''.'' input))"

definition pairs_with :: "(string \<Rightarrow> string list) \<Rightarrow> string list \<Rightarrow> (string \<times> string) list" where
  "pairs_with f ls = concat (map (\<lambda>l. map (\<lambda>c. (c, l)) (f l)) ls)"

definition candidate_pairs :: "nat \<Rightarrow> string \<Rightarrow> (string \<times> string) list" where
  "candidate_pairs n input =
     pairs_with (label_candidates n) (split_on CHR ''.'' input)
     @ pairs_with (bare_candidates n) (split_on CHR ''.'' input)"

fun scan_list :: "'s lookup \<Rightarrow> 's on_match \<Rightarrow> (string \<times> string) list \<Rightarrow> 's \<Rightarrow> bool \<times> 's" where
  "scan_list lookup onMatch [] s = (True, s)"
| "scan_list lookup onMatch ((c, l) # xs) s =
     (case lookup c s of (hit, s1) \<Rightarrow>
        if hit
        then (case onMatch c l s1 of (go, s2) \<Rightarrow>
                if go then scan_list lookup onMatch xs s2 else (False, s2))
        else scan_list lookup onMatch xs s1)"

lemma scan_list_append:
  "scan_list lk om (xs @ ys) s =
     (case scan_list lk om xs s of (go, s1) \<Rightarrow> if go then scan_list lk om ys s1 else (False, s1))"
  by (induction lk om xs s rule: scan_list.induct) (auto split: prod.splits)

lemma map_fst_candidate_pairs: "map fst (candidate_pairs n input) = candidates n input"
  by (simp add: candidate_pairs_def candidates_def pairs_with_def map_concat o_def)

lemma pairs_with_simps [simp]:
  "pairs_with f [] = []"
  "pairs_with f (l # ls) = map (\<lambda>c. (c, l)) (f l) @ pairs_with f ls"
  by (simp_all add: pairs_with_def)

lemma label_candidates_Nil [simp]: "label_candidates n [] = []"
  by (simp add: label_candidates_def minNonceLength_def)

lemma bare_candidates_Nil [simp]: "bare_candidates n [] = []"
  by (simp add: bare_candidates_def isCIDBase32_def)

lemma scan_positions_scan_list:
  "scan_positions n lk om label ps s =
     scan_list lk om
       (map (\<lambda>c. (c, label)) (map (take n)
         (filter (\<lambda>w. isCIDBase32 (take n w) \<and> isAlphanumeric (drop n w))
            (map (\<lambda>pos. take (n + minNonceLength) (drop pos label)) ps)))) s"
  by (induction ps arbitrary: s) (auto simp: Let_def split: prod.splits)

lemma cut_not_found: "cut c r = (l, rest, False) \<Longrightarrow> rest = []"
  by (induction r arbitrary: l rest) (auto split: if_splits prod.splits)

lemma pairs_with_cut:
  assumes "f [] = []" and "cut c r = (l, rest, found)"
  shows "pairs_with f (split_on c r) = map (\<lambda>x. (x, l)) (f l) @ pairs_with f (split_on c rest)"
proof (cases found)
  case True
  with assms show ?thesis by (simp add: split_on_cut [of c r])
next
  case False
  with assms cut_not_found [of c r l rest] have "rest = []" by simp
  with assms False show ?thesis by (simp add: split_on_cut [of c r])
qed

lemma scan_windows_scan_list:
  "scan_windows n lk om r s = scan_list lk om (pairs_with (label_candidates n) (split_on CHR ''.'' r)) s"
proof (induction n lk om r s rule: scan_windows.induct)
  case (1 n lk om r s)
  show ?case
  proof (cases "r = []")
    case True
    then show ?thesis by (simp add: scan_windows.simps)
  next
    case False
    obtain l rest f where c: "cut CHR ''.'' r = (l, rest, f)" by (cases "cut CHR ''.'' r")
    note split = pairs_with_cut [of "label_candidates n", OF _ c, simplified]
    have step: "scan_windows n lk om r s =
        (case scan_list lk om (map (\<lambda>c. (c, l)) (label_candidates n l)) s of (go, s1) \<Rightarrow>
           if go then scan_windows n lk om rest s1 else (False, s1))"
      by (subst scan_windows.simps)
         (simp add: False c scan_positions_scan_list label_candidates_def split: prod.splits)
    obtain go s1 where
      run: "scan_list lk om (map (\<lambda>c. (c, l)) (label_candidates n l)) s = (go, s1)"
      by (cases "scan_list lk om (map (\<lambda>c. (c, l)) (label_candidates n l)) s")
    show ?thesis
    proof (cases "length l < n + minNonceLength")
      case True
      with run have "go" "s1 = s" by (auto simp: label_candidates_def)
      with 1(1) [OF False c [symmetric] refl True] show ?thesis
        by (simp add: step split run scan_list_append)
    next
      case long: False
      show ?thesis
      proof (cases go)
        case True
        have "(True, s1) = scan_positions n lk om l [0 ..< length l - (n + minNonceLength) + 1] s"
          using run True long by (simp add: scan_positions_scan_list label_candidates_def)
        then have "scan_windows n lk om rest s1
            = scan_list lk om (pairs_with (label_candidates n) (split_on CHR ''.'' rest)) s1"
          using 1(2) [OF False c [symmetric] refl long _ TrueI] by blast
        with True show ?thesis by (simp add: step split run scan_list_append)
      next
        case False
        then show ?thesis by (simp add: step split run scan_list_append)
      qed
    qed
  qed
qed

lemma scan_bare_scan_list:
  "scan_bare n lk om r s = scan_list lk om (pairs_with (bare_candidates n) (split_on CHR ''.'' r)) s"
proof (induction n lk om r s rule: scan_bare.induct)
  case (1 n lk om r s)
  show ?case
  proof (cases "r = []")
    case True
    then show ?thesis by (simp add: scan_bare.simps)
  next
    case False
    obtain l rest f where c: "cut CHR ''.'' r = (l, rest, f)" by (cases "cut CHR ''.'' r")
    note split = pairs_with_cut [of "bare_candidates n", OF _ c, simplified]
    show ?thesis
      using 1 [OF False c [symmetric] refl]
      by (subst scan_bare.simps)
         (auto simp: False c split scan_list_append bare_candidates_def [of n l] split: prod.splits)
  qed
qed

lemma scanLabels_scan_list:
  "scanLabels input n lk om s = snd (scan_list lk om (candidate_pairs n input) s)"
  by (simp add: scanLabels_def scan_windows_scan_list scan_bare_scan_list candidate_pairs_def
      scan_list_append split: prod.splits)

section \<open>What a candidate is\<close>

lemma set_label_candidates:
  "c \<in> set (label_candidates n label) \<longleftrightarrow> n + minNonceLength \<le> length label
     \<and> (\<exists>pos \<le> length label - (n + minNonceLength).
           c = take n (drop pos label) \<and> isCIDBase32 c
           \<and> isAlphanumeric (drop n (take (n + minNonceLength) (drop pos label))))"
proof -
  have u: "set [0 ..< k + 1] = {..k}" for k by auto
  have t: "take n (take (n + minNonceLength) xs) = take n xs" for xs :: string by simp
  show ?thesis
    unfolding label_candidates_def
    by (simp only: set_map set_filter u t split: if_split)
       (auto intro!: rev_image_eqI [of "take (n + minNonceLength) (drop pos label)" for pos])
qed

lemma label_candidates_iff:
  "c \<in> set (label_candidates n label) \<longleftrightarrow>
     (\<exists>pre nonce post. label = pre @ c @ nonce @ post \<and> length c = n
        \<and> length nonce = minNonceLength \<and> isCIDBase32 c \<and> isAlphanumeric nonce)"
    (is "?lhs \<longleftrightarrow> ?rhs")
proof
  assume ?lhs
  then obtain pos where len: "n + minNonceLength \<le> length label"
    and pos: "pos \<le> length label - (n + minNonceLength)"
    and c: "c = take n (drop pos label)"
    and ok: "isCIDBase32 c" "isAlphanumeric (drop n (take (n + minNonceLength) (drop pos label)))"
    by (auto simp: set_label_candidates)
  let ?nonce = "take minNonceLength (drop (pos + n) label)"
  have "label = take pos label @ c @ ?nonce @ drop (pos + n + minNonceLength) label"
    unfolding c
    by (metis (no_types, lifting) append_assoc append_take_drop_id drop_drop take_add add.commute)
  moreover have "drop n (take (n + minNonceLength) (drop pos label)) = ?nonce"
    by (simp add: drop_take add.commute)
  ultimately show ?rhs
    using len pos ok c
    by (intro exI [of _ "take pos label"] exI [of _ ?nonce]
        exI [of _ "drop (pos + n + minNonceLength) label"]) auto
next
  assume ?rhs
  then obtain pre nonce post where l: "label = pre @ c @ nonce @ post" and n: "length c = n"
    and k: "length nonce = minNonceLength" and ok: "isCIDBase32 c" "isAlphanumeric nonce"
    by blast
  have "take (n + minNonceLength) (drop (length pre) label) = c @ nonce"
    using l n k by simp
  then have "drop n (take (n + minNonceLength) (drop (length pre) label)) = nonce"
    and "c = take n (drop (length pre) label)"
    using l n by simp_all
  moreover have "length pre \<le> length label - (n + minNonceLength)"
    and "n + minNonceLength \<le> length label"
    using l n k by auto
  ultimately show ?lhs
    using ok unfolding set_label_candidates by metis
qed

lemma bare_candidates_iff:
  "c \<in> set (bare_candidates n label) \<longleftrightarrow> label = c \<and> length c = n \<and> isCIDBase32 c"
  by (auto simp: bare_candidates_def)

lemma candidates_iff:
  "c \<in> set (candidates n input) \<longleftrightarrow>
     (\<exists>label \<in> set (split_on CHR ''.'' input).
        c \<in> set (label_candidates n label) \<or> c \<in> set (bare_candidates n label))"
  by (auto simp: candidates_def)

lemma candidates_sound:
  "c \<in> set (candidates n input) \<Longrightarrow> length c = n \<and> isCIDBase32 c"
  by (auto simp: candidates_iff label_candidates_iff bare_candidates_iff)

lemma candidates_Nil [simp]: "candidates n [] = []"
  by (simp add: candidates_def)

text \<open>The windows of one chunk that the single-pass matcher looks up.\<close>

definition valid_window :: "nat \<Rightarrow> string \<Rightarrow> bool" where
  "valid_window n w \<longleftrightarrow> isCIDBase32 (take n w) \<and> isAlphanumeric (drop n w)"

definition chunk_windows :: "nat \<Rightarrow> string \<Rightarrow> string list" where
  "chunk_windows n chunk =
     (if length chunk < n + minNonceLength then []
      else filter (valid_window n)
             (map (\<lambda>pos. take (n + minNonceLength) (drop pos chunk))
                [0 ..< length chunk - (n + minNonceLength) + 1]))"

definition everywhere_windows :: "nat \<Rightarrow> string \<Rightarrow> string list" where
  "everywhere_windows n input =
     concat (map (chunk_windows n) (fields_func scanEverywhereDelimiters input))"

definition full_ids_from :: "nat \<Rightarrow> string list \<Rightarrow> Match list \<Rightarrow> bool" where
  "full_ids_from n ws ms \<longleftrightarrow> (\<forall>m \<in> set ms. FullID m \<in> set ws \<and> take n (FullID m) = UniqueID m)"

text \<open>One pass over the windows: a live id that has no match yet gets one, with this window.\<close>

primrec first_windows :: "(string \<Rightarrow> bool) \<Rightarrow> nat \<Rightarrow> string list \<Rightarrow> Match list \<Rightarrow> Match list" where
  "first_windows L n [] ms = ms"
| "first_windows L n (w # ws) ms = first_windows L n ws
     (let c = take n w
      in if c \<notin> set (map UniqueID ms) \<and> L c then ms @ [\<lparr>UniqueID = c, FullID = w\<rparr>] else ms)"

lemma first_windows_append:
  "first_windows L n (vs @ ws) ms = first_windows L n ws (first_windows L n vs ms)"
  by (induction vs arbitrary: ms) simp_all

lemma first_windows_ids:
  "distinct (map UniqueID ms) \<Longrightarrow>
     map UniqueID (first_windows L n ws ms) = dedup (map UniqueID ms @ filter L (map (take n) ws))"
proof (induction ws arbitrary: ms)
  case Nil
  then show ?case by (simp add: dedup_distinct)
next
  case (Cons w ws)
  let ?c = "take n w"
  let ?ms = "if ?c \<notin> set (map UniqueID ms) \<and> L ?c then ms @ [\<lparr>UniqueID = ?c, FullID = w\<rparr>] else ms"
  have "distinct (map UniqueID ?ms)" using Cons.prems by auto
  from Cons.IH [OF this] show ?case by (auto simp: Let_def simp del: set_map)
qed

lemma first_windows_full:
  "m \<in> set (first_windows L n ws ms) \<Longrightarrow> m \<in> set ms
     \<or> (UniqueID m \<notin> set (map UniqueID ms) \<and> L (UniqueID m) \<and> find (\<lambda>w. take n w = UniqueID m) ws = Some (FullID m))"
proof (induction ws arbitrary: ms)
  case (Cons w ws)
  let ?c = "take n w"
  let ?ms = "if ?c \<notin> set (map UniqueID ms) \<and> L ?c then ms @ [\<lparr>UniqueID = ?c, FullID = w\<rparr>] else ms"
  from Cons.prems have "m \<in> set (first_windows L n ws ?ms)" by (simp add: Let_def)
  from Cons.IH [OF this] show ?case by (auto simp: image_iff split: if_splits)
qed simp

section \<open>The contract of the lookup callback\<close>

locale registry =
  fixes lookup :: "'s lookup" and live :: "'s \<Rightarrow> string \<Rightarrow> bool"
  assumes lookup_answer: "fst (lookup c s) = live s c"
    and lookup_keeps: "live (snd (lookup c s)) = live s"
begin

lemma lookup_cases:
  obtains s1 where "lookup c s = (live s c, s1)" "live s1 = live s"
  using lookup_answer [of c s] lookup_keeps [of c s] by (cases "lookup c s") auto

lemma scan_collect:
  assumes "distinct (map UniqueID ms)"
  shows "\<exists>ms' s'. scan_list (lift_lookup lookup) collect_match xs (ms, s) = (True, (ms', s'))
           \<and> live s' = live s
           \<and> map UniqueID ms' = dedup (map UniqueID ms @ filter (live s) (map fst xs))"
  using assms
proof (induction xs arbitrary: ms s)
  case Nil
  then show ?case by (simp add: dedup_distinct)
next
  case (Cons x xs)
  obtain c l where x: "x = (c, l)" by (cases x)
  obtain s1 where s1: "lookup c s = (live s c, s1)" "live s1 = live s" by (rule lookup_cases)
  show ?case
  proof (cases "live s c")
    case False
    with Cons.IH [OF Cons.prems, of s1] s1 show ?thesis by (simp add: x lift_lookup_def)
  next
    case live: True
    show ?thesis
    proof (cases "c \<in> set (map UniqueID ms)")
      case True
      then have "matchesContain ms c" by (auto simp: matchesContain_def)
      with True live Cons.IH [OF Cons.prems, of s1] s1 show ?thesis
        by (simp add: x lift_lookup_def collect_match_def)
    next
      case False
      let ?ms = "ms @ [\<lparr>UniqueID = c, FullID = []\<rparr>]"
      from False Cons.prems have "distinct (map UniqueID ?ms)" by simp
      moreover from False have "\<not> matchesContain ms c" by (auto simp: matchesContain_def)
      ultimately show ?thesis
        using live s1 Cons.IH [of ?ms s1] by (simp add: x lift_lookup_def collect_match_def)
    qed
  qed
qed

lemma MatchCorrelationID_ids:
  "\<exists>ms s'. MatchCorrelationID input n domains lookup s = (ms, s') \<and> live s' = live s
     \<and> map UniqueID ms = dedup (filter (live s) (candidates n (to_lower input)))
     \<and> (\<forall>m \<in> set ms. FullID m = extractFullID (to_lower input) domains)"
proof -
  obtain ms s' where
    "scan_list (lift_lookup lookup) collect_match (candidate_pairs n (to_lower input)) ([], s)
       = (True, (ms, s'))" "live s' = live s"
    "map UniqueID ms = dedup (filter (live s) (candidates n (to_lower input)))"
    using scan_collect [of "[]" "candidate_pairs n (to_lower input)" s]
    by (auto simp: map_fst_candidate_pairs)
  then show ?thesis
    by (auto simp: MatchCorrelationID_def Let_def scanLabels_scan_list set_full_id_def o_def)
qed

lemma scan_ldap:
  assumes "distinct (map UniqueID (ms @ pm))"
  shows "\<exists>pm' s'. scan_list (ldap_lookup ms lookup) ldap_on_match xs (pm, s) = (True, (pm', s'))
           \<and> live s' = live s
           \<and> map UniqueID (ms @ pm') = dedup (map UniqueID (ms @ pm) @ filter (live s) (map fst xs))"
  using assms
proof (induction xs arbitrary: pm s)
  case Nil
  then show ?case by (simp add: dedup_distinct)
next
  case (Cons x xs)
  obtain c l where x: "x = (c, l)" by (cases x)
  obtain s1 where s1: "lookup c s = (live s c, s1)" "live s1 = live s" by (rule lookup_cases)
  show ?case
  proof (cases "c \<in> set (map UniqueID (ms @ pm))")
    case True
    then have "ldap_lookup ms lookup c (pm, s) = (False, (pm, s))"
      by (auto simp: ldap_lookup_def matchesContain_def)
    with True Cons.IH [OF Cons.prems, of s] show ?thesis
      by (simp add: x del: map_append)
  next
    case False
    then have lk: "ldap_lookup ms lookup c (pm, s) = (live s c, (pm, s1))"
      by (auto simp: ldap_lookup_def matchesContain_def s1)
    show ?thesis
    proof (cases "live s c")
      case True
      let ?pm = "pm @ [\<lparr>UniqueID = c, FullID = []\<rparr>]"
      from False Cons.prems have "distinct (map UniqueID (ms @ ?pm))" by auto
      from Cons.IH [OF this, of s1] True lk s1 show ?thesis by (simp add: x ldap_on_match_def)
    next
      case False
      with Cons.IH [OF Cons.prems, of s1] lk s1 show ?thesis by (simp add: x)
    qed
  qed
qed

lemma ldap_parts_ids:
  assumes "distinct (map UniqueID ms)"
  shows "\<exists>ms' s'. ldap_parts n domains lookup ps ms s = (ms', s') \<and> live s' = live s
     \<and> map UniqueID ms' = dedup (map UniqueID ms
          @ filter (live s) (concat (map (\<lambda>p. candidates n (to_lower (trim_space p))) ps)))"
  using assms
proof (induction ps arbitrary: ms s)
  case Nil
  then show ?case by (simp add: dedup_distinct)
next
  case (Cons p ps)
  let ?part = "to_lower (trim_space p)"
  show ?case
  proof (cases "?part = []")
    case True
    with Cons.IH [OF Cons.prems, of s] show ?thesis by simp
  next
    case False
    obtain pm s1 where
      run: "scan_list (ldap_lookup ms lookup) ldap_on_match (candidate_pairs n ?part) ([], s)
              = (True, (pm, s1))" and s1: "live s1 = live s"
      and pm: "map UniqueID (ms @ pm)
            = dedup (map UniqueID ms @ filter (live s) (candidates n ?part))"
      using scan_ldap [of ms "[]" "candidate_pairs n ?part" s] Cons.prems
      by (auto simp: map_fst_candidate_pairs)
    let ?ms = "ms @ set_full_id (extractFullID ?part domains) pm"
    have ids: "map UniqueID ?ms = map UniqueID (ms @ pm)"
      by (simp add: set_full_id_def o_def)
    then have "distinct (map UniqueID ?ms)" using pm by (metis distinct_dedup)
    from Cons.IH [OF this, of s1] obtain ms' s' where
      "ldap_parts n domains lookup ps ?ms s1 = (ms', s')" "live s' = live s"
      and m: "map UniqueID ms' = dedup (map UniqueID (ms @ pm)
          @ filter (live s) (concat (map (\<lambda>p. candidates n (to_lower (trim_space p))) ps)))"
      by (auto simp: s1 ids simp del: map_append)
    moreover have "map UniqueID ms' = dedup (map UniqueID ms @ filter (live s)
        (candidates n ?part @ concat (map (\<lambda>p. candidates n (to_lower (trim_space p))) ps)))"
      unfolding m pm by simp
    ultimately show ?thesis
      using False by (simp add: scanLabels_scan_list run)
  qed
qed

lemma MatchLDAP_ids:
  "\<exists>ms s'. MatchLDAPCorrelationID baseDN n domains lookup s = (ms, s') \<and> live s' = live s
     \<and> map UniqueID ms = dedup (filter (live s)
          (concat (map (\<lambda>p. candidates n (to_lower (trim_space p)))
             (fields_func (\<lambda>r. r = CHR ''='' \<or> r = CHR '','') baseDN))))"
  using ldap_parts_ids [of "[]" n domains _ s] by (simp add: MatchLDAPCorrelationID_def)

text \<open>
  The single-pass matcher keeps the ids already matched in a set; the set is always the ids of
  the matches, so a repeated id is skipped, and a match has the first window that starts with its id.
\<close>

lemma scan_everywhere_first:
  fixes n :: nat and chunk :: string
  defines "W \<equiv> \<lambda>ps. filter (valid_window n)
                (map (\<lambda>pos. take (n + minNonceLength) (drop pos chunk)) ps)"
  shows "\<exists>s'. scan_everywhere n lookup chunk ps ms (set (map UniqueID ms)) s
       = (first_windows (live s) n (W ps) ms, set (map UniqueID (first_windows (live s) n (W ps) ms)), s')
       \<and> live s' = live s"
proof (induction ps arbitrary: ms s)
  case Nil
  then show ?case by (simp add: W_def)
next
  case (Cons p ps)
  define w where "w = take (n + minNonceLength) (drop p chunk)"
  define c where "c = take n w"
  obtain s1 where s1: "lookup c s = (live s c, s1)" "live s1 = live s" by (rule lookup_cases)
  show ?case
  proof (cases "valid_window n w")
    case False
    then have "W (p # ps) = W ps" by (simp add: W_def w_def)
    moreover from False have "scan_everywhere n lookup chunk (p # ps) ms seen s
        = scan_everywhere n lookup chunk ps ms seen s" for seen
      unfolding scan_everywhere.simps Let_def w_def [symmetric] by (simp add: valid_window_def)
    ultimately show ?thesis using Cons.IH [of ms s] by simp
  next
    case valid: True
    then have W: "W (p # ps) = w # W ps" by (simp add: W_def w_def)
    have step: "scan_everywhere n lookup chunk (p # ps) ms seen s =
        (if c \<in> seen then scan_everywhere n lookup chunk ps ms seen s
         else if live s c
           then scan_everywhere n lookup chunk ps (ms @ [\<lparr>UniqueID = c, FullID = w\<rparr>])
                  (insert c seen) s1
           else scan_everywhere n lookup chunk ps ms seen s1)" for seen
      unfolding scan_everywhere.simps Let_def w_def [symmetric] c_def [symmetric]
      using valid by (simp add: valid_window_def c_def [symmetric] s1)
    let ?ms = "ms @ [\<lparr>UniqueID = c, FullID = w\<rparr>]"
    have "insert c (set (map UniqueID ms)) = set (map UniqueID ?ms)" by simp
    then show ?thesis
      using Cons.IH [of ms s] Cons.IH [of ms s1] Cons.IH [of ?ms s1] s1(2)
      unfolding step W first_windows.simps Let_def c_def [symmetric]
      by (simp add: image_iff del: set_map)
  qed
qed

lemma scan_chunks_first:
  "\<exists>s'. scan_chunks n lookup chunks ms (set (map UniqueID ms)) s
       = (first_windows (live s) n (concat (map (chunk_windows n) chunks)) ms,
          set (map UniqueID (first_windows (live s) n (concat (map (chunk_windows n) chunks)) ms)), s')
     \<and> live s' = live s"
proof (induction chunks arbitrary: ms s)
  case (Cons chunk chunks)
  show ?case
  proof (cases "length chunk < n + minNonceLength")
    case True
    with Cons.IH [of ms s] show ?thesis by (simp add: chunk_windows_def)
  next
    case False
    let ?ps = "[0 ..< length chunk - (n + minNonceLength) + 1]"
    let ?ms = "first_windows (live s) n (chunk_windows n chunk) ms"
    have cw: "filter (valid_window n) (map (\<lambda>pos. take (n + minNonceLength) (drop pos chunk)) ?ps)
        = chunk_windows n chunk"
      using False unfolding chunk_windows_def by (simp only: if_False)
    obtain s1 where run:
      "scan_everywhere n lookup chunk ?ps ms (set (map UniqueID ms)) s = (?ms, set (map UniqueID ?ms), s1)"
      "live s1 = live s"
      using scan_everywhere_first [of n chunk ?ps ms s] unfolding cw by blast
    obtain s2 where
      "scan_chunks n lookup chunks ?ms (set (map UniqueID ?ms)) s1
         = (first_windows (live s) n (concat (map (chunk_windows n) chunks)) ?ms,
            set (map UniqueID (first_windows (live s) n (concat (map (chunk_windows n) chunks)) ?ms)), s2)"
      "live s2 = live s"
      using Cons.IH [of ?ms s1] run(2) by auto
    with False run(1) show ?thesis
      by (simp only: scan_chunks.simps if_False prod.case list.map concat.simps first_windows_append) simp
  qed
qed simp

lemma MatchCorrelationIDEverywhere_first:
  "\<exists>ms s'. MatchCorrelationIDEverywhere input n lookup s = (ms, s') \<and> live s' = live s
     \<and> map UniqueID ms = dedup (filter (live s) (map (take n) (everywhere_windows n (to_lower input))))
     \<and> (\<forall>m \<in> set ms. find (\<lambda>w. take n w = UniqueID m) (everywhere_windows n (to_lower input)) = Some (FullID m))"
proof -
  let ?W = "everywhere_windows n (to_lower input)"
  obtain s' where "MatchCorrelationIDEverywhere input n lookup s = (first_windows (live s) n ?W [], s')" "live s' = live s"
    using scan_chunks_first [of n "fields_func scanEverywhereDelimiters (to_lower input)" "[]" s]
    by (auto simp: MatchCorrelationIDEverywhere_def everywhere_windows_def)
  moreover have "map UniqueID (first_windows (live s) n ?W []) = dedup (filter (live s) (map (take n) ?W))"
    using first_windows_ids [of "[]"] by simp
  ultimately show ?thesis using first_windows_full [of _ "live s" n ?W "[]"] by auto
qed

lemma MatchCorrelationIDEverywhere_ids:
  "\<exists>ms s'. MatchCorrelationIDEverywhere input n lookup s = (ms, s') \<and> live s' = live s
     \<and> map UniqueID ms = dedup (filter (live s) (map (take n) (everywhere_windows n (to_lower input))))
     \<and> full_ids_from n (everywhere_windows n (to_lower input)) ms"
proof -
  obtain ms s' where ms: "MatchCorrelationIDEverywhere input n lookup s = (ms, s')" "live s' = live s"
    "map UniqueID ms = dedup (filter (live s) (map (take n) (everywhere_windows n (to_lower input))))"
    "\<forall>m \<in> set ms. find (\<lambda>w. take n w = UniqueID m) (everywhere_windows n (to_lower input)) = Some (FullID m)"
    using MatchCorrelationIDEverywhere_first by blast
  from ms(4) have "full_ids_from n (everywhere_windows n (to_lower input)) ms"
    by (auto simp: full_ids_from_def find_Some_iff)
  with ms(1-3) show ?thesis by blast
qed

end

end
