(* ===== verification/Memory_View.thy ===== *)
theory Memory_View
  imports Memory_Invariant Correlation
begin

text \<open>
  What the in-memory storage promises, stated on an abstract view: at an instant the storage is a
  finite map from correlation-ids to accounts (secret, AES key, response, pending queue).  The
  contract of the storage is the locale \<open>storage_contract\<close>; its interpretation here discharges it
  for the in-memory backend.  The theory also interprets the matcher's \<open>registry\<close> interface on
  \<open>HasCorrelationID\<close>.
\<close>

section \<open>The abstract view\<close>

record account =
  acc_secret :: bytes
  acc_key :: bytes
  acc_public :: rsa_public_key
  acc_response :: "ResponseConfig option"
  acc_pending :: "bytes list"

definition account_of :: "Session \<Rightarrow> account" where
  "account_of s = \<lparr>acc_secret = SecretKey s, acc_key = AESKey s, acc_public = PublicKey s, acc_response = Response s,
     acc_pending = interactions s\<rparr>"

definition live_session :: "int \<Rightarrow> 'd memoryStorage \<Rightarrow> string \<Rightarrow> bool" where
  "live_session now m cid = (case find_session m cid of
      Some (a, s) \<Rightarrow> \<not> isExpired now m s | None \<Rightarrow> False)"

definition view :: "int \<Rightarrow> 'd memoryStorage \<Rightarrow> string \<Rightarrow> account option" where
  "view now m cid = (case find_session m cid of
      Some (a, s) \<Rightarrow> if isExpired now m s then None else Some (account_of s)
    | None \<Rightarrow> None)"

definition encrypt_for :: "block_cipher \<Rightarrow> account \<Rightarrow> bytes \<Rightarrow> bytes \<Rightarrow> bytes" where
  "encrypt_for aes acc iv x = iv @ ctr_xor (aes (acc_key acc)) iv x"

lemma account_of_simps [simp]:
  "acc_secret (account_of s) = SecretKey s" "acc_key (account_of s) = AESKey s"
  "acc_response (account_of s) = Response s" "acc_public (account_of s) = PublicKey s" "acc_pending (account_of s) = interactions s"
  "account_of (s\<lparr>lastAccess := t\<rparr>) = account_of s"
  "account_of (s\<lparr>interactions := q\<rparr>) = (account_of s)\<lparr>acc_pending := q\<rparr>"
  by (simp_all add: account_of_def)

lemma find_session_simps [simp]:
  "find_session (hit m) c = find_session m c" "find_session (miss m) c = find_session m c"
  "find_session (evicted m) c = find_session m c"
  "find_session (promoteLRU cid m) c = find_session m c"
  "find_session (removeLocked cid m) c = (if c = cid then None else find_session m c)"
  by (simp_all add: find_session_def split: option.split)

lemma live_session_view: "live_session now m cid \<longleftrightarrow> view now m cid \<noteq> None"
  by (auto simp: live_session_def view_def split: option.splits)

lemma view_Some:
  "view now m cid = Some acc \<longleftrightarrow>
     (\<exists>a s. find_session m cid = Some (a, s) \<and> \<not> isExpired now m s \<and> acc = account_of s)"
  by (auto simp: view_def split: option.splits)

lemma view_cong:
  "\<lbrakk>sessions m' = sessions m; heap m' = heap m; noEviction m' = noEviction m;
    slidingTTL m' = slidingTTL m; ttl m' = ttl m\<rbrakk> \<Longrightarrow> view now m' = view now m"
  by (auto simp: view_def find_session_def isExpired_def fun_eq_iff split: option.split)

lemma view_simps [simp]:
  "view now (hit m) = view now m" "view now (miss m) = view now m" "view now (evicted m) = view now m"
  "view now (promoteLRU cid m) = view now m"
  by (rule view_cong; simp)+

lemma view_removeLocked [simp]: "view now (removeLocked cid m) = (view now m)(cid := None)"
  by (auto simp: view_def find_session_def fun_eq_iff split: option.split)

text \<open>Time only takes sessions away.\<close>

lemma isExpired_mono: "isExpired now m s \<Longrightarrow> now \<le> now' \<Longrightarrow> isExpired now' m s"
  by (auto simp: isExpired_def time_sub_def split: if_splits)

lemma view_later: "now \<le> now' \<Longrightarrow> view now' m \<subseteq>\<^sub>m view now m"
  by (force simp: map_le_def view_def split: option.splits if_splits dest: isExpired_mono)

text \<open>Touching a session at an instant keeps the view of that instant where the TTL is sane.\<close>

lemma not_expired_touched:
  "0 \<le> ttl m \<Longrightarrow> clock_ok now \<Longrightarrow> slidingTTL m \<Longrightarrow> \<not> isExpired now m (s\<lparr>lastAccess := wrap64 now\<rparr>)"
  by (simp add: isExpired_def clock_wrap)

lemma find_session_update:
  assumes "ptr_ok m" "find_session m cid = Some (a, s)"
  shows "find_session (update_session a f m) c =
     (if c = cid then Some (a, f s) else find_session m c)"
proof -
  from assms have "sessions m cid = Some a" "heap m a = Some s" by (simp_all add: find_session_Some)
  moreover have "sessions m c \<noteq> Some a" if "c \<noteq> cid"
    using that assms by (metis domI find_session_Some inj_onD ptr_ok_def)
  ultimately show ?thesis
    by (cases "c = cid"; cases "sessions m c") (simp_all add: find_session_def)
qed

lemma view_update:
  assumes "ptr_ok m" "find_session m cid = Some (a, s)"
  shows "view now (update_session a f m) =
     (view now m)(cid := if isExpired now m (f s) then None else Some (account_of (f s)))"
  using find_session_update [OF assms] by (auto simp: view_def fun_eq_iff split: option.split)

lemma view_touch:
  assumes "ptr_ok m" "find_session m cid = Some (a, s)" "\<not> isExpired now m s"
    and "clock_ok now" "0 \<le> ttl m"
  shows "view now (touch_if_sliding now a m) = view now m"
proof (cases "slidingTTL m")
  case True
  moreover from assms have "view now m cid = Some (account_of s)" by (auto simp: view_Some)
  ultimately show ?thesis using assms
    by (auto simp: touch_if_sliding_def touchSession_def view_update not_expired_touched)
qed (simp add: touch_if_sliding_def)

lemma find_touch:
  assumes "ptr_ok m" "find_session m cid = Some (a, s)"
  shows "\<exists>t. find_session (touch_if_sliding now a m) cid = Some (a, s\<lparr>lastAccess := t\<rparr>)
     \<and> (\<not> isExpired now m s \<longrightarrow> clock_ok now \<longrightarrow> 0 \<le> ttl m
          \<longrightarrow> \<not> isExpired now (touch_if_sliding now a m) (s\<lparr>lastAccess := t\<rparr>))"
proof (cases "slidingTTL m")
  case True
  then show ?thesis
    using find_session_update [OF assms, of "\<lambda>s. s\<lparr>lastAccess := wrap64 now\<rparr>" cid]
    by (auto simp: touch_if_sliding_def touchSession_def not_expired_touched)
next
  case False
  have "s = s\<lparr>lastAccess := lastAccess s\<rparr>" by simp
  with False assms show ?thesis by (metis touch_if_sliding_def)
qed

section \<open>The matcher's interface\<close>

interpretation memory_registry: registry "HasCorrelationID now" "live_session now" for now
proof
  fix c and s :: "'a memoryStorage"
  show "fst (HasCorrelationID now c s) = live_session now s c"
    by (auto simp: HasCorrelationID_def has_read_def has_locked_def live_session_def split: option.split)
  show "live_session now (snd (HasCorrelationID now c s)) = live_session now s"
    by (auto simp: HasCorrelationID_def has_read_def has_locked_def live_session_view fun_eq_iff
          view_def split: option.split)
qed

section \<open>Operations on the view\<close>

text \<open>Look up, then drain: what a poll does with the storage.\<close>

definition poll_session ::
  "int \<Rightarrow> string \<Rightarrow> string \<Rightarrow> 'd memoryStorage \<Rightarrow> bytes list result \<times> 'd memoryStorage" where
  "poll_session now cid secretKey m = (case getSession now cid secretKey m of
      (Inl err, m1) \<Rightarrow> (Inl err, m1)
    | (Inr a, m1) \<Rightarrow> GetAndClearInteractions a m1)"

lemma getSession_live:
  assumes "find_session m cid = Some (a, s)" "\<not> isExpired now m s"
  shows "getSession now cid sk m =
     (if SecretKey s \<noteq> go_bytes sk then (Inl ''invalid secret key passed for user'', m)
      else (Inr a, promoteLRU cid (touch_if_sliding now a (hit m))))"
  using assms by (simp add: getSession_def getSession_read_def getSession_touch_def)

lemma getSession_not_live:
  assumes "view now m cid = None"
  shows "fst (getSession now cid sk m) = Inl ''could not get correlation-id''"
    "view now (snd (getSession now cid sk m)) = view now m"
    "find_session (snd (getSession now cid sk m)) cid = None"
  using assms
  by (auto simp: getSession_def getSession_read_def getSession_locked_def view_def fun_eq_iff
        split: option.split)

lemma getSession_Inr:
  assumes "getSession now cid sk m = (Inr a, m')"
  obtains s where "find_session m cid = Some (a, s)" "\<not> isExpired now m s" "SecretKey s = go_bytes sk"
    "m' = promoteLRU cid (touch_if_sliding now a (hit m))"
proof (cases "view now m cid")
  case None
  with assms getSession_not_live(1) [OF None, of sk] show ?thesis by simp
next
  case (Some acc)
  then obtain b s where "find_session m cid = Some (b, s)" "\<not> isExpired now m s"
    by (auto simp: view_Some)
  with assms that show ?thesis by (auto simp: getSession_live split: if_splits)
qed

lemma view_drain:
  assumes "ptr_ok m" "find_session m cid = Some (a, s)" "\<not> isExpired now m s"
  shows "GetAndClearInteractions a m = (Inr (interactions s), snd (GetAndClearInteractions a m))"
    "view now (snd (GetAndClearInteractions a m)) =
       (view now m)(cid \<mapsto> (account_of s)\<lparr>acc_pending := []\<rparr>)"
  using assms view_update [OF assms(1,2), of now "\<lambda>s. s\<lparr>interactions := []\<rparr>"]
  by (auto simp: GetAndClearInteractions_def find_session_Some isExpired_def)

text \<open>The state after a successful lookup: same sessions, one of them touched.\<close>

lemma looked_up:
  assumes m: "mem_ok aes m" and now: "clock_ok now" and ttl: "0 \<le> ttl m"
    and f: "find_session m cid = Some (a, s)" and live: "\<not> isExpired now m s"
  defines "m' \<equiv> promoteLRU cid (touch_if_sliding now a (hit m))"
  obtains s' where "mem_ok aes m'" "find_session m' cid = Some (a, s')" "\<not> isExpired now m' s'"
    "account_of s' = account_of s" "view now m' = view now m" "0 \<le> ttl m'"
proof -
  have p: "ptr_ok (hit m)" using m by (simp add: mem_ok_def ptr_ok_def)
  from f have f': "find_session (hit m) cid = Some (a, s)" by simp
  obtain t where "find_session (touch_if_sliding now a (hit m)) cid = Some (a, s\<lparr>lastAccess := t\<rparr>)"
    "\<not> isExpired now (touch_if_sliding now a (hit m)) (s\<lparr>lastAccess := t\<rparr>)"
    using find_touch [OF p f', of now] live now ttl by auto
  moreover have "view now m' = view now m"
    unfolding m'_def using view_touch [OF p f' _ now] live ttl by simp
  moreover have "mem_ok aes m'"
    unfolding m'_def using m now by (simp add: mem_ok_promoteLRU mem_ok_touch_if_sliding)
  moreover have "0 \<le> ttl m'" using ttl by (simp add: m'_def touch_if_sliding_def touchSession_def)
  ultimately show ?thesis using that [of "s\<lparr>lastAccess := t\<rparr>"] by (simp add: m'_def)
qed

lemma poll_session_ok:
  assumes m: "mem_ok aes m" and now: "clock_ok now" and ttl: "0 \<le> ttl m"
    and v: "view now m cid = Some acc" and sk: "acc_secret acc = go_bytes sk"
  obtains m' where "poll_session now cid sk m = (Inr (acc_pending acc), m')"
    "view now m' = (view now m)(cid \<mapsto> acc\<lparr>acc_pending := []\<rparr>)" "mem_ok aes m'" "0 \<le> ttl m'"
proof -
  from v obtain a s where f: "find_session m cid = Some (a, s)" "\<not> isExpired now m s"
    and acc: "acc = account_of s" by (auto simp: view_Some)
  obtain s' m1 where m1: "m1 = promoteLRU cid (touch_if_sliding now a (hit m))" "mem_ok aes m1"
    "find_session m1 cid = Some (a, s')" "\<not> isExpired now m1 s'"
    "account_of s' = account_of s" "view now m1 = view now m" "0 \<le> ttl m1"
    using looked_up [OF m now ttl f] by blast
  have "getSession now cid sk m = (Inr a, m1)"
    using getSession_live [OF f, of sk] sk acc m1(1) by simp
  moreover have "ptr_ok m1" using m1(2) by (simp add: mem_ok_def)
  note d = view_drain [OF this m1(3,4)]
  moreover from m1(5) have "interactions s' = interactions s" by (simp add: account_of_def)
  ultimately show ?thesis
    using that [of "snd (GetAndClearInteractions a m1)"] m1 acc mem_ok_drain [OF m1(2), of a]
    by (simp add: poll_session_def) (simp add: GetAndClearInteractions_def)
qed

lemma append_enc_view:
  assumes m: "mem_ok aes m" and now: "clock_ok now" and ttl: "0 \<le> ttl m"
    and v: "view now m cid = Some acc"
  shows "view now (AppendInteraction now (Inr iv) cid x m) =
     (view now m)(cid \<mapsto> acc\<lparr>acc_pending := acc_pending acc @ [encrypt_for aes acc iv x]\<rparr>)"
proof -
  from v obtain a s where f: "find_session m cid = Some (a, s)" "\<not> isExpired now m s"
    and acc: "acc = account_of s" by (auto simp: view_Some)
  define m1 where "m1 = touch_if_sliding now a (hit m)"
  have p: "ptr_ok (hit m)" using m by (simp add: mem_ok_def ptr_ok_def)
  obtain t where t: "find_session m1 cid = Some (a, s\<lparr>lastAccess := t\<rparr>)"
      "\<not> isExpired now m1 (s\<lparr>lastAccess := t\<rparr>)"
    using find_touch [OF p, of cid a s now] f now ttl unfolding m1_def by auto
  have w: "view now m1 = view now m"
    unfolding m1_def using view_touch [OF p _ _ now] f ttl by simp
  have m1: "mem_ok aes m1" unfolding m1_def using m now by (simp add: mem_ok_touch_if_sliding)
  then have ok: "session_ok aes (s\<lparr>lastAccess := t\<rparr>)" and "ptr_ok m1"
    using t by (auto simp: mem_ok_def find_session_Some)
  have "heap m1 a = Some (s\<lparr>lastAccess := t\<rparr>)" using t(1) by (simp add: find_session_Some)
  then have "append_encrypt now (Inr iv) x a (hit m) = (Some (encrypt_for aes acc iv x), m1)"
    using ok acc
    by (simp add: append_encrypt_def Let_def EncryptInteractionBlock_def session_ok_def
        encrypt_for_def flip: m1_def)
  then have "AppendInteraction now (Inr iv) cid x m
      = append_store a (encrypt_for aes acc iv x) m1"
    using f(1) by (simp add: AppendInteraction_def append_lookup_def)
  moreover have "\<not> isExpired now m1 (s\<lparr>lastAccess := t, interactions := q\<rparr>)" for q
    using t(2) by (simp add: isExpired_def split: if_splits)
  ultimately show ?thesis
    using view_update [OF \<open>ptr_ok m1\<close> t(1)] w acc by (simp add: append_store_def fun_upd_def fun_eq_iff)
qed

lemma append_view_other:
  assumes m: "mem_ok aes m" and c: "c \<noteq> cid"
  shows "view now (AppendInteraction now rand cid x m) c = view now m c"
proof (cases "find_session m cid")
  case None
  then show ?thesis by (simp add: AppendInteraction_def append_lookup_def)
next
  case (Some as)
  obtain a s where f: "find_session m cid = Some (a, s)" using Some by (cases as) simp
  have upd: "view now (update_session a f (m1 :: 'a memoryStorage)) c = view now m1 c"
    if "ptr_ok m1" "\<exists>s1. find_session m1 cid = Some (a, s1)" for f m1
    using that view_update c by fastforce
  have p: "ptr_ok (hit m)" using m by (simp add: mem_ok_def ptr_ok_def)
  have m1: "ptr_ok (touch_if_sliding now a (hit m))"
    using p by (simp add: touch_if_sliding_def touchSession_def)
  obtain s1 where s1: "find_session (touch_if_sliding now a (hit m)) cid = Some (a, s1)"
    using find_touch [OF p, of cid a s now] f by auto
  have v1: "view now (touch_if_sliding now a (hit m)) c = view now m c"
    using upd [OF p, of "\<lambda>s. s\<lparr>lastAccess := wrap64 now\<rparr>"] f
    by (simp add: touch_if_sliding_def touchSession_def)
  then show ?thesis
    using f s1 upd [OF m1]
    by (auto simp: AppendInteraction_def append_lookup_def append_encrypt_def Let_def append_store_def
          split: option.split sum.split)
qed

section \<open>The storage contract\<close>

text \<open>
  One consumer's account as appends and polls see it.  The laws are about one instant; the client's
  lemma covers every sequence of appends and polls, of any ids and with any secrets.
\<close>

datatype traffic = Capture "bytes result" string bytes | Poll string string

text \<open>The successful polls of one id, in order, and what was captured for it.\<close>

fun deliveries :: "(bytes result \<Rightarrow> string \<Rightarrow> bytes \<Rightarrow> 's \<Rightarrow> 's)
     \<Rightarrow> (string \<Rightarrow> string \<Rightarrow> 's \<Rightarrow> bytes list result \<times> 's)
     \<Rightarrow> string \<Rightarrow> traffic list \<Rightarrow> 's \<Rightarrow> bytes list list \<times> 's" where
  "deliveries app poll c [] s = ([], s)"
| "deliveries app poll c (Capture r c' x # es) s = deliveries app poll c es (app r c' x s)"
| "deliveries app poll c (Poll c' sk # es) s = (case poll c' sk s of (r, s1) \<Rightarrow>
     (case deliveries app poll c es s1 of (ds, s2) \<Rightarrow>
        (case r of Inr d \<Rightarrow> if c' = c then (d # ds, s2) else (ds, s2) | Inl _ \<Rightarrow> (ds, s2))))"

fun captured :: "(account \<Rightarrow> bytes \<Rightarrow> bytes \<Rightarrow> bytes) \<Rightarrow> string \<Rightarrow> account \<Rightarrow> traffic list \<Rightarrow> bytes list" where
  "captured enc c acc [] = []"
| "captured enc c acc (Capture (Inr iv) c' x # es) =
     (if c' = c then [enc acc iv x] else []) @ captured enc c acc es"
| "captured enc c acc (_ # es) = captured enc c acc es"

fun traffic_fits :: "(bytes result \<Rightarrow> bytes \<Rightarrow> bool) \<Rightarrow> traffic \<Rightarrow> bool" where
  "traffic_fits fits (Capture r c x) = fits r x"
| "traffic_fits fits (Poll c sk) = True"

locale storage_contract =
  fixes good :: "'s \<Rightarrow> bool" and acct :: "'s \<Rightarrow> string \<Rightarrow> account option"
    and app :: "bytes result \<Rightarrow> string \<Rightarrow> bytes \<Rightarrow> 's \<Rightarrow> 's"
    and poll :: "string \<Rightarrow> string \<Rightarrow> 's \<Rightarrow> bytes list result \<times> 's"
    and enc :: "account \<Rightarrow> bytes \<Rightarrow> bytes \<Rightarrow> bytes"
    and fits :: "bytes result \<Rightarrow> bytes \<Rightarrow> bool"
  assumes append_good: "good s \<Longrightarrow> fits r x \<Longrightarrow> good (app r c x s)"
    and append_acct: "good s \<Longrightarrow> fits (Inr iv) x \<Longrightarrow> acct s c = Some acc \<Longrightarrow> acct (app (Inr iv) c x s) c
          = Some (acc\<lparr>acc_pending := acc_pending acc @ [enc acc iv x]\<rparr>)"
    and append_fails: "good s \<Longrightarrow> acct s c = Some acc \<Longrightarrow> acct (app (Inl err) c x s) c = Some acc"
    and append_other: "good s \<Longrightarrow> c' \<noteq> c \<Longrightarrow> acct (app r c x s) c' = acct s c'"
    and poll_good: "good s \<Longrightarrow> good (snd (poll c sk s))"
    and poll_acct: "good s \<Longrightarrow> acct s c = Some acc \<Longrightarrow> acc_secret acc = go_bytes sk \<Longrightarrow>
          fst (poll c sk s) = Inr (acc_pending acc)
          \<and> acct (snd (poll c sk s)) c = Some (acc\<lparr>acc_pending := []\<rparr>)"
    and poll_denied: "good s \<Longrightarrow> acct s c = Some acc \<Longrightarrow> acc_secret acc \<noteq> go_bytes sk \<Longrightarrow>
          fst (poll c sk s) = Inl ''invalid secret key passed for user''
          \<and> acct (snd (poll c sk s)) c = Some acc"
    and poll_absent: "good s \<Longrightarrow> acct s c = None \<Longrightarrow>
          fst (poll c sk s) = Inl ''could not get correlation-id'' \<and> acct (snd (poll c sk s)) c = None"
    and poll_other: "good s \<Longrightarrow> c' \<noteq> c \<Longrightarrow> acct (snd (poll c sk s)) c' = acct s c'"
    and enc_pending: "enc (acc\<lparr>acc_pending := q\<rparr>) = enc acc"
begin

lemma captured_pending [simp]: "captured enc c (acc\<lparr>acc_pending := q\<rparr>) es = captured enc c acc es"
proof (induction es)
  case (Cons e es)
  show ?case
  proof (cases e)
    case (Capture r c' x)
    with Cons show ?thesis by (cases r) (simp_all add: enc_pending)
  qed (use Cons in simp)
qed simp

lemma exactly_once:
  assumes "good s" and "acct s c = Some acc" and "list_all (traffic_fits fits) es"
  shows "\<exists>acc'. acct (snd (deliveries app poll c es s)) c = Some acc'
     \<and> concat (fst (deliveries app poll c es s)) @ acc_pending acc' = acc_pending acc @ captured enc c acc es"
  using assms
proof (induction es arbitrary: s acc)
  case Nil
  then show ?case by simp
next
  case (Cons e es)
  show ?case
  proof (cases e)
    case (Capture r c' x)
    define s1 where "s1 = app r c' x s"
    obtain acc1 where a: "acct s1 c = Some acc1"
      "acc_pending acc1 @ captured enc c acc1 es = acc_pending acc @ captured enc c acc (e # es)"
    proof (cases "c' = c")
      case False
      with Cons.prems append_other [of s c c' r x] Capture that show ?thesis
        by (cases r) (simp_all add: s1_def)
    next
      case True
      with Cons.prems append_acct append_fails Capture that show ?thesis
        by (cases r) (simp_all add: s1_def)
    qed
    have "good s1" using Cons.prems Capture by (simp add: s1_def append_good)
    from Cons.IH [OF this a(1)] a(2) Capture Cons.prems(3) show ?thesis by (simp add: s1_def)
  next
    case (Poll c' sk)
    obtain r s1 where p: "poll c' sk s = (r, s1)" by (cases "poll c' sk s")
    obtain ds s2 where d: "deliveries app poll c es s1 = (ds, s2)" by (cases "deliveries app poll c es s1")
    have "good s1" using poll_good [OF Cons.prems(1), of c' sk] p by simp
    have "list_all (traffic_fits fits) es" using Cons.prems(3) by simp
    note IH = Cons.IH [OF \<open>good s1\<close> _ this]
    show ?thesis
    proof (cases "c' = c")
      case False
      then have "acct s1 c = Some acc" using poll_other [OF Cons.prems(1), of c c' sk] p Cons.prems by simp
      from IH [OF this] False Poll p d show ?thesis by (auto split: sum.split)
    next
      case True
      show ?thesis
      proof (cases "acc_secret acc = go_bytes sk")
        case True
        then have "r = Inr (acc_pending acc)" "acct s1 c = Some (acc\<lparr>acc_pending := []\<rparr>)"
          using poll_acct [OF Cons.prems(1,2), of sk] p \<open>c' = c\<close> by auto
        with IH [OF this(2)] Poll p d \<open>c' = c\<close> show ?thesis by auto
      next
        case False
        then obtain err where "r = Inl err" "acct s1 c = Some acc"
          using poll_denied [OF Cons.prems(1,2), of sk] p \<open>c' = c\<close> by auto
        with IH [OF this(2)] Poll p d \<open>c' = c\<close> show ?thesis by auto
      qed
    qed
  qed
qed

end

definition mem_good :: "block_cipher \<Rightarrow> int \<Rightarrow> 'd memoryStorage \<Rightarrow> bool" where
  "mem_good aes now m \<longleftrightarrow> mem_ok aes m \<and> 0 \<le> ttl m \<and> clock_ok now"

lemma ttl_simps [simp]:
  "ttl (touch_if_sliding now a m) = ttl m" "ttl (getSession_touch now a m) = ttl m"
  "ttl (append_store a x m) = ttl m" "ttl (snd (GetAndClearInteractions a m)) = ttl m"
  by (simp_all add: touch_if_sliding_def touchSession_def getSession_touch_def append_store_def
      GetAndClearInteractions_def)

lemma AppendInteraction_ttl [simp]: "ttl (AppendInteraction now r c x m) = ttl m"
  by (auto simp: AppendInteraction_def append_lookup_def append_encrypt_def Let_def
        split: option.split sum.split)

lemma poll_session_not_live:
  assumes "view now m c = None"
  shows "fst (poll_session now c sk m) = Inl ''could not get correlation-id''"
    "view now (snd (poll_session now c sk m)) = view now m"
  using getSession_not_live [OF assms, of sk]
  by (auto simp: poll_session_def split: sum.split prod.split)

lemma poll_session_denied:
  assumes "view now m c = Some acc" "acc_secret acc \<noteq> go_bytes sk"
  shows "poll_session now c sk m = (Inl ''invalid secret key passed for user'', m)"
  using assms by (auto simp: view_Some poll_session_def getSession_live)

lemma mem_good_poll: "mem_good aes now m \<Longrightarrow> mem_good aes now (snd (poll_session now c sk m))"
proof -
  have ttl: "ttl (snd (getSession now c sk m)) = ttl m"
    by (auto simp: getSession_def getSession_read_def getSession_locked_def getSession_touch_def
          split: option.split sum.split)
  assume "mem_good aes now m"
  then show ?thesis
    using mem_ok_getSession [of aes m now c sk] ttl
    by (auto simp: poll_session_def mem_good_def mem_ok_drain split: sum.split prod.split)
qed

lemma poll_view_other:
  assumes "mem_good aes now m" "c' \<noteq> c"
  shows "view now (snd (poll_session now c sk m)) c' = view now m c'"
proof (cases "view now m c")
  case None
  then show ?thesis by (simp add: poll_session_not_live)
next
  case (Some acc)
  show ?thesis
  proof (cases "acc_secret acc = go_bytes sk")
    case True
    with assms Some obtain m' where "poll_session now c sk m = (Inr (acc_pending acc), m')"
      "view now m' = (view now m)(c \<mapsto> acc\<lparr>acc_pending := []\<rparr>)"
      unfolding mem_good_def by (blast elim: poll_session_ok)
    with assms show ?thesis by simp
  qed (simp add: poll_session_denied Some)
qed

interpretation memory_contract:
  storage_contract "mem_good aes now" "view now" "AppendInteraction now" "poll_session now" "encrypt_for aes"
    "\<lambda>_ _. True"
  for aes now
proof
  fix m :: "'a memoryStorage" and r c c' x sk iv err acc q
  show "mem_good aes now (AppendInteraction now r c x m)" if "mem_good aes now m"
    using that by (simp add: mem_good_def mem_ok_AppendInteraction)
  show "view now (AppendInteraction now (Inr iv) c x m) c
      = Some (acc\<lparr>acc_pending := acc_pending acc @ [encrypt_for aes acc iv x]\<rparr>)"
    if "mem_good aes now m" "view now m c = Some acc"
    using that append_enc_view [of aes m now c acc iv x] by (simp add: mem_good_def)
  show "view now (AppendInteraction now (Inl err) c x m) c = Some acc"
    if good: "mem_good aes now m" and v: "view now m c = Some acc"
  proof -
    from v obtain a s where f: "find_session m c = Some (a, s)" "\<not> isExpired now m s"
      by (auto simp: view_Some)
    then have "heap (touch_if_sliding now a (hit m)) a \<noteq> None"
      by (auto simp: find_session_Some touch_if_sliding_def touchSession_def)
    with f have "AppendInteraction now (Inl err) c x m = touch_if_sliding now a (hit m)"
      by (auto simp: AppendInteraction_def append_lookup_def append_encrypt_def Let_def
            EncryptInteractionBlock_def)
    with v view_touch [of "hit m" c a s now] f good show ?thesis
      by (simp add: mem_good_def mem_ok_def ptr_ok_def)
  qed
  show "view now (AppendInteraction now r c x m) c' = view now m c'"
    if "mem_good aes now m" "c' \<noteq> c"
    using that append_view_other [of aes m c' c] by (simp add: mem_good_def)
  show "mem_good aes now (snd (poll_session now c sk m))" if "mem_good aes now m"
    using that by (rule mem_good_poll)
  show "fst (poll_session now c sk m) = Inr (acc_pending acc)
      \<and> view now (snd (poll_session now c sk m)) c = Some (acc\<lparr>acc_pending := []\<rparr>)"
    if "mem_good aes now m" "view now m c = Some acc" "acc_secret acc = go_bytes sk"
  proof -
    from that obtain m' where "poll_session now c sk m = (Inr (acc_pending acc), m')"
      "view now m' = (view now m)(c \<mapsto> acc\<lparr>acc_pending := []\<rparr>)"
      unfolding mem_good_def by (blast elim: poll_session_ok)
    then show ?thesis by simp
  qed
  show "fst (poll_session now c sk m) = Inl ''invalid secret key passed for user''
      \<and> view now (snd (poll_session now c sk m)) c = Some acc"
    if "view now m c = Some acc" "acc_secret acc \<noteq> go_bytes sk"
    using that by (simp add: poll_session_denied)
  show "fst (poll_session now c sk m) = Inl ''could not get correlation-id''
      \<and> view now (snd (poll_session now c sk m)) c = None" if "view now m c = None"
    using that by (simp add: poll_session_not_live)
  show "view now (snd (poll_session now c sk m)) c' = view now m c'"
    if "mem_good aes now m" "c' \<noteq> c"
    using that by (rule poll_view_other)
  show "encrypt_for aes (acc\<lparr>acc_pending := q\<rparr>) = encrypt_for aes acc"
    by (simp add: encrypt_for_def fun_eq_iff)
qed

end
