(* ===== verification/Memory_Concurrency.thy ===== *)
theory Memory_Concurrency
  imports Memory_View "HOL-Library.Multiset"
begin

text \<open>
  Interleavings of concurrent storage calls.  A call of \<open>oobsrv/storage.go\<close> runs one critical
  section after another; between two sections it holds only local data, a \<open>task\<close> of the model.  A
  step runs the next section of any task or starts a new call, so the reachable states are those of
  every schedule of every set of calls.  The trace is a history variable for the properties: which
  pointer a registration got, what was stored in a session and what a handle drained from it.
\<close>

section \<open>Tasks, traces and steps\<close>

datatype task =
    GetTouch string nat string      \<comment> \<open>id, session, secret: read under RLock, touch is next\<close>
  | GetPromote string nat string    \<comment> \<open>touched, promotion is next\<close>
  | GetLocked string string         \<comment> \<open>expired when read, write lock is next\<close>
  | GetFinish string nat string     \<comment> \<open>validated and promoted under the write lock, touch is next\<close>
  | Handle string nat string        \<comment> \<open>the caller holds the session handle\<close>
  | AppendEncrypt string nat bytes  \<comment> \<open>looked up, touch and encryption are next\<close>
  | AppendStore string nat bytes    \<comment> \<open>encrypted, the session lock is next\<close>
  | HasLocked string

datatype event =
    Registered string nat bytes
  | Appended string nat bytes
  | Drained string nat string "bytes list"

record 'd system =
  storage :: "'d memoryStorage"
  tasks :: "task multiset"
  trace :: "event list"

definition registered_event ::
  "(bytes \<times> bool) result \<Rightarrow> string \<Rightarrow> string \<Rightarrow> 'd memoryStorage \<Rightarrow> event list" where
  "registered_event r cid sk m = (case r of
      Inr (k, new) \<Rightarrow> if new then [Registered cid (next_session m) (go_bytes sk)] else []
    | Inl _ \<Rightarrow> [])"

definition after_read :: "get_next \<Rightarrow> string \<Rightarrow> string \<Rightarrow> task multiset" where
  "after_read g cid sk = (case g of
      GetFailed _ \<Rightarrow> {#} | GetLive a \<Rightarrow> {#GetTouch cid a sk#} | GetExpired \<Rightarrow> {#GetLocked cid sk#})"

definition after_locked :: "nat result \<Rightarrow> string \<Rightarrow> string \<Rightarrow> task multiset" where
  "after_locked r cid sk = (case r of Inl _ \<Rightarrow> {#} | Inr a \<Rightarrow> {#GetFinish cid a sk#})"

inductive step :: "block_cipher \<Rightarrow> 'd system \<Rightarrow> 'd system \<Rightarrow> bool" for aes where
  register: "registerInternal aes now rand cid pk sk resp m = (r, m') \<Longrightarrow> cid \<noteq> [] \<Longrightarrow> clock_ok now
      \<Longrightarrow> rand_ok rand 32
      \<Longrightarrow> step aes \<lparr>storage = m, tasks = ts, trace = tr\<rparr>
            \<lparr>storage = m', tasks = ts, trace = tr @ registered_event r cid sk m\<rparr>"
| get_read: "getSession_read now cid sk m = (g, m')
      \<Longrightarrow> step aes \<lparr>storage = m, tasks = ts, trace = tr\<rparr>
            \<lparr>storage = m', tasks = after_read g cid sk + ts, trace = tr\<rparr>"
| get_touch: "clock_ok now
      \<Longrightarrow> step aes \<lparr>storage = m, tasks = add_mset (GetTouch cid a sk) ts, trace = tr\<rparr>
            \<lparr>storage = getSession_touch now a m, tasks = add_mset (GetPromote cid a sk) ts, trace = tr\<rparr>"
| get_promote:
     "step aes \<lparr>storage = m, tasks = add_mset (GetPromote cid a sk) ts, trace = tr\<rparr>
        \<lparr>storage = promoteLRU cid m, tasks = add_mset (Handle cid a sk) ts, trace = tr\<rparr>"
| get_locked: "getSession_locked now cid sk m = (r, m')
      \<Longrightarrow> step aes \<lparr>storage = m, tasks = add_mset (GetLocked cid sk) ts, trace = tr\<rparr>
            \<lparr>storage = m', tasks = after_locked r cid sk + ts, trace = tr\<rparr>"
| get_finish: "clock_ok now
      \<Longrightarrow> step aes \<lparr>storage = m, tasks = add_mset (GetFinish cid a sk) ts, trace = tr\<rparr>
            \<lparr>storage = getSession_touch now a m, tasks = add_mset (Handle cid a sk) ts, trace = tr\<rparr>"
| drain: "GetAndClearInteractions a m = (Inr xs, m')
      \<Longrightarrow> step aes \<lparr>storage = m, tasks = add_mset (Handle cid a sk) ts, trace = tr\<rparr>
            \<lparr>storage = m', tasks = add_mset (Handle cid a sk) ts, trace = tr @ [Drained cid a sk xs]\<rparr>"
| append_lookup: "append_lookup cid m = (Some a, m')
      \<Longrightarrow> step aes \<lparr>storage = m, tasks = ts, trace = tr\<rparr>
            \<lparr>storage = m', tasks = add_mset (AppendEncrypt cid a x) ts, trace = tr\<rparr>"
| append_missed: "append_lookup cid m = (None, m')
      \<Longrightarrow> step aes \<lparr>storage = m, tasks = ts, trace = tr\<rparr> \<lparr>storage = m', tasks = ts, trace = tr\<rparr>"
| append_encrypt: "append_encrypt now rand x a m = (Some y, m') \<Longrightarrow> clock_ok now
      \<Longrightarrow> step aes \<lparr>storage = m, tasks = add_mset (AppendEncrypt cid a x) ts, trace = tr\<rparr>
            \<lparr>storage = m', tasks = add_mset (AppendStore cid a y) ts, trace = tr\<rparr>"
| append_failed: "append_encrypt now rand x a m = (None, m') \<Longrightarrow> clock_ok now
      \<Longrightarrow> step aes \<lparr>storage = m, tasks = add_mset (AppendEncrypt cid a x) ts, trace = tr\<rparr>
            \<lparr>storage = m', tasks = ts, trace = tr\<rparr>"
| append_store:
     "step aes \<lparr>storage = m, tasks = add_mset (AppendStore cid a y) ts, trace = tr\<rparr>
        \<lparr>storage = append_store a y m, tasks = ts, trace = tr @ [Appended cid a y]\<rparr>"
| delete: "Delete cid sk m = (r, m')
      \<Longrightarrow> step aes \<lparr>storage = m, tasks = ts, trace = tr\<rparr> \<lparr>storage = m', tasks = ts, trace = tr\<rparr>"
| has_read: "has_read now cid m = None
      \<Longrightarrow> step aes \<lparr>storage = m, tasks = ts, trace = tr\<rparr>
            \<lparr>storage = m, tasks = add_mset (HasLocked cid) ts, trace = tr\<rparr>"
| has_locked: "has_locked now cid m = (b, m')
      \<Longrightarrow> step aes \<lparr>storage = m, tasks = add_mset (HasLocked cid) ts, trace = tr\<rparr>
            \<lparr>storage = m', tasks = ts, trace = tr\<rparr>"

inductive reachable :: "block_cipher \<Rightarrow> Config \<Rightarrow> 'd \<Rightarrow> 'd system \<Rightarrow> bool" for aes cfg d where
  start: "reachable aes cfg d \<lparr>storage = NewMemoryStorage cfg d, tasks = {#}, trace = []\<rparr>"
| go: "reachable aes cfg d s \<Longrightarrow> step aes s s' \<Longrightarrow> reachable aes cfg d s'"

section \<open>What a trace says of one session\<close>

fun drained :: "nat \<Rightarrow> event list \<Rightarrow> bytes list" where
  "drained a [] = []"
| "drained a (Drained cid b sk xs # tr) = (if b = a then xs else []) @ drained a tr"
| "drained a (_ # tr) = drained a tr"

fun appended :: "nat \<Rightarrow> event list \<Rightarrow> bytes list" where
  "appended a [] = []"
| "appended a (Appended cid b x # tr) = (if b = a then [x] else []) @ appended a tr"
| "appended a (_ # tr) = appended a tr"

lemma drained_append [simp]: "drained a (tr @ tr') = drained a tr @ drained a tr'"
  by (induction a tr rule: drained.induct) auto

lemma appended_append [simp]: "appended a (tr @ tr') = appended a tr @ appended a tr'"
  by (induction a tr rule: appended.induct) auto

lemma drained_iff: "x \<in> set (drained a tr) \<longleftrightarrow> (\<exists>cid sk xs. Drained cid a sk xs \<in> set tr \<and> x \<in> set xs)"
  by (induction a tr rule: drained.induct) (auto split: if_splits)

lemma appended_iff: "x \<in> set (appended a tr) \<longleftrightarrow> (\<exists>cid. Appended cid a x \<in> set tr)"
  by (induction a tr rule: appended.induct) (auto split: if_splits)

section \<open>The invariant of every schedule\<close>

fun task_ok :: "event set \<Rightarrow> task \<Rightarrow> bool" where
  "task_ok E (GetTouch cid a sk) = (Registered cid a (go_bytes sk) \<in> E)"
| "task_ok E (GetPromote cid a sk) = (Registered cid a (go_bytes sk) \<in> E)"
| "task_ok E (GetFinish cid a sk) = (Registered cid a (go_bytes sk) \<in> E)"
| "task_ok E (Handle cid a sk) = (Registered cid a (go_bytes sk) \<in> E)"
| "task_ok E (AppendEncrypt cid a x) = (\<exists>secret. Registered cid a secret \<in> E)"
| "task_ok E (AppendStore cid a x) = (\<exists>secret. Registered cid a secret \<in> E)"
| "task_ok E (GetLocked cid sk) = True"
| "task_ok E (HasLocked cid) = True"

fun event_ok :: "event set \<Rightarrow> event \<Rightarrow> bool" where
  "event_ok E (Registered cid a secret) = True"
| "event_ok E (Appended cid a x) = (\<exists>secret. Registered cid a secret \<in> E)"
| "event_ok E (Drained cid a sk xs) = (Registered cid a (go_bytes sk) \<in> E)"

definition trace_ok :: "'d memoryStorage \<Rightarrow> event list \<Rightarrow> bool" where
  "trace_ok m tr \<longleftrightarrow>
     (\<forall>e \<in> set tr. event_ok (set tr) e)
     \<and> (\<forall>cid a s. find_session m cid = Some (a, s) \<longrightarrow> Registered cid a (SecretKey s) \<in> set tr)
     \<and> (\<forall>cid a secret. Registered cid a secret \<in> set tr
          \<longrightarrow> (\<exists>s. heap m a = Some s \<and> SecretKey s = secret))
     \<and> (\<forall>cid cid' a x x'. Registered cid a x \<in> set tr \<longrightarrow> Registered cid' a x' \<in> set tr \<longrightarrow> cid = cid')
     \<and> (\<forall>a s. heap m a = Some s \<longrightarrow> drained a tr @ interactions s = appended a tr)"

definition sys_ok :: "block_cipher \<Rightarrow> 'd system \<Rightarrow> bool" where
  "sys_ok aes s \<longleftrightarrow> mem_ok aes (storage s) \<and> trace_ok (storage s) (trace s)
     \<and> (\<forall>t \<in># tasks s. task_ok (set (trace s)) t)"

lemma task_ok_mono: "task_ok E t \<Longrightarrow> E \<subseteq> E' \<Longrightarrow> task_ok E' t"
  by (cases t) auto

lemma event_ok_mono: "event_ok E e \<Longrightarrow> E \<subseteq> E' \<Longrightarrow> event_ok E' e"
  by (cases e) auto

lemma trace_okD:
  assumes "trace_ok m tr"
  shows "e \<in> set tr \<Longrightarrow> event_ok (set tr) e"
    "find_session m cid = Some (a, s) \<Longrightarrow> Registered cid a (SecretKey s) \<in> set tr"
    "Registered cid a x \<in> set tr \<Longrightarrow> \<exists>s. heap m a = Some s \<and> SecretKey s = x"
    "Registered cid a x \<in> set tr \<Longrightarrow> Registered cid' a x' \<in> set tr \<Longrightarrow> cid = cid'"
    "heap m a = Some s \<Longrightarrow> drained a tr @ interactions s = appended a tr"
  using assms unfolding trace_ok_def by blast+

text \<open>A section is quiet when it at most forgets sessions and touches others.\<close>

definition quiet :: "'d memoryStorage \<Rightarrow> 'd memoryStorage \<Rightarrow> bool" where
  "quiet m m' \<longleftrightarrow> sessions m' \<subseteq>\<^sub>m sessions m \<and> next_session m' = next_session m
     \<and> (\<forall>a. map_option account_of (heap m' a) = map_option account_of (heap m a))"

lemma quiet_refl [simp]: "quiet m m"
  by (simp add: quiet_def)

lemma quiet_trans: "quiet m m1 \<Longrightarrow> quiet m1 m2 \<Longrightarrow> quiet m m2"
  by (auto simp: quiet_def intro: map_le_trans)

lemma quiet_simps [simp]:
  "quiet m (hit m') = quiet m m'" "quiet m (miss m') = quiet m m'" "quiet m (evicted m') = quiet m m'"
  "quiet (hit m) m' = quiet m m'" "quiet (miss m) m' = quiet m m'"
  "quiet m (promoteLRU cid m') = quiet m m'"
  by (simp_all add: quiet_def)

lemma quiet_touch [simp]: "quiet m (touch_if_sliding now a m)"
  by (auto simp: quiet_def touch_if_sliding_def touchSession_def option.map_comp o_def)

lemma quiet_remove [simp]: "quiet m (removeLocked cid m)"
  by (auto simp: quiet_def map_le_def)

lemma quiet_hit [simp]:
  "quiet m (touch_if_sliding now a (hit m))" "quiet m (removeLocked cid (hit m))"
  using quiet_touch [of "hit m" now a] quiet_remove [of "hit m" cid] by (simp_all only: quiet_simps)

lemma quiet_heap:
  assumes "quiet m m'"
  shows "heap m' a = Some s' \<Longrightarrow> \<exists>s. heap m a = Some s \<and> SecretKey s = SecretKey s'
            \<and> interactions s = interactions s'"
    "heap m a = Some s \<Longrightarrow> \<exists>s'. heap m' a = Some s' \<and> SecretKey s = SecretKey s'
            \<and> interactions s = interactions s'"
proof -
  from assms have eq: "map_option account_of (heap m' a) = map_option account_of (heap m a)"
    by (simp add: quiet_def)
  show "heap m' a = Some s' \<Longrightarrow> \<exists>s. heap m a = Some s \<and> SecretKey s = SecretKey s'
      \<and> interactions s = interactions s'"
    using eq by (cases "heap m a") (auto simp: account_of_def)
  show "heap m a = Some s \<Longrightarrow> \<exists>s'. heap m' a = Some s' \<and> SecretKey s = SecretKey s'
      \<and> interactions s = interactions s'"
    using eq by (cases "heap m' a") (auto simp: account_of_def)
qed

lemma quiet_find:
  assumes "quiet m m'" "find_session m' cid = Some (a, s')"
  obtains s where "find_session m cid = Some (a, s)" "SecretKey s = SecretKey s'"
proof -
  from assms have "sessions m cid = Some a"
    by (auto simp: find_session_Some quiet_def map_le_def dest: bspec [of _ _ cid])
  with assms that quiet_heap(1) [OF assms(1)] show ?thesis
    by (auto simp: find_session_Some)
qed

lemma trace_ok_quiet:
  assumes "trace_ok m tr" "quiet m m'"
  shows "trace_ok m' tr"
  unfolding trace_ok_def
proof (intro conjI allI impI ballI)
  note ok = trace_okD [OF assms(1)]
  fix cid cid' a x x' s and e
  show "e \<in> set tr \<Longrightarrow> event_ok (set tr) e" by (rule ok(1))
  show "find_session m' cid = Some (a, s) \<Longrightarrow> Registered cid a (SecretKey s) \<in> set tr"
    using quiet_find [OF assms(2)] ok(2) by metis
  show "Registered cid a x \<in> set tr \<Longrightarrow> \<exists>s. heap m' a = Some s \<and> SecretKey s = x"
    using ok(3) quiet_heap(2) [OF assms(2)] by metis
  show "Registered cid a x \<in> set tr \<Longrightarrow> Registered cid' a x' \<in> set tr \<Longrightarrow> cid = cid'"
    by (rule ok(4))
  show "heap m' a = Some s \<Longrightarrow> drained a tr @ interactions s = appended a tr"
    using ok(5) quiet_heap(1) [OF assms(2)] by metis
qed

section \<open>Every section keeps the trace truthful\<close>

lemma quiet_parts:
  "quiet m (snd (getSession_read now cid sk m))" "quiet m (snd (getSession_locked now cid sk m))"
  "quiet m (getSession_touch now a m)" "quiet m (snd (append_lookup cid m))"
  "quiet m (snd (append_encrypt now rand x a m))" "quiet m (snd (Delete cid sk m))"
  "quiet m (snd (has_locked now cid m))"
  by (auto simp: getSession_read_def getSession_locked_def getSession_touch_def append_lookup_def
      append_encrypt_def Delete_def has_locked_def Let_def split: option.split sum.split)

lemma quiet_evict_if_full:
  assumes "mem_ok aes m"
  defines "m2 \<equiv> if card (dom (sessions (miss m))) \<ge> maxCacheCapacity then evictLRU (miss m) else miss m"
  shows "quiet m m2"
  using mem_ok_evict_if_full(3-5) [OF assms(1)] unfolding m2_def [symmetric]
  by (auto simp: quiet_def map_le_def split: if_splits)

text \<open>What a registration does to the shared state: quiet, or quiet and one new session.\<close>

lemma registerInternal_effect:
  assumes reg: "registerInternal aes now rand cid pk sk resp m = (r, m')" and m: "mem_ok aes m"
  obtains (old) "quiet m m'" "registered_event r cid sk m = []"
  | (new) m2 s where "quiet m m2" "mem_ok aes m2" "m' = insert_session cid s m2" "SecretKey s = go_bytes sk"
      "interactions s = []" "registered_event r cid sk m = [Registered cid (next_session m) (go_bytes sk)]"
proof -
  have create: thesis
    if rn: "register_new aes now rand cid pk sk resp m1 = (r, m')" and m1: "mem_ok aes m1"
      and q: "quiet m m1" for m1
    using rn
  proof (cases rule: register_new_cases)
    case 1
    with old quiet_trans [OF q quiet_evict_if_full [OF m1]] show ?thesis
      by (simp add: registered_event_def)
  next
    case (2 k)
    from new [OF quiet_trans [OF q quiet_evict_if_full [OF m1]]
        mem_ok_evict_if_full(1) [OF m1] 2(3)] 2(2) show ?thesis
      by (simp add: registered_event_def)
  qed
  show ?thesis
    using reg
  proof (cases rule: registerInternal_cases)
    case fresh
    from create [OF this(2) m quiet_refl] show ?thesis .
  next
    case (replace a s)
    from create [OF replace(3)] m show ?thesis by (simp add: mem_ok_removeLocked)
  next
    case taken
    with old show ?thesis by (simp add: registered_event_def)
  next
    case (keep_alive a s)
    with old show ?thesis by (simp add: registered_event_def)
  qed
qed

lemma trace_ok_insert:
  assumes tr: "trace_ok m tr" and m: "mem_ok aes m"
    and s: "SecretKey s = go_bytes sk" "interactions s = []"
  shows "trace_ok (insert_session cid s m) (tr @ [Registered cid (next_session m) (go_bytes sk)])"
proof -
  note ok = trace_okD [OF tr]
  let ?a = "next_session m"
  have free: "heap m ?a = None" using m by (auto simp: mem_ok_def ptr_ok_def)
  have unmapped: "sessions m c \<noteq> Some ?a" for c
    using m free by (auto simp: mem_ok_def ptr_ok_def ran_def)
  have unregistered: "Registered c ?a x \<notin> set tr" for c x using ok(3) free by fastforce
  then have "Drained c ?a k xs \<notin> set tr" "Appended c ?a y \<notin> set tr" for c k xs y
    using ok(1) by fastforce+
  then have silent: "drained ?a tr = []" "appended ?a tr = []"
    by (metis drained_iff last_in_set, metis appended_iff last_in_set)
  show ?thesis
    unfolding trace_ok_def
  proof (intro conjI allI impI ballI)
    fix c c' a x x' s' and e
    let ?E = "set (tr @ [Registered cid ?a (go_bytes sk)])"
    show "event_ok ?E e" if "e \<in> ?E"
      using that ok(1) event_ok_mono [of "set tr" e ?E] by (cases "e \<in> set tr") auto
    show "Registered c a (SecretKey s') \<in> ?E" if "find_session (insert_session cid s m) c = Some (a, s')"
      using that ok(2) [of c a s'] s unmapped by (auto simp: find_session_Some split: if_splits)
    show "\<exists>s'. heap (insert_session cid s m) a = Some s' \<and> SecretKey s' = x" if "Registered c a x \<in> ?E"
      using that ok(3) [of c a x] s unregistered by auto
    show "c = c'" if "Registered c a x \<in> ?E" "Registered c' a x' \<in> ?E"
      using that ok(4) unregistered by auto
    show "drained a (tr @ [Registered cid ?a (go_bytes sk)]) @ interactions s'
        = appended a (tr @ [Registered cid ?a (go_bytes sk)])"
      if "heap (insert_session cid s m) a = Some s'"
      using that ok(5) silent s by (auto split: if_splits)
  qed
qed

text \<open>Draining and storing change one queue and the trace together.\<close>

lemma trace_ok_queue:
  assumes tr: "trace_ok m tr" and e: "event_ok (set tr) e" "\<And>c b x. e \<noteq> Registered c b x"
    and q: "\<And>s. heap m a = Some s \<Longrightarrow> drained a (tr @ [e]) @ f (interactions s) = appended a (tr @ [e])"
    and other: "\<And>b. b \<noteq> a \<Longrightarrow> drained b [e] = [] \<and> appended b [e] = []"
  shows "trace_ok (update_session a (\<lambda>s. s\<lparr>interactions := f (interactions s)\<rparr>) m) (tr @ [e])"
proof -
  note ok = trace_okD [OF tr]
  let ?m = "update_session a (\<lambda>s. s\<lparr>interactions := f (interactions s)\<rparr>) m"
  show ?thesis
    unfolding trace_ok_def
  proof (intro conjI allI impI ballI)
    fix c c' b x x' s' and e'
    show "event_ok (set (tr @ [e])) e'" if "e' \<in> set (tr @ [e])"
      using that ok(1) e(1) event_ok_mono [of "set tr" e' "set (tr @ [e])"] by auto
    show "Registered c b (SecretKey s') \<in> set (tr @ [e])" if f: "find_session ?m c = Some (b, s')"
    proof -
      from f obtain s where "find_session m c = Some (b, s)" "SecretKey s = SecretKey s'"
        by (auto simp: find_session_Some split: if_splits)
      with ok(2) [of c b s] show ?thesis by simp
    qed
    show "\<exists>s'. heap ?m b = Some s' \<and> SecretKey s' = x" if "Registered c b x \<in> set (tr @ [e])"
      using that ok(3) [of c b x] e(2) [of c b x] by auto
    show "c = c'" if "Registered c b x \<in> set (tr @ [e])" "Registered c' b x' \<in> set (tr @ [e])"
      using that ok(4) [of c b x c' x'] e(2) [of c b x] e(2) [of c' b x'] by auto
    show "drained b (tr @ [e]) @ interactions s' = appended b (tr @ [e])" if "heap ?m b = Some s'"
      using that ok(5) q other [of b] by (auto split: if_splits)
  qed
qed

section \<open>Preservation and reachable states\<close>

lemma sys_ok_quiet:
  assumes "sys_ok aes \<lparr>storage = m, tasks = ts, trace = tr\<rparr>" "quiet m m'" "mem_ok aes m'"
    and "\<And>t. t \<in># ts' \<Longrightarrow> t \<in># ts \<or> task_ok (set tr) t"
  shows "sys_ok aes \<lparr>storage = m', tasks = ts', trace = tr\<rparr>"
  using assms trace_ok_quiet [of m tr m'] by (auto simp: sys_ok_def)

lemma getSession_read_live:
  "getSession_read now cid sk m = (GetLive a, m') \<Longrightarrow>
     \<exists>s. find_session m cid = Some (a, s) \<and> SecretKey s = go_bytes sk"
  by (auto simp: getSession_read_def split: option.splits if_splits)

lemma getSession_locked_Inr:
  "getSession_locked now cid sk m = (Inr a, m') \<Longrightarrow>
     \<exists>s. find_session m cid = Some (a, s) \<and> SecretKey s = go_bytes sk"
  by (auto simp: getSession_locked_def split: option.splits if_splits)

lemma after_read_ok:
  "trace_ok m tr \<Longrightarrow> getSession_read now cid sk m = (g, m') \<Longrightarrow> t \<in># after_read g cid sk
     \<Longrightarrow> task_ok (set tr) t"
  using trace_okD(2) [of m tr cid] getSession_read_live [of now cid sk m]
  by (cases g) (fastforce simp: after_read_def)+

lemma after_locked_ok:
  "trace_ok m tr \<Longrightarrow> getSession_locked now cid sk m = (r, m') \<Longrightarrow> t \<in># after_locked r cid sk
     \<Longrightarrow> task_ok (set tr) t"
  using trace_okD(2) [of m tr cid] getSession_locked_Inr [of now cid sk m]
  by (cases r) (fastforce simp: after_locked_def)+

lemma sys_ok_register:
  assumes reg: "registerInternal aes now rand cid pk sk resp m = (r, m')"
    and ok: "cid \<noteq> []" "clock_ok now" "rand_ok rand 32"
    and s: "sys_ok aes \<lparr>storage = m, tasks = ts, trace = tr\<rparr>"
  shows "sys_ok aes \<lparr>storage = m', tasks = ts, trace = tr @ registered_event r cid sk m\<rparr>"
proof -
  from s have m: "mem_ok aes m" and tr: "trace_ok m tr" by (simp_all add: sys_ok_def)
  have m': "mem_ok aes m'" by (rule mem_ok_registerInternal [OF reg m ok])
  have "trace_ok m' (tr @ registered_event r cid sk m)"
    using reg m
  proof (cases rule: registerInternal_effect)
    case old
    with trace_ok_quiet [OF tr] show ?thesis by simp
  next
    case (new m2 sess)
    have "next_session m2 = next_session m" using new by (simp add: quiet_def)
    with trace_ok_insert [OF trace_ok_quiet [OF tr new(1)] new(2) new(4,5), of cid] new(3,6)
    show ?thesis by simp
  qed
  with m' s show ?thesis by (auto simp: sys_ok_def intro: task_ok_mono)
qed

lemma sys_ok_step: "step aes s s' \<Longrightarrow> sys_ok aes s \<Longrightarrow> sys_ok aes s'"
proof (induction rule: step.induct)
  case (register now rand cid pk sk resp m r m' ts tr)
  then show ?case by (intro sys_ok_register)
next
  case (get_read now cid sk m g m' ts tr)
  then have "trace_ok m tr" "mem_ok aes m'" "quiet m m'"
    using mem_ok_getSession_parts(1) [of aes m now cid sk] quiet_parts(1) [of m now cid sk]
    by (simp_all add: sys_ok_def)
  with get_read show ?case by (auto intro!: sys_ok_quiet [OF get_read(2)] dest: after_read_ok)
next
  case (get_touch now m cid a sk ts tr)
  then show ?case
    by (intro sys_ok_quiet [OF get_touch(2)])
       (auto simp: sys_ok_def mem_ok_getSession_parts quiet_parts)
next
  case (get_promote m cid a sk ts tr)
  then show ?case
    by (intro sys_ok_quiet [OF get_promote]) (auto simp: sys_ok_def mem_ok_promoteLRU)
next
  case (get_locked now cid sk m r m' ts tr)
  then have "trace_ok m tr" "mem_ok aes m'" "quiet m m'"
    using mem_ok_getSession_parts(2) [of aes m now cid sk] quiet_parts(2) [of m now cid sk]
    by (simp_all add: sys_ok_def)
  with get_locked show ?case by (auto intro!: sys_ok_quiet [OF get_locked(2)] dest: after_locked_ok)
next
  case (get_finish now m cid a sk ts tr)
  then show ?case
    by (intro sys_ok_quiet [OF get_finish(2)])
       (auto simp: sys_ok_def mem_ok_getSession_parts quiet_parts)
next
  case (drain a m xs m' cid sk ts tr)
  then have tr: "trace_ok m tr" and m': "m' = update_session a (\<lambda>s. s\<lparr>interactions := []\<rparr>) m"
    and xs: "xs = (case heap m a of Some s \<Rightarrow> interactions s | None \<Rightarrow> [])"
    by (auto simp: sys_ok_def GetAndClearInteractions_def)
  have "trace_ok m' (tr @ [Drained cid a sk xs])"
    unfolding m' using drain(2) trace_okD(5) [OF tr, of a]
    by (intro trace_ok_queue [OF tr, of _ a "\<lambda>_. []"]) (auto simp: sys_ok_def xs)
  moreover have "mem_ok aes m'"
    using mem_ok_drain [of aes m a] drain by (simp add: sys_ok_def)
  ultimately show ?case using drain by (auto simp: sys_ok_def intro: task_ok_mono)
next
  case (append_lookup cid m a m' ts tr x)
  then have "trace_ok m tr" "mem_ok aes m'" "quiet m m'" "\<exists>s. find_session m cid = Some (a, s)"
    using mem_ok_append_parts(1) [of aes m cid] quiet_parts(4) [of m cid]
    by (auto simp: sys_ok_def append_lookup_def split: option.splits)
  with append_lookup show ?case
    by (intro sys_ok_quiet [OF append_lookup(2)]) (auto dest: trace_okD(2) [of m tr cid a])
next
  case (append_missed cid m m' ts tr)
  then have "mem_ok aes m'" "quiet m m'"
    using mem_ok_append_parts(1) [of aes m cid] quiet_parts(4) [of m cid] by (auto simp: sys_ok_def)
  with append_missed show ?case by (auto intro!: sys_ok_quiet [OF append_missed(2)])
next
  case (append_encrypt now rand x a m y m' cid ts tr)
  then have "mem_ok aes m'" "quiet m m'"
    using mem_ok_append_parts(2) [of aes m now rand x a] quiet_parts(5) [of m now rand x a]
    by (auto simp: sys_ok_def)
  with append_encrypt show ?case
    by (intro sys_ok_quiet [OF append_encrypt(3)]) (auto simp: sys_ok_def)
next
  case (append_failed now rand x a m m' cid ts tr)
  then have "mem_ok aes m'" "quiet m m'"
    using mem_ok_append_parts(2) [of aes m now rand x a] quiet_parts(5) [of m now rand x a]
    by (auto simp: sys_ok_def)
  with append_failed show ?case by (intro sys_ok_quiet [OF append_failed(3)]) auto
next
  case (append_store m cid a y ts tr)
  then have tr: "trace_ok m tr" and reg: "\<exists>secret. Registered cid a secret \<in> set tr"
    by (auto simp: sys_ok_def)
  have "trace_ok (append_store a y m) (tr @ [Appended cid a y])"
    unfolding append_store_def using reg trace_okD(5) [OF tr, of a]
    by (intro trace_ok_queue [OF tr, of _ a "\<lambda>q. q @ [y]"]) auto
  moreover have "mem_ok aes (append_store a y m)"
    using mem_ok_append_store [of aes m a y] append_store by (simp add: sys_ok_def)
  ultimately show ?case using append_store by (auto simp: sys_ok_def intro: task_ok_mono)
next
  case (delete cid sk m r m' ts tr)
  then have "mem_ok aes m'" "quiet m m'"
    using mem_ok_Delete [of aes m cid sk] quiet_parts(6) [of m cid sk] by (auto simp: sys_ok_def)
  with delete show ?case by (auto intro!: sys_ok_quiet [OF delete(2)])
next
  case (has_read now cid m ts tr)
  then show ?case by (auto simp: sys_ok_def)
next
  case (has_locked now cid m b m' ts tr)
  then have "mem_ok aes m'" "quiet m m'"
    using mem_ok_has_locked [of aes m now cid] quiet_parts(7) [of m now cid] by (auto simp: sys_ok_def)
  with has_locked show ?case by (intro sys_ok_quiet [OF has_locked(2)]) auto
qed

lemma NewMemoryStorage_empty:
  "sessions (NewMemoryStorage cfg d) = Map.empty" "heap (NewMemoryStorage cfg d) = Map.empty"
  by (simp_all add: NewMemoryStorage_def Let_def)

lemma reachable_ok: "reachable aes cfg d s \<Longrightarrow> sys_ok aes s"
proof (induction rule: reachable.induct)
  case start
  then show ?case
    by (simp add: sys_ok_def mem_ok_NewMemoryStorage trace_ok_def find_session_def NewMemoryStorage_empty)
qed (rule sys_ok_step)

text \<open>
  C6: In every schedule of concurrent register, poll, append, delete and lookup calls the LRU list,
  the LRU map and the session map hold the same ids, no two ids share a session, and the number of
  sessions never exceeds the capacity of the cache.
\<close>

theorem concurrent_maps_agree:
  assumes "reachable aes cfg d s"
  shows "dom (sessions (storage s)) = dom (lruMap (storage s))
     \<and> distinct (map snd (lruList (storage s)))
     \<and> set (map snd (lruList (storage s))) = dom (sessions (storage s))
     \<and> inj_on (sessions (storage s)) (dom (sessions (storage s)))
     \<and> card (dom (sessions (storage s))) \<le> maxCacheCapacity"
proof -
  have m: "mem_ok aes (storage s)" using reachable_ok [OF assms] by (simp add: sys_ok_def)
  then have dom: "dom (sessions (storage s)) = snd ` set (lruList (storage s))"
    and map: "\<And>cid e. lruMap (storage s) cid = Some e \<longleftrightarrow> (e, cid) \<in> set (lruList (storage s))"
    by (auto simp: mem_ok_def lru_ok_def)
  have "dom (lruMap (storage s)) = snd ` set (lruList (storage s))"
    by (force simp: map dom_def image_iff)
  with m dom show ?thesis by (simp add: mem_ok_def lru_ok_def ptr_ok_def)
qed

text \<open>
  C4: Exactly-once, in-order delivery under concurrency: in every schedule and for every session,
  what its handles drained so far, followed by what it still holds, is exactly what was stored in
  it, in the order it was stored.  Nothing is lost, duplicated or reordered.
\<close>

theorem concurrent_exactly_once:
  assumes "reachable aes cfg d s" and "heap (storage s) a = Some sess"
  shows "drained a (trace s) @ interactions sess = appended a (trace s)"
  using reachable_ok [OF assms(1)] assms(2) by (simp add: sys_ok_def trace_ok_def)

text \<open>
  C5: Isolation: whatever a poller drains was captured for the id it asked for, in the very
  registration whose secret it presented.  A handle or an append that outlives its session never
  reaches the session that replaced it, even under the same id.
\<close>

theorem concurrent_isolation:
  assumes "reachable aes cfg d s" and "Drained cid a sk xs \<in> set (trace s)" and "x \<in> set xs"
  shows "Appended cid a x \<in> set (trace s) \<and> Registered cid a (go_bytes sk) \<in> set (trace s)
     \<and> (\<forall>cid' secret. Registered cid' a secret \<in> set (trace s) \<longrightarrow> cid' = cid \<and> secret = go_bytes sk)"
proof -
  have tr: "trace_ok (storage s) (trace s)" using reachable_ok [OF assms(1)] by (simp add: sys_ok_def)
  note ok = trace_okD [OF tr]
  have reg: "Registered cid a (go_bytes sk) \<in> set (trace s)" using ok(1) [OF assms(2)] by simp
  with ok(3) obtain sess where sess: "heap (storage s) a = Some sess" "SecretKey sess = go_bytes sk"
    by blast
  have "x \<in> set (drained a (trace s))" using assms(2,3) drained_iff by blast
  then have "x \<in> set (appended a (trace s))" by (metis ok(5) [OF sess(1)] Un_iff set_append)
  then obtain c where c: "Appended c a x \<in> set (trace s)" by (auto simp: appended_iff)
  with ok(1) obtain secret where "Registered c a secret \<in> set (trace s)" by fastforce
  then have "c = cid" using reg by (rule ok(4))
  moreover have "cid' = cid \<and> secret = go_bytes sk" if "Registered cid' a secret \<in> set (trace s)"
    for cid' secret
    using ok(3) [OF that] ok(4) [OF that reg] sess by auto
  ultimately show ?thesis using reg c by blast
qed

text \<open>A run: one registration, one append, one poll.\<close>

definition demo_cipher :: block_cipher where
  "demo_cipher k b = b"

definition demo_trace :: "event list" where
  "demo_trace = [Registered ''c'' 0 (go_bytes ''k''), Appended ''c'' 0 (replicate 16 0 @ [7]),
     Drained ''c'' 0 ''k'' [replicate 16 0 @ [7]]]"

definition demo_m1 :: "unit memoryStorage" where
  "demo_m1 = snd (registerInternal demo_cipher 5 (Inr (replicate 32 0)) ''c'' \<lparr>rsa_N = 1, rsa_E = 1\<rparr>
     ''k'' None (NewMemoryStorage zero_Config ()))"

lemma demo_m1:
  "registerInternal demo_cipher 5 (Inr (replicate 32 0)) ''c'' \<lparr>rsa_N = 1, rsa_E = 1\<rparr> ''k'' None
     (NewMemoryStorage zero_Config ()) = (Inr (replicate 32 0, True), demo_m1)"
  by (simp add: demo_m1_def registerInternal_def find_session_def NewMemoryStorage_def Let_def
      register_new_def GenerateAESKey_def NewCipher_def maxCacheCapacity_def miss_def)

lemma demo_m1_session:
  "\<exists>s. find_session demo_m1 ''c'' = Some (0, s) \<and> \<not> isExpired 5 demo_m1 s
     \<and> SecretKey s = go_bytes ''k'' \<and> AESBlock s = demo_cipher (replicate 32 0)
     \<and> interactions s = []" "slidingTTL demo_m1 = False"
  by (simp_all add: demo_m1_def registerInternal_def find_session_def NewMemoryStorage_def Let_def
      register_new_def GenerateAESKey_def NewCipher_def maxCacheCapacity_def miss_def isExpired_def
      insert_session_def defaultEvictionDays_def wrap64_def duration_defs zero_Config_def
      EvictionSliding_def)

lemma demo_encrypt:
  "EncryptInteractionBlock (Inr (replicate 16 0)) [7] (demo_cipher (replicate 32 0))
     = Inr (replicate 16 0 @ [7])"
  by (simp add: EncryptInteractionBlock_def ctr_xor.simps [of _ _ "[7]"] ctr_xor.simps [of _ _ "[]"]
      demo_cipher_def aes_BlockSize_def numeral_eq_Suc)

lemma demo_reachable: "\<exists>s. reachable demo_cipher zero_Config () s \<and> trace s = demo_trace"
proof -
  obtain s where s: "find_session demo_m1 ''c'' = Some (0, s)" "\<not> isExpired 5 demo_m1 s"
    "SecretKey s = go_bytes ''k''" "AESBlock s = demo_cipher (replicate 32 0)" "interactions s = []"
    using demo_m1_session(1) by blast
  define y :: bytes where "y = replicate 16 0 @ [7]"
  define m2 where "m2 = append_store 0 y (hit demo_m1)"
  define m3 where "m3 = promoteLRU ''c'' (getSession_touch 5 0 m2)"
  have nosl: "touch_if_sliding t a m = m" if "slidingTTL m = False" for t a and m :: "unit memoryStorage"
    using that by (simp add: touch_if_sliding_def)
  have heap1: "heap demo_m1 0 = Some s" using s(1) by (simp add: find_session_Some)
  have find2: "find_session m2 ''c'' = Some (0, s\<lparr>interactions := [y]\<rparr>)"
    using s(1,5) by (simp add: m2_def append_store_def find_session_Some)
  have live2: "\<not> isExpired 5 m2 (s\<lparr>interactions := [y]\<rparr>)"
    using s(2) by (simp add: m2_def append_store_def isExpired_def split: if_splits)
  have heap3: "heap m3 0 = Some (s\<lparr>interactions := [y]\<rparr>)"
    using find2 demo_m1_session(2)
    by (simp add: m3_def getSession_touch_def nosl m2_def append_store_def find_session_Some)
  have clock: "clock_ok 5" by (simp add: clock_ok_def max_int64_def)
  note go = reachable.go [of demo_cipher zero_Config "()"]
  define r where "r = [Registered ''c'' 0 (go_bytes ''k'')]"
  have "reachable demo_cipher zero_Config () \<lparr>storage = demo_m1, tasks = {#},
      trace = [] @ registered_event (Inr (replicate 32 0, True)) ''c'' ''k'' (NewMemoryStorage zero_Config ())\<rparr>"
    by (rule go [OF reachable.start step.register [OF demo_m1]])
       (simp_all add: clock_ok_def max_int64_def rand_ok_def)
  moreover have "registered_event (Inr (replicate 32 0, True)) ''c'' ''k'' (NewMemoryStorage zero_Config ())
      = r"
    by (simp add: r_def registered_event_def NewMemoryStorage_def Let_def)
  ultimately have r1: "reachable demo_cipher zero_Config ()
      \<lparr>storage = demo_m1, tasks = {#}, trace = r\<rparr>" by simp
  have "append_lookup ''c'' demo_m1 = (Some 0, hit demo_m1)"
    using s by (simp add: append_lookup_def)
  note r2 = go [OF r1 step.append_lookup [OF this, where x = "[7]"]]
  have "append_encrypt 5 (Inr (replicate 16 0)) [7] 0 (hit demo_m1) = (Some y, hit demo_m1)"
    using heap1 s(4) demo_encrypt demo_m1_session(2)
    by (simp add: append_encrypt_def Let_def nosl y_def hit_def)
  note r3 = go [OF r2 step.append_encrypt [OF this clock]]
  note r4 = go [OF r3 step.append_store, folded m2_def]
  have "getSession_read 5 ''c'' ''k'' m2 = (GetLive 0, m2)"
    using find2 live2 s(3) by (simp add: getSession_read_def)
  note r5 = go [OF r4 step.get_read [OF this], unfolded after_read_def, simplified]
  note r6 = go [OF r5 step.get_touch [OF clock]]
  note r7 = go [OF r6 step.get_promote, folded m3_def]
  have "GetAndClearInteractions 0 m3 = (Inr [y], snd (GetAndClearInteractions 0 m3))"
    using heap3 by (simp add: GetAndClearInteractions_def)
  note r8 = go [OF r7 step.drain [OF this]]
  show ?thesis by (intro exI conjI, rule r8) (simp add: r_def y_def demo_trace_def)
qed

text \<open>The trace of the run, with the facts the theorems start from.\<close>

lemma demo_run:
  obtains s sess where "reachable demo_cipher zero_Config () s" "trace s = demo_trace"
    "heap (storage s) 0 = Some sess" "interactions sess = []"
proof -
  obtain s where s: "reachable demo_cipher zero_Config () s" "trace s = demo_trace"
    using demo_reachable by blast
  then have "trace_ok (storage s) demo_trace" using reachable_ok [OF s(1)] by (simp add: sys_ok_def)
  note ok = trace_okD(3,5) [OF this]
  from ok(1) [of "''c''" 0 "go_bytes ''k''"] obtain sess where "heap (storage s) 0 = Some sess"
    by (auto simp: demo_trace_def)
  moreover from ok(2) [OF this] have "interactions sess = []" by (simp add: demo_trace_def)
  ultimately show ?thesis using that s by blast
qed

theorem concurrent_maps_agree_witness:
  "\<exists>s. reachable demo_cipher zero_Config () s \<and> trace s = demo_trace
     \<and> card (dom (sessions (storage s))) \<le> maxCacheCapacity"
proof -
  obtain s sess where s: "reachable demo_cipher zero_Config () s" "trace s = demo_trace"
    by (rule demo_run)
  from concurrent_maps_agree [OF s(1)] s show ?thesis by blast
qed

theorem concurrent_exactly_once_witness:
  "\<exists>s. reachable demo_cipher zero_Config () s
     \<and> drained 0 (trace s) = [replicate 16 0 @ [7]] \<and> appended 0 (trace s) = [replicate 16 0 @ [7]]"
proof -
  obtain s sess where s: "reachable demo_cipher zero_Config () s" "trace s = demo_trace"
    "heap (storage s) 0 = Some sess" "interactions sess = []"
    by (rule demo_run)
  have "drained 0 (trace s) = [replicate 16 0 @ [7]]" by (simp add: s(2) demo_trace_def)
  with concurrent_exactly_once [OF s(1,3)] s(1,4) show ?thesis by auto
qed

theorem concurrent_isolation_witness:
  "\<exists>s. reachable demo_cipher zero_Config () s
     \<and> Appended ''c'' 0 (replicate 16 0 @ [7]) \<in> set (trace s)
     \<and> Registered ''c'' 0 (go_bytes ''k'') \<in> set (trace s)"
proof -
  obtain s sess where s: "reachable demo_cipher zero_Config () s" "trace s = demo_trace"
    by (rule demo_run)
  have "Drained ''c'' 0 ''k'' [replicate 16 0 @ [7]] \<in> set (trace s)"
    by (simp add: s(2) demo_trace_def)
  from concurrent_isolation [OF s(1) this, of "replicate 16 0 @ [7]"] s(1) show ?thesis by auto
qed

end
