(* ===== verification/Memory_Properties.thy ===== *)
theory Memory_Properties
  imports Memory_Concurrency
begin

text \<open>
  What the operations of the in-memory storage do at one instant, as equations on the abstract view:
  registration, polling, expiry and eviction, on every branch.  The concrete storage of the runs
  holds one session, registered as \<open>c\<close> with the secret \<open>k\<close> at time 5.
\<close>

lemma demo_m1_ok: "mem_ok demo_cipher demo_m1"
  by (rule mem_ok_registerInternal [OF demo_m1 mem_ok_NewMemoryStorage])
     (simp_all add: clock_ok_def max_int64_def rand_ok_def)

lemma demo_m1_fields: "noEviction demo_m1 = False" "slidingTTL demo_m1 = False"
  "ttl demo_m1 = 30 * 24 * hour" "sessions demo_m1 = [''c'' \<mapsto> 0]" "lruList demo_m1 = [(0, ''c'')]"
  "heap demo_m1 0 = Some \<lparr>PublicKey = \<lparr>rsa_N = 1, rsa_E = 1\<rparr>, AESKey = replicate 32 0,
     AESBlock = demo_cipher (replicate 32 0), SecretKey = go_bytes ''k'', Response = None,
     interactions = [], lastAccess = 5, createdAt = 5\<rparr>"
  by (simp_all add: demo_m1_def registerInternal_def find_session_def NewMemoryStorage_def Let_def
      register_new_def GenerateAESKey_def NewCipher_def maxCacheCapacity_def miss_def
      insert_session_def defaultEvictionDays_def wrap64_def duration_defs zero_Config_def
      EvictionSliding_def)

lemma demo_m1_good: "0 \<le> now \<Longrightarrow> now < max_int64 \<Longrightarrow> mem_good demo_cipher now demo_m1"
  using demo_m1_ok by (simp add: mem_good_def clock_ok_def demo_m1_fields duration_defs)

definition demo_account :: account where
  "demo_account = \<lparr>acc_secret = go_bytes ''k'', acc_key = replicate 32 0,
     acc_public = \<lparr>rsa_N = 1, rsa_E = 1\<rparr>, acc_response = None,
     acc_pending = []\<rparr>"

lemma demo_m1_view: "now \<le> 30 * 24 * hour \<Longrightarrow> 0 \<le> now \<Longrightarrow> view now demo_m1 ''c'' = Some demo_account"
  by (simp add: view_def find_session_def demo_m1_fields isExpired_def account_of_def demo_account_def
      time_sub_def min_int64_def max_int64_def duration_defs)



text \<open>
  Eviction at capacity removes exactly one session: the least recently used among the first
  eight elements of the LRU list; every other session stays as it was.
\<close>

theorem evictLRU_victim:
  assumes "mem_ok aes m" and "lruList m \<noteq> []"
  shows "\<exists>victim \<in> snd ` set (take maxProbe (lruList m)).
     sessions (evictLRU m) = (sessions m)(victim := None) \<and> heap (evictLRU m) = heap m
     \<and> evictions (evictLRU m) = evictions m + 1
     \<and> (\<forall>cid \<in> snd ` set (take maxProbe (lruList m)). last_access m victim \<le> last_access m cid)"
proof -
  obtain x where x: "x \<in> set (take maxProbe (lruList m))"
    "evictLRU m = evicted (removeLocked (snd x) m)"
    "\<And>y. y \<in> set (take maxProbe (lruList m)) \<Longrightarrow> last_access m (snd x) \<le> last_access m (snd y)"
    using evictLRU_live [OF assms] by blast
  have "evictions (evicted (removeLocked (snd x) m)) = evictions m + 1"
    by (simp add: evicted_def removeLocked_def Let_def split: option.split)
  with x show ?thesis by (intro bexI [of _ "snd x"]) auto
qed

theorem evictLRU_victim_witness: "sessions (evictLRU demo_m1) = Map.empty"
  using evictLRU_victim [OF demo_m1_ok] by (simp add: demo_m1_fields maxProbe_def numeral_eq_Suc)

text \<open>
  Registration of a free id stores one new account with the generated key and nothing pending,
  and leaves every other account alone; at capacity it first evicts one other session.
\<close>

theorem register_creates:
  assumes "mem_good aes now m" and "view now m cid = None" and "cid \<noteq> []"
    and "length k = 32" and "card (dom (sessions m)) < maxCacheCapacity"
  shows "\<exists>m'. Register aes now (Inr k) cid pk sk resp m = (Inr k, m') \<and> mem_good aes now m'
     \<and> view now m' = (view now m)(cid \<mapsto> \<lparr>acc_secret = go_bytes sk, acc_key = k, acc_public = pk,
          acc_response = resp, acc_pending = []\<rparr>)"
proof -
  define s where "s = \<lparr>PublicKey = pk, AESKey = k, AESBlock = aes k, SecretKey = go_bytes sk,
     Response = resp, interactions = [], lastAccess = wrap64 now, createdAt = now\<rparr>"
  have insert: "view now (insert_session cid s m0) = (view now m0)(cid \<mapsto> account_of s)"
    if "mem_good aes now m0" for m0 :: "'a memoryStorage"
  proof -
    have "sessions m0 c \<noteq> Some (next_session m0)" for c
      using that by (auto simp: mem_good_def mem_ok_def ptr_ok_def ran_def)
    moreover have "\<not> isExpired now (insert_session cid s m0) s"
      using that by (simp add: isExpired_def s_def clock_wrap mem_good_def)
    moreover have "isExpired now (insert_session cid s m0) s' = isExpired now m0 s'" for s'
      by (simp add: isExpired_def)
    ultimately show ?thesis
      by (auto simp: fun_eq_iff view_def find_session_def split: option.split)
  qed
  have new: "register_new aes now (Inr k) cid pk sk resp m0 = (Inr (k, True), insert_session cid s (miss m0))"
    if "card (dom (sessions m0)) < maxCacheCapacity" for m0 :: "'a memoryStorage"
    using that assms(4) by (simp add: register_new_def GenerateAESKey_def NewCipher_def s_def Let_def)
  define m0 where "m0 = (if find_session m cid = None then m else evicted (removeLocked cid m))"
  have good: "mem_good aes now m0" and v: "view now m0 = view now m"
    using assms(1,2) by (auto simp: m0_def mem_good_def mem_ok_removeLocked fun_eq_iff)
  have "finite (dom (sessions m))"
    using assms(1) by (simp add: mem_good_def mem_ok_def lru_sessions_finite)
  then have room: "card (dom (sessions m0)) < maxCacheCapacity"
    using assms(5) by (auto simp: m0_def intro: le_less_trans [OF card_mono])
  have "registerInternal aes now (Inr k) cid pk sk resp m
      = register_new aes now (Inr k) cid pk sk resp m0"
    using assms(2) by (auto simp: registerInternal_def m0_def view_def split: option.splits if_splits)
  then have "Register aes now (Inr k) cid pk sk resp m = (Inr k, insert_session cid s (miss m0))"
    using new [OF room] by (simp add: Register_def)
  moreover have "mem_good aes now (insert_session cid s (miss m0))"
    using mem_ok_Register [OF calculation] assms good
    by (simp add: mem_good_def rand_ok_def)
  ultimately show ?thesis
    using insert [of "miss m0"] good v by (simp add: mem_good_def s_def account_of_def)
qed

theorem register_creates_witness:
  "\<exists>m'. Register demo_cipher 6 (Inr (replicate 32 1)) ''d'' \<lparr>rsa_N = 1, rsa_E = 1\<rparr> ''s'' None demo_m1
      = (Inr (replicate 32 1), m') \<and> view 6 m' ''c'' = Some demo_account"
proof -
  have "mem_good demo_cipher 6 demo_m1" by (rule demo_m1_good) (simp_all add: max_int64_def)
  moreover have "view 6 demo_m1 ''c'' = Some demo_account"
    by (rule demo_m1_view) (simp_all add: duration_defs)
  moreover have "view 6 demo_m1 ''d'' = None"
    by (simp add: view_def find_session_def demo_m1_fields)
  ultimately show ?thesis
    using register_creates [of demo_cipher 6 demo_m1 "''d''" "replicate 32 1" "\<lparr>rsa_N = 1, rsa_E = 1\<rparr>"
        "''s''" None]
    by (auto simp: demo_m1_fields maxCacheCapacity_def)
qed

text \<open>
  Registering an id that is live is a keep-alive with the same secret (the stored key is
  returned) and an error with any other; neither changes any account.
\<close>

theorem register_live:
  assumes "mem_good aes now m" and "view now m cid = Some acc"
  shows "fst (Register aes now rand cid pk sk resp m) =
      (if acc_secret acc = go_bytes sk then Inr (acc_key acc)
       else Inl ''correlation-id provided already exists'')
     \<and> view now (snd (Register aes now rand cid pk sk resp m)) = view now m"
proof -
  obtain a s where s: "find_session m cid = Some (a, s)" "\<not> isExpired now m s" "acc = account_of s"
    using assms(2) by (auto simp: view_Some)
  have "view now (touch_if_sliding now a (hit m)) = view now m"
    using view_touch [of "hit m" cid a s now] s assms(1)
    by (simp add: mem_good_def mem_ok_def ptr_ok_def)
  with s show ?thesis by (auto simp: Register_def registerInternal_def Let_def split: option.split)
qed

theorem register_live_witness:
  "fst (Register demo_cipher 6 (Inr []) ''c'' \<lparr>rsa_N = 1, rsa_E = 1\<rparr> ''x'' None demo_m1)
     = Inl ''correlation-id provided already exists''"
proof -
  have "mem_good demo_cipher 6 demo_m1" by (rule demo_m1_good) (simp_all add: max_int64_def)
  moreover have "view 6 demo_m1 ''c'' = Some demo_account"
    by (rule demo_m1_view) (simp_all add: duration_defs)
  moreover have "go_bytes ''k'' \<noteq> go_bytes ''x''" by simp
  ultimately show ?thesis
    using register_live [of demo_cipher 6 demo_m1 "''c''" demo_account] by (simp add: demo_account_def)
qed

text \<open>
  An expired session is never served: every lookup at or after the instant its TTL ran out
  answers as if the id had never been registered, unless the session was refreshed in between.
\<close>

theorem expired_never_served:
  assumes "find_session m cid = Some (a, s)" and "\<not> noEviction m"
    and "time_sub now (if slidingTTL m then lastAccess s else createdAt s) > ttl m" and "now \<le> later"
  shows "fst (getSession later cid sk m) = Inl ''could not get correlation-id''
     \<and> find_session (snd (getSession later cid sk m)) cid = None
     \<and> fst (HasCorrelationID later cid m) = False
     \<and> GetResponse later cid m = None"
proof -
  have "isExpired now m s" using assms(2,3) by (simp add: isExpired_def split: if_splits)
  then have e: "isExpired later m s" using assms(4) by (rule isExpired_mono)
  then have "view later m cid = None" using assms(1) by (simp add: view_def)
  from getSession_not_live [OF this, of sk] show ?thesis
    using e assms(1) by (simp add: HasCorrelationID_def has_read_def has_locked_def GetResponse_def)
qed

theorem expired_never_served_witness:
  "fst (getSession (30 * 24 * hour + 6) ''c'' ''k'' demo_m1) = Inl ''could not get correlation-id''"
proof -
  have "find_session demo_m1 ''c'' = Some (0, the (heap demo_m1 0))"
    by (simp add: find_session_def demo_m1_fields)
  from expired_never_served [OF this, of "30 * 24 * hour + 6" "30 * 24 * hour + 6" "''k''"]
  show ?thesis
    by (simp add: demo_m1_fields time_sub_def max_int64_def min_int64_def duration_defs)
qed

end
