(* ===== verification/Disk_Storage.thy ===== *)
theory Disk_Storage
  imports Memory_Properties Go_Encoding
begin

text \<open>
  The disk-backed storage (\<open>diskStorage\<close> of \<open>oobsrv/storage.go\<close>): the in-memory session table with
  the interactions of each id as one LevelDB value, a sequence of length-prefixed records.

  LevelDB is outside the repository.  Its operations are the fields of a record the definitions
  take as an argument, and \<open>leveldb_ok\<close> states the documented behaviour the code relies on: a read
  returns the last value written, or not-found.
\<close>

section \<open>LevelDB\<close>

datatype db_result = Found bytes | ErrNotFound | DbError string

record 'db leveldb =
  db_Get :: "bytes \<Rightarrow> 'db \<Rightarrow> db_result"
  db_Put :: "bytes \<Rightarrow> bytes \<Rightarrow> 'db \<Rightarrow> 'db"
  db_Delete :: "bytes \<Rightarrow> 'db \<Rightarrow> 'db"
  db_Close :: "'db \<Rightarrow> string option \<times> 'db"

definition leveldb_ok :: "'db leveldb \<Rightarrow> ('db \<Rightarrow> bytes \<Rightarrow> bytes option) \<Rightarrow> bool" where
  "leveldb_ok ldb contents \<longleftrightarrow>
     (\<forall>k d. db_Get ldb k d = (case contents d k of Some v \<Rightarrow> Found v | None \<Rightarrow> ErrNotFound))
     \<and> (\<forall>k v d. contents (db_Put ldb k v d) = (contents d)(k \<mapsto> v))
     \<and> (\<forall>k d. contents (db_Delete ldb k d) = (contents d)(k := None))"

text \<open>A database that behaves: a finite map.\<close>

definition map_leveldb :: "(bytes \<Rightarrow> bytes option) leveldb" where
  "map_leveldb = \<lparr>db_Get = (\<lambda>k d. case d k of Some v \<Rightarrow> Found v | None \<Rightarrow> ErrNotFound),
     db_Put = (\<lambda>k v d. d(k \<mapsto> v)), db_Delete = (\<lambda>k d. d(k := None)), db_Close = (\<lambda>d. (None, d))\<rparr>"

lemma map_leveldb_ok: "leveldb_ok map_leveldb (\<lambda>d. d)"
  by (simp add: leveldb_ok_def map_leveldb_def)

section \<open>Records\<close>

text \<open>The four-byte length keeps the low 32 bits of the payload's length.\<close>

definition frame :: "bytes \<Rightarrow> bytes" where
  "frame encrypted = be32 (length encrypted) @ encrypted"

text \<open>The parse loop of \<open>GetAndClearInteractions\<close>, at byte offset \<open>off\<close>.\<close>

function parse_records :: "bytes \<Rightarrow> nat \<Rightarrow> bytes list" where
  "parse_records data off =
     (if off + 4 \<le> length data
      then let n = be32_value (take 4 (drop off data)); off = off + 4
           in if off + n > length data then []
              else take n (drop off data) # parse_records data (off + n)
      else [])"
  by pat_completeness auto
termination
  by (relation "measure (\<lambda>(data, off). length data - off)") auto

declare parse_records.simps [simp del]

lemma parse_records_shift: "parse_records (pre @ data) (length pre + off) = parse_records data off"
proof (induction "length data - off" arbitrary: off rule: less_induct)
  case less
  have drop: "drop (length pre + k) (pre @ data) = drop k data" for k by simp
  show ?case
  proof (cases "off + 4 \<le> length data")
    case True
    define n where "n = be32_value (take 4 (drop off data))"
    have "parse_records (pre @ data) (length pre + (off + 4 + n)) = parse_records data (off + 4 + n)"
      if "off + 4 + n \<le> length data"
      by (rule less) (use True in simp)
    with True show ?thesis
      by (subst (1 2) parse_records.simps) (simp add: Let_def add.assoc flip: n_def)
  qed (simp add: parse_records.simps [of _ off] parse_records.simps [of _ "length pre + off"])
qed

lemma parse_records_frame:
  assumes "length x < 2 ^ 32"
  shows "parse_records (frame x @ rest) 0 = x # parse_records rest 0"
proof -
  have "parse_records (frame x @ rest) (length (frame x) + 0) = parse_records rest 0"
    by (rule parse_records_shift)
  then show ?thesis
    using assms by (subst parse_records.simps) (simp add: frame_def be32_value_be32 Let_def)
qed

lemma parse_records_frames:
  "\<forall>x \<in> set xs. length x < 2 ^ 32 \<Longrightarrow> parse_records (concat (map frame xs)) 0 = xs"
  by (induction xs) (simp_all add: parse_records_frame, simp add: parse_records.simps)

section \<open>The storage\<close>

record 'db diskStorage =
  mem :: "'db memoryStorage"
  dbPath :: string
  closed :: bool

definition NewDiskStorage ::
  "'db leveldb \<Rightarrow> (string \<Rightarrow> 'db result) \<Rightarrow> bytes result \<Rightarrow> Config \<Rightarrow> 'db diskStorage result" where
  "NewDiskStorage ldb openFile randBytes cfg = (case randBytes of
      Inl err \<Rightarrow> Inl (''failed to generate random path: '' @ err)
    | Inr bs \<Rightarrow>
        let path = DiskPath cfg @ ''/'' @ hex_encode bs
        in (case openFile path of
             Inl err \<Rightarrow> Inl (''failed to open LevelDB: '' @ err)
           | Inr db \<Rightarrow> Inr
               \<lparr>mem = (NewMemoryStorage cfg db)
                  \<lparr>onEvict := Some (\<lambda>correlationID session db. db_Delete ldb (go_bytes correlationID) db),
                   onRegister := Some (\<lambda>correlationID db. db_Delete ldb (go_bytes correlationID) db)\<rparr>,
                dbPath = path, closed = False\<rparr>))"

text \<open>The whole of an append runs under the storage's read lock and the session's lock.\<close>

definition disk_AppendInteraction ::
  "'db leveldb \<Rightarrow> int \<Rightarrow> bytes result \<Rightarrow> string \<Rightarrow> bytes \<Rightarrow> 'db diskStorage \<Rightarrow> 'db diskStorage" where
  "disk_AppendInteraction ldb now rand cid interaction d =
     (case find_session (mem d) cid of
        None \<Rightarrow> d\<lparr>mem := miss (mem d)\<rparr>
      | Some (a, session) \<Rightarrow>
          let m1 = hit (mem d)
          in (case EncryptInteractionBlock rand interaction (AESBlock session) of
               Inl err \<Rightarrow> d\<lparr>mem := m1\<rparr>
             | Inr encrypted \<Rightarrow>
                 let m2 = touch_if_sliding now a m1; key = go_bytes cid;
                     put = (\<lambda>existing. d\<lparr>mem := m2\<lparr>backing :=
                       db_Put ldb key (existing @ be32 (length encrypted) @ encrypted) (backing m2)\<rparr>\<rparr>)
                 in (case db_Get ldb key (backing m2) of
                      Found existing \<Rightarrow> put existing
                    | ErrNotFound \<Rightarrow> put []
                    | DbError err \<Rightarrow> d\<lparr>mem := m2\<rparr>)))"

text \<open>The handle keeps the session and the id; draining goes by the id.\<close>

definition disk_GetAndClearInteractions ::
  "'db leveldb \<Rightarrow> string \<Rightarrow> 'db diskStorage \<Rightarrow> bytes list result \<times> 'db diskStorage" where
  "disk_GetAndClearInteractions ldb cid d =
     (if closed d then (Inl ''storage closed'', d)
      else let key = go_bytes cid
           in (case db_Get ldb key (backing (mem d)) of
                ErrNotFound \<Rightarrow> (Inr [], d)
              | DbError err \<Rightarrow> (Inl (''could not get interactions: '' @ err), d)
              | Found data \<Rightarrow>
                  (Inr (parse_records data 0),
                   d\<lparr>mem := (mem d)\<lparr>backing := db_Delete ldb key (backing (mem d))\<rparr>\<rparr>)))"

definition disk_GetSession ::
  "int \<Rightarrow> string \<Rightarrow> string \<Rightarrow> 'db diskStorage \<Rightarrow> nat result \<times> 'db diskStorage" where
  "disk_GetSession now cid secretKey d = (case getSession now cid secretKey (mem d) of
      (r, m) \<Rightarrow> (r, d\<lparr>mem := m\<rparr>))"

definition disk_Close :: "'db leveldb \<Rightarrow> (string \<Rightarrow> string option) \<Rightarrow> 'db diskStorage
     \<Rightarrow> string option \<times> 'db diskStorage" where
  "disk_Close ldb remove_all d =
     (case db_Close ldb (backing (mem d)) of (err, db) \<Rightarrow>
        let d1 = d\<lparr>mem := (mem d)\<lparr>backing := db\<rparr>, closed := True\<rparr>
        in (case err of Some e \<Rightarrow> (Some e, d1) | None \<Rightarrow> (remove_all (dbPath d), d1)))"

definition disk_poll_session ::
  "'db leveldb \<Rightarrow> int \<Rightarrow> string \<Rightarrow> string \<Rightarrow> 'db diskStorage \<Rightarrow> bytes list result \<times> 'db diskStorage" where
  "disk_poll_session ldb now cid secretKey d = (case disk_GetSession now cid secretKey d of
      (Inl err, d1) \<Rightarrow> (Inl err, d1)
    | (Inr a, d1) \<Rightarrow> disk_GetAndClearInteractions ldb cid d1)"

text \<open>The operations that the disk storage inherits from the memory storage it embeds.\<close>

definition disk_Register where
  "disk_Register aes now rand cid pk sk resp (d :: 'db diskStorage) =
     (case Register aes now rand cid pk sk resp (mem d) of (r, m) \<Rightarrow> (r, d\<lparr>mem := m\<rparr>))"

definition disk_Delete where
  "disk_Delete cid sk (d :: 'db diskStorage) = (case Delete cid sk (mem d) of (r, m) \<Rightarrow> (r, d\<lparr>mem := m\<rparr>))"

definition disk_HasCorrelationID where
  "disk_HasCorrelationID now cid (d :: 'db diskStorage) =
     (case HasCorrelationID now cid (mem d) of (r, m) \<Rightarrow> (r, d\<lparr>mem := m\<rparr>))"

section \<open>The disk storage keeps the storage contract\<close>

definition pending_of :: "('db \<Rightarrow> bytes \<Rightarrow> bytes option) \<Rightarrow> 'db diskStorage \<Rightarrow> string \<Rightarrow> bytes list" where
  "pending_of contents d cid = (case contents (backing (mem d)) (go_bytes cid) of
      None \<Rightarrow> [] | Some v \<Rightarrow> parse_records v 0)"

definition disk_view ::
  "('db \<Rightarrow> bytes \<Rightarrow> bytes option) \<Rightarrow> int \<Rightarrow> 'db diskStorage \<Rightarrow> string \<Rightarrow> account option" where
  "disk_view contents now d cid =
     map_option (\<lambda>acc. acc\<lparr>acc_pending := pending_of contents d cid\<rparr>) (view now (mem d) cid)"

definition framed :: "bytes option \<Rightarrow> bytes list \<Rightarrow> bool" where
  "framed v xs \<longleftrightarrow> (\<forall>x \<in> set xs. length x < 2 ^ 32)
     \<and> (v = None \<and> xs = [] \<or> v = Some (concat (map frame xs)))"

definition disk_hooks :: "'db leveldb \<Rightarrow> 'db memoryStorage \<Rightarrow> bool" where
  "disk_hooks ldb m \<longleftrightarrow> onEvict m = Some (\<lambda>cid session db. db_Delete ldb (go_bytes cid) db)
     \<and> onRegister m = Some (\<lambda>cid db. db_Delete ldb (go_bytes cid) db)"

definition disk_good ::
  "block_cipher \<Rightarrow> 'db leveldb \<Rightarrow> ('db \<Rightarrow> bytes \<Rightarrow> bytes option) \<Rightarrow> int \<Rightarrow> 'db diskStorage \<Rightarrow> bool" where
  "disk_good aes ldb contents now d \<longleftrightarrow> leveldb_ok ldb contents \<and> mem_good aes now (mem d)
     \<and> disk_hooks ldb (mem d) \<and> \<not> closed d
     \<and> (\<forall>cid. \<exists>xs. framed (contents (backing (mem d)) (go_bytes cid)) xs)"

definition record_fits :: "bytes result \<Rightarrow> bytes \<Rightarrow> bool" where
  "record_fits rand x = (case rand of Inl _ \<Rightarrow> True | Inr iv \<Rightarrow> length iv + length x < 2 ^ 32)"

lemma framed_pending: "framed v xs \<Longrightarrow> (case v of None \<Rightarrow> [] | Some v \<Rightarrow> parse_records v 0) = xs"
  by (auto simp: framed_def parse_records_frames)

lemma framed_snoc:
  assumes "framed v xs" "length x < 2 ^ 32"
  shows "framed (Some ((case v of None \<Rightarrow> [] | Some e \<Rightarrow> e) @ frame x)) (xs @ [x])"
  using assms by (auto simp: framed_def)

lemma framed_None: "framed None []"
  by (simp add: framed_def)

text \<open>The session table does not look at the database, and the database hooks stay installed.\<close>

lemma backing_simps [simp]:
  "sessions (m\<lparr>backing := b\<rparr>) = sessions m" "heap (m\<lparr>backing := b\<rparr>) = heap m"
  "find_session (m\<lparr>backing := b\<rparr>) c = find_session m c" "view now (m\<lparr>backing := b\<rparr>) = view now m"
  "mem_ok aes (m\<lparr>backing := b\<rparr>) = mem_ok aes m" "mem_good aes now (m\<lparr>backing := b\<rparr>) = mem_good aes now m"
  "disk_hooks ldb (m\<lparr>backing := b\<rparr>) = disk_hooks ldb m"
proof -
  show "find_session (m\<lparr>backing := b\<rparr>) c = find_session m c" for c
    by (simp add: find_session_def split: option.split)
  show "view now (m\<lparr>backing := b\<rparr>) = view now m" by (rule view_cong; simp)
  show "mem_ok aes (m\<lparr>backing := b\<rparr>) = mem_ok aes m"
    by (simp add: mem_ok_def lru_ok_def ptr_ok_def)
  then show "mem_good aes now (m\<lparr>backing := b\<rparr>) = mem_good aes now m" by (simp add: mem_good_def)
qed (simp_all add: disk_hooks_def)

lemma hooks_simps [simp]:
  "disk_hooks ldb (hit m) = disk_hooks ldb m" "disk_hooks ldb (miss m) = disk_hooks ldb m"
  "disk_hooks ldb (evicted m) = disk_hooks ldb m"
  "disk_hooks ldb (touch_if_sliding now a m) = disk_hooks ldb m"
  "disk_hooks ldb (promoteLRU cid m) = disk_hooks ldb m"
  "disk_hooks ldb (removeLocked cid m) = disk_hooks ldb m"
  by (simp_all add: disk_hooks_def hit_def miss_def evicted_def touch_if_sliding_def touchSession_def
      update_session_def promoteLRU_def removeLocked_def Let_def split: option.split)

lemma backing_kept [simp]:
  "backing (hit m) = backing m" "backing (miss m) = backing m" "backing (evicted m) = backing m"
  "backing (touch_if_sliding now a m) = backing m" "backing (promoteLRU cid m) = backing m"
  by (simp_all add: hit_def miss_def evicted_def touch_if_sliding_def touchSession_def
      update_session_def promoteLRU_def split: option.split)

lemma backing_removeLocked:
  "disk_hooks ldb m \<Longrightarrow> backing (removeLocked cid m) = db_Delete ldb (go_bytes cid) (backing m)"
  by (simp add: removeLocked_def Let_def disk_hooks_def split: option.split)

lemma leveldb_okD:
  assumes "leveldb_ok ldb contents"
  shows "db_Get ldb k d = (case contents d k of Some v \<Rightarrow> Found v | None \<Rightarrow> ErrNotFound)"
    "contents (db_Put ldb k v d) = (contents d)(k \<mapsto> v)"
    "contents (db_Delete ldb k d) = (contents d)(k := None)"
  using assms by (simp_all add: leveldb_ok_def)

lemma getSession_backing:
  assumes "disk_hooks ldb m"
  shows "disk_hooks ldb (snd (getSession now cid sk m))"
    "view now m cid \<noteq> None \<Longrightarrow> backing (snd (getSession now cid sk m)) = backing m"
    "backing (snd (getSession now cid sk m)) \<in> {backing m, db_Delete ldb (go_bytes cid) (backing m)}"
  using assms
  by (auto simp: getSession_def getSession_read_def getSession_locked_def getSession_touch_def view_def
      backing_removeLocked split: option.split)

lemma mem_good_getSession: "mem_good aes now m \<Longrightarrow> mem_good aes now (snd (getSession now cid sk m))"
  using mem_ok_getSession [of aes m now cid sk]
  by (auto simp: mem_good_def getSession_def getSession_read_def getSession_locked_def
      getSession_touch_def split: option.split sum.split)

lemma disk_append_cases:
  assumes good: "disk_good aes ldb contents now d"
  obtains (absent) "view now (mem d) cid = None" "find_session (mem d) cid = None"
      "disk_AppendInteraction ldb now r cid x d = d\<lparr>mem := miss (mem d)\<rparr>"
  | (failed) err where "r = Inl err" "disk_AppendInteraction ldb now r cid x d = d\<lparr>mem := hit (mem d)\<rparr>"
  | (stored) iv a s where "r = Inr iv" "find_session (mem d) cid = Some (a, s)"
      "disk_AppendInteraction ldb now r cid x d =
         d\<lparr>mem := (touch_if_sliding now a (hit (mem d)))\<lparr>backing := db_Put ldb (go_bytes cid)
            ((case contents (backing (mem d)) (go_bytes cid) of None \<Rightarrow> [] | Some e \<Rightarrow> e)
               @ frame (encrypt_for aes (account_of s) iv x)) (backing (mem d))\<rparr>\<rparr>"
proof (cases "find_session (mem d) cid")
  case None
  with absent show ?thesis by (simp add: disk_AppendInteraction_def view_def)
next
  case (Some as)
  obtain a s where as: "find_session (mem d) cid = Some (a, s)" using Some by (cases as) simp
  then have "heap (mem d) a = Some s" by (simp add: find_session_Some)
  then have block: "AESBlock s = aes (AESKey s)"
    using good by (auto simp: disk_good_def mem_good_def mem_ok_def session_ok_def)
  have get: "db_Get ldb k db = (case contents db k of Some v \<Rightarrow> Found v | None \<Rightarrow> ErrNotFound)" for k db
    using good by (simp add: disk_good_def leveldb_ok_def)
  show ?thesis
  proof (cases r)
    case (Inl err)
    with failed as show ?thesis
      by (simp add: disk_AppendInteraction_def EncryptInteractionBlock_def Let_def)
  next
    case (Inr iv)
    then show ?thesis
      by (intro stored [OF _ as])
         (auto simp: disk_AppendInteraction_def as EncryptInteractionBlock_def get block
           encrypt_for_def frame_def Let_def split: option.split)
  qed
qed

lemma view_touch_other:
  assumes "ptr_ok m" "find_session m cid = Some (a, s)" "c \<noteq> cid"
  shows "view now (touch_if_sliding now a m) c = view now m c"
  using assms view_update [OF assms(1,2)] by (simp add: touch_if_sliding_def touchSession_def)

lemma length_encrypt: "length (ctr_xor block iv x) \<le> length x"
proof (induction block iv x rule: ctr_xor.induct)
  case (1 block ctr data)
  show ?case
  proof (cases "data = []")
    case False
    then have "length (ctr_xor block (ctr_incr ctr) (drop aes_BlockSize data))
        \<le> length (drop aes_BlockSize data)" by (rule 1)
    with False show ?thesis by (subst ctr_xor.simps) simp
  qed (simp add: ctr_xor.simps)
qed

lemma disk_append_framed:
  assumes fr: "framed (contents db k) xs" and fits: "record_fits (Inr iv) x"
    and ldb: "leveldb_ok ldb contents"
  shows "framed (contents (db_Put ldb k ((case contents db k of None \<Rightarrow> [] | Some e \<Rightarrow> e)
     @ frame (encrypt_for aes acc iv x)) db) k) (xs @ [encrypt_for aes acc iv x])"
proof -
  have "length (encrypt_for aes acc iv x) < 2 ^ 32"
    using fits length_encrypt [of "aes (acc_key acc)" iv x] by (simp add: record_fits_def encrypt_for_def)
  from framed_snoc [OF fr this] show ?thesis by (simp add: leveldb_okD [OF ldb])
qed

lemma disk_good_append:
  assumes good: "disk_good aes ldb contents now d" and fits: "record_fits r x"
  shows "disk_good aes ldb contents now (disk_AppendInteraction ldb now r c x d)"
proof -
  have ldb: "leveldb_ok ldb contents" and now: "clock_ok now" and m: "mem_good aes now (mem d)"
    using good by (simp_all add: disk_good_def mem_good_def)
  from good show ?thesis
  proof (cases rule: disk_append_cases [where r = r and cid = c and x = x])
    case absent
    with good show ?thesis by (simp add: disk_good_def mem_good_def)
  next
    case (failed err)
    with good show ?thesis by (simp add: disk_good_def mem_good_def)
  next
    case (stored iv a s)
    have touched: "mem_good aes now (touch_if_sliding now a (hit (mem d)))"
      using m by (simp add: mem_good_def mem_ok_touch_if_sliding)
    have "\<exists>xs. framed (contents (db_Put ldb (go_bytes c)
        ((case contents (backing (mem d)) (go_bytes c) of None \<Rightarrow> [] | Some e \<Rightarrow> e)
           @ frame (encrypt_for aes (account_of s) iv x)) (backing (mem d))) (go_bytes c')) xs" for c'
    proof (cases "c' = c")
      case True
      from good obtain xs where "framed (contents (backing (mem d)) (go_bytes c)) xs"
        by (auto simp: disk_good_def)
      from disk_append_framed [OF this _ ldb] fits stored(1) True show ?thesis by blast
    next
      case False
      with good show ?thesis by (simp add: disk_good_def leveldb_okD [OF ldb])
    qed
    with good touched stored(3) show ?thesis by (simp add: disk_good_def)
  qed
qed

lemma disk_poll_live:
  assumes good: "disk_good aes ldb contents now d" and v: "view now (mem d) c = Some acc"
    and sk: "acc_secret acc = go_bytes sk"
  obtains d' where "disk_poll_session ldb now c sk d = (Inr (pending_of contents d c), d')"
    "view now (mem d') = view now (mem d)" "closed d' = closed d"
    "contents (backing (mem d')) = (contents (backing (mem d)))(go_bytes c := None)"
    "mem_good aes now (mem d')" "disk_hooks ldb (mem d')"
proof -
  have ldb: "leveldb_ok ldb contents" and m: "mem_good aes now (mem d)" and h: "disk_hooks ldb (mem d)"
    and opened: "\<not> closed d" using good by (simp_all add: disk_good_def)
  from v obtain a s where f: "find_session (mem d) c = Some (a, s)" "\<not> isExpired now (mem d) s"
    and acc: "acc = account_of s" by (auto simp: view_Some)
  define m1 where "m1 = promoteLRU c (touch_if_sliding now a (hit (mem d)))"
  have g: "getSession now c sk (mem d) = (Inr a, m1)"
    using getSession_live [OF f, of sk] sk acc by (simp add: m1_def)
  have m1: "mem_good aes now m1" using mem_good_getSession [OF m, of c sk] g by simp
  have "view now m1 = view now (mem d)"
    using view_touch [of "hit (mem d)" c a s now] f m
    by (simp add: m1_def mem_good_def mem_ok_def ptr_ok_def)
  moreover have "backing m1 = backing (mem d)" "disk_hooks ldb m1"
    using h by (simp_all add: m1_def)
  ultimately show ?thesis
    using that [of "snd (disk_poll_session ldb now c sk d)"] g m1 opened
    by (cases "contents (backing (mem d)) (go_bytes c)")
       (simp_all add: disk_poll_session_def disk_GetSession_def disk_GetAndClearInteractions_def
         leveldb_okD [OF ldb] pending_of_def Let_def fun_upd_idem)
qed

lemma disk_poll_refused:
  assumes good: "disk_good aes ldb contents now d"
    and v: "view now (mem d) c = None \<or> (\<exists>acc. view now (mem d) c = Some acc \<and> acc_secret acc \<noteq> go_bytes sk)"
  obtains m err where "disk_poll_session ldb now c sk d = (Inl err, d\<lparr>mem := m\<rparr>)"
    "err = (if view now (mem d) c = None then ''could not get correlation-id''
            else ''invalid secret key passed for user'')"
    "view now m = view now (mem d)" "mem_good aes now m" "disk_hooks ldb m"
    "contents (backing m) = contents (backing (mem d))
     \<or> view now (mem d) c = None
        \<and> contents (backing m) = (contents (backing (mem d)))(go_bytes c := None)"
proof -
  have ldb: "leveldb_ok ldb contents" and m: "mem_good aes now (mem d)" and h: "disk_hooks ldb (mem d)"
    using good by (simp_all add: disk_good_def)
  obtain r m1 where g: "getSession now c sk (mem d) = (r, m1)" by (cases "getSession now c sk (mem d)")
  have kept: "mem_good aes now m1" "disk_hooks ldb m1"
    "backing m1 \<in> {backing (mem d), db_Delete ldb (go_bytes c) (backing (mem d))}"
    using mem_good_getSession [OF m, of c sk] getSession_backing [OF h, of now c sk] g by auto
  show ?thesis
  proof (cases "view now (mem d) c")
    case None
    with getSession_not_live [OF None, of sk] g kept that [of "''could not get correlation-id''" m1]
    show ?thesis
      by (auto simp: disk_poll_session_def disk_GetSession_def leveldb_okD [OF ldb])
  next
    case (Some acc)
    then obtain a s where f: "find_session (mem d) c = Some (a, s)" "\<not> isExpired now (mem d) s"
      and "acc = account_of s" by (auto simp: view_Some)
    with v Some have "getSession now c sk (mem d) = (Inl ''invalid secret key passed for user'', mem d)"
      using getSession_live [OF f, of sk] by auto
    with Some m h that [of "''invalid secret key passed for user''" "mem d"] show ?thesis
      by (simp add: disk_poll_session_def disk_GetSession_def)
  qed
qed

lemma disk_good_poll:
  assumes good: "disk_good aes ldb contents now d"
  shows "disk_good aes ldb contents now (snd (disk_poll_session ldb now c sk d))"
    "c' \<noteq> c \<Longrightarrow> disk_view contents now (snd (disk_poll_session ldb now c sk d)) c' = disk_view contents now d c'"
proof -
  have ldb: "leveldb_ok ldb contents" and opened: "\<not> closed d" using good by (simp_all add: disk_good_def)
  have fr: "\<exists>xs. framed (contents (backing (mem d)) (go_bytes i)) xs" for i
    using good by (simp add: disk_good_def)
  obtain d' where d': "snd (disk_poll_session ldb now c sk d) = d'" "view now (mem d') = view now (mem d)"
    "closed d' = closed d" "mem_good aes now (mem d')" "disk_hooks ldb (mem d')"
    "contents (backing (mem d')) = contents (backing (mem d))
     \<or> contents (backing (mem d')) = (contents (backing (mem d)))(go_bytes c := None)"
  proof (cases "\<exists>acc. view now (mem d) c = Some acc \<and> acc_secret acc = go_bytes sk")
    case True
    then obtain acc where "view now (mem d) c = Some acc" "acc_secret acc = go_bytes sk" by blast
    then obtain d1 where "disk_poll_session ldb now c sk d = (Inr (pending_of contents d c), d1)"
      "view now (mem d1) = view now (mem d)" "closed d1 = closed d"
      "contents (backing (mem d1)) = (contents (backing (mem d)))(go_bytes c := None)"
      "mem_good aes now (mem d1)" "disk_hooks ldb (mem d1)"
      by (rule disk_poll_live [OF good])
    with that [of d1] show ?thesis by simp
  next
    case False
    then have "view now (mem d) c = None
        \<or> (\<exists>acc. view now (mem d) c = Some acc \<and> acc_secret acc \<noteq> go_bytes sk)"
      by (cases "view now (mem d) c") auto
    then obtain m err where "disk_poll_session ldb now c sk d = (Inl err, d\<lparr>mem := m\<rparr>)"
      "view now m = view now (mem d)" "mem_good aes now m" "disk_hooks ldb m"
      "contents (backing m) = contents (backing (mem d))
       \<or> contents (backing m) = (contents (backing (mem d)))(go_bytes c := None)"
      by (rule disk_poll_refused [OF good]) blast
    with that [of "d\<lparr>mem := m\<rparr>"] show ?thesis by simp
  qed
  have "\<exists>xs. framed (contents (backing (mem d')) (go_bytes i)) xs" for i
    using d'(6) fr [of i] framed_None by auto
  with good d' show "disk_good aes ldb contents now (snd (disk_poll_session ldb now c sk d))"
    by (simp add: disk_good_def)
  show "disk_view contents now (snd (disk_poll_session ldb now c sk d)) c' = disk_view contents now d c'"
    if "c' \<noteq> c"
    using d'(1,2,6) that by (auto simp: disk_view_def pending_of_def)
qed

lemma disk_view_append_other:
  assumes good: "disk_good aes ldb contents now d" and ne: "c' \<noteq> c"
  shows "disk_view contents now (disk_AppendInteraction ldb now r c x d) c' = disk_view contents now d c'"
  using good
proof (cases rule: disk_append_cases [where r = r and cid = c and x = x])
  case (stored iv a s)
  have "leveldb_ok ldb contents" "ptr_ok (hit (mem d))"
    using good by (simp_all add: disk_good_def mem_good_def mem_ok_def ptr_ok_def)
  with ne stored(2) view_touch_other [of "hit (mem d)" c a s c' now] show ?thesis
    by (simp add: stored(3) disk_view_def pending_of_def leveldb_okD)
qed (simp_all add: disk_view_def pending_of_def)

lemma disk_view_append:
  assumes good: "disk_good aes ldb contents now d" and fits: "record_fits (Inr iv) x"
    and v: "disk_view contents now d c = Some acc"
  shows "disk_view contents now (disk_AppendInteraction ldb now (Inr iv) c x d) c
     = Some (acc\<lparr>acc_pending := acc_pending acc @ [encrypt_for aes acc iv x]\<rparr>)"
  using good
proof (cases rule: disk_append_cases [where r = "Inr iv" and cid = c and x = x])
  case absent
  with v show ?thesis by (simp add: disk_view_def)
next
  case (stored iv' a s)
  have ldb: "leveldb_ok ldb contents" and p: "ptr_ok (hit (mem d))" and m: "mem_good aes now (mem d)"
    using good by (simp_all add: disk_good_def mem_good_def mem_ok_def ptr_ok_def)
  from v stored(2) have live: "\<not> isExpired now (mem d) s"
    and acc: "acc = (account_of s)\<lparr>acc_pending := pending_of contents d c\<rparr>"
    by (auto simp: disk_view_def view_def split: if_splits)
  have "view now (touch_if_sliding now a (hit (mem d))) = view now (mem d)"
    using view_touch [OF p, of c a s now] stored(2) live m by (simp add: mem_good_def)
  then have "view now (touch_if_sliding now a (hit (mem d))) c = Some (account_of s)"
    using live stored(2) by (simp add: view_def)
  moreover obtain xs where xs: "framed (contents (backing (mem d)) (go_bytes c)) xs"
    using good by (auto simp: disk_good_def)
  then have "pending_of contents d c = xs" by (simp add: pending_of_def framed_pending)
  moreover note framed_pending [OF disk_append_framed [OF xs fits ldb, of aes "account_of s"]]
  moreover have "iv' = iv" using stored(1) by simp
  ultimately show ?thesis
    using acc by (simp add: stored(3) disk_view_def pending_of_def encrypt_for_def)
qed simp

interpretation disk_contract:
  storage_contract "disk_good aes ldb contents now" "disk_view contents now"
    "disk_AppendInteraction ldb now" "disk_poll_session ldb now" "encrypt_for aes" record_fits
  for aes ldb contents now
proof
  fix d r c c' x sk iv err acc q
  assume good: "disk_good aes ldb contents now d"
  show "disk_good aes ldb contents now (disk_AppendInteraction ldb now r c x d)" if "record_fits r x"
    using good that by (rule disk_good_append)
  show "disk_view contents now (disk_AppendInteraction ldb now (Inr iv) c x d) c
      = Some (acc\<lparr>acc_pending := acc_pending acc @ [encrypt_for aes acc iv x]\<rparr>)"
    if "record_fits (Inr iv) x" "disk_view contents now d c = Some acc"
    using good that by (rule disk_view_append)
  show "disk_view contents now (disk_AppendInteraction ldb now (Inl err) c x d) c = Some acc"
    if "disk_view contents now d c = Some acc"
    using good
    by (cases rule: disk_append_cases [where r = "Inl err" and cid = c and x = x])
       (use that in \<open>simp_all add: disk_view_def pending_of_def\<close>)
  show "disk_view contents now (disk_AppendInteraction ldb now r c x d) c' = disk_view contents now d c'"
    if "c' \<noteq> c" using good that by (rule disk_view_append_other)
  show "disk_good aes ldb contents now (snd (disk_poll_session ldb now c sk d))"
    using good by (rule disk_good_poll)
  show "disk_view contents now (snd (disk_poll_session ldb now c sk d)) c' = disk_view contents now d c'"
    if "c' \<noteq> c" using good that by (rule disk_good_poll)
  show "fst (disk_poll_session ldb now c sk d) = Inr (acc_pending acc)
      \<and> disk_view contents now (snd (disk_poll_session ldb now c sk d)) c = Some (acc\<lparr>acc_pending := []\<rparr>)"
    if v: "disk_view contents now d c = Some acc" and sk: "acc_secret acc = go_bytes sk"
  proof -
    from v obtain acc0 where v0: "view now (mem d) c = Some acc0"
      and acc: "acc = acc0\<lparr>acc_pending := pending_of contents d c\<rparr>"
      by (auto simp: disk_view_def)
    with sk have "acc_secret acc0 = go_bytes sk" by simp
    from disk_poll_live [OF good v0 this] obtain d' where
      "disk_poll_session ldb now c sk d = (Inr (pending_of contents d c), d')"
      "view now (mem d') = view now (mem d)"
      "contents (backing (mem d')) = (contents (backing (mem d)))(go_bytes c := None)" by blast
    with v0 acc show ?thesis by (simp add: disk_view_def pending_of_def)
  qed
  show "fst (disk_poll_session ldb now c sk d) = Inl ''invalid secret key passed for user''
      \<and> disk_view contents now (snd (disk_poll_session ldb now c sk d)) c = Some acc"
    if v: "disk_view contents now d c = Some acc" and sk: "acc_secret acc \<noteq> go_bytes sk"
  proof -
    from v sk obtain acc0 where "view now (mem d) c = Some acc0" "acc_secret acc0 \<noteq> go_bytes sk"
      by (auto simp: disk_view_def)
    with disk_poll_refused [OF good, of c sk] obtain m where
      "disk_poll_session ldb now c sk d = (Inl ''invalid secret key passed for user'', d\<lparr>mem := m\<rparr>)"
      "view now m = view now (mem d)" "contents (backing m) = contents (backing (mem d))" by auto
    with v show ?thesis by (simp add: disk_view_def pending_of_def)
  qed
  show "fst (disk_poll_session ldb now c sk d) = Inl ''could not get correlation-id''
      \<and> disk_view contents now (snd (disk_poll_session ldb now c sk d)) c = None"
    if "disk_view contents now d c = None"
  proof -
    from that have "view now (mem d) c = None" by (simp add: disk_view_def)
    with disk_poll_refused [OF good, of c sk] obtain m where
      "disk_poll_session ldb now c sk d = (Inl ''could not get correlation-id'', d\<lparr>mem := m\<rparr>)"
      "view now m = view now (mem d)" by auto
    with that show ?thesis by (simp add: disk_view_def)
  qed
next
  fix acc :: account and q
  show "encrypt_for aes (acc\<lparr>acc_pending := q\<rparr>) = encrypt_for aes acc"
    by (simp add: encrypt_for_def fun_eq_iff)
qed

section \<open>Properties\<close>

text \<open>
  The on-disk format round-trips: parsing the concatenation of length-prefixed records gives
  back the interactions that were appended, in order, for every payload below 4 GiB.
\<close>

theorem records_roundtrip:
  assumes "\<forall>x \<in> set xs. length x < 2 ^ 32"
  shows "parse_records (concat (map frame xs)) 0 = xs"
  using assms by (rule parse_records_frames)

theorem records_roundtrip_witness: "parse_records (concat (map frame [[1, 2], [], [3]])) 0 = [[1, 2], [], [3]]"
  by (rule records_roundtrip) simp


lemma map_leveldb_simps [simp]:
  "db_Get map_leveldb k d = (case d k of Some v \<Rightarrow> Found v | None \<Rightarrow> ErrNotFound)"
  "db_Put map_leveldb k v d = d(k \<mapsto> v)" "db_Delete map_leveldb k d = d(k := None)"
  by (simp_all add: map_leveldb_def)

text \<open>A disk storage with one session, registered as \<open>c\<close> with secret \<open>k\<close>.\<close>

definition demo_d0 :: "(bytes \<Rightarrow> bytes option) diskStorage" where
  "demo_d0 = (case NewDiskStorage map_leveldb (\<lambda>_. Inr (\<lambda>_. None)) (Inr [1])
     (zero_Config\<lparr>NoEviction := True\<rparr>) of Inr d \<Rightarrow> d
   | Inl _ \<Rightarrow> \<lparr>mem = NewMemoryStorage zero_Config Map.empty, dbPath = [], closed = True\<rparr>)"

definition demo_register :: "string \<Rightarrow> (bytes \<Rightarrow> bytes option) diskStorage
     \<Rightarrow> bytes result \<times> (bytes \<Rightarrow> bytes option) diskStorage" where
  "demo_register sk d = disk_Register demo_cipher 5 (Inr (replicate 32 0)) ''c''
     \<lparr>rsa_N = 1, rsa_E = 1\<rparr> sk None d"

lemma demo_d0_eq: "demo_d0 = \<lparr>mem = (NewMemoryStorage (zero_Config\<lparr>NoEviction := True\<rparr>) Map.empty)
     \<lparr>onEvict := Some (\<lambda>cid session db. db_Delete map_leveldb (go_bytes cid) db),
      onRegister := Some (\<lambda>cid db. db_Delete map_leveldb (go_bytes cid) db)\<rparr>,
   dbPath = ''/01'', closed = False\<rparr>"
  by (simp add: demo_d0_def NewDiskStorage_def zero_Config_def hex_encode_def hex_byte_def
      hex_digit_def del: map_leveldb_simps)

definition demo_d1 :: "(bytes \<Rightarrow> bytes option) diskStorage" where
  "demo_d1 = snd (demo_register ''k'' demo_d0)"

definition demo_session :: "string \<Rightarrow> Session" where
  "demo_session sk = \<lparr>PublicKey = \<lparr>rsa_N = 1, rsa_E = 1\<rparr>, AESKey = replicate 32 0,
     AESBlock = demo_cipher (replicate 32 0), SecretKey = go_bytes sk, Response = None,
     interactions = [], lastAccess = 5, createdAt = 5\<rparr>"

lemma demo_register_new:
  assumes "find_session (mem d) ''c'' = None" "card (dom (sessions (mem d))) < maxCacheCapacity"
    "disk_hooks map_leveldb (mem d)"
  shows "demo_register sk d = (Inr (replicate 32 0), d\<lparr>mem := insert_session ''c'' (demo_session sk) (miss (mem d))\<rparr>)"
  using assms
  by (simp add: demo_register_def disk_Register_def Register_def registerInternal_def register_new_def
      GenerateAESKey_def NewCipher_def Let_def demo_session_def wrap64_def)

lemma demo_d0_facts: "find_session (mem demo_d0) c = None" "sessions (mem demo_d0) = Map.empty"
  "disk_hooks map_leveldb (mem demo_d0)" "mem_ok demo_cipher (mem demo_d0)" "closed demo_d0 = False"
  "ttl (mem demo_d0) = 30 * 24 * hour" "noEviction (mem demo_d0)" "backing (mem demo_d0) = Map.empty"
  "slidingTTL (mem demo_d0) = False" "next_session (mem demo_d0) = 0"
  by (simp_all add: demo_d0_eq find_session_def NewMemoryStorage_def Let_def disk_hooks_def mem_ok_def
      lru_ok_def ptr_ok_def zero_Config_def wrap64_def duration_defs defaultEvictionDays_def
      EvictionSliding_def)

lemma insert_session_find [simp]:
  "find_session (insert_session cid s m) cid = Some (next_session m, s)"
  by (simp add: find_session_def)

lemma insert_session_disk:
  assumes "disk_hooks ldb m"
  shows "disk_hooks ldb (insert_session cid s m)"
    "backing (insert_session cid s m) = db_Delete ldb (go_bytes cid) (backing m)"
  using assms by (simp_all add: insert_session_def Let_def disk_hooks_def)

lemma demo_d1_eq: "demo_d1 = demo_d0\<lparr>mem := insert_session ''c'' (demo_session ''k'') (miss (mem demo_d0))\<rparr>"
  by (simp add: demo_d1_def demo_register_new demo_d0_facts maxCacheCapacity_def)

lemma demo_d1_facts: "find_session (mem demo_d1) ''c'' = Some (0, demo_session ''k'')"
  "disk_hooks map_leveldb (mem demo_d1)" "closed demo_d1 = False" "noEviction (mem demo_d1)"
  "backing (mem demo_d1) = Map.empty" "slidingTTL (mem demo_d1) = False"
  "sessions (mem demo_d1) = [''c'' \<mapsto> 0]"
proof -
  have h: "disk_hooks map_leveldb (miss (mem demo_d0))" by (simp add: demo_d0_facts)
  show "disk_hooks map_leveldb (mem demo_d1)" "backing (mem demo_d1) = Map.empty"
    by (simp_all add: demo_d1_eq insert_session_disk [OF h] demo_d0_facts fun_upd_idem)
qed (simp_all add: demo_d1_eq demo_d0_facts)

lemma demo_d1_good: "disk_good demo_cipher map_leveldb (\<lambda>d. d) 6 demo_d1"
proof -
  have "demo_register ''k'' demo_d0 = (Inr (replicate 32 0), demo_d1)"
    using demo_register_new [of demo_d0 "''k''"] by (simp add: demo_d1_eq demo_d0_facts maxCacheCapacity_def)
  then have "Register demo_cipher 5 (Inr (replicate 32 0)) ''c'' \<lparr>rsa_N = 1, rsa_E = 1\<rparr> ''k'' None
      (mem demo_d0) = (Inr (replicate 32 0), mem demo_d1)"
    unfolding demo_register_def disk_Register_def
    by (auto split: prod.splits dest: arg_cong [where f = mem])
  from mem_ok_Register [OF this demo_d0_facts(4)] have "mem_ok demo_cipher (mem demo_d1)"
    by (simp add: clock_ok_def max_int64_def rand_ok_def)
  moreover have "ttl (mem demo_d1) = 30 * 24 * hour" by (simp add: demo_d1_eq demo_d0_facts)
  ultimately show ?thesis
    using framed_None by (auto simp: disk_good_def map_leveldb_ok demo_d1_facts mem_good_def clock_ok_def
        max_int64_def duration_defs intro!: exI [of _ "[]"])
qed


text \<open>A handle that is still held when its session has been replaced.\<close>

definition stale_handle_schedule ::
  "nat result \<times> bytes list result \<times> bytes list result" where
  "stale_handle_schedule =
     (case disk_GetSession 5 ''c'' ''k'' demo_d1 of (h, d2) \<Rightarrow>
      case disk_Delete ''c'' ''k'' d2 of (_, d3) \<Rightarrow>
      case demo_register ''other'' d3 of (_, d4) \<Rightarrow>
      case disk_AppendInteraction map_leveldb 5 (Inr (replicate 16 0)) ''c'' [7] d4 of d5 \<Rightarrow>
      case disk_GetAndClearInteractions map_leveldb ''c'' d5 of (old, d6) \<Rightarrow>
      case disk_poll_session map_leveldb 5 ''c'' ''other'' d6 of (new, d7) \<Rightarrow> (h, old, new))"

text \<open>
  A disk handle drains by id, not by session.  In this schedule a poller gets its handle, the
  session is deleted and the id registered again with another secret, an interaction is captured
  for the new session, and the old handle then drains it: the new owner's poll finds nothing.
\<close>

theorem disk_stale_handle_drains_successor:
  "stale_handle_schedule = (Inr 0, Inr [replicate 16 0 @ [7]], Inr [])"
proof -
  define m2 where "m2 = promoteLRU ''c'' (hit (mem demo_d1))"
  define m3 where "m3 = removeLocked ''c'' (hit m2)"
  define m4 where "m4 = insert_session ''c'' (demo_session ''other'') (miss m3)"
  define y :: bytes where "y = replicate 16 0 @ [7]"
  define m5 where "m5 = (hit m4)\<lparr>backing := [go_bytes ''c'' \<mapsto> frame y]\<rparr>"
  define m6 where "m6 = m5\<lparr>backing := Map.empty\<rparr>"
  have f2: "find_session m2 ''c'' = Some (0, demo_session ''k'')" "disk_hooks map_leveldb m2"
    by (simp_all add: m2_def demo_d1_facts)
  have 2: "disk_GetSession 5 ''c'' ''k'' demo_d1 = (Inr 0, demo_d1\<lparr>mem := m2\<rparr>)"
    using getSession_live [of "mem demo_d1" "''c''" 0 "demo_session ''k''" 5 "''k''"]
    by (simp add: disk_GetSession_def demo_d1_facts isExpired_def demo_session_def m2_def
        touch_if_sliding_def)
  have 3: "disk_Delete ''c'' ''k'' (demo_d1\<lparr>mem := m2\<rparr>) = (None, demo_d1\<lparr>mem := m3\<rparr>)"
    by (simp add: disk_Delete_def Delete_def f2 demo_session_def m3_def Let_def)
  have f3: "find_session m3 ''c'' = None" "sessions m3 = Map.empty" "disk_hooks map_leveldb m3"
    "noEviction m3" "slidingTTL m3 = False"
    by (simp_all add: m3_def f2 m2_def demo_d1_facts)
  have b3: "backing m3 = Map.empty"
    using backing_removeLocked [of map_leveldb "hit m2" "''c''"] f2
    by (simp add: m3_def) (simp add: m2_def demo_d1_facts)
  have 4: "demo_register ''other'' (demo_d1\<lparr>mem := m3\<rparr>) = (Inr (replicate 32 0), demo_d1\<lparr>mem := m4\<rparr>)"
    using demo_register_new [of "demo_d1\<lparr>mem := m3\<rparr>" "''other''"]
    by (simp add: f3 m4_def maxCacheCapacity_def)
  have f4: "find_session m4 ''c'' = Some (next_session m3, demo_session ''other'')" "noEviction m4"
    "slidingTTL m4 = False" "backing m4 = Map.empty"
    using insert_session_disk(2) [of map_leveldb "miss m3" "''c''" "demo_session ''other''"]
    by (simp_all add: m4_def f3 b3)
  have 5: "disk_AppendInteraction map_leveldb 5 (Inr (replicate 16 0)) ''c'' [7] (demo_d1\<lparr>mem := m4\<rparr>)
      = demo_d1\<lparr>mem := m5\<rparr>"
    using demo_encrypt
    by (simp add: disk_AppendInteraction_def f4 demo_session_def Let_def touch_if_sliding_def hit_def
        m5_def frame_def y_def)
  have 6: "disk_GetAndClearInteractions map_leveldb ''c'' (demo_d1\<lparr>mem := m5\<rparr>)
      = (Inr [y], demo_d1\<lparr>mem := m6\<rparr>)"
    using parse_records_frames [of "[y]"]
    by (simp add: disk_GetAndClearInteractions_def demo_d1_facts m5_def m6_def y_def Let_def)
  have f6: "find_session m6 ''c'' = Some (next_session m3, demo_session ''other'')" "noEviction m6"
    "slidingTTL m6 = False" "backing m6 = Map.empty"
    by (simp_all add: m6_def m5_def f4)
  have 7: "fst (disk_poll_session map_leveldb 5 ''c'' ''other'' (demo_d1\<lparr>mem := m6\<rparr>)) = Inr []"
    using getSession_live [OF f6(1), of 5 "''other''"]
    by (simp add: disk_poll_session_def disk_GetSession_def disk_GetAndClearInteractions_def
        isExpired_def f6 demo_session_def demo_d1_facts Let_def touch_if_sliding_def)
  show ?thesis
    using 7 by (cases "disk_poll_session map_leveldb 5 ''c'' ''other'' (demo_d1\<lparr>mem := m6\<rparr>)")
      (simp add: stale_handle_schedule_def 2 3 4 5 6 y_def)
qed

end
