(* ===== verification/Matching.thy ===== *)
theory Matching
  imports Memory_Properties
begin

text \<open>
  The three matchers of \<open>oobsrv/correlation.go\<close> on the session table of the in-memory storage: each
  reports exactly the live ids its input contains, each id once, in the order of the reference list
  of candidates; looking ids up never makes a live session disappear.
\<close>

text \<open>An id occurs in a label as a window followed by a nonce, or is the whole label.\<close>

definition occurs_in_label :: "nat \<Rightarrow> string \<Rightarrow> string \<Rightarrow> bool" where
  "occurs_in_label n c label \<longleftrightarrow> length c = n \<and> isCIDBase32 c
     \<and> (label = c \<or> (\<exists>pre nonce post. label = pre @ c @ nonce @ post
                      \<and> length nonce = minNonceLength \<and> isAlphanumeric nonce))"

lemma candidates_occurs:
  "c \<in> set (candidates n input) \<longleftrightarrow> (\<exists>label \<in> set (split_on CHR ''.'' input). occurs_in_label n c label)"
  unfolding candidates_iff label_candidates_iff bare_candidates_iff occurs_in_label_def by blast

lemma match_exact_ids:
  "\<exists>ms m'. MatchCorrelationID input n domains (HasCorrelationID now) m = (ms, m')
     \<and> live_session now m' = live_session now m
     \<and> map UniqueID ms = dedup (filter (live_session now m) (candidates n (to_lower input)))
     \<and> UniqueID ` set ms = {c. live_session now m c
           \<and> (\<exists>label. label \<in> set (split_on CHR ''.'' (to_lower input)) \<and> occurs_in_label n c label)}
     \<and> FullID ` set ms \<subseteq> {extractFullID (to_lower input) domains}"
proof -
  obtain ms m' where ms: "MatchCorrelationID input n domains (HasCorrelationID now) m = (ms, m')"
    "live_session now m' = live_session now m"
    "map UniqueID ms = dedup (filter (live_session now m) (candidates n (to_lower input)))"
    "\<forall>x \<in> set ms. FullID x = extractFullID (to_lower input) domains"
    using memory_registry.MatchCorrelationID_ids by blast
  have "UniqueID ` set ms = set (dedup (filter (live_session now m) (candidates n (to_lower input))))"
    by (simp flip: ms(3))
  then show ?thesis using ms by (auto simp: candidates_occurs)
qed

text \<open>
  C3: \<open>MatchCorrelationID\<close> reports an id exactly when its session is live and one of the
  dot-separated labels of the lower-cased input contains it (followed by at least three
  alphanumeric characters) or equals it; every id once, in order of first occurrence, each with the
  full id of the input.  The lookups change no live session.
\<close>

theorem match_exact:
  "\<exists>ms m'. MatchCorrelationID input n domains (HasCorrelationID now) m = (ms, m')
     \<and> live_session now m' = live_session now m
     \<and> map UniqueID ms = dedup (filter (live_session now m) (candidates n (to_lower input)))
     \<and> UniqueID ` set ms = {c. live_session now m c
           \<and> (\<exists>label. label \<in> set (split_on CHR ''.'' (to_lower input)) \<and> occurs_in_label n c label)}
     \<and> FullID ` set ms \<subseteq> {extractFullID (to_lower input) domains}"
  by (rule match_exact_ids)

text \<open>
  The scan-everywhere matcher reports exactly the live ids that start a valid window of a chunk
  of the input; each id once, each with a window of the input that starts with it.
\<close>

theorem match_everywhere_exact:
  "\<exists>ms m'. MatchCorrelationIDEverywhere input n (HasCorrelationID now) m = (ms, m')
     \<and> live_session now m' = live_session now m
     \<and> map UniqueID ms
         = dedup (filter (live_session now m) (map (take n) (everywhere_windows n (to_lower input))))
     \<and> set ms \<subseteq> {x. FullID x \<in> set (everywhere_windows n (to_lower input))
                     \<and> take n (FullID x) = UniqueID x}"
proof -
  obtain ms m' where "MatchCorrelationIDEverywhere input n (HasCorrelationID now) m = (ms, m')"
    "live_session now m' = live_session now m"
    "map UniqueID ms
      = dedup (filter (live_session now m) (map (take n) (everywhere_windows n (to_lower input))))"
    "full_ids_from n (everywhere_windows n (to_lower input)) ms"
    using memory_registry.MatchCorrelationIDEverywhere_ids by blast
  then show ?thesis by (auto simp: full_ids_from_def)
qed

text \<open>
  The LDAP matcher reports exactly the live ids that occur in the parts of a base DN between
  \<open>=\<close> and \<open>,\<close>, each once, in order.
\<close>

theorem match_ldap_exact:
  "\<exists>ms m'. MatchLDAPCorrelationID baseDN n domains (HasCorrelationID now) m = (ms, m')
     \<and> live_session now m' = live_session now m
     \<and> map UniqueID ms = dedup (filter (live_session now m)
          (concat (map (\<lambda>part. candidates n (to_lower (trim_space part)))
             (fields_func (\<lambda>r. r = CHR ''='' \<or> r = CHR '','') baseDN))))"
  using memory_registry.MatchLDAP_ids by blast

end
