(* ===== verification/Shared_Bucket.thy ===== *)
theory Shared_Bucket
  imports Prelude
begin

text \<open>
  \<open>SharedBucket\<close> of \<open>oobsrv/storage.go\<close>: one append-only buffer read by many consumers, each with
  its own offset.  The buffer is trimmed in batches of \<open>maxBuffer\<close>, and consumers that have not been
  seen for the eviction TTL are forgotten.

  The specification is the log of everything appended: a consumer that comes back in time reads
  exactly what was appended since its last read, and the buffer is bounded.
\<close>

section \<open>State and operations\<close>

record SharedBucket =
  bucket_interactions :: "bytes list"
  maxBuffer :: int
  offsets :: "string \<rightharpoonup> int"
  lastSeen :: "string \<rightharpoonup> int"
  evictionTTL :: int
  lastCleanup :: int

definition sharedBucketCleanupInterval :: int where
  "sharedBucketCleanupInterval = minute"

definition NewSharedBucket :: "int \<Rightarrow> int \<Rightarrow> int \<Rightarrow> SharedBucket" where
  "NewSharedBucket now maxBuf evictTTL =
     \<lparr>bucket_interactions = [], maxBuffer = maxBuf, offsets = Map.empty, lastSeen = Map.empty,
      evictionTTL = evictTTL, lastCleanup = now\<rparr>"

definition bucket_Append :: "bytes \<Rightarrow> SharedBucket \<Rightarrow> SharedBucket" where
  "bucket_Append interaction b =
     (let xs = bucket_interactions b @ [interaction]
      in if maxBuffer b > 0 \<and> int (length xs) \<ge> wrap64 (2 * maxBuffer b)
         then b\<lparr>bucket_interactions := drop (nat (maxBuffer b)) xs,
                offsets := (\<lambda>c. map_option (\<lambda>offset. max 0 (offset - maxBuffer b)) (offsets b c))\<rparr>
         else b\<lparr>bucket_interactions := xs\<rparr>)"

definition cleanupStaleLocked :: "int \<Rightarrow> SharedBucket \<Rightarrow> SharedBucket" where
  "cleanupStaleLocked now b =
     (if time_sub now (lastCleanup b) < sharedBucketCleanupInterval then b
      else let stale = (\<lambda>c. case lastSeen b c of
                 Some t \<Rightarrow> time_sub now t > evictionTTL b | None \<Rightarrow> False)
           in b\<lparr>offsets := (\<lambda>c. if stale c then None else offsets b c),
                lastSeen := (\<lambda>c. if stale c then None else lastSeen b c),
                lastCleanup := now\<rparr>)"

definition bucket_ReadFrom :: "int \<Rightarrow> string \<Rightarrow> SharedBucket \<Rightarrow> bytes list \<times> SharedBucket" where
  "bucket_ReadFrom now consumer b =
     (let offset = (case offsets b consumer of Some n \<Rightarrow> n | None \<Rightarrow> 0);
          n = int (length (bucket_interactions b));
          b1 = b\<lparr>offsets := (offsets b)(consumer \<mapsto> n), lastSeen := (lastSeen b)(consumer \<mapsto> now)\<rparr>
      in if offset \<ge> n then ([], cleanupStaleLocked now b1)
         else (drop (nat offset) (bucket_interactions b), cleanupStaleLocked now b1))"

section \<open>The log behind the buffer\<close>

text \<open>
  \<open>bucket_of log dropped b\<close>: the buffer holds the log from \<open>dropped\<close> on.  A consumer's position in
  the log is \<open>dropped\<close> plus its offset.
\<close>

definition bucket_ok :: "SharedBucket \<Rightarrow> bool" where
  "bucket_ok b \<longleftrightarrow> 0 \<le> maxBuffer b \<and> maxBuffer b < 2 ^ 62
     \<and> (0 < maxBuffer b \<longrightarrow> int (length (bucket_interactions b)) < 2 * maxBuffer b)
     \<and> (\<forall>c n. offsets b c = Some n \<longrightarrow> 0 \<le> n \<and> n \<le> int (length (bucket_interactions b)))"

definition bucket_of :: "bytes list \<Rightarrow> nat \<Rightarrow> SharedBucket \<Rightarrow> bool" where
  "bucket_of log dropped b \<longleftrightarrow> bucket_ok b \<and> dropped \<le> length log
     \<and> bucket_interactions b = drop dropped log
     \<and> (dropped = 0 \<or> 0 < maxBuffer b \<and> maxBuffer b \<le> int (length (bucket_interactions b)))"

text \<open>The position a consumer will read from next, as an index of the log.\<close>

definition position :: "nat \<Rightarrow> SharedBucket \<Rightarrow> string \<Rightarrow> nat" where
  "position dropped b c = dropped + (case offsets b c of Some n \<Rightarrow> nat n | None \<Rightarrow> 0)"

lemma bucket_ok_wrap: "bucket_ok b \<Longrightarrow> wrap64 (2 * maxBuffer b) = 2 * maxBuffer b"
  by (simp add: bucket_ok_def wrap64_def)

lemma bucket_okD:
  assumes "bucket_ok b"
  shows "0 \<le> maxBuffer b" "maxBuffer b < 2 ^ 62"
    "0 < maxBuffer b \<Longrightarrow> int (length (bucket_interactions b)) < 2 * maxBuffer b"
    "offsets b c = Some n \<Longrightarrow> 0 \<le> n \<and> n \<le> int (length (bucket_interactions b))"
  using assms by (auto simp: bucket_ok_def)

lemma bucket_of_ok: "bucket_of log d b \<Longrightarrow> bucket_ok b"
  by (simp add: bucket_of_def)

lemma bucket_of_new:
  "0 \<le> n \<Longrightarrow> n < 2 ^ 62 \<Longrightarrow> bucket_of [] 0 (NewSharedBucket now n evictTTL)"
  by (simp add: bucket_of_def bucket_ok_def NewSharedBucket_def)

lemma bucket_of_append:
  assumes "bucket_of log dropped b"
  obtains dropped' where "bucket_of (log @ [x]) dropped' (bucket_Append x b)" "dropped \<le> dropped'"
    "\<And>c. offsets b c \<noteq> None \<Longrightarrow> position dropped' (bucket_Append x b) c = max (position dropped b c) dropped'"
    "\<And>c. offsets (bucket_Append x b) c = None \<longleftrightarrow> offsets b c = None"
    "lastSeen (bucket_Append x b) = lastSeen b" "evictionTTL (bucket_Append x b) = evictionTTL b"
    "maxBuffer (bucket_Append x b) = maxBuffer b"
proof (cases "maxBuffer b > 0 \<and> int (length (bucket_interactions b @ [x])) \<ge> 2 * maxBuffer b")
  case False
  moreover have "bucket_ok b" using assms by (simp add: bucket_of_def)
  ultimately have eq: "bucket_Append x b = b\<lparr>bucket_interactions := bucket_interactions b @ [x]\<rparr>"
    by (auto simp: bucket_Append_def Let_def bucket_ok_wrap)
  have "bucket_of (log @ [x]) dropped (bucket_Append x b)"
    using assms False unfolding eq bucket_of_def bucket_ok_def by force
  moreover have "position dropped (bucket_Append x b) c = max (position dropped b c) dropped" for c
    by (simp add: position_def eq)
  ultimately show ?thesis using that [of dropped] by (simp add: eq)
next
  case True
  let ?n = "nat (maxBuffer b)"
  have len: "int (length (bucket_interactions b)) + 1 = 2 * maxBuffer b"
  proof -
    have "bucket_ok b" using assms by (simp add: bucket_of_def)
    then show ?thesis using True by (simp add: bucket_ok_def)
  qed
  have eq: "bucket_Append x b = b\<lparr>bucket_interactions := drop ?n (bucket_interactions b @ [x]),
      offsets := (\<lambda>c. map_option (\<lambda>offset. max 0 (offset - maxBuffer b)) (offsets b c))\<rparr>"
    using True bucket_ok_wrap [of b] assms by (auto simp: bucket_Append_def Let_def bucket_of_def)
  have off: "0 \<le> n \<and> n \<le> int (length (bucket_interactions b))" if "offsets b c = Some n" for c n
    using bucket_okD(4) [OF bucket_of_ok [OF assms] that] .
  have lenlog: "dropped \<le> length log" "bucket_interactions b = drop dropped log"
    using assms by (simp_all add: bucket_of_def)
  have n: "int ?n = maxBuffer b" "0 < maxBuffer b" using True by simp_all
  have ok: "bucket_ok (bucket_Append x b)"
    using assms len n unfolding bucket_of_def bucket_ok_def eq
    by (auto simp: of_nat_diff dest!: off)
  have "dropped + ?n \<le> length log"
    using lenlog len n by simp
  then have "bucket_of (log @ [x]) (dropped + ?n) (bucket_Append x b)"
    using ok lenlog len n unfolding bucket_of_def eq by (auto simp: add.commute)
  moreover have "position (dropped + ?n) (bucket_Append x b) c
      = max (position dropped b c) (dropped + ?n)" if "offsets b c \<noteq> None" for c
    using that off n by (auto simp: position_def eq nat_diff_distrib' max_def)
  ultimately show ?thesis using that [of "dropped + ?n"] by (simp add: eq)
qed

lemma cleanup_simps [simp]:
  "bucket_interactions (cleanupStaleLocked now b) = bucket_interactions b"
  "maxBuffer (cleanupStaleLocked now b) = maxBuffer b"
  "evictionTTL (cleanupStaleLocked now b) = evictionTTL b"
  by (simp_all add: cleanupStaleLocked_def Let_def)

lemma cleanup_keeps:
  assumes "lastSeen b c = Some t" "time_sub now t \<le> evictionTTL b"
  shows "offsets (cleanupStaleLocked now b) c = offsets b c"
    "lastSeen (cleanupStaleLocked now b) c = Some t"
  using assms by (auto simp: cleanupStaleLocked_def Let_def)

lemma bucket_ok_cleanup: "bucket_ok b \<Longrightarrow> bucket_ok (cleanupStaleLocked now b)"
  unfolding bucket_ok_def by (auto simp: cleanupStaleLocked_def Let_def split: if_splits)

lemma read_simps [simp]:
  "bucket_interactions (snd (bucket_ReadFrom now c b)) = bucket_interactions b"
  "maxBuffer (snd (bucket_ReadFrom now c b)) = maxBuffer b"
  "evictionTTL (snd (bucket_ReadFrom now c b)) = evictionTTL b"
  by (simp_all add: bucket_ReadFrom_def Let_def)

lemma bucket_ok_read: "bucket_ok b \<Longrightarrow> bucket_ok (snd (bucket_ReadFrom now c b))"
proof -
  assume "bucket_ok b"
  then have "bucket_ok (b\<lparr>offsets := (offsets b)(c \<mapsto> int (length (bucket_interactions b))),
      lastSeen := (lastSeen b)(c \<mapsto> now)\<rparr>)" by (simp add: bucket_ok_def)
  then show ?thesis by (simp add: bucket_ReadFrom_def Let_def bucket_ok_cleanup)
qed

lemma bucket_of_read: "bucket_of log d b \<Longrightarrow> bucket_of log d (snd (bucket_ReadFrom now c b))"
  unfolding bucket_of_def read_simps by (blast intro: bucket_ok_read)

lemma read_result:
  assumes "bucket_of log d b"
  shows "fst (bucket_ReadFrom now c b) = drop (position d b c) log"
  using assms
  by (auto simp: bucket_ReadFrom_def Let_def position_def bucket_of_def bucket_ok_def nat_le_iff
        add.commute split: option.split)

lemma read_self:
  assumes "0 \<le> evictionTTL b"
  shows "offsets (snd (bucket_ReadFrom now c b)) c = Some (int (length (bucket_interactions b)))"
    "lastSeen (snd (bucket_ReadFrom now c b)) c = Some now"
  using assms by (simp_all add: bucket_ReadFrom_def Let_def cleanup_keeps [where t = now])

lemma read_other:
  assumes "c' \<noteq> c" "lastSeen b c = Some t" "time_sub now t \<le> evictionTTL b"
  shows "offsets (snd (bucket_ReadFrom now c' b)) c = offsets b c"
    "lastSeen (snd (bucket_ReadFrom now c' b)) c = Some t"
  using assms by (simp_all add: bucket_ReadFrom_def Let_def cleanup_keeps [where t = t])

section \<open>Runs\<close>

datatype bucket_op = BAppend bytes | BRead int string

primrec bucket_step :: "bucket_op \<Rightarrow> SharedBucket \<Rightarrow> SharedBucket" where
  "bucket_step (BAppend x) b = bucket_Append x b"
| "bucket_step (BRead now c) b = snd (bucket_ReadFrom now c b)"

primrec op_appends :: "bucket_op \<Rightarrow> bytes list" where
  "op_appends (BAppend x) = [x]"
| "op_appends (BRead now c) = []"

primrec leaves_alone :: "string \<Rightarrow> int \<Rightarrow> int \<Rightarrow> bucket_op \<Rightarrow> bool" where
  "leaves_alone c t evict (BAppend x) = True"
| "leaves_alone c t evict (BRead now c') = (c' \<noteq> c \<and> time_sub now t \<le> evict)"

lemma run_position:
  assumes "bucket_of log d b" "offsets b c \<noteq> None" "lastSeen b c = Some t"
    and "list_all (leaves_alone c t (evictionTTL b)) ops"
  shows "\<exists>d'. bucket_of (log @ concat (map op_appends ops)) d' (fold bucket_step ops b)
     \<and> position d' (fold bucket_step ops b) c = max (position d b c) d'
     \<and> maxBuffer (fold bucket_step ops b) = maxBuffer b \<and> d \<le> d'"
  using assms
proof (induction ops arbitrary: log d b)
  case Nil
  then show ?case by (intro exI [of _ d]) (simp add: position_def)
next
  case (Cons op ops)
  show ?case
  proof (cases op)
    case (BAppend x)
    obtain d' where d': "bucket_of (log @ [x]) d' (bucket_Append x b)" "d \<le> d'"
      "position d' (bucket_Append x b) c = max (position d b c) d'"
      "offsets (bucket_Append x b) c \<noteq> None" "lastSeen (bucket_Append x b) c = Some t"
      "evictionTTL (bucket_Append x b) = evictionTTL b" "maxBuffer (bucket_Append x b) = maxBuffer b"
      using bucket_of_append [OF Cons.prems(1), of x] Cons.prems(2,3) by metis
    obtain d2 where d2: "bucket_of ((log @ [x]) @ concat (map op_appends ops)) d2
          (fold bucket_step ops (bucket_Append x b))"
      "position d2 (fold bucket_step ops (bucket_Append x b)) c
          = max (position d' (bucket_Append x b) c) d2"
      "maxBuffer (fold bucket_step ops (bucket_Append x b)) = maxBuffer b" "d' \<le> d2"
      using Cons.IH [OF d'(1,4,5)] Cons.prems(4) d'(6,7) by auto
    with d' BAppend show ?thesis by (intro exI [of _ d2]) (auto simp: max_def)
  next
    case (BRead now c')
    with Cons.prems have ne: "c' \<noteq> c" "time_sub now t \<le> evictionTTL b" by simp_all
    have "position d (bucket_step op b) c = position d b c"
      using read_other(1) [OF ne(1) Cons.prems(3) ne(2)] BRead by (simp add: position_def)
    with Cons.IH [OF bucket_of_read [OF Cons.prems(1)], of now c'] BRead Cons.prems
      read_other [OF ne(1) Cons.prems(3) ne(2)]
    show ?thesis by simp
  qed
qed

text \<open>
  C34: A consumer of the shared bucket that reads again before \<open>maxBuffer\<close> more interactions have
  come and within the eviction TTL gets exactly what was appended since its last read, in order;
  one that reads later gets the most recent part of it, never less than the last \<open>maxBuffer\<close>.
\<close>

theorem bucket_come_back:
  assumes "bucket_ok b" and "0 \<le> evictionTTL b"
    and "list_all (leaves_alone c t (evictionTTL b)) ops"
  defines "appended \<equiv> concat (map op_appends ops)"
    and "after \<equiv> fold bucket_step ops (snd (bucket_ReadFrom t c b))"
  shows "\<exists>k. fst (bucket_ReadFrom now c after) = drop k appended
     \<and> (maxBuffer b = 0 \<or> int (length appended) \<le> maxBuffer b \<longrightarrow> k = 0)
     \<and> min (int (length appended)) (maxBuffer b) \<le> int (length (drop k appended))"
proof -
  define log where "log = bucket_interactions b"
  define b1 where "b1 = snd (bucket_ReadFrom t c b)"
  have "bucket_of log 0 b" using assms(1) by (simp add: bucket_of_def log_def)
  then have b1: "bucket_of log 0 b1" unfolding b1_def by (rule bucket_of_read)
  have self: "offsets b1 c = Some (int (length log))" "lastSeen b1 c = Some t"
    unfolding b1_def log_def by (rule read_self [OF assms(2)])+
  have kept: "evictionTTL b1 = evictionTTL b" "maxBuffer b1 = maxBuffer b" by (simp_all add: b1_def)
  obtain d where d: "bucket_of (log @ appended) d after" "position d after c = max (length log) d"
    "maxBuffer after = maxBuffer b"
    using run_position [OF b1 _ self(2)] self(1) assms(3) kept
    by (auto simp: after_def appended_def position_def simp flip: b1_def)
  have "fst (bucket_ReadFrom now c after) = drop (d - length log) appended"
    unfolding read_result [OF d(1)] d(2) by (cases "length log \<le> d") (simp_all add: max_def)
  moreover have "d = 0 \<or> 0 < maxBuffer b \<and> d \<le> length log + length appended
      \<and> maxBuffer b \<le> int (length log + length appended - d)"
    using d(1,3) unfolding bucket_of_def by auto
  ultimately show ?thesis by (intro exI [of _ "d - length log"]) auto
qed

theorem bucket_come_back_witness:
  "\<exists>k. fst (bucket_ReadFrom 9 ''a'' (fold bucket_step
        [BAppend [1], BRead 6 ''b'', BAppend [2], BAppend [3], BAppend [4]]
        (snd (bucket_ReadFrom 5 ''a'' (NewSharedBucket 0 2 100))))) = drop k [[1], [2], [3], [4]]
     \<and> 2 \<le> int (length (drop k [[1], [2], [3], [4]]))"
proof -
  have "bucket_ok (NewSharedBucket 0 2 100)" by (simp add: bucket_ok_def NewSharedBucket_def)
  from bucket_come_back [OF this, of "''a''" 5 "[BAppend [1], BRead 6 ''b'', BAppend [2], BAppend [3], BAppend [4]]" 9]
  show ?thesis
    by (simp add: NewSharedBucket_def time_sub_def max_int64_def min_int64_def)
qed

text \<open>
  C35: The shared bucket is bounded: started empty with a positive \<open>maxBuffer\<close>, no sequence of
  appends and reads makes it hold \<open>2 * maxBuffer\<close> interactions, and no offset leaves the buffer.
\<close>

theorem bucket_bounded:
  assumes "0 < n" and "n < 2 ^ 62"
  shows "bucket_ok (fold bucket_step ops (NewSharedBucket now n evict))
     \<and> int (length (bucket_interactions (fold bucket_step ops (NewSharedBucket now n evict)))) < 2 * n"
proof -
  have step: "bucket_ok (bucket_step op b) \<and> maxBuffer (bucket_step op b) = maxBuffer b"
    if "bucket_ok b" for op b
  proof (cases op)
    case (BAppend x)
    have "bucket_of (bucket_interactions b) 0 b" using that by (simp add: bucket_of_def)
    then obtain d' where "bucket_of (bucket_interactions b @ [x]) d' (bucket_Append x b)"
      "maxBuffer (bucket_Append x b) = maxBuffer b" by (rule bucket_of_append)
    with BAppend show ?thesis by (simp add: bucket_of_def)
  qed (use that in \<open>simp add: bucket_ok_read\<close>)
  have "bucket_ok (fold bucket_step ops b) \<and> maxBuffer (fold bucket_step ops b) = maxBuffer b"
    if "bucket_ok b" for b
    using that by (induction ops arbitrary: b) (use step in auto)
  moreover have "bucket_ok (NewSharedBucket now n evict)"
    using assms by (simp add: bucket_ok_def NewSharedBucket_def)
  ultimately have "bucket_ok (fold bucket_step ops (NewSharedBucket now n evict))
     \<and> maxBuffer (fold bucket_step ops (NewSharedBucket now n evict)) = n"
    by (simp add: NewSharedBucket_def)
  then show ?thesis using assms bucket_okD(3) by metis
qed

theorem bucket_bounded_witness:
  "length (bucket_interactions (fold bucket_step (map (\<lambda>i. BAppend [of_nat i]) [0..<9])
     (NewSharedBucket 0 3 100))) < 6"
  using bucket_bounded [of 3 "map (\<lambda>i. BAppend [of_nat i]) [0..<9]" 0 100] by simp

end
