(* ===== verification/User_Agents.thy ===== *)
theory User_Agents
  imports Prelude "HOL-Library.AList"
begin

text \<open>
  The user-agent registration tracker (\<open>oobsrv/useragent.go\<close>): a tally of registrations by agent,
  swapped out and reported when enough distinct agents have accumulated, at midnight UTC and on
  shutdown.  The map of atomic counters is an association list; the reports that are logged are a
  component of the run.  The facts: no registration is lost or reported twice.
\<close>

definition uaCheckInterval :: int where "uaCheckInterval = 30 * second"
definition uaReportThreshold :: int where "uaReportThreshold = 100"

record userAgentTracker =
  ua_threshold :: int
  ua_active :: "(string \<times> 64 word) list"
  ua_windowStart :: int

definition newUserAgentTracker :: "int \<Rightarrow> int \<Rightarrow> userAgentTracker" where
  "newUserAgentTracker now threshold =
     \<lparr>ua_threshold = threshold, ua_active = [], ua_windowStart = wrap64 now\<rparr>"

definition ua_record :: "string \<Rightarrow> userAgentTracker \<Rightarrow> userAgentTracker" where
  "ua_record ua0 t =
     (let ua = (if ua0 = [] then ''<empty>'' else ua0);
          counter = (case map_of (ua_active t) ua of Some n \<Rightarrow> n | None \<Rightarrow> 0)
      in t\<lparr>ua_active := AList.update ua (counter + 1) (ua_active t)\<rparr>)"

definition ua_flush :: "userAgentTracker \<Rightarrow> ((string \<times> 64 word) list \<times> 64 word) \<times> userAgentTracker" where
  "ua_flush t = ((ua_active t, sum_list (map snd (ua_active t))), t\<lparr>ua_active := []\<rparr>)"

record ua_report =
  report_start :: int
  report_end :: int
  report_counts :: "(string \<times> 64 word) list"
  report_total :: "64 word"

definition reportAndClear :: "int \<Rightarrow> userAgentTracker \<Rightarrow> ua_report option \<times> userAgentTracker" where
  "reportAndClear now t = (case ua_flush t of ((counts, n), t1) \<Rightarrow>
     if counts = [] then (None, t1)
     else (Some \<lparr>report_start = ua_windowStart t1, report_end = now, report_counts = counts,
                  report_total = n\<rparr>,
           t1\<lparr>ua_windowStart := wrap64 now\<rparr>))"

definition nextMidnightUTC :: "int \<Rightarrow> int" where
  "nextMidnightUTC t = (t div (24 * hour) + 1) * (24 * hour)"

text \<open>
  The report loop: \<open>flushAt\<close> is its local variable.  A tick reports when the threshold or the
  boundary is reached; \<open>Stop\<close> stands for cancellation and for \<open>Close\<close>.
\<close>

datatype ua_event = Recorded string | Ticked int | Stopped int

definition ua_tick :: "int \<Rightarrow> int \<Rightarrow> userAgentTracker \<Rightarrow> ua_report list \<times> int \<times> userAgentTracker" where
  "ua_tick now flushAt t =
     (if int (length (ua_active t)) \<ge> ua_threshold t \<or> \<not> now < flushAt
      then (case reportAndClear now t of (r, t1) \<Rightarrow> (case r of None \<Rightarrow> [] | Some x \<Rightarrow> [x], nextMidnightUTC now, t1))
      else ([], flushAt, t))"

fun ua_run :: "ua_event list \<Rightarrow> int \<Rightarrow> userAgentTracker \<Rightarrow> ua_report list \<times> userAgentTracker" where
  "ua_run [] flushAt t = ([], t)"
| "ua_run (Recorded ua # es) flushAt t = ua_run es flushAt (ua_record ua t)"
| "ua_run (Ticked now # es) flushAt t = (case ua_tick now flushAt t of (rs, f, t1) \<Rightarrow>
     (case ua_run es f t1 of (rs', t2) \<Rightarrow> (rs @ rs', t2)))"
| "ua_run (Stopped now # es) flushAt t = (case reportAndClear now t of (r, t1) \<Rightarrow>
     (case r of None \<Rightarrow> [] | Some x \<Rightarrow> [x], t1))"

section \<open>Nothing is lost\<close>

definition tally :: "string \<Rightarrow> (string \<times> 64 word) list \<Rightarrow> 64 word" where
  "tally ua counts = (case map_of counts ua of Some n \<Rightarrow> n | None \<Rightarrow> 0)"

definition reported :: "string \<Rightarrow> ua_report list \<Rightarrow> 64 word" where
  "reported ua rs = sum_list (map (\<lambda>r. tally ua (report_counts r)) rs)"

text \<open>The registrations of an agent up to the shutdown of the loop.\<close>

fun recorded :: "string \<Rightarrow> ua_event list \<Rightarrow> 64 word" where
  "recorded ua [] = 0"
| "recorded ua (Recorded x # es) = (if (if x = [] then ''<empty>'' else x) = ua then 1 else 0) + recorded ua es"
| "recorded ua (Ticked now # es) = recorded ua es"
| "recorded ua (Stopped now # es) = 0"

lemma tally_Nil [simp]: "tally ua [] = 0"
  by (simp add: tally_def)

lemma reported_simps [simp]:
  "reported ua [] = 0" "reported ua (rs @ rs') = reported ua rs + reported ua rs'"
  "reported ua [r] = tally ua (report_counts r)"
  by (simp_all add: reported_def)

lemma tally_record:
  "tally ua (ua_active (ua_record x t))
     = (if (if x = [] then ''<empty>'' else x) = ua then 1 else 0) + tally ua (ua_active t)"
  by (simp add: tally_def ua_record_def Let_def update_conv')

lemma distinct_record: "distinct (map fst (ua_active t)) \<Longrightarrow> distinct (map fst (ua_active (ua_record x t)))"
  by (simp add: ua_record_def Let_def distinct_update)

lemma reportAndClear_tally:
  "reportAndClear now t = (r, t1) \<Longrightarrow>
   reported ua (case r of None \<Rightarrow> [] | Some x \<Rightarrow> [x]) = tally ua (ua_active t) \<and> ua_active t1 = []"
  by (auto simp: reportAndClear_def ua_flush_def split: if_splits)

lemma ua_tick_tally:
  "ua_tick now f t = (rs, f', t1) \<Longrightarrow>
   reported ua rs + tally ua (ua_active t1) = tally ua (ua_active t)"
  using reportAndClear_tally [of now t _ _ ua] by (auto simp: ua_tick_def split: if_splits prod.splits)

lemma ua_run_conserves:
  "reported ua (fst (ua_run es f t)) + tally ua (ua_active (snd (ua_run es f t)))
     = tally ua (ua_active t) + recorded ua es"
proof (induction es f t rule: ua_run.induct)
  case (2 x es f t)
  then show ?case by (simp add: tally_record add_ac)
next
  case (3 now es f t)
  obtain rs f' t1 where tick: "ua_tick now f t = (rs, f', t1)" by (cases "ua_tick now f t")
  obtain rs' t2 where run: "ua_run es f' t1 = (rs', t2)" by (cases "ua_run es f' t1")
  have "reported ua rs' + tally ua (ua_active t2) = tally ua (ua_active t1) + recorded ua es"
    using 3 [OF tick [symmetric] refl] run by simp
  then have "reported ua rs + (reported ua rs' + tally ua (ua_active t2))
      = (reported ua rs + tally ua (ua_active t1)) + recorded ua es" by (simp only: add.assoc)
  with ua_tick_tally [OF tick, of ua] tick run show ?case by (simp add: add.assoc)
next
  case (4 now es f t)
  obtain r t1 where c: "reportAndClear now t = (r, t1)" by (cases "reportAndClear now t")
  from reportAndClear_tally [OF c, of ua] show ?case by (simp add: c)
qed simp

text \<open>
  Every registration is reported exactly once.  For every order of registrations, ticks of the
  report loop and shutdown, the counts reported for a user agent plus what is still tallied equal
  the number of its registrations (as 64-bit counters; absent headers count under \<open><empty>\<close>); a tick
  leaves fewer distinct agents than the threshold.
\<close>

theorem user_agents_conserved:
  "reported ua (fst (ua_run es f (newUserAgentTracker now n)))
     + tally ua (ua_active (snd (ua_run es f (newUserAgentTracker now n)))) = recorded ua es
   \<and> (0 < n \<longrightarrow> int (length (ua_active (snd (snd (ua_tick now' f' (t\<lparr>ua_threshold := n\<rparr>)))))) < n)"
proof
  show "reported ua (fst (ua_run es f (newUserAgentTracker now n)))
     + tally ua (ua_active (snd (ua_run es f (newUserAgentTracker now n)))) = recorded ua es"
    by (simp add: ua_run_conserves newUserAgentTracker_def)
  show "0 < n \<longrightarrow> int (length (ua_active (snd (snd (ua_tick now' f' (t\<lparr>ua_threshold := n\<rparr>)))))) < n"
    using reportAndClear_tally by (auto simp: ua_tick_def split: prod.split)
qed

theorem user_agents_conserved_witness:
  "int (length (ua_active (snd (snd (ua_tick 0 0 ((newUserAgentTracker 0 100)\<lparr>ua_threshold := 100\<rparr>)))))) < 100"
  using user_agents_conserved [of "[]" "[]" 0 0 100 0 0 "newUserAgentTracker 0 100"] by simp

end
