(* ===== verification/Go_Net.thy ===== *)
theory Go_Net
  imports Go_Encoding "HOL-Library.AList" "HOL-Library.Char_ord" "HOL-Library.List_Lexorder"
begin

text \<open>
  What the server uses of \<open>net\<close>, \<open>net/url\<close>, \<open>path\<close> and \<open>net/textproto\<close>: splitting host and port,
  query strings in both directions, lexical path cleaning, and header maps with canonical keys.
  The facts are the round trip of a query string and the shape of a cleaned path.
\<close>

section \<open>Host and port\<close>

definition SplitHostPort :: "string \<Rightarrow> (string \<times> string) option" where
  "SplitHostPort hostport = (case last_index_byte hostport CHR '':'' of
      None \<Rightarrow> None
    | Some i \<Rightarrow>
        if has_prefix hostport ''['' then
          (case index_byte hostport CHR '']'' of
             None \<Rightarrow> None
           | Some e \<Rightarrow>
               if e + 1 \<noteq> i \<or> CHR ''['' \<in> set (drop 1 hostport) \<or> CHR '']'' \<in> set (drop (e + 1) hostport)
               then None
               else Some (take (e - 1) (drop 1 hostport), drop (i + 1) hostport))
        else if CHR '':'' \<in> set (take i hostport) \<or> CHR ''['' \<in> set hostport \<or> CHR '']'' \<in> set hostport
        then None
        else Some (take i hostport, drop (i + 1) hostport))"

definition stripHostPort :: "string \<Rightarrow> string" where
  "stripHostPort host = (case SplitHostPort host of None \<Rightarrow> host | Some (h, _) \<Rightarrow> h)"

section \<open>Query strings\<close>

definition unreserved :: "char \<Rightarrow> bool" where
  "unreserved c \<longleftrightarrow> is_lower c \<or> is_upper c \<or> is_digit c \<or> c \<in> {CHR ''-'', CHR ''_'', CHR ''.'', CHR ''~''}"

definition upper_hex :: "nat \<Rightarrow> char" where
  "upper_hex n = ''0123456789ABCDEF'' ! n"

definition escape_char :: "char \<Rightarrow> string" where
  "escape_char c =
     (if unreserved c then [c]
      else if c = CHR '' '' then ''+''
      else [CHR ''%'', upper_hex (char_code c div 16), upper_hex (char_code c mod 16)])"

definition query_escape :: "string \<Rightarrow> string" where
  "query_escape s = concat (map escape_char s)"

definition unhex :: "char \<Rightarrow> nat option" where
  "unhex c =
     (if is_digit c then Some (char_code c - 48)
      else if 97 \<le> char_code c \<and> char_code c \<le> 102 then Some (char_code c - 87)
      else if 65 \<le> char_code c \<and> char_code c \<le> 70 then Some (char_code c - 55)
      else None)"

fun query_unescape :: "string \<Rightarrow> string option" where
  "query_unescape [] = Some []"
| "query_unescape (c # s) =
     (if c = CHR ''%'' then (case s of
          x # y # r \<Rightarrow> (case (unhex x, unhex y) of
              (Some h, Some l) \<Rightarrow> map_option ((#) (char_of (16 * h + l))) (query_unescape r)
            | _ \<Rightarrow> None)
        | _ \<Rightarrow> None)
      else map_option ((#) (if c = CHR ''+'' then CHR '' '' else c)) (query_unescape s))"

text \<open>The values of a query in order of appearance; \<open>url.Values\<close> groups them by key.\<close>

type_synonym query = "(string \<times> string) list"

definition parse_pair :: "string \<Rightarrow> query" where
  "parse_pair p =
     (if CHR '';'' \<in> set p \<or> p = [] then []
      else case cut CHR ''='' p of (k, v, _) \<Rightarrow>
        (case (query_unescape k, query_unescape v) of
           (Some key, Some val) \<Rightarrow> [(key, val)]
         | _ \<Rightarrow> []))"

definition parse_query :: "string \<Rightarrow> query" where
  "parse_query q = concat (map parse_pair (split_on CHR ''&'' q))"

definition query_values :: "query \<Rightarrow> string \<Rightarrow> string list" where
  "query_values q k = map snd (filter (\<lambda>p. fst p = k) q)"

definition query_Get :: "query \<Rightarrow> string \<Rightarrow> string" where
  "query_Get q k = (case query_values q k of [] \<Rightarrow> [] | v # _ \<Rightarrow> v)"

definition query_Has :: "query \<Rightarrow> string \<Rightarrow> bool" where
  "query_Has q k \<longleftrightarrow> (\<exists>p \<in> set q. fst p = k)"

definition encode_pair :: "string \<times> string \<Rightarrow> string" where
  "encode_pair p = query_escape (fst p) @ CHR ''='' # query_escape (snd p)"

text \<open>\<open>Values.Encode\<close> on pairs that are already grouped and sorted by key.\<close>

definition encode_pairs :: "query \<Rightarrow> string" where
  "encode_pairs ps = join ''&'' (map encode_pair ps)"

lemma upper_hex_facts:
  "n < 16 \<Longrightarrow> unhex (upper_hex n) = Some n \<and> upper_hex n \<notin> {CHR ''&'', CHR ''='', CHR '';'', CHR ''%''}"
proof -
  have "list_all (\<lambda>n. unhex (upper_hex n) = Some n
      \<and> upper_hex n \<notin> {CHR ''&'', CHR ''='', CHR '';'', CHR ''%''}) [0 ..< 16]"
    by code_simp
  then show "n < 16 \<Longrightarrow> unhex (upper_hex n) = Some n
      \<and> upper_hex n \<notin> {CHR ''&'', CHR ''='', CHR '';'', CHR ''%''}"
    by (simp add: list_all_iff)
qed

lemma char_code_divmod: "char_code c div 16 < 16" "16 * (char_code c div 16) + char_code c mod 16 = char_code c"
proof -
  show "char_code c div 16 < 16" using char_code_bound [of c] by (simp add: less_mult_imp_div_less)
qed simp

lemma unreserved_plain:
  "unreserved c \<Longrightarrow> c \<notin> {CHR ''&'', CHR ''='', CHR '';'', CHR ''%'', CHR ''+''}"
  by (auto simp: unreserved_def is_lower_def is_upper_def is_digit_def char_code_def)

lemma unescape_escape_char: "query_unescape (escape_char c @ s) = map_option ((#) c) (query_unescape s)"
proof -
  note hex = upper_hex_facts [OF char_code_divmod(1) [of c]] upper_hex_facts [of "char_code c mod 16"]
  show ?thesis
    using hex unreserved_plain [of c] char_code_divmod(2) [of c]
    by (auto simp: escape_char_def char_code_def)
qed

lemma query_unescape_escape [simp]: "query_unescape (query_escape s) = Some s"
  by (induction s) (simp_all add: query_escape_def unescape_escape_char)

lemma escape_char_plain: "c \<in> set (escape_char d) \<Longrightarrow> c \<notin> {CHR ''&'', CHR ''='', CHR '';''}"
proof -
  have "upper_hex (char_code d div 16) \<notin> {CHR ''&'', CHR ''='', CHR '';''}"
    "upper_hex (char_code d mod 16) \<notin> {CHR ''&'', CHR ''='', CHR '';''}"
    using upper_hex_facts [OF char_code_divmod(1) [of d]] upper_hex_facts [of "char_code d mod 16"]
    by simp_all
  then show "c \<in> set (escape_char d) \<Longrightarrow> c \<notin> {CHR ''&'', CHR ''='', CHR '';''}"
    using unreserved_plain [of d] by (auto simp: escape_char_def split: if_splits)
qed

lemma query_escape_plain: "c \<in> set (query_escape s) \<Longrightarrow> c \<notin> {CHR ''&'', CHR ''='', CHR '';''}"
  unfolding query_escape_def set_concat set_map using escape_char_plain by blast

lemma takeWhile_escape: "takeWhile (\<lambda>x. x \<noteq> CHR ''='') (query_escape k @ CHR ''='' # v) = query_escape k"
  using query_escape_plain [of _ k] by (subst takeWhile_append2) auto

lemma parse_encode_pair [simp]: "parse_pair (encode_pair p) = [p]"
proof -
  have "CHR '';'' \<notin> set (encode_pair p)" using query_escape_plain by (auto simp: encode_pair_def)
  then show ?thesis by (auto simp: parse_pair_def encode_pair_def cut_eq takeWhile_escape)
qed

lemma split_encode_pairs:
  "ps \<noteq> [] \<Longrightarrow> split_on CHR ''&'' (encode_pairs ps) = map encode_pair ps"
proof (induction ps)
  case Nil
  then show ?case by simp
next
  case (Cons p ps)
  have amp: "CHR ''&'' \<notin> set (encode_pair p)" using query_escape_plain by (auto simp: encode_pair_def)
  show ?case
  proof (cases ps)
    case Nil
    with amp show ?thesis by (simp add: encode_pairs_def split_on_no_sep)
  next
    case (Cons p' ps')
    then have "encode_pairs (p # ps) = encode_pair p @ CHR ''&'' # encode_pairs ps"
      by (simp add: encode_pairs_def)
    with amp Cons.IH Cons show ?thesis by (simp add: split_on_append_sep)
  qed
qed

lemma parse_encode_pairs: "parse_query (encode_pairs ps) = ps"
proof (cases "ps = []")
  case True
  then show ?thesis by (simp add: parse_query_def encode_pairs_def parse_pair_def)
next
  case False
  then show ?thesis by (simp add: parse_query_def split_encode_pairs o_def concat_map_singleton)
qed

section \<open>Lexical path cleaning\<close>

text \<open>One path segment on the stack of those kept, most recent first.\<close>

fun clean_segment :: "bool \<Rightarrow> string \<Rightarrow> string list \<Rightarrow> string list" where
  "clean_segment rooted seg stack =
     (if seg = [] \<or> seg = ''.'' then stack
      else if seg = ''..'' then
        (case stack of
           [] \<Rightarrow> if rooted then [] else [seg]
         | upper # below \<Rightarrow> if upper = ''..'' then seg # stack else below)
      else seg # stack)"

definition path_Clean :: "string \<Rightarrow> string" where
  "path_Clean p =
     (let rooted = has_prefix p ''/'';
          out = join ''/'' (rev (fold (clean_segment rooted) (split_on CHR ''/'' p) []))
      in if rooted then CHR ''/'' # out else if out = [] then ''.'' else out)"

definition filepath_Join :: "string \<Rightarrow> string \<Rightarrow> string" where
  "filepath_Join a b =
     (if a = [] then (if b = [] then [] else path_Clean b)
      else if b = [] then path_Clean a
      else path_Clean (a @ CHR ''/'' # b))"

definition plain_segments :: "string list \<Rightarrow> bool" where
  "plain_segments segs \<longleftrightarrow> list_all (\<lambda>s. s \<noteq> [] \<and> s \<noteq> ''.'' \<and> s \<noteq> ''..'' \<and> CHR ''/'' \<notin> set s) segs"

lemma clean_segment_plain:
  "plain_segments stack \<Longrightarrow> CHR ''/'' \<notin> set seg \<Longrightarrow> plain_segments (clean_segment True seg stack)"
  by (auto simp: plain_segments_def split: list.split)

lemma fold_clean_plain:
  "plain_segments stack \<Longrightarrow> list_all (\<lambda>s. CHR ''/'' \<notin> set s) segs \<Longrightarrow>
   plain_segments (fold (clean_segment True) segs stack)"
proof (induction segs arbitrary: stack)
  case (Cons seg segs)
  then have "plain_segments (clean_segment True seg stack)" by (intro clean_segment_plain) simp_all
  with Cons show ?case by (simp del: clean_segment.simps)
qed simp

text \<open>A cleaned rooted path has no dot segment: it cannot climb out of where it starts.\<close>

lemma path_Clean_rooted:
  obtains segs where "path_Clean (CHR ''/'' # p) = CHR ''/'' # join ''/'' segs" "plain_segments segs"
proof -
  let ?segs = "rev (fold (clean_segment True) (split_on CHR ''/'' (CHR ''/'' # p)) [])"
  have "list_all (\<lambda>s. CHR ''/'' \<notin> set s) (split_on CHR ''/'' (CHR ''/'' # p))"
    using set_split_on by (auto simp: list_all_iff simp del: split_on.simps)
  then have "plain_segments (fold (clean_segment True) (split_on CHR ''/'' (CHR ''/'' # p)) [])"
    by (intro fold_clean_plain) (simp add: plain_segments_def)
  then have "plain_segments ?segs" by (simp add: plain_segments_def)
  moreover have "path_Clean (CHR ''/'' # p) = CHR ''/'' # join ''/'' ?segs"
    by (simp add: path_Clean_def has_prefix_def Let_def)
  ultimately show ?thesis using that by blast
qed

section \<open>Header maps\<close>

text \<open>A header map holds its keys in canonical form; the keys are distinct.\<close>

type_synonym header = "(string \<times> string list) list"

definition token_char :: "char \<Rightarrow> bool" where
  "token_char c \<longleftrightarrow> is_lower c \<or> is_upper c \<or> is_digit c
     \<or> c \<in> set [CHR ''!'', CHR ''#'', CHR ''$'', CHR ''%'', CHR ''&'', CHR 0x27, CHR ''*'', CHR ''+'',
          CHR ''-'', CHR ''.'', CHR ''^'', CHR ''_'', CHR 0x60, CHR ''|'', CHR ''~'']"

fun canonical_chars :: "bool \<Rightarrow> string \<Rightarrow> string" where
  "canonical_chars upper [] = []"
| "canonical_chars upper (c # s) =
     (if upper then upper_char c else lower_char c) # canonical_chars (c = CHR ''-'') s"

definition canonical_key :: "string \<Rightarrow> string" where
  "canonical_key k = (if list_all token_char k then canonical_chars True k else k)"

definition header_values :: "header \<Rightarrow> string \<Rightarrow> string list" where
  "header_values h k = (case map_of h (canonical_key k) of Some vs \<Rightarrow> vs | None \<Rightarrow> [])"

definition header_Get :: "header \<Rightarrow> string \<Rightarrow> string" where
  "header_Get h k = (case header_values h k of [] \<Rightarrow> [] | v # _ \<Rightarrow> v)"

definition header_Set :: "string \<Rightarrow> string \<Rightarrow> header \<Rightarrow> header" where
  "header_Set k v h = AList.update (canonical_key k) [v] h"

definition header_Add :: "string \<Rightarrow> string \<Rightarrow> header \<Rightarrow> header" where
  "header_Add k v h = AList.update (canonical_key k) (header_values h k @ [v]) h"

definition header_Del :: "string \<Rightarrow> header \<Rightarrow> header" where
  "header_Del k h = AList.delete (canonical_key k) h"

text \<open>\<open>maps.Copy(dst, src)\<close>.\<close>

definition header_Copy :: "header \<Rightarrow> header \<Rightarrow> header" where
  "header_Copy dst src = fold (\<lambda>(k, vs) h. AList.update k vs h) src dst"

text \<open>\<open>Header.Write\<close>: lines sorted by key, line breaks in values replaced, values trimmed.\<close>

definition ascii_space :: "char \<Rightarrow> bool" where
  "ascii_space c \<longleftrightarrow> c \<in> {CHR '' '', CHR 0x09, CHR 0x0A, CHR 0x0D}"

definition header_line :: "string \<Rightarrow> string \<Rightarrow> string" where
  "header_line k v = k @ '': ''
     @ trim_right_func ascii_space (dropWhile ascii_space
         (map (\<lambda>c. if c = CHR 0x0A \<or> c = CHR 0x0D then CHR '' '' else c) v)) @ [CHR 0x0D, CHR 0x0A]"

definition header_Write :: "header \<Rightarrow> string" where
  "header_Write h = concat (map (\<lambda>(k, vs). if k \<noteq> [] \<and> list_all token_char k
       then concat (map (header_line k) vs) else []) (sort_key fst h))"

lemma header_Get_Set: "header_Get (header_Set k v h) k = v"
  by (simp add: header_Get_def header_values_def header_Set_def update_conv')

lemma header_values_Set:
  "header_values (header_Set k v h) k'
     = (if canonical_key k' = canonical_key k then [v] else header_values h k')"
  by (simp add: header_values_def header_Set_def update_conv')

lemma header_values_Add:
  "header_values (header_Add k v h) k'
     = (if canonical_key k' = canonical_key k then header_values h k @ [v] else header_values h k')"
  by (simp add: header_values_def header_Add_def update_conv')

end
