(* ===== verification/Http_Types.thy ===== *)
theory Http_Types
  imports Go_Net
begin

text \<open>
  HTTP requests and the buffered response (\<open>responseRecorder\<close> of \<open>oobsrv/middleware.go\<close>), with what
  the server uses of \<open>net/http\<close> and \<open>httputil\<close>: status texts, the dump of a request, and the router's
  path cleaning.  The facts: a recorded status is one the library accepts, and the first
  \<open>WriteHeader\<close> wins.
\<close>

section \<open>Requests\<close>

record request =
  rq_Method :: string
  rq_RequestURI :: string
  rq_ProtoMajor :: nat
  rq_ProtoMinor :: nat
  rq_EscapedPath :: string
  rq_Path :: string
  rq_RawQuery :: string
  rq_Host :: string
  rq_Header :: header
  rq_TransferEncoding :: "string list"
  rq_Body :: string
  rq_RemoteAddr :: string
  rq_TLS :: bool

definition rq_query :: "request \<Rightarrow> query" where
  "rq_query r = parse_query (rq_RawQuery r)"

text \<open>\<open>io.LimitReader(r.Body, n)\<close>.\<close>

definition limit_body :: "int \<Rightarrow> request \<Rightarrow> request" where
  "limit_body n r = r\<lparr>rq_Body := take (nat n) (rq_Body r)\<rparr>"

definition crlf :: string where "crlf = [CHR 0x0D, CHR 0x0A]"

function hex_nat :: "nat \<Rightarrow> string" where
  "hex_nat n = (if n < 16 then [hex_digit n] else hex_nat (n div 16) @ [hex_digit (n mod 16)])"
  by pat_completeness auto
termination by (relation "measure (\<lambda>n. n)") auto

declare hex_nat.simps [simp del]

text \<open>\<open>httputil.DumpRequest(r, true)\<close>; a chunked body is written as one chunk.\<close>

definition chunked_body :: "string \<Rightarrow> string" where
  "chunked_body b = (if b = [] then [] else hex_nat (length b) @ crlf @ b @ crlf) @ ''0'' @ crlf @ crlf"

definition DumpRequest :: "request \<Rightarrow> string" where
  "DumpRequest r =
     (if rq_Method r = [] then ''GET'' else rq_Method r) @ '' '' @ rq_RequestURI r @ '' HTTP/''
       @ nat_digits (rq_ProtoMajor r) @ ''.'' @ nat_digits (rq_ProtoMinor r) @ crlf
     @ (if has_prefix (rq_RequestURI r) ''http://'' \<or> has_prefix (rq_RequestURI r) ''https://'' \<or> rq_Host r = []
        then [] else ''Host: '' @ rq_Host r @ crlf)
     @ (if rq_TransferEncoding r = [] then []
        else ''Transfer-Encoding: '' @ join '','' (rq_TransferEncoding r) @ crlf)
     @ header_Write (filter (\<lambda>(k, _). k \<notin> {''Host'', ''Transfer-Encoding'', ''Trailer''}) (rq_Header r))
     @ crlf
     @ (if rq_TransferEncoding r \<noteq> [] \<and> hd (rq_TransferEncoding r) = ''chunked''
        then chunked_body (rq_Body r) else rq_Body r)"

section \<open>Responses\<close>

record response =
  rec_statusCode :: int
  rec_header :: header
  rec_body :: string
  rec_wroteHeader :: bool
  rec_hostname :: string
  rec_domain :: string

definition newResponseRecorder :: response where
  "newResponseRecorder = \<lparr>rec_statusCode = 200, rec_header = [], rec_body = [],
     rec_wroteHeader = False, rec_hostname = [], rec_domain = []\<rparr>"

definition clampStatusCode :: "int \<Rightarrow> int" where
  "clampStatusCode code = (if code < 100 then 100 else if code > 999 then 999 else code)"

definition WriteHeader :: "int \<Rightarrow> response \<Rightarrow> response" where
  "WriteHeader code w =
     (if rec_wroteHeader w then w
      else w\<lparr>rec_wroteHeader := True, rec_statusCode := clampStatusCode code\<rparr>)"

definition Write :: "string \<Rightarrow> response \<Rightarrow> response" where
  "Write b w =
     (let w1 = (if \<not> rec_wroteHeader w then WriteHeader 200 w else w)
      in w1\<lparr>rec_body := rec_body w1 @ b\<rparr>)"

definition set_header :: "string \<Rightarrow> string \<Rightarrow> response \<Rightarrow> response" where
  "set_header k v w = w\<lparr>rec_header := header_Set k v (rec_header w)\<rparr>"

definition add_header :: "string \<Rightarrow> string \<Rightarrow> response \<Rightarrow> response" where
  "add_header k v w = w\<lparr>rec_header := header_Add k v (rec_header w)\<rparr>"

definition http_NotFound :: "response \<Rightarrow> response" where
  "http_NotFound w =
     Write (''404 page not found'' @ [CHR 0x0A])
       (WriteHeader 404
         (set_header ''X-Content-Type-Options'' ''nosniff''
           (set_header ''Content-Type'' ''text/plain; charset=utf-8''
             (w\<lparr>rec_header := header_Del ''Content-Length'' (rec_header w)\<rparr>))))"

definition status_texts :: "(int \<times> string) list" where
  "status_texts = [(100, ''Continue''), (101, ''Switching Protocols''), (102, ''Processing''),
     (103, ''Early Hints''), (200, ''OK''), (201, ''Created''), (202, ''Accepted''),
     (203, ''Non-Authoritative Information''), (204, ''No Content''), (205, ''Reset Content''),
     (206, ''Partial Content''), (207, ''Multi-Status''), (208, ''Already Reported''), (226, ''IM Used''),
     (300, ''Multiple Choices''), (301, ''Moved Permanently''), (302, ''Found''), (303, ''See Other''),
     (304, ''Not Modified''), (305, ''Use Proxy''), (307, ''Temporary Redirect''),
     (308, ''Permanent Redirect''), (400, ''Bad Request''), (401, ''Unauthorized''),
     (402, ''Payment Required''), (403, ''Forbidden''), (404, ''Not Found''), (405, ''Method Not Allowed''),
     (406, ''Not Acceptable''), (407, ''Proxy Authentication Required''), (408, ''Request Timeout''),
     (409, ''Conflict''), (410, ''Gone''), (411, ''Length Required''), (412, ''Precondition Failed''),
     (413, ''Request Entity Too Large''), (414, ''Request URI Too Long''), (415, ''Unsupported Media Type''),
     (416, ''Requested Range Not Satisfiable''), (417, ''Expectation Failed''), (418, ''I'' @ [CHR 0x27] @ ''m a teapot''),
     (421, ''Misdirected Request''), (422, ''Unprocessable Entity''), (423, ''Locked''),
     (424, ''Failed Dependency''), (425, ''Too Early''), (426, ''Upgrade Required''),
     (428, ''Precondition Required''), (429, ''Too Many Requests''),
     (431, ''Request Header Fields Too Large''), (451, ''Unavailable For Legal Reasons''),
     (500, ''Internal Server Error''), (501, ''Not Implemented''), (502, ''Bad Gateway''),
     (503, ''Service Unavailable''), (504, ''Gateway Timeout''), (505, ''HTTP Version Not Supported''),
     (506, ''Variant Also Negotiates''), (507, ''Insufficient Storage''), (508, ''Loop Detected''),
     (510, ''Not Extended''), (511, ''Network Authentication Required'')]"

definition httpRespPrefix :: "int \<Rightarrow> string" where
  "httpRespPrefix status = ''HTTP/1.1 '' @ itoa status @ '' ''
     @ (case map_of status_texts status of Some t \<Rightarrow> t | None \<Rightarrow> ''OK'') @ crlf"

definition dump_response :: "response \<Rightarrow> string" where
  "dump_response rec = httpRespPrefix (rec_statusCode rec) @ header_Write (rec_header rec) @ crlf @ rec_body rec"

section \<open>Routing\<close>

datatype route =
    RouteRegister | RoutePoll | RouteDeregister | RouteMetrics | RouteDefault
  | RouteRedirect string | RouteNotFound | RouteBadRequest

text \<open>The router's \<open>cleanPath\<close> keeps a trailing slash.\<close>

definition cleanPath :: "string \<Rightarrow> string" where
  "cleanPath p0 =
     (if p0 = [] then ''/''
      else let p = (if hd p0 \<noteq> CHR ''/'' then CHR ''/'' # p0 else p0); np = path_Clean p
           in if last p = CHR ''/'' \<and> np \<noteq> ''/'' then np @ ''/'' else np)"

text \<open>
  The patterns of \<open>New\<close>; a method pattern is more specific than \<open>/\<close>, and \<open>GET\<close> also matches
  \<open>HEAD\<close>.  A path that is not clean is redirected by the router itself, before any handler.
\<close>

definition match_route :: "bool \<Rightarrow> request \<Rightarrow> route" where
  "match_route metrics r =
     (let get = (rq_Method r \<in> {''GET'', ''HEAD''}); post = (rq_Method r = ''POST'')
      in if post \<and> rq_Path r = ''/register'' then RouteRegister
         else if get \<and> rq_Path r = ''/poll'' then RoutePoll
         else if post \<and> rq_Path r = ''/deregister'' then RouteDeregister
         else if metrics \<and> get \<and> rq_Path r = ''/metrics'' then RouteMetrics
         else if has_prefix (rq_Path r) ''/'' then RouteDefault
         else RouteNotFound)"

definition find_route :: "bool \<Rightarrow> request \<Rightarrow> route" where
  "find_route metrics r =
     (if rq_RequestURI r = ''*'' then RouteBadRequest
      else if rq_Method r = ''CONNECT'' then match_route metrics r
      else let path = cleanPath (rq_EscapedPath r)
           in if path \<noteq> rq_EscapedPath r
              then RouteRedirect (path @ (if rq_RawQuery r = [] then [] else CHR ''?'' # rq_RawQuery r))
              else match_route metrics r)"

section \<open>Facts\<close>

definition status_ok :: "response \<Rightarrow> bool" where
  "status_ok w \<longleftrightarrow> 100 \<le> rec_statusCode w \<and> rec_statusCode w \<le> 999"

lemma clampStatusCode_range: "100 \<le> clampStatusCode code" "clampStatusCode code \<le> 999"
  by (simp_all add: clampStatusCode_def)

lemma clampStatusCode_id: "100 \<le> code \<Longrightarrow> code \<le> 999 \<Longrightarrow> clampStatusCode code = code"
  by (simp add: clampStatusCode_def)

lemma status_ok_simps [simp]:
  "status_ok newResponseRecorder"
  "status_ok w \<Longrightarrow> status_ok (WriteHeader code w)"
  "status_ok w \<Longrightarrow> status_ok (Write b w)"
  "status_ok (set_header k v w) = status_ok w"
  "status_ok (add_header k v w) = status_ok w"
  by (simp_all add: status_ok_def newResponseRecorder_def WriteHeader_def Write_def set_header_def
      add_header_def clampStatusCode_range Let_def)

lemma WriteHeader_simps [simp]:
  "rec_wroteHeader (WriteHeader code w)" "rec_header (WriteHeader code w) = rec_header w"
  "rec_body (WriteHeader code w) = rec_body w"
  "\<not> rec_wroteHeader w \<Longrightarrow> rec_statusCode (WriteHeader code w) = clampStatusCode code"
  "rec_wroteHeader w \<Longrightarrow> WriteHeader code w = w"
  "rec_hostname (WriteHeader code w) = rec_hostname w" "rec_domain (WriteHeader code w) = rec_domain w"
  by (simp_all add: WriteHeader_def)

lemma Write_simps [simp]:
  "rec_wroteHeader (Write b w)" "rec_header (Write b w) = rec_header w"
  "rec_body (Write b w) = rec_body w @ b"
  "rec_wroteHeader w \<Longrightarrow> rec_statusCode (Write b w) = rec_statusCode w"
  "\<not> rec_wroteHeader w \<Longrightarrow> rec_statusCode (Write b w) = 200"
  "rec_hostname (Write b w) = rec_hostname w" "rec_domain (Write b w) = rec_domain w"
  by (simp_all add: Write_def Let_def clampStatusCode_def)

lemma set_header_simps [simp]:
  "rec_statusCode (set_header k v w) = rec_statusCode w" "rec_body (set_header k v w) = rec_body w"
  "rec_wroteHeader (set_header k v w) = rec_wroteHeader w"
  "rec_hostname (set_header k v w) = rec_hostname w" "rec_domain (set_header k v w) = rec_domain w"
  "rec_header (set_header k v w) = header_Set k v (rec_header w)"
  by (simp_all add: set_header_def)

lemma add_header_simps [simp]:
  "rec_statusCode (add_header k v w) = rec_statusCode w" "rec_body (add_header k v w) = rec_body w"
  "rec_wroteHeader (add_header k v w) = rec_wroteHeader w"
  "rec_hostname (add_header k v w) = rec_hostname w" "rec_domain (add_header k v w) = rec_domain w"
  "rec_header (add_header k v w) = header_Add k v (rec_header w)"
  by (simp_all add: add_header_def)

lemma newResponseRecorder_simps [simp]:
  "rec_statusCode newResponseRecorder = 200" "rec_header newResponseRecorder = []"
  "rec_body newResponseRecorder = []" "\<not> rec_wroteHeader newResponseRecorder"
  "rec_hostname newResponseRecorder = []" "rec_domain newResponseRecorder = []"
  by (simp_all add: newResponseRecorder_def)

end
