(* ===== verification/Host_Metrics.thy ===== *)
theory Host_Metrics
  imports Oob_Types
begin

text \<open>
  The figures about the host in the metrics (\<open>oobsrv/metrics.go\<close>): memory, processor and network.
  The readings are arguments: the memory statistics of Go's runtime, the processor times and the
  counters of the interfaces, both of which can fail to be read, and the formatting of sizes
  (\<open>units.HumanSize\<close>).
\<close>

section \<open>Readings\<close>

record MemStats =
  ms_Alloc :: "64 word"
  ms_TotalAlloc :: "64 word"
  ms_Sys :: "64 word"
  ms_Lookups :: "64 word"
  ms_Mallocs :: "64 word"
  ms_Frees :: "64 word"
  ms_HeapAlloc :: "64 word"
  ms_HeapSys :: "64 word"
  ms_HeapIdle :: "64 word"
  ms_HeapInuse :: "64 word"
  ms_HeapReleased :: "64 word"
  ms_HeapObjects :: "64 word"
  ms_StackInuse :: "64 word"
  ms_StackSys :: "64 word"
  ms_MSpanInuse :: "64 word"
  ms_MSpanSys :: "64 word"
  ms_MCacheInuse :: "64 word"
  ms_MCacheSys :: "64 word"

record metricsCPU =
  cpu_User :: "64 word"
  cpu_System :: "64 word"
  cpu_Idle :: "64 word"
  cpu_Nice :: "64 word"
  cpu_Total :: "64 word"
  cpu_Steal :: "64 word"
  cpu_Iowait :: "64 word"

record host_world =
  hw_ReadMemStats :: MemStats
  hw_cpu_Get :: "metricsCPU result"
  hw_network_Get :: "(64 word \<times> 64 word) list result"   \<comment> \<open>bytes received and sent, by interface\<close>
  hw_HumanSize :: "64 word \<Rightarrow> string"

section \<open>The response\<close>

record metricsMemory =
  mm_Alloc :: string
  mm_TotalAlloc :: string
  mm_Sys :: string
  mm_Lookups :: "64 word"
  mm_Mallocs :: "64 word"
  mm_Frees :: "64 word"
  mm_HeapAlloc :: string
  mm_HeapSys :: string
  mm_HeapIdle :: string
  mm_HeapInUse :: string
  mm_HeapReleased :: string
  mm_HeapObjects :: "64 word"
  mm_StackInUse :: string
  mm_StackSys :: string
  mm_MSpanInUse :: string
  mm_MSpanSys :: string
  mm_MCacheInUse :: string
  mm_MCacheSys :: string

record metricsNetwork =
  net_Received :: string
  net_Transmitted :: string

definition metrics_memory :: "host_world \<Rightarrow> metricsMemory" where
  "metrics_memory hw = (let ms = hw_ReadMemStats hw; size = hw_HumanSize hw in
     \<lparr>mm_Alloc = size (ms_Alloc ms), mm_TotalAlloc = size (ms_TotalAlloc ms), mm_Sys = size (ms_Sys ms),
      mm_Lookups = ms_Lookups ms, mm_Mallocs = ms_Mallocs ms, mm_Frees = ms_Frees ms,
      mm_HeapAlloc = size (ms_HeapAlloc ms), mm_HeapSys = size (ms_HeapSys ms),
      mm_HeapIdle = size (ms_HeapIdle ms), mm_HeapInUse = size (ms_HeapInuse ms),
      mm_HeapReleased = size (ms_HeapReleased ms), mm_HeapObjects = ms_HeapObjects ms,
      mm_StackInUse = size (ms_StackInuse ms), mm_StackSys = size (ms_StackSys ms),
      mm_MSpanInUse = size (ms_MSpanInuse ms), mm_MSpanSys = size (ms_MSpanSys ms),
      mm_MCacheInUse = size (ms_MCacheInuse ms), mm_MCacheSys = size (ms_MCacheSys ms)\<rparr>)"

definition zero_metricsCPU :: metricsCPU where
  "zero_metricsCPU = \<lparr>cpu_User = 0, cpu_System = 0, cpu_Idle = 0, cpu_Nice = 0, cpu_Total = 0, cpu_Steal = 0,
     cpu_Iowait = 0\<rparr>"

definition metrics_cpu :: "host_world \<Rightarrow> metricsCPU" where
  "metrics_cpu hw = (case hw_cpu_Get hw of
      Inl err \<Rightarrow> zero_metricsCPU
    | Inr stats \<Rightarrow> \<lparr>cpu_User = cpu_User stats, cpu_System = cpu_System stats, cpu_Idle = cpu_Idle stats,
        cpu_Nice = cpu_Nice stats, cpu_Total = cpu_Total stats, cpu_Steal = cpu_Steal stats,
        cpu_Iowait = cpu_Iowait stats\<rparr>)"

text \<open>The totals over the interfaces are added up in 64 bits.\<close>

definition metrics_network :: "host_world \<Rightarrow> metricsNetwork" where
  "metrics_network hw = (case hw_network_Get hw of
      Inl err \<Rightarrow> \<lparr>net_Received = ''0B'', net_Transmitted = ''0B''\<rparr>
    | Inr ifaces \<Rightarrow>
        (case fold (\<lambda>(rx, tx) (rxTotal, txTotal). (rxTotal + rx, txTotal + tx)) ifaces (0, 0) of
          (rxTotal, txTotal) \<Rightarrow>
            \<lparr>net_Received = hw_HumanSize hw rxTotal, net_Transmitted = hw_HumanSize hw txTotal\<rparr>))"

section \<open>Facts\<close>

text \<open>The order in which the interfaces are listed does not matter; a failed reading is shown as nothing.\<close>

lemma network_totals:
  "fold (\<lambda>(rx, tx) (rxTotal, txTotal). (rxTotal + rx, txTotal + tx)) ifaces (a, b)
     = (a + sum_list (map fst ifaces), b + sum_list (map snd ifaces :: 64 word list))"
  for a :: "64 word"
  by (induction ifaces arbitrary: a b) (auto simp: add.assoc)

lemma metrics_network_sums:
  "hw_network_Get hw = Inr ifaces \<Longrightarrow>
   metrics_network hw = \<lparr>net_Received = hw_HumanSize hw (sum_list (map fst ifaces)),
     net_Transmitted = hw_HumanSize hw (sum_list (map snd ifaces))\<rparr>"
  by (simp add: metrics_network_def network_totals)

definition demo_host :: host_world where
  "demo_host = \<lparr>hw_ReadMemStats = \<lparr>ms_Alloc = 0, ms_TotalAlloc = 0, ms_Sys = 0, ms_Lookups = 0, ms_Mallocs = 0,
       ms_Frees = 0, ms_HeapAlloc = 0, ms_HeapSys = 0, ms_HeapIdle = 0, ms_HeapInuse = 0, ms_HeapReleased = 0,
       ms_HeapObjects = 0, ms_StackInuse = 0, ms_StackSys = 0, ms_MSpanInuse = 0, ms_MSpanSys = 0,
       ms_MCacheInuse = 0, ms_MCacheSys = 0\<rparr>,
     hw_cpu_Get = Inl ''not supported'', hw_network_Get = Inr [(1, 2), (3, 4)], hw_HumanSize = (\<lambda>n. itoa (uint n))\<rparr>"

end
