(* ===== verification/Server.thy ===== *)
theory Server
  imports Disk_Storage Matching Shared_Bucket User_Agents Http_Types Host_Metrics
begin

text \<open>
  The server (\<open>oobsrv/server.go\<close>): the storage interface with its two implementations, the state
  every protocol handler works on, construction, domain matching, and the capture path that all
  protocols share.  The contract \<open>capture_contract\<close> joins the storage contract and the matcher's
  registry; in it, capturing is shown to append exactly one interaction to each matched live
  session.  It is interpreted on the storage of the model, whichever backend is in use.
\<close>

section \<open>The environment\<close>

text \<open>
  What a handler reads from outside: the clock, the random source (the IV drawn for the append to
  each id, the bytes drawn for a new session's key), the primitives of the cipher packages,
  LevelDB, the JSON codec, the file system with \<open>http.ServeContent\<close>, and the figures of the host.
\<close>

record registerRequest_body =
  sr_PublicKey :: string
  sr_SecretKey :: string
  sr_CorrelationID :: string
  sr_Response :: "ResponseConfig option"

record deregisterRequest_body =
  sd_CorrelationID :: string
  sd_SecretKey :: string

record pollResponse_body =
  pr_Data :: "string list"
  pr_AESKey :: string
  pr_Extra :: "string list"
  pr_TLDData :: "string list"

record metricsResponse =
  m_DNS :: "64 word"
  m_DNSMatched :: "64 word"
  m_FTP :: "64 word"
  m_HTTP :: "64 word"
  m_HTTPMatched :: "64 word"
  m_LDAP :: "64 word"
  m_SMTP :: "64 word"
  m_SMTPMatched :: "64 word"
  m_Sessions :: "64 word"
  m_SessionsTotal :: "64 word"
  m_HitCount :: "64 word"
  m_MissCount :: "64 word"
  m_EvictionCount :: "64 word"
  m_Memory :: metricsMemory
  m_CPU :: metricsCPU
  m_Network :: metricsNetwork

datatype api_body =
    ErrorBody string | MessageBody string | PollBody pollResponse_body | MetricsBody metricsResponse

text \<open>An opened file: \<open>None\<close> for its information when \<open>Stat\<close> fails.\<close>

record file_info =
  fi_Name :: string
  fi_IsDir :: bool
  fi_ModTime :: int

record opened_file =
  file_Stat :: "file_info option"
  file_Content :: string

record 'db env =
  env_now :: int
  env_iv :: "string \<Rightarrow> bytes result"
  env_key :: "bytes result"
  env_aes :: block_cipher
  env_rsa_encrypt :: "rsa_public_key \<Rightarrow> bytes \<Rightarrow> bytes result"
  env_decoders :: key_decoders
  env_leveldb :: "'db leveldb"
  env_marshal :: "Interaction \<Rightarrow> string result"
  env_json :: "api_body \<Rightarrow> string result"
  env_decode_register :: "string \<Rightarrow> registerRequest_body result"
  env_decode_deregister :: "string \<Rightarrow> deregisterRequest_body result"
  env_EvalSymlinks :: "string \<Rightarrow> string option"
  env_Open :: "string \<Rightarrow> opened_file option"
  env_ServeContent :: "request \<Rightarrow> file_info \<Rightarrow> string \<Rightarrow> response \<Rightarrow> response"
  env_system :: host_world

section \<open>The storage interface\<close>

datatype 'db Storage = MemoryBackend "unit memoryStorage" | DiskBackend "'db diskStorage"

type_synonym session_handle = "nat \<times> string"

definition Storage_Register :: "'db env \<Rightarrow> string \<Rightarrow> rsa_public_key \<Rightarrow> string \<Rightarrow> ResponseConfig option
     \<Rightarrow> 'db Storage \<Rightarrow> bytes result \<times> 'db Storage" where
  "Storage_Register e cid pk sk resp st = (case st of
      MemoryBackend m \<Rightarrow> apsnd MemoryBackend (Register (env_aes e) (env_now e) (env_key e) cid pk sk resp m)
    | DiskBackend d \<Rightarrow> apsnd DiskBackend (disk_Register (env_aes e) (env_now e) (env_key e) cid pk sk resp d))"

definition Storage_GetSession ::
  "'db env \<Rightarrow> string \<Rightarrow> string \<Rightarrow> 'db Storage \<Rightarrow> session_handle result \<times> 'db Storage" where
  "Storage_GetSession e cid sk st =
     (case (case st of
         MemoryBackend m \<Rightarrow> apsnd MemoryBackend (getSession (env_now e) cid sk m)
       | DiskBackend d \<Rightarrow> apsnd DiskBackend (disk_GetSession (env_now e) cid sk d)) of
        (Inl err, st1) \<Rightarrow> (Inl err, st1)
      | (Inr a, st1) \<Rightarrow> (Inr (a, cid), st1))"

definition Storage_GetAndClear ::
  "'db env \<Rightarrow> session_handle \<Rightarrow> 'db Storage \<Rightarrow> bytes list result \<times> 'db Storage" where
  "Storage_GetAndClear e h st = (case st of
      MemoryBackend m \<Rightarrow> apsnd MemoryBackend (GetAndClearInteractions (fst h) m)
    | DiskBackend d \<Rightarrow> apsnd DiskBackend (disk_GetAndClearInteractions (env_leveldb e) (snd h) d))"

definition handle_session :: "session_handle \<Rightarrow> 'db Storage \<Rightarrow> (bytes \<times> rsa_public_key) option" where
  "handle_session h st = (case st of
      MemoryBackend m \<Rightarrow> map_option (\<lambda>pk. (handle_AESKey (fst h) m, pk)) (handle_PublicKey (fst h) m)
    | DiskBackend d \<Rightarrow>
        map_option (\<lambda>pk. (handle_AESKey (fst h) (mem d), pk)) (handle_PublicKey (fst h) (mem d)))"

text \<open>Both backends return nil from every append.\<close>

definition Storage_AppendInteraction ::
  "'db env \<Rightarrow> string \<Rightarrow> bytes \<Rightarrow> 'db Storage \<Rightarrow> string option \<times> 'db Storage" where
  "Storage_AppendInteraction e cid x st = (None, case st of
      MemoryBackend m \<Rightarrow> MemoryBackend (AppendInteraction (env_now e) (env_iv e cid) cid x m)
    | DiskBackend d \<Rightarrow>
        DiskBackend (disk_AppendInteraction (env_leveldb e) (env_now e) (env_iv e cid) cid x d))"

definition Storage_Delete :: "string \<Rightarrow> string \<Rightarrow> 'db Storage \<Rightarrow> string option \<times> 'db Storage" where
  "Storage_Delete cid sk st = (case st of
      MemoryBackend m \<Rightarrow> apsnd MemoryBackend (Delete cid sk m)
    | DiskBackend d \<Rightarrow> apsnd DiskBackend (disk_Delete cid sk d))"

definition Storage_HasCorrelationID :: "int \<Rightarrow> string \<Rightarrow> 'db Storage \<Rightarrow> bool \<times> 'db Storage" where
  "Storage_HasCorrelationID now cid st = (case st of
      MemoryBackend m \<Rightarrow> apsnd MemoryBackend (HasCorrelationID now cid m)
    | DiskBackend d \<Rightarrow> apsnd DiskBackend (disk_HasCorrelationID now cid d))"

definition Storage_GetResponse :: "int \<Rightarrow> string \<Rightarrow> 'db Storage \<Rightarrow> ResponseConfig option" where
  "Storage_GetResponse now cid st = (case st of
      MemoryBackend m \<Rightarrow> GetResponse now cid m
    | DiskBackend d \<Rightarrow> GetResponse now cid (mem d))"

definition Storage_Close ::
  "'db env \<Rightarrow> (string \<Rightarrow> string option) \<Rightarrow> 'db Storage \<Rightarrow> string option \<times> 'db Storage" where
  "Storage_Close e remove_all st = (case st of
      MemoryBackend m \<Rightarrow> (None, st)
    | DiskBackend d \<Rightarrow> apsnd DiskBackend (disk_Close (env_leveldb e) remove_all d))"

definition Storage_counts :: "'db Storage \<Rightarrow> (64 word \<times> 64 word \<times> 64 word \<times> 64 word \<times> 64 word)" where
  "Storage_counts st = (case st of
      MemoryBackend m \<Rightarrow> (hits m, misses m, evictions m, SessionCount m, sessionsTotal m)
    | DiskBackend d \<Rightarrow> (hits (mem d), misses (mem d), evictions (mem d), SessionCount (mem d), sessionsTotal (mem d)))"

section \<open>Server state\<close>

record customRecord =
  cr_Type :: string
  cr_Value :: string
  cr_TTL :: "32 word"
  cr_Priority :: "16 word"

type_synonym customRecords = "string \<rightharpoonup> customRecord list"

record ServerIPs =
  IPv4 :: "bytes list"
  IPv6 :: "bytes list"

type_synonym acmeStore = "string \<Rightarrow> string list"

record 'db server =
  sv_cfg :: Config
  sv_storage :: "'db Storage"
  dnsCount :: "64 word"
  httpCount :: "64 word"
  smtpCount :: "64 word"
  ldapCount :: "64 word"
  ftpCount :: "64 word"
  dnsMatched :: "64 word"
  httpMatched :: "64 word"
  smtpMatched :: "64 word"
  tldBuckets :: "(string \<rightharpoonup> SharedBucket) option"
  extraBucket :: "SharedBucket option"
  sv_ips :: ServerIPs
  sv_customRecords :: customRecords
  sv_acmeStore :: acmeStore
  defaultHTTPResponse :: "string option"
  httpIndex :: "string option"
  uaTracker :: userAgentTracker
  sv_services :: "string list"   \<comment> \<open>their names, in start order\<close>
  ftpTempDir :: string

text \<open>
  Construction: \<open>open_disk\<close> is the outcome of \<open>NewDiskStorage\<close> on the normalised configuration and
  \<open>records\<close> that of \<open>loadCustomRecords\<close>.  The sort is by descending length.
\<close>

definition normalise_domains :: "Config \<Rightarrow> Config" where
  "normalise_domains cfg =
     cfg\<lparr>Domains := sort_key (\<lambda>d. - int (length d)) (map to_lower (Domains cfg))\<rparr>"

definition New_server ::
  "int \<Rightarrow> customRecords result \<Rightarrow> (Config \<Rightarrow> 'db diskStorage result) \<Rightarrow> Config \<Rightarrow> 'db server result" where
  "New_server now records open_disk cfg0 = (case Validate cfg0 of
      Some err \<Rightarrow> Inl err
    | None \<Rightarrow> (case records of
        Inl err \<Rightarrow> Inl (''custom records: '' @ err)
      | Inr recs \<Rightarrow>
          let cfg = normalise_domains cfg0
          in (case (if Disk cfg
                    then (case open_disk cfg of Inl err \<Rightarrow> Inl (''disk backend: '' @ err)
                          | Inr d \<Rightarrow> Inr (DiskBackend d))
                    else Inr (MemoryBackend (NewMemoryStorage cfg ()))) of
                Inl err \<Rightarrow> Inl err
              | Inr st \<Rightarrow>
                  let evictTTL = wrap64 (Eviction cfg * 24 * hour);
                      bucket = NewSharedBucket now (MaxSharedInteractions cfg) evictTTL
                  in Inr \<lparr>sv_cfg = cfg, sv_storage = st,
                       dnsCount = 0, httpCount = 0, smtpCount = 0, ldapCount = 0, ftpCount = 0,
                       dnsMatched = 0, httpMatched = 0, smtpMatched = 0,
                       tldBuckets = (if Wildcard cfg
                         then Some (\<lambda>d. if d \<in> set (Domains cfg) then Some bucket else None) else None),
                       extraBucket = (if Auth cfg \<and> (FTP cfg \<or> LDAP cfg) then Some bucket else None),
                       sv_ips = \<lparr>IPv4 = [], IPv6 = []\<rparr>, sv_customRecords = recs,
                       sv_acmeStore = (\<lambda>_. []), defaultHTTPResponse = None, httpIndex = None,
                       uaTracker = newUserAgentTracker now uaReportThreshold,
                       sv_services = [], ftpTempDir = []\<rparr>)))"

text \<open>\<open>loadHTTPFiles\<close>, with \<open>os.ReadFile\<close> as an argument.\<close>

definition loadHTTPFiles ::
  "(string \<Rightarrow> string result) \<Rightarrow> 'db server \<Rightarrow> string option \<times> 'db server" where
  "loadHTTPFiles readFile s =
     (case (if DefaultHTTPResponse (sv_cfg s) \<noteq> []
            then (case readFile (DefaultHTTPResponse (sv_cfg s)) of
                Inl err \<Rightarrow> Inl (''--default-http-response: '' @ err)
              | Inr data \<Rightarrow> Inr (s\<lparr>defaultHTTPResponse := Some data\<rparr>))
            else Inr s) of
        Inl err \<Rightarrow> (Some err, s)
      | Inr s1 \<Rightarrow>
          if HTTPIndex (sv_cfg s1) \<noteq> []
          then (case readFile (HTTPIndex (sv_cfg s1)) of
              Inl err \<Rightarrow> (Some (''--http-index: '' @ err), s1)
            | Inr data \<Rightarrow> (None, s1\<lparr>httpIndex := Some data\<rparr>))
          else (None, s1))"

section \<open>Domain matching\<close>

definition domain_matches :: "string \<Rightarrow> string \<Rightarrow> bool" where
  "domain_matches qname domain \<longleftrightarrow> qname = domain \<or> has_suffix qname (CHR ''.'' # domain)"

definition matchedDomain :: "'db server \<Rightarrow> string \<Rightarrow> string option" where
  "matchedDomain s qname = find (domain_matches qname) (Domains (sv_cfg s))"

text \<open>\<open>cfg.Domains\<close> is not empty: \<open>Validate\<close> has seen it.\<close>

definition matchDomain :: "'db server \<Rightarrow> string \<Rightarrow> string" where
  "matchDomain s host = (case matchedDomain s (to_lower host) of
      Some d \<Rightarrow> d
    | None \<Rightarrow> hd (Domains (sv_cfg s)))"

section \<open>Capturing\<close>

definition server_lookup :: "'db env \<Rightarrow> 'db server lookup" where
  "server_lookup e cid s = (case Storage_HasCorrelationID (env_now e) cid (sv_storage s) of
      (b, st) \<Rightarrow> (b, s\<lparr>sv_storage := st\<rparr>))"

primrec storeMatchedInteractions ::
  "'db env \<Rightarrow> Match list \<Rightarrow> Interaction \<Rightarrow> 'db server \<Rightarrow> 'db server" where
  "storeMatchedInteractions e [] interaction s = s"
| "storeMatchedInteractions e (match # matches) interaction s =
     storeMatchedInteractions e matches interaction
       (case env_marshal e (interaction\<lparr>InteractionUniqueID := UniqueID match, FullId := FullID match\<rparr>) of
          Inl err \<Rightarrow> s
        | Inr data \<Rightarrow> s\<lparr>sv_storage :=
            snd (Storage_AppendInteraction e (UniqueID match) (go_bytes data) (sv_storage s))\<rparr>)"

definition captureWildcard :: "'db env \<Rightarrow> string \<Rightarrow> Interaction \<Rightarrow> 'db server \<Rightarrow> 'db server" where
  "captureWildcard e domain interaction s =
     (if \<not> Wildcard (sv_cfg s) then s
      else case tldBuckets s of
          None \<Rightarrow> s
        | Some buckets \<Rightarrow> (case buckets domain of
            None \<Rightarrow> s
          | Some bucket \<Rightarrow> (case env_marshal e interaction of
              Inl err \<Rightarrow> s
            | Inr data \<Rightarrow>
                s\<lparr>tldBuckets := Some (buckets(domain \<mapsto> bucket_Append (go_bytes data) bucket))\<rparr>)))"

definition find_matches ::
  "'db env \<Rightarrow> string \<Rightarrow> string \<Rightarrow> 'db server \<Rightarrow> Match list \<times> 'db server" where
  "find_matches e matchInput scanInput s =
     (let cidLength = nat (CorrelationIdLength (sv_cfg s))
      in if scanInput \<noteq> [] \<and> ScanEverywhere (sv_cfg s)
         then MatchCorrelationIDEverywhere scanInput cidLength (server_lookup e) s
         else MatchCorrelationID matchInput cidLength (Domains (sv_cfg s)) (server_lookup e) s)"

definition captureInteraction ::
  "'db env \<Rightarrow> string \<Rightarrow> string \<Rightarrow> string \<Rightarrow> Interaction \<Rightarrow> Interaction \<Rightarrow> 'db server \<Rightarrow> bool \<times> 'db server" where
  "captureInteraction e domain matchInput scanInput wildcardInteraction storeInteraction s =
     (case find_matches e matchInput scanInput (captureWildcard e domain wildcardInteraction s) of
        (matches, s1) \<Rightarrow> (matches \<noteq> [], storeMatchedInteractions e matches storeInteraction s1))"

text \<open>
  \<open>Shutdown\<close> closes every service, in any order (each in a goroutine of its own), and then the
  storage, and removes the temporary directory of the FTP service; \<open>remove_all\<close> is \<open>os.RemoveAll\<close>, whose
  error is ignored.  The value has the services closed, the directories removed after the storage is
  closed, and the server, which keeps its list of services.
\<close>

definition Shutdown ::
  "'db env \<Rightarrow> (string \<Rightarrow> string option) \<Rightarrow> 'db server \<Rightarrow> string list \<times> string list \<times> 'db server" where
  "Shutdown e remove_all s =
     (rev (sv_services s), if ftpTempDir s \<noteq> [] then [ftpTempDir s] else [],
      s\<lparr>sv_storage := snd (Storage_Close e remove_all (sv_storage s))\<rparr>)"

definition addService :: "string \<Rightarrow> 'db server \<Rightarrow> 'db server" where
  "addService svc s = s\<lparr>sv_services := sv_services s @ [svc]\<rparr>"

end
