(* ===== verification/Server_Capture.thy ===== *)
theory Server_Capture
  imports Server
begin

text \<open>
  The capture path on the server's storage.  \<open>capture_contract\<close> extends the storage contract by the
  lookup the matchers use; inside it, appending for a list of distinct ids adds one interaction to
  each live one.  It is interpreted on the \<open>Storage\<close> interface of the model, for either backend,
  from the interpretations of the backends themselves.
\<close>

section \<open>What a lookup keeps, a scan keeps\<close>

definition kept_by :: "('s \<Rightarrow> bool) \<Rightarrow> 's lookup \<Rightarrow> bool" where
  "kept_by P lookup \<longleftrightarrow> (\<forall>c s. P s \<longrightarrow> P (snd (lookup c s)))"

lemma scan_list_kept:
  assumes "kept_by Q lk" and "\<And>c l s. Q s \<Longrightarrow> Q (snd (om c l s))"
  shows "Q s \<Longrightarrow> Q (snd (scan_list lk om xs s))"
proof (induction xs arbitrary: s)
  case (Cons x xs)
  obtain c l where x: "x = (c, l)" by (cases x)
  obtain h s1 where lk: "lk c s = (h, s1)" by (cases "lk c s")
  obtain g s2 where om: "om c l s1 = (g, s2)" by (cases "om c l s1")
  have "Q (snd (lk c s))" using assms(1) Cons.prems by (simp add: kept_by_def)
  then have s1: "Q s1" by (simp add: lk)
  then have s2: "Q s2" using assms(2) [of s1 c l] om by simp
  show ?case using Cons.IH [OF s1] Cons.IH [OF s2] s2 by (simp add: x lk om)
qed simp

lemma MatchCorrelationID_kept:
  assumes "kept_by P lookup" and "P s"
  shows "P (snd (MatchCorrelationID input n domains lookup s))"
proof -
  have "kept_by (\<lambda>vs. P (snd vs)) (lift_lookup lookup)"
    using assms(1) by (simp add: kept_by_def lift_lookup_def case_prod_unfold)
  then have "P (snd (snd (scan_list (lift_lookup lookup) collect_match xs ([], s))))" for xs
    using assms(2) by (intro scan_list_kept [where Q = "\<lambda>vs. P (snd vs)"]) (auto simp: collect_match_def case_prod_unfold)
  then have "P (snd (scanLabels (to_lower input) n (lift_lookup lookup) collect_match ([], s)))"
    by (simp add: scanLabels_scan_list)
  then show ?thesis by (simp add: MatchCorrelationID_def Let_def case_prod_unfold)
qed

lemma scan_everywhere_kept:
  assumes "kept_by P lookup"
  shows "P s \<Longrightarrow> P (snd (snd (scan_everywhere n lookup chunk ps ms seen s)))"
proof (induction ps arbitrary: ms seen s)
  case (Cons p ps)
  have step: "P s1" if "lookup c s = (h, s1)" for c h s1
    using assms Cons.prems that unfolding kept_by_def by (metis snd_conv)
  show ?case using Cons.IH Cons.prems step by (simp add: Let_def split: prod.splits)
qed simp

lemma scan_chunks_kept:
  assumes "kept_by P lookup"
  shows "P s \<Longrightarrow> P (snd (snd (scan_chunks n lookup chunks ms seen s)))"
proof (induction chunks arbitrary: ms seen s)
  case (Cons chunk chunks)
  have "P s1" if "scan_everywhere n lookup chunk ps ms seen s = (m1, sn1, s1)" for ps m1 sn1 s1
    using scan_everywhere_kept [OF assms Cons.prems, of n chunk ps ms seen] that by simp
  then show ?case using Cons.IH Cons.prems by (simp split: prod.splits)
qed simp

lemma MatchCorrelationIDEverywhere_kept:
  assumes "kept_by P lookup" and "P s"
  shows "P (snd (MatchCorrelationIDEverywhere input n lookup s))"
  using scan_chunks_kept [OF assms(1,2)] by (simp add: MatchCorrelationIDEverywhere_def case_prod_unfold)

section \<open>The contract\<close>

locale capture_contract = storage_contract good acct app poll enc fits
  for good :: "'s \<Rightarrow> bool" and acct :: "'s \<Rightarrow> string \<Rightarrow> account option"
    and app :: "bytes result \<Rightarrow> string \<Rightarrow> bytes \<Rightarrow> 's \<Rightarrow> 's"
    and poll :: "string \<Rightarrow> string \<Rightarrow> 's \<Rightarrow> bytes list result \<times> 's"
    and enc :: "account \<Rightarrow> bytes \<Rightarrow> bytes \<Rightarrow> bytes"
    and fits :: "bytes result \<Rightarrow> bytes \<Rightarrow> bool" +
  fixes has :: "'s lookup"
  assumes has_answer: "fst (has c s) \<longleftrightarrow> acct s c \<noteq> None"
    and has_live: "(\<lambda>c'. acct (snd (has c s)) c' \<noteq> None) = (\<lambda>c'. acct s c' \<noteq> None)"
    and has_good: "good s \<Longrightarrow> good (snd (has c s))"
    and has_acct: "good s \<Longrightarrow> acct (snd (has c s)) = acct s"
begin

lemma has_kept: "kept_by (\<lambda>s. good s \<and> acct s = A) has"
  unfolding kept_by_def using has_good has_acct by blast

sublocale registry has "\<lambda>s c. acct s c \<noteq> None"
  by unfold_locales (use has_answer has_live in auto)

lemma append_all:
  assumes "good s" and "distinct cs" and "\<forall>c \<in> set cs. fits (Inr (iv c)) (data c) \<and> acct s c \<noteq> None"
  shows "good (fold (\<lambda>c. app (Inr (iv c)) c (data c)) cs s)
     \<and> acct (fold (\<lambda>c. app (Inr (iv c)) c (data c)) cs s) k
         = (if k \<in> set cs
            then map_option (\<lambda>acc. acc\<lparr>acc_pending := acc_pending acc @ [enc acc (iv k) (data k)]\<rparr>) (acct s k)
            else acct s k)"
  using assms
proof (induction cs arbitrary: s)
  case (Cons c cs)
  define s1 where "s1 = app (Inr (iv c)) c (data c) s"
  from Cons.prems obtain acc where acc: "acct s c = Some acc" by auto
  have other: "acct s1 c' = acct s c'" if "c' \<noteq> c" for c'
    unfolding s1_def by (rule append_other [OF Cons.prems(1) that])
  have "good s1" unfolding s1_def by (rule append_good) (use Cons.prems in auto)
  moreover have "\<forall>c' \<in> set cs. fits (Inr (iv c')) (data c') \<and> acct s1 c' \<noteq> None"
    using Cons.prems other by (metis distinct.simps(2) list.set_intros(2))
  ultimately have "good (fold (\<lambda>c. app (Inr (iv c)) c (data c)) cs s1)
     \<and> acct (fold (\<lambda>c. app (Inr (iv c)) c (data c)) cs s1) k
         = (if k \<in> set cs
            then map_option (\<lambda>acc. acc\<lparr>acc_pending := acc_pending acc @ [enc acc (iv k) (data k)]\<rparr>) (acct s1 k)
            else acct s1 k)"
    using Cons.prems by (intro Cons.IH) simp_all
  moreover have "acct s1 c = Some (acc\<lparr>acc_pending := acc_pending acc @ [enc acc (iv c) (data c)]\<rparr>)"
    unfolding s1_def by (rule append_acct) (use Cons.prems acc in auto)
  moreover have "acct s1 k = acct s k" if "k \<in> set cs"
    using that other [of k] Cons.prems by auto
  moreover have "c \<notin> set cs" using Cons.prems by simp
  ultimately show ?case using other [of k] acc by (cases "k = c") (auto simp flip: s1_def)
qed simp

end

section \<open>The storage of the server keeps the contract\<close>

definition storage_view :: "('db \<Rightarrow> bytes \<Rightarrow> bytes option) \<Rightarrow> int \<Rightarrow> 'db Storage \<Rightarrow> string \<Rightarrow> account option" where
  "storage_view contents now st = (case st of
      MemoryBackend m \<Rightarrow> view now m
    | DiskBackend d \<Rightarrow> disk_view contents now d)"

definition storage_good :: "('db \<Rightarrow> bytes \<Rightarrow> bytes option) \<Rightarrow> 'db env \<Rightarrow> 'db Storage \<Rightarrow> bool" where
  "storage_good contents e st = (case st of
      MemoryBackend m \<Rightarrow> mem_good (env_aes e) (env_now e) m
    | DiskBackend d \<Rightarrow> disk_good (env_aes e) (env_leveldb e) contents (env_now e) d)"

text \<open>Look up and drain, as a poll does, and an append with a given outcome of the random source.\<close>

definition storage_poll :: "'db env \<Rightarrow> string \<Rightarrow> string \<Rightarrow> 'db Storage \<Rightarrow> bytes list result \<times> 'db Storage" where
  "storage_poll e cid sk st = (case Storage_GetSession e cid sk st of
      (Inl err, st1) \<Rightarrow> (Inl err, st1)
    | (Inr h, st1) \<Rightarrow> Storage_GetAndClear e h st1)"

definition storage_append :: "'db env \<Rightarrow> bytes result \<Rightarrow> string \<Rightarrow> bytes \<Rightarrow> 'db Storage \<Rightarrow> 'db Storage" where
  "storage_append e r cid x st = snd (Storage_AppendInteraction (e\<lparr>env_iv := \<lambda>_. r\<rparr>) cid x st)"

lemma storage_cases_simps [simp]:
  "storage_view contents now (MemoryBackend m) = view now m"
  "storage_view contents now (DiskBackend d) = disk_view contents now d"
  "storage_good contents e (MemoryBackend m) = mem_good (env_aes e) (env_now e) m"
  "storage_good contents e (DiskBackend d) = disk_good (env_aes e) (env_leveldb e) contents (env_now e) d"
  "storage_append e r cid x (MemoryBackend m) = MemoryBackend (AppendInteraction (env_now e) r cid x m)"
  "storage_append e r cid x (DiskBackend d)
     = DiskBackend (disk_AppendInteraction (env_leveldb e) (env_now e) r cid x d)"
  "Storage_HasCorrelationID now cid (MemoryBackend m) = apsnd MemoryBackend (HasCorrelationID now cid m)"
  "Storage_HasCorrelationID now cid (DiskBackend d) = apsnd DiskBackend (disk_HasCorrelationID now cid d)"
  by (simp_all add: storage_view_def storage_good_def storage_append_def Storage_AppendInteraction_def
      Storage_HasCorrelationID_def)

lemma storage_poll_simps [simp]:
  "storage_poll e cid sk (MemoryBackend m) = apsnd MemoryBackend (poll_session (env_now e) cid sk m)"
  "storage_poll e cid sk (DiskBackend d)
     = apsnd DiskBackend (disk_poll_session (env_leveldb e) (env_now e) cid sk d)"
  by (auto simp: storage_poll_def Storage_GetSession_def Storage_GetAndClear_def poll_session_def
      disk_poll_session_def split: prod.splits sum.splits)

lemma disk_has_apsnd [simp]:
  "disk_HasCorrelationID now c d = apsnd (\<lambda>m. d\<lparr>mem := m\<rparr>) (HasCorrelationID now c (mem d))"
  by (simp add: disk_HasCorrelationID_def apsnd_def map_prod_def)

lemma view_HasCorrelationID: "view now (snd (HasCorrelationID now c m)) = view now m"
proof -
  have "view now m c = None" if "find_session m c = Some (a, s)" "isExpired now m s" for a s
    using that by (simp add: view_def)
  then show ?thesis
    by (auto simp: HasCorrelationID_def has_read_def has_locked_def fun_eq_iff split: option.split)
qed

lemma HasCorrelationID_backing:
  assumes "disk_hooks ldb m" "leveldb_ok ldb contents"
  shows "disk_hooks ldb (snd (HasCorrelationID now c m))"
    "c' \<noteq> c \<Longrightarrow> contents (backing (snd (HasCorrelationID now c m))) (go_bytes c') = contents (backing m) (go_bytes c')"
    "contents (backing (snd (HasCorrelationID now c m))) (go_bytes c) \<in> {contents (backing m) (go_bytes c), None}"
    "view now m c \<noteq> None \<Longrightarrow> backing (snd (HasCorrelationID now c m)) = backing m"
  using assms
  by (auto simp: HasCorrelationID_def has_read_def has_locked_def backing_removeLocked leveldb_okD
      view_def split: option.split)

lemma ttl_HasCorrelationID [simp]: "ttl (snd (HasCorrelationID now c m)) = ttl m"
  by (simp add: HasCorrelationID_def has_read_def has_locked_def split: option.split)

lemma disk_has_good:
  assumes "disk_good aes ldb contents now d"
  shows "disk_good aes ldb contents now (snd (disk_HasCorrelationID now c d))"
proof -
  let ?m = "snd (HasCorrelationID now c (mem d))"
  have ldb: "leveldb_ok ldb contents" and h: "disk_hooks ldb (mem d)"
    using assms by (simp_all add: disk_good_def)
  have fr: "\<exists>xs. framed (contents (backing ?m) (go_bytes c')) xs" for c'
  proof (cases "contents (backing ?m) (go_bytes c') = None")
    case True
    then show ?thesis using framed_None by auto
  next
    case False
    then have "contents (backing ?m) (go_bytes c') = contents (backing (mem d)) (go_bytes c')"
      using HasCorrelationID_backing(2,3) [OF h ldb, where c = c and now = now] by (cases "c' = c") auto
    with assms show ?thesis by (simp add: disk_good_def)
  qed
  have "mem_good aes now ?m" using assms by (simp add: disk_good_def mem_good_def mem_ok_HasCorrelationID)
  with assms fr HasCorrelationID_backing(1) [OF h ldb] show ?thesis
    by (simp add: disk_good_def)
qed

lemma disk_has_view:
  assumes "disk_good aes ldb contents now d"
  shows "disk_view contents now (snd (disk_HasCorrelationID now c d)) = disk_view contents now d"
proof (rule ext)
  fix c'
  have ldb: "leveldb_ok ldb contents" and h: "disk_hooks ldb (mem d)"
    using assms by (simp_all add: disk_good_def)
  show "disk_view contents now (snd (disk_HasCorrelationID now c d)) c' = disk_view contents now d c'"
  proof (cases "view now (mem d) c'")
    case None
    then show ?thesis using view_HasCorrelationID [of now c "mem d"]
      by (simp add: disk_view_def)
  next
    case (Some acc)
    then have "contents (backing (snd (HasCorrelationID now c (mem d)))) (go_bytes c')
        = contents (backing (mem d)) (go_bytes c')"
      using HasCorrelationID_backing(2,4) [OF h ldb, where c = c and now = now] by (cases "c' = c") auto
    then show ?thesis using view_HasCorrelationID [of now c "mem d"]
      by (simp add: disk_view_def pending_of_def)
  qed
qed

lemma memory_has_good: "mem_good aes now m \<Longrightarrow> mem_good aes now (snd (HasCorrelationID now c m))"
  by (simp add: mem_good_def mem_ok_HasCorrelationID)

interpretation server_storage:
  capture_contract "storage_good contents e" "storage_view contents (env_now e)" "storage_append e"
    "storage_poll e" "encrypt_for (env_aes e)" record_fits "Storage_HasCorrelationID (env_now e)"
  for contents e
proof
  fix st :: "'a Storage" and r c c' x sk iv err acc q
  note simps = storage_cases_simps storage_poll_simps snd_apsnd fst_apsnd
  show "storage_good contents e (storage_append e r c x st)"
    if "storage_good contents e st" "record_fits r x"
    using that memory_contract.append_good disk_contract.append_good by (cases st) auto
  show "storage_view contents (env_now e) (storage_append e (Inr iv) c x st) c
      = Some (acc\<lparr>acc_pending := acc_pending acc @ [encrypt_for (env_aes e) acc iv x]\<rparr>)"
    if "storage_good contents e st" "record_fits (Inr iv) x" "storage_view contents (env_now e) st c = Some acc"
    using that memory_contract.append_acct disk_contract.append_acct by (cases st) auto
  show "storage_view contents (env_now e) (storage_append e (Inl err) c x st) c = Some acc"
    if "storage_good contents e st" "storage_view contents (env_now e) st c = Some acc"
    using that memory_contract.append_fails disk_contract.append_fails by (cases st) auto
  show "storage_view contents (env_now e) (storage_append e r c x st) c' = storage_view contents (env_now e) st c'"
    if "storage_good contents e st" "c' \<noteq> c"
    using that memory_contract.append_other disk_contract.append_other by (cases st) auto
  show "storage_good contents e (snd (storage_poll e c sk st))" if "storage_good contents e st"
    using that memory_contract.poll_good disk_contract.poll_good by (cases st) auto
  show "fst (storage_poll e c sk st) = Inr (acc_pending acc)
      \<and> storage_view contents (env_now e) (snd (storage_poll e c sk st)) c = Some (acc\<lparr>acc_pending := []\<rparr>)"
    if "storage_good contents e st" "storage_view contents (env_now e) st c = Some acc"
      "acc_secret acc = go_bytes sk"
    using that by (cases st) (auto dest: memory_contract.poll_acct disk_contract.poll_acct)
  show "fst (storage_poll e c sk st) = Inl ''invalid secret key passed for user''
      \<and> storage_view contents (env_now e) (snd (storage_poll e c sk st)) c = Some acc"
    if "storage_good contents e st" "storage_view contents (env_now e) st c = Some acc"
      "acc_secret acc \<noteq> go_bytes sk"
    using that by (cases st) (auto dest: memory_contract.poll_denied disk_contract.poll_denied)
  show "fst (storage_poll e c sk st) = Inl ''could not get correlation-id''
      \<and> storage_view contents (env_now e) (snd (storage_poll e c sk st)) c = None"
    if "storage_good contents e st" "storage_view contents (env_now e) st c = None"
    using that by (cases st) (auto dest: memory_contract.poll_absent disk_contract.poll_absent)
  show "storage_view contents (env_now e) (snd (storage_poll e c sk st)) c' = storage_view contents (env_now e) st c'"
    if "storage_good contents e st" "c' \<noteq> c"
    using that memory_contract.poll_other disk_contract.poll_other by (cases st) auto
  show "encrypt_for (env_aes e) (acc\<lparr>acc_pending := q\<rparr>) = encrypt_for (env_aes e) acc"
    by (rule memory_contract.enc_pending)
  show "fst (Storage_HasCorrelationID (env_now e) c st) \<longleftrightarrow> storage_view contents (env_now e) st c \<noteq> None"
    by (cases st) (simp_all add: disk_view_def live_session_view memory_registry.lookup_answer)
  show "(\<lambda>c'. storage_view contents (env_now e) (snd (Storage_HasCorrelationID (env_now e) c st)) c' \<noteq> None)
      = (\<lambda>c'. storage_view contents (env_now e) st c' \<noteq> None)"
    by (cases st) (simp_all add: view_HasCorrelationID disk_view_def)
  show "storage_good contents e (snd (Storage_HasCorrelationID (env_now e) c st))"
    if "storage_good contents e st"
    using that by (cases st) (simp_all add: memory_has_good disk_has_good [simplified])
  show "storage_view contents (env_now e) (snd (Storage_HasCorrelationID (env_now e) c st))
      = storage_view contents (env_now e) st"
    if "storage_good contents e st"
    using that by (cases st) (simp_all add: view_HasCorrelationID disk_has_view [simplified])
qed

section \<open>Capturing\<close>

abbreviation account_at :: "('db \<Rightarrow> bytes \<Rightarrow> bytes option) \<Rightarrow> 'db env \<Rightarrow> 'db server \<Rightarrow> string \<Rightarrow> account option" where
  "account_at contents e s \<equiv> storage_view contents (env_now e) (sv_storage s)"

definition live_at :: "('db \<Rightarrow> bytes \<Rightarrow> bytes option) \<Rightarrow> 'db env \<Rightarrow> 'db server \<Rightarrow> string \<Rightarrow> bool" where
  "live_at contents e s c \<longleftrightarrow> account_at contents e s c \<noteq> None"

interpretation server_registry: registry "server_lookup e" "live_at contents e" for contents e
proof
  fix c and s :: "'a server"
  show "fst (server_lookup e c s) = live_at contents e s c"
    using server_storage.has_answer [of e c "sv_storage s" contents]
    by (simp add: server_lookup_def live_at_def case_prod_unfold)
  show "live_at contents e (snd (server_lookup e c s)) = live_at contents e s"
    using server_storage.has_live [of contents e c "sv_storage s"]
    by (simp add: server_lookup_def live_at_def fun_eq_iff case_prod_unfold)
qed

text \<open>A lookup changes nothing that the storage's contract shows, and nothing outside the storage.\<close>

definition same_server ::
  "('db \<Rightarrow> bytes \<Rightarrow> bytes option) \<Rightarrow> 'db env \<Rightarrow> 'db server \<Rightarrow> 'db server \<Rightarrow> bool" where
  "same_server contents e s s' \<longleftrightarrow> storage_good contents e (sv_storage s')
     \<and> account_at contents e s' = account_at contents e s \<and> s' = s\<lparr>sv_storage := sv_storage s'\<rparr>"

lemma same_server_refl: "storage_good contents e (sv_storage s) \<Longrightarrow> same_server contents e s s"
  by (simp add: same_server_def)

lemma same_server_lookup: "kept_by (same_server contents e s) (server_lookup e)"
  unfolding kept_by_def
proof (intro allI impI)
  fix c s1 assume "same_server contents e s s1"
  then show "same_server contents e s (snd (server_lookup e c s1))"
    using server_storage.has_good [of contents e "sv_storage s1" c]
      server_storage.has_acct [of contents e "sv_storage s1" c]
    by (auto simp: same_server_def server_lookup_def case_prod_unfold)
       (metis server.surjective server.update_convs(2))
qed

text \<open>
  The ids that an input names, and the full id that each is stored with: with \<open>ScanEverywhere\<close> and
  something to scan, the windows of the whole text, each id with the first window that starts with
  it; and else the candidates of the labels of the name, each with the name less its domain.
\<close>

definition scans :: "'db server \<Rightarrow> string \<Rightarrow> bool" where
  "scans s scanInput \<longleftrightarrow> scanInput \<noteq> [] \<and> ScanEverywhere (sv_cfg s)"

definition named_ids :: "'db server \<Rightarrow> string \<Rightarrow> string \<Rightarrow> string list" where
  "named_ids s matchInput scanInput =
     (let n = nat (CorrelationIdLength (sv_cfg s))
      in if scans s scanInput then map (take n) (everywhere_windows n (to_lower scanInput))
         else candidates n (to_lower matchInput))"

definition named_full :: "'db server \<Rightarrow> string \<Rightarrow> string \<Rightarrow> string \<Rightarrow> string" where
  "named_full s matchInput scanInput cid =
     (let n = nat (CorrelationIdLength (sv_cfg s))
      in if scans s scanInput
         then (case find (\<lambda>w. take n w = cid) (everywhere_windows n (to_lower scanInput)) of
             Some window \<Rightarrow> window
           | None \<Rightarrow> [])
         else extractFullID (to_lower matchInput) (Domains (sv_cfg s)))"

lemma named_labels:
  assumes "scanInput = [] \<or> \<not> ScanEverywhere (sv_cfg s)"
  shows "named_ids s matchInput scanInput = candidates (nat (CorrelationIdLength (sv_cfg s))) (to_lower matchInput)"
    "named_full s matchInput scanInput cid = extractFullID (to_lower matchInput) (Domains (sv_cfg s))"
  using assms by (auto simp: named_ids_def named_full_def scans_def)

lemma find_matches_named:
  assumes "storage_good contents e (sv_storage s)"
  obtains ms s1 where "find_matches e matchInput scanInput s = (ms, s1)" "same_server contents e s s1"
    "map UniqueID ms = dedup (filter (live_at contents e s) (named_ids s matchInput scanInput))"
    "\<forall>m \<in> set ms. FullID m = named_full s matchInput scanInput (UniqueID m)"
proof -
  let ?n = "nat (CorrelationIdLength (sv_cfg s))"
  note kept = same_server_lookup same_server_refl [OF assms]
  show ?thesis
  proof (cases "scans s scanInput")
    case True
    let ?run = "MatchCorrelationIDEverywhere scanInput ?n (server_lookup e) s"
    obtain ms s1 where run: "?run = (ms, s1)"
      and ids: "map UniqueID ms = dedup (filter (live_at contents e s)
          (map (take ?n) (everywhere_windows ?n (to_lower scanInput))))"
        "\<forall>m \<in> set ms. find (\<lambda>w. take ?n w = UniqueID m) (everywhere_windows ?n (to_lower scanInput)) = Some (FullID m)"
      using server_registry.MatchCorrelationIDEverywhere_first [where contents = contents and e = e and s = s] by blast
    have "same_server contents e s (snd ?run)" by (rule MatchCorrelationIDEverywhere_kept [OF kept])
    moreover have "find_matches e matchInput scanInput s = ?run"
      using True by (simp add: find_matches_def scans_def)
    ultimately show ?thesis
      using that run ids True by (simp add: named_ids_def named_full_def Let_def)
  next
    case False
    let ?run = "MatchCorrelationID matchInput ?n (Domains (sv_cfg s)) (server_lookup e) s"
    obtain ms s1 where run: "?run = (ms, s1)"
      and ids: "map UniqueID ms = dedup (filter (live_at contents e s) (candidates ?n (to_lower matchInput)))"
        "\<forall>m \<in> set ms. FullID m = extractFullID (to_lower matchInput) (Domains (sv_cfg s))"
      using server_registry.MatchCorrelationID_ids [where contents = contents and e = e and s = s] by blast
    have "same_server contents e s (snd ?run)" by (rule MatchCorrelationID_kept [OF kept])
    moreover have "find_matches e matchInput scanInput s = ?run"
      using False by (auto simp: find_matches_def scans_def Let_def)
    ultimately show ?thesis
      using that run ids False by (simp add: named_ids_def named_full_def Let_def)
  qed
qed

lemma find_matches_labels:
  assumes "storage_good contents e (sv_storage s)" and "scanInput = [] \<or> \<not> ScanEverywhere (sv_cfg s)"
  obtains ms s1 where "find_matches e matchInput scanInput s = (ms, s1)" "same_server contents e s s1"
    "map UniqueID ms = dedup (filter (live_at contents e s)
        (candidates (nat (CorrelationIdLength (sv_cfg s))) (to_lower matchInput)))"
    "\<forall>m \<in> set ms. FullID m = extractFullID (to_lower matchInput) (Domains (sv_cfg s))"
  using find_matches_named [OF assms(1), of matchInput scanInput thesis] unfolding named_labels [OF assms(2)]
  by blast

lemma Storage_AppendInteraction_append:
  "snd (Storage_AppendInteraction e c x st) = storage_append e (env_iv e c) c x st"
  by (simp add: storage_append_def Storage_AppendInteraction_def split: Storage.split)

lemma storeMatched_storage:
  assumes "env_marshal e = (\<lambda>i. Inr (js i))" and "\<forall>m \<in> set ms. FullID m = full (UniqueID m)"
  shows "storeMatchedInteractions e ms i s = s\<lparr>sv_storage :=
     fold (\<lambda>c. storage_append e (env_iv e c) c (go_bytes (js (i\<lparr>InteractionUniqueID := c, FullId := full c\<rparr>))))
       (map UniqueID ms) (sv_storage s)\<rparr>"
  using assms(2) by (induction ms arbitrary: s) (simp_all add: assms(1) Storage_AppendInteraction_append)

lemma captureWildcard_storage [simp]:
  "sv_storage (captureWildcard e domain i s) = sv_storage s"
  "sv_cfg (captureWildcard e domain i s) = sv_cfg s"
  "extraBucket (captureWildcard e domain i s) = extraBucket s"
  by (simp_all add: captureWildcard_def split: option.split sum.split)

lemma captureWildcard_good [simp]:
  "live_at contents e (captureWildcard e domain i s) = live_at contents e s"
  by (simp add: live_at_def fun_eq_iff)

lemma named_wildcard [simp]:
  "named_ids (captureWildcard e domain i s) = named_ids s"
  "named_full (captureWildcard e domain i s) = named_full s"
  by (simp_all add: fun_eq_iff named_ids_def named_full_def scans_def Let_def)

lemma capture_named:
  assumes good: "storage_good contents e (sv_storage s)"
    and js: "env_marshal e = (\<lambda>i. Inr (js i))" and iv: "env_iv e = (\<lambda>c. Inr (iv c))"
    and data: "\<And>c. data c = go_bytes (js (i\<lparr>InteractionUniqueID := c, FullId := named_full s matchInput scanInput c\<rparr>))"
    and fits: "\<And>c. c \<in> ids \<Longrightarrow> record_fits (Inr (iv c)) (data c)"
    and ids: "ids = set (filter (live_at contents e s) (named_ids s matchInput scanInput))"
  obtains st where
    "captureInteraction e domain matchInput scanInput wi i s
       = (ids \<noteq> {}, (captureWildcard e domain wi s)\<lparr>sv_storage := st\<rparr>)"
    "storage_good contents e st"
    "\<And>c. storage_view contents (env_now e) st c
       = (if c \<in> ids then map_option (\<lambda>acc. acc\<lparr>acc_pending := acc_pending acc
              @ [encrypt_for (env_aes e) acc (iv c) (data c)]\<rparr>) (account_at contents e s c)
          else account_at contents e s c)"
proof -
  let ?w = "captureWildcard e domain wi s"
  have w: "storage_good contents e (sv_storage ?w)" using good by simp
  obtain ms s1 where ms: "find_matches e matchInput scanInput ?w = (ms, s1)" "same_server contents e ?w s1"
    "map UniqueID ms = dedup (filter (live_at contents e s) (named_ids s matchInput scanInput))"
    "\<forall>m \<in> set ms. FullID m = named_full s matchInput scanInput (UniqueID m)"
    using find_matches_named [OF w, of matchInput scanInput thesis] by auto
  define run where "run = fold (\<lambda>c. storage_append e (Inr (iv c)) c (data c)) (map UniqueID ms) (sv_storage s1)"
  have set: "set (map UniqueID ms) = ids" unfolding ms(3) ids by simp
  have s1: "storage_good contents e (sv_storage s1)" "account_at contents e s1 = account_at contents e s"
    "s1 = ?w\<lparr>sv_storage := sv_storage s1\<rparr>"
    using ms(2) by (simp_all add: same_server_def)
  have "\<forall>c \<in> set (map UniqueID ms). record_fits (Inr (iv c)) (data c) \<and> account_at contents e s1 c \<noteq> None"
    unfolding set using fits by (auto simp: ids s1(2) live_at_def)
  moreover have "distinct (map UniqueID ms)" unfolding ms(3) by simp
  ultimately have run: "storage_good contents e run \<and> storage_view contents (env_now e) run c
      = (if c \<in> set (map UniqueID ms) then map_option (\<lambda>acc. acc\<lparr>acc_pending := acc_pending acc
              @ [encrypt_for (env_aes e) acc (iv c) (data c)]\<rparr>) (account_at contents e s1 c)
          else account_at contents e s1 c)" for c
    unfolding run_def by (intro server_storage.append_all s1)
  have "storeMatchedInteractions e ms i s1 = s1\<lparr>sv_storage := run\<rparr>"
    unfolding storeMatched_storage [OF js, where full = "named_full s matchInput scanInput", OF ms(4)] run_def
    by (simp add: iv data)
  moreover have "s1\<lparr>sv_storage := run\<rparr> = ?w\<lparr>sv_storage := run\<rparr>"
    by (subst s1(3)) simp
  moreover have "ms \<noteq> [] \<longleftrightarrow> ids \<noteq> {}" unfolding set [symmetric] by simp
  ultimately have cap: "captureInteraction e domain matchInput scanInput wi i s
      = (ids \<noteq> {}, ?w\<lparr>sv_storage := run\<rparr>)"
    unfolding captureInteraction_def ms(1) by simp
  show ?thesis
    by (rule that [OF cap]) (use run in \<open>simp_all only: set s1(2)\<close>)
qed

end
