(* ===== verification/Http_Middleware.thy ===== *)
theory Http_Middleware
  imports Server_Capture
begin

text \<open>
  The HTTP middleware (\<open>oobsrv/middleware.go\<close>) and the hostname middleware and capture callback of
  \<open>oobsrv/httpapi.go\<close>.  A handler takes the request, the response writer and the server; a
  middleware takes the next handler.  The facts: what the authentication middleware lets through,
  what the logger hands to the capture callback and to the client.
\<close>

type_synonym 'db handler = "request \<Rightarrow> response \<Rightarrow> 'db server \<Rightarrow> response \<times> 'db server"

definition standardCORSAllowMethods :: string where
  "standardCORSAllowMethods = ''GET, HEAD, POST, PUT, PATCH, DELETE, OPTIONS''"

definition standardCORSExposeHeaders :: string where
  "standardCORSExposeHeaders =
     ''*, Server, X-Interactsh-Version, Location, Content-Disposition, Content-Length, Date''"

definition standardCORSMethodSet :: "string set" where
  "standardCORSMethodSet = {''GET'', ''HEAD'', ''POST'', ''PUT'', ''PATCH'', ''DELETE'', ''OPTIONS''}"

definition CORSMiddleware :: "string \<Rightarrow> 'db handler \<Rightarrow> 'db handler" where
  "CORSMiddleware acaoURL next_handler r w s =
     (let w1 = set_header ''Access-Control-Allow-Headers'' ''Content-Type, Authorization''
                 (set_header ''Access-Control-Allow-Methods'' ''GET, POST, OPTIONS''
                   (set_header ''Access-Control-Allow-Origin'' acaoURL w))
      in if rq_Method r = ''OPTIONS'' then (WriteHeader 204 w1, s) else next_handler r w1 s)"

definition preflight_headers :: "request \<Rightarrow> response \<Rightarrow> response" where
  "preflight_headers r w =
     (let reqMethod = to_upper (header_Get (rq_Header r) ''Access-Control-Request-Method'');
          allowMethods = (if reqMethod \<noteq> [] \<and> reqMethod \<notin> standardCORSMethodSet
            then standardCORSAllowMethods @ '', '' @ reqMethod else standardCORSAllowMethods);
          w1 = set_header ''Allow'' allowMethods (set_header ''Access-Control-Allow-Methods'' allowMethods w);
          h = header_Get (rq_Header r) ''Access-Control-Request-Headers'';
          w2 = (if h \<noteq> [] then set_header ''Access-Control-Allow-Headers'' h w1 else w1)
      in if header_Get (rq_Header r) ''Access-Control-Request-Private-Network'' = ''true''
         then set_header ''Access-Control-Allow-Private-Network'' ''true'' w2 else w2)"

definition InteractionCORSMiddleware :: "'db handler \<Rightarrow> 'db handler" where
  "InteractionCORSMiddleware next_handler r w s =
     (let origin = (if header_Get (rq_Header r) ''Origin'' = [] then ''*''
                    else header_Get (rq_Header r) ''Origin'');
          w1 = set_header ''Vary'' ''Origin, Access-Control-Request-Method, Access-Control-Request-Headers''
                 (set_header ''Referrer-Policy'' ''unsafe-url''
                   (set_header ''Cross-Origin-Resource-Policy'' ''cross-origin''
                     (set_header ''Access-Control-Expose-Headers'' standardCORSExposeHeaders
                       (set_header ''Access-Control-Allow-Credentials'' ''true''
                         (set_header ''Access-Control-Allow-Origin'' origin w)))))
      in if rq_Method r = ''OPTIONS'' then (WriteHeader 204 (preflight_headers r w1), s)
         else next_handler r w1 s)"

definition AuthMiddleware :: "bool \<Rightarrow> string \<Rightarrow> 'db handler \<Rightarrow> 'db handler" where
  "AuthMiddleware enabled token next_handler r w s =
     (if \<not> enabled then next_handler r w s
      else if header_Get (rq_Header r) ''Authorization'' \<noteq> token then (WriteHeader 401 w, s)
      else next_handler r w s)"

definition ExtractRemoteAddr :: "request \<Rightarrow> string \<Rightarrow> string" where
  "ExtractRemoteAddr r originIPHeader =
     (let val = (if originIPHeader \<noteq> [] then header_Get (rq_Header r) originIPHeader else [])
      in if val \<noteq> [] then val
         else case SplitHostPort (rq_RemoteAddr r) of
             None \<Rightarrow> rq_RemoteAddr r
           | Some (host, _) \<Rightarrow> host)"

type_synonym 'db on_interaction =
  "request \<Rightarrow> string \<Rightarrow> string \<Rightarrow> string \<Rightarrow> string \<Rightarrow> string \<Rightarrow> 'db server \<Rightarrow> 'db server"

text \<open>Copying the recorded response to the writer.\<close>

definition forward_response :: "response \<Rightarrow> response \<Rightarrow> response" where
  "forward_response rec w =
     Write (rec_body rec)
       (WriteHeader (rec_statusCode rec) (w\<lparr>rec_header := header_Copy (rec_header w) (rec_header rec)\<rparr>))"

definition LoggerMiddleware ::
  "string \<Rightarrow> int \<Rightarrow> 'db on_interaction option \<Rightarrow> 'db handler \<Rightarrow> 'db handler" where
  "LoggerMiddleware originIPHeader maxBody onInteraction next_handler r0 w s =
     (let r = (if maxBody > 0 then limit_body maxBody r0 else r0);
          rawReq = DumpRequest r
      in case next_handler r newResponseRecorder s of (rec, s1) \<Rightarrow>
           (forward_response rec w,
            (case onInteraction of
               None \<Rightarrow> s1
             | Some f \<Rightarrow> f r rawReq (dump_response rec) (ExtractRemoteAddr r originIPHeader)
                          (rec_hostname rec) (rec_domain rec) s1)))"

definition ResponseHeadersMiddleware ::
  "string \<Rightarrow> string \<Rightarrow> bool \<Rightarrow> bool \<Rightarrow> 'db handler \<Rightarrow> 'db handler" where
  "ResponseHeadersMiddleware serverHeader version disableVersion isAPI next_handler r w s =
     (let w1 = set_header ''Server'' serverHeader w;
          w2 = (if \<not> disableVersion then set_header ''X-Interactsh-Version'' version w1 else w1);
          w3 = (if isAPI then set_header ''X-Content-Type-Options'' ''nosniff''
                               (set_header ''Content-Type'' ''application/json; charset=utf-8'' w2) else w2)
      in next_handler r w3 s)"

definition MaxRequestSizeMiddleware :: "int \<Rightarrow> 'db handler \<Rightarrow> 'db handler" where
  "MaxRequestSizeMiddleware maxMB next_handler r w s =
     (if maxMB \<le> 0 then next_handler r w s
      else next_handler (limit_body (wrap64 (maxMB * 1024 * 1024)) r) w s)"

section \<open>The capture side of \<open>httpapi.go\<close>\<close>

text \<open>In the program the writer below this middleware is always the logger's recorder.\<close>

definition hostnameMiddleware :: "'db handler \<Rightarrow> 'db handler" where
  "hostnameMiddleware next_handler r w s =
     (let hostname = to_lower (stripHostPort (rq_Host r));
          w1 = w\<lparr>rec_hostname := hostname\<rparr>;
          w2 = (case matchedDomain s hostname of Some d \<Rightarrow> w1\<lparr>rec_domain := d\<rparr> | None \<Rightarrow> w1)
      in next_handler r w2 s)"

definition http_interaction :: "request \<Rightarrow> string \<Rightarrow> string \<Rightarrow> string \<Rightarrow> int \<Rightarrow> Interaction" where
  "http_interaction r rawReq rawResp remoteAddr now =
     zero_Interaction\<lparr>Protocol := (if rq_TLS r then ''https'' else ''http''),
       RawRequest := rawReq, RawResponse := rawResp, RemoteAddress := remoteAddr, Timestamp := now\<rparr>"

definition onHTTPInteraction :: "'db env \<Rightarrow> 'db on_interaction" where
  "onHTTPInteraction e r rawReq rawResp remoteAddr hostname domain s0 =
     (let s = s0\<lparr>httpCount := httpCount s0 + 1\<rparr>
      in if domain = [] \<and> \<not> ScanEverywhere (sv_cfg s) then s
         else let i = http_interaction r rawReq rawResp remoteAddr (env_now e)
              in (case captureInteraction e domain hostname rawReq
                         (i\<lparr>InteractionUniqueID := hostname, FullId := hostname\<rparr>) i s of
                    (matched, s1) \<Rightarrow> if matched then s1\<lparr>httpMatched := httpMatched s1 + 1\<rparr> else s1))"

section \<open>Facts\<close>

lemma AuthMiddleware_denied:
  "header_Get (rq_Header r) ''Authorization'' \<noteq> token \<Longrightarrow>
   AuthMiddleware True token next_handler r w s = (WriteHeader 401 w, s)"
  by (simp add: AuthMiddleware_def)

lemma LoggerMiddleware_response:
  "fst (LoggerMiddleware h n f next_handler r w s)
     = forward_response (fst (next_handler (if n > 0 then limit_body n r else r) newResponseRecorder s)) w"
  by (simp add: LoggerMiddleware_def Let_def case_prod_unfold)

end
