(* ===== verification/Http_Api.thy ===== *)
theory Http_Api
  imports Http_Middleware
begin

text \<open>
  The API endpoints (\<open>oobsrv/endpoints.go\<close>): registration, polling, deregistration and metrics.
  The properties: which registrations are accepted, and what a poll answers and leaves behind.
\<close>

section \<open>Handlers\<close>

definition writeJSON :: "'db env \<Rightarrow> int \<Rightarrow> api_body \<Rightarrow> response \<Rightarrow> response" where
  "writeJSON e status v w = (case env_json e v of
      Inl err \<Rightarrow> WriteHeader 500 w
    | Inr data \<Rightarrow>
        Write data (WriteHeader status (set_header ''Content-Type'' ''application/json; charset=utf-8'' w)))"

definition bad_request :: "'db env \<Rightarrow> string \<Rightarrow> response \<Rightarrow> response" where
  "bad_request e msg w = writeJSON e 400 (ErrorBody msg) w"

text \<open>The length check and the truncation all three handlers start with.\<close>

definition check_id :: "'db server \<Rightarrow> string \<Rightarrow> string result" where
  "check_id s cid =
     (let n = CorrelationIdLength (sv_cfg s)
      in if int (length cid) < n then Inl (''correlation-id must be at least '' @ itoa n @ '' characters'')
         else Inr (take (nat n) cid))"

text \<open>What \<open>handleRegister\<close> checks before it asks the storage: the id and the key, or an error.\<close>

definition validate_register ::
  "'db env \<Rightarrow> 'db server \<Rightarrow> registerRequest_body \<Rightarrow> (string \<times> rsa_public_key) result" where
  "validate_register e s req =
     (if sr_SecretKey req = [] then Inl ''secret-key must not be empty''
      else case check_id s (sr_CorrelationID req) of
          Inl err \<Rightarrow> Inl err
        | Inr cid \<Rightarrow>
            if \<not> isCIDBase32 cid then Inl ''correlation-id contains invalid characters''
            else case ParsePublicKey (env_decoders e) (sr_PublicKey req) of
                Inl err \<Rightarrow> Inl (''could not decode public key: '' @ err)
              | Inr pubKey \<Rightarrow>
                  if sr_Response req \<noteq> None \<and> \<not> DynamicResp (sv_cfg s)
                  then Inl ''server does not support response configuration (--dynamic-resp not enabled)''
                  else if sr_Response req \<noteq> None \<and> \<not> Auth (sv_cfg s)
                          \<and> \<not> IsAllowedUnauthenticated (sr_Response req)
                  then Inl ''unauthenticated servers only allow 302/307 redirects with a Location header''
                  else Inr (cid, pubKey))"

definition handleRegister :: "'db env \<Rightarrow> 'db handler" where
  "handleRegister e r w s = (case env_decode_register e (rq_Body r) of
      Inl err \<Rightarrow> (bad_request e (''could not decode json body: '' @ err) w, s)
    | Inr req \<Rightarrow> (case validate_register e s req of
        Inl err \<Rightarrow> (bad_request e err w, s)
      | Inr (cid, pubKey) \<Rightarrow>
          (case Storage_Register e cid pubKey (sr_SecretKey req) (sr_Response req) (sv_storage s) of
             (Inl err, st) \<Rightarrow> (bad_request e err w, s\<lparr>sv_storage := st\<rparr>)
           | (Inr _, st) \<Rightarrow>
               (writeJSON e 200 (MessageBody ''registration successful'') w,
                s\<lparr>sv_storage := st,
                  uaTracker := ua_record (header_Get (rq_Header r) ''User-Agent'') (uaTracker s)\<rparr>))))"

text \<open>The shared buckets are read under the polled id; the wildcard ones in the order of the domains.\<close>

definition read_extra :: "int \<Rightarrow> string \<Rightarrow> 'db server \<Rightarrow> string list \<times> 'db server" where
  "read_extra now cid s = (case extraBucket s of
      None \<Rightarrow> ([], s)
    | Some b \<Rightarrow> (case bucket_ReadFrom now cid b of
        (raw, b1) \<Rightarrow> (map go_string raw, s\<lparr>extraBucket := Some b1\<rparr>)))"

primrec read_buckets ::
  "int \<Rightarrow> string \<Rightarrow> string list \<Rightarrow> (string \<rightharpoonup> SharedBucket) \<Rightarrow> string list \<times> (string \<rightharpoonup> SharedBucket)" where
  "read_buckets now cid [] buckets = ([], buckets)"
| "read_buckets now cid (domain # domains) buckets = (case buckets domain of
      None \<Rightarrow> read_buckets now cid domains buckets
    | Some b \<Rightarrow> (case bucket_ReadFrom now cid b of
        (raw, b1) \<Rightarrow> (case read_buckets now cid domains (buckets(domain \<mapsto> b1)) of
          (rest, buckets1) \<Rightarrow> (map go_string raw @ rest, buckets1))))"

definition read_tld :: "int \<Rightarrow> string \<Rightarrow> 'db server \<Rightarrow> string list \<times> 'db server" where
  "read_tld now cid s =
     (if \<not> Wildcard (sv_cfg s) then ([], s)
      else case tldBuckets s of
          None \<Rightarrow> ([], s)
        | Some buckets \<Rightarrow> (case read_buckets now cid (Domains (sv_cfg s)) buckets of
            (data, buckets1) \<Rightarrow> (data, s\<lparr>tldBuckets := Some buckets1\<rparr>)))"

definition handlePoll :: "'db env \<Rightarrow> 'db handler" where
  "handlePoll e r w s =
     (case check_id s (query_Get (rq_query r) ''id'') of
        Inl err \<Rightarrow> (bad_request e err w, s)
      | Inr cid \<Rightarrow> (case Storage_GetSession e cid (query_Get (rq_query r) ''secret'') (sv_storage s) of
          (Inl err, st1) \<Rightarrow> (bad_request e err w, s\<lparr>sv_storage := st1\<rparr>)
        | (Inr h, st1) \<Rightarrow> (case Storage_GetAndClear e h st1 of
            (Inl err, st2) \<Rightarrow> (bad_request e err w, s\<lparr>sv_storage := st2\<rparr>)
          | (Inr xs, st2) \<Rightarrow>
              let s2 = s\<lparr>sv_storage := st2\<rparr>
              in (case (if xs = [] then Inr []
                        else case handle_session h st2 of
                            None \<Rightarrow> Inl ''no session''
                          | Some (key, pk) \<Rightarrow> EncryptAESKey (env_rsa_encrypt e) key pk) of
                    Inl err \<Rightarrow> (writeJSON e 500 (ErrorBody ''encryption failed'') w, s2)
                  | Inr keyB64 \<Rightarrow>
                      (case read_extra (env_now e) cid s2 of (extra, s3) \<Rightarrow>
                       (case read_tld (env_now e) cid s3 of (tld, s4) \<Rightarrow>
                          (writeJSON e 200 (PollBody \<lparr>pr_Data = map b64_encode xs, pr_AESKey = keyB64,
                              pr_Extra = extra, pr_TLDData = tld\<rparr>) w, s4)))))))"

definition handleDeregister :: "'db env \<Rightarrow> 'db handler" where
  "handleDeregister e r w s = (case env_decode_deregister e (rq_Body r) of
      Inl err \<Rightarrow> (bad_request e (''could not decode json body: '' @ err) w, s)
    | Inr req \<Rightarrow> (case check_id s (sd_CorrelationID req) of
        Inl err \<Rightarrow> (bad_request e err w, s)
      | Inr cid \<Rightarrow> (case Storage_Delete cid (sd_SecretKey req) (sv_storage s) of
          (Some err, st) \<Rightarrow> (bad_request e err w, s\<lparr>sv_storage := st\<rparr>)
        | (None, st) \<Rightarrow>
            (writeJSON e 200 (MessageBody ''deregistration successful'') w, s\<lparr>sv_storage := st\<rparr>))))"

definition handleMetrics :: "'db env \<Rightarrow> 'db handler" where
  "handleMetrics e r w s = (case Storage_counts (sv_storage s) of (nHit, nMiss, nEvict, nSessions, nTotal) \<Rightarrow>
     (writeJSON e 200 (MetricsBody \<lparr>m_DNS = dnsCount s, m_DNSMatched = dnsMatched s, m_FTP = ftpCount s,
        m_HTTP = httpCount s, m_HTTPMatched = httpMatched s, m_LDAP = ldapCount s, m_SMTP = smtpCount s,
        m_SMTPMatched = smtpMatched s, m_Sessions = nSessions, m_SessionsTotal = nTotal, m_HitCount = nHit,
        m_MissCount = nMiss, m_EvictionCount = nEvict, m_Memory = metrics_memory (env_system e),
        m_CPU = metrics_cpu (env_system e), m_Network = metrics_network (env_system e)\<rparr>) w, s))"

section \<open>Facts\<close>

lemma writeJSON_status:
  assumes "env_json e v = Inr d" and "\<not> rec_wroteHeader w" and "100 \<le> code" "code \<le> 999"
  shows "rec_statusCode (writeJSON e code v w) = code \<and> rec_body (writeJSON e code v w) = rec_body w @ d
     \<and> rec_wroteHeader (writeJSON e code v w)"
  using assms by (simp add: writeJSON_def clampStatusCode_id)

lemma check_id_Inr:
  "check_id s cid = Inr c \<longleftrightarrow> CorrelationIdLength (sv_cfg s) \<le> int (length cid)
     \<and> c = take (nat (CorrelationIdLength (sv_cfg s))) cid"
  by (auto simp: check_id_def Let_def)

lemma validate_register_Inr:
  "validate_register e s req = Inr (cid, pk) \<longleftrightarrow>
     sr_SecretKey req \<noteq> [] \<and> check_id s (sr_CorrelationID req) = Inr cid \<and> isCIDBase32 cid
     \<and> ParsePublicKey (env_decoders e) (sr_PublicKey req) = Inr pk
     \<and> (sr_Response req \<noteq> None \<longrightarrow> DynamicResp (sv_cfg s)
          \<and> (Auth (sv_cfg s) \<or> IsAllowedUnauthenticated (sr_Response req)))"
  by (auto simp: validate_register_def split: sum.splits)

section \<open>What a poll answers\<close>

text \<open>The keys of the session an id names.\<close>

definition storage_keys :: "'db Storage \<Rightarrow> string \<Rightarrow> (bytes \<times> rsa_public_key) option" where
  "storage_keys st cid = (case st of
      MemoryBackend m \<Rightarrow> map_option (\<lambda>(a, s). (AESKey s, PublicKey s)) (find_session m cid)
    | DiskBackend d \<Rightarrow> map_option (\<lambda>(a, s). (AESKey s, PublicKey s)) (find_session (mem d) cid))"

definition heap_keys :: "'d memoryStorage \<Rightarrow> nat \<Rightarrow> (bytes \<times> rsa_public_key) option" where
  "heap_keys m a = map_option (\<lambda>s. (AESKey s, PublicKey s)) (heap m a)"

lemma handle_session_heap:
  "handle_session h (MemoryBackend m) = heap_keys m (fst h)"
  "handle_session h (DiskBackend d) = heap_keys (mem d) (fst h)"
  by (simp_all add: handle_session_def heap_keys_def handle_AESKey_def handle_PublicKey_def option.map_comp
      o_def split: option.split)

lemma heap_keys_simps [simp]:
  "heap_keys (hit m) = heap_keys m" "heap_keys (promoteLRU c m) = heap_keys m"
  "heap_keys (touch_if_sliding now a m) = heap_keys m"
  "heap_keys (snd (GetAndClearInteractions a m)) = heap_keys m"
  "heap_keys (m\<lparr>backing := b\<rparr>) = heap_keys m"
  by (auto simp: heap_keys_def fun_eq_iff hit_def promoteLRU_def touch_if_sliding_def touchSession_def
      update_session_def GetAndClearInteractions_def option.map_comp o_def split: option.split)

lemma find_session_keys: "find_session m cid = Some (a, s) \<Longrightarrow> heap_keys m a = Some (AESKey s, PublicKey s)"
  by (simp add: find_session_Some heap_keys_def)

lemma getSession_keys:
  "getSession now cid sk m = (Inr a, m1) \<Longrightarrow>
   heap_keys m1 a = map_option (\<lambda>(a, s). (AESKey s, PublicKey s)) (find_session m cid)"
  by (erule getSession_Inr) (auto simp: find_session_keys)

lemma disk_drain_keys: "heap_keys (mem (snd (disk_GetAndClearInteractions ldb cid d))) = heap_keys (mem d)"
  by (simp add: disk_GetAndClearInteractions_def Let_def split: db_result.split)

lemma poll_keys:
  assumes "Storage_GetSession e cid sk st = (Inr h, st1)" and "Storage_GetAndClear e h st1 = (r, st2)"
  shows "handle_session h st2 = storage_keys st cid"
proof (cases st)
  case (MemoryBackend m)
  with assms(1) obtain a m1 where "getSession (env_now e) cid sk m = (Inr a, m1)" "h = (a, cid)"
    "st1 = MemoryBackend m1"
    by (cases "getSession (env_now e) cid sk m")
       (auto simp: Storage_GetSession_def split: prod.splits sum.splits)
  moreover from this(3) assms(2) have "st2 = MemoryBackend (snd (GetAndClearInteractions (fst h) m1))"
    by (auto simp: Storage_GetAndClear_def apsnd_def map_prod_def split: prod.splits)
  ultimately show ?thesis
    by (simp add: MemoryBackend handle_session_heap storage_keys_def getSession_keys)
next
  case (DiskBackend d)
  with assms(1) obtain a m1 where "getSession (env_now e) cid sk (mem d) = (Inr a, m1)" "h = (a, cid)"
    "st1 = DiskBackend (d\<lparr>mem := m1\<rparr>)"
    by (cases "getSession (env_now e) cid sk (mem d)")
       (auto simp: Storage_GetSession_def disk_GetSession_def split: prod.splits sum.splits)
  moreover from this(3) assms(2)
  have "st2 = DiskBackend (snd (disk_GetAndClearInteractions (env_leveldb e) (snd h) (d\<lparr>mem := m1\<rparr>)))"
    by (auto simp: Storage_GetAndClear_def apsnd_def map_prod_def split: prod.splits)
  ultimately show ?thesis
    by (simp add: DiskBackend handle_session_heap storage_keys_def getSession_keys disk_drain_keys)
qed

lemma read_buckets_storage [simp]:
  "sv_storage (snd (read_extra now cid s)) = sv_storage s"
  "sv_storage (snd (read_tld now cid s)) = sv_storage s"
  by (simp_all add: read_extra_def read_tld_def split: option.split prod.split)

lemma storage_keys_account:
  assumes "storage_view contents now st cid = Some acc"
  shows "storage_keys st cid = Some (acc_key acc, acc_public acc)"
  using assms
  by (cases st) (auto simp: disk_view_def view_Some storage_keys_def account_of_def)

lemma handlePoll_live:
  assumes good: "storage_good contents e (sv_storage s)"
    and cid: "check_id s (query_Get (rq_query r) ''id'') = Inr cid"
    and acc: "account_at contents e s cid = Some acc"
    and sk: "acc_secret acc = go_bytes (query_Get (rq_query r) ''secret'')"
    and enc: "EncryptAESKey (env_rsa_encrypt e) (acc_key acc) (acc_public acc) = Inr keyB64"
  obtains extra tld s' where
    "handlePoll e r w s = (writeJSON e 200 (PollBody \<lparr>pr_Data = map b64_encode (acc_pending acc),
        pr_AESKey = (if acc_pending acc = [] then [] else keyB64), pr_Extra = extra, pr_TLDData = tld\<rparr>) w, s')"
    "storage_good contents e (sv_storage s')"
    "account_at contents e s' = (account_at contents e s)(cid \<mapsto> acc\<lparr>acc_pending := []\<rparr>)"
    "extraBucket s = None \<longrightarrow> extra = []" "\<not> Wildcard (sv_cfg s) \<longrightarrow> tld = []"
proof -
  let ?sk = "query_Get (rq_query r) ''secret''"
  have p: "fst (storage_poll e cid ?sk (sv_storage s)) = Inr (acc_pending acc)"
    "storage_view contents (env_now e) (snd (storage_poll e cid ?sk (sv_storage s))) cid
       = Some (acc\<lparr>acc_pending := []\<rparr>)"
    using server_storage.poll_acct [OF good acc sk] by simp_all
  obtain h st1 where h: "Storage_GetSession e cid ?sk (sv_storage s) = (Inr h, st1)"
    using p(1) by (cases "Storage_GetSession e cid ?sk (sv_storage s)" rule: prod.exhaust, cases "fst (Storage_GetSession e cid ?sk (sv_storage s))")
      (auto simp: storage_poll_def)
  obtain st2 where d: "Storage_GetAndClear e h st1 = (Inr (acc_pending acc), st2)"
    and poll: "storage_poll e cid ?sk (sv_storage s) = (Inr (acc_pending acc), st2)"
    using p(1) by (cases "Storage_GetAndClear e h st1") (auto simp: storage_poll_def h)
  have hs: "handle_session h st2 = Some (acc_key acc, acc_public acc)"
    using poll_keys [OF h d] storage_keys_account [OF acc] by simp
  define s2 where "s2 = s\<lparr>sv_storage := st2\<rparr>"
  obtain extra s3 where x: "read_extra (env_now e) cid s2 = (extra, s3)"
    by (cases "read_extra (env_now e) cid s2")
  obtain tld s4 where t: "read_tld (env_now e) cid s3 = (tld, s4)" by (cases "read_tld (env_now e) cid s3")
  have st4: "sv_storage s4 = st2"
    using read_buckets_storage(1) [of "env_now e" cid s2] read_buckets_storage(2) [of "env_now e" cid s3]
    by (simp add: x t) (simp add: s2_def)
  have "handlePoll e r w s = (writeJSON e 200 (PollBody \<lparr>pr_Data = map b64_encode (acc_pending acc),
        pr_AESKey = (if acc_pending acc = [] then [] else keyB64), pr_Extra = extra, pr_TLDData = tld\<rparr>) w, s4)"
    by (simp add: handlePoll_def cid h d hs enc x t flip: s2_def)
  moreover have "storage_good contents e (sv_storage s4)"
    using server_storage.poll_good [OF good, of cid ?sk] by (simp add: st4 poll)
  moreover have "account_at contents e s4 = (account_at contents e s)(cid \<mapsto> acc\<lparr>acc_pending := []\<rparr>)"
  proof (rule ext)
    fix c show "account_at contents e s4 c = ((account_at contents e s)(cid \<mapsto> acc\<lparr>acc_pending := []\<rparr>)) c"
      using server_storage.poll_other [OF good, of c cid ?sk] p(2) by (simp add: st4 poll)
  qed
  moreover have "extraBucket s = None \<longrightarrow> extra = []"
    using x by (auto simp: read_extra_def s2_def)
  moreover have "\<not> Wildcard (sv_cfg s) \<longrightarrow> tld = []"
    using x t by (auto simp: read_extra_def read_tld_def s2_def split: option.splits prod.splits)
  ultimately show ?thesis by (rule that)
qed

end
