(* ===== verification/Http_Serve.thy ===== *)
theory Http_Serve
  imports Http_Api
begin

text \<open>
  The default HTTP handler (\<open>oobsrv/httpapi.go\<close>): reflection, static files, dynamic and stored
  responses; and the complete handler that \<open>New\<close> assembles from the router and the middleware
  chains.  The properties say what an unauthenticated server can be made to answer.
\<close>

section \<open>Redirects and dynamic parameters\<close>

definition maxDynamicDelay :: int where "maxDynamicDelay = 2 * hour"

definition redirectLocationScheme :: "string \<Rightarrow> request \<Rightarrow> string" where
  "redirectLocationScheme val r =
     (if has_prefix val ''http://'' \<or> has_prefix val ''https://'' then val
      else if has_prefix val ''//'' then val
      else (if rq_TLS r then ''https://'' else ''http://'') @ val)"

text \<open>One configured header line: split at the colon, trimmed; a redirect's location gets a scheme.\<close>

definition apply_header_line :: "bool \<Rightarrow> request \<Rightarrow> string \<Rightarrow> response \<Rightarrow> response" where
  "apply_header_line isRedirect r h w = (case cut CHR '':'' h of (name0, value0, ok) \<Rightarrow>
     if \<not> ok then w
     else let name = trim_space name0; val = trim_space value0
          in add_header name
               (if isRedirect \<and> equal_fold name ''location'' then redirectLocationScheme val r else val) w)"

definition dynamic_status :: "query \<Rightarrow> int" where
  "dynamic_status q = (case atoi (query_Get q ''status'') of
      Some code \<Rightarrow> if code > 0 then clampStatusCode code else 0
    | None \<Rightarrow> 0)"

text \<open>The time \<open>applyDynamicParams\<close> waits, if it does; the product wraps as a 64-bit duration.\<close>

definition dynamic_delay :: "query \<Rightarrow> int option" where
  "dynamic_delay q = (case atoi (query_Get q ''delay'') of
      Some secs \<Rightarrow> if secs > 0 then Some (min (wrap64 (secs * second)) maxDynamicDelay) else None
    | None \<Rightarrow> None)"

definition applyDynamicParams :: "request \<Rightarrow> response \<Rightarrow> response" where
  "applyDynamicParams r w =
     (let q = rq_query r; statusCode = dynamic_status q;
          isRedirect = (statusCode = 302 \<or> statusCode = 307);
          w1 = fold (apply_header_line isRedirect r) (query_values q ''header'') w
      in if statusCode > 0 then WriteHeader statusCode w1 else w1)"

definition writeResponseConfig :: "request \<Rightarrow> ResponseConfig \<Rightarrow> string \<Rightarrow> response \<Rightarrow> response" where
  "writeResponseConfig r cfg reflection w =
     (let isRedirect = (StatusCode cfg = 302 \<or> StatusCode cfg = 307);
          w1 = fold (apply_header_line isRedirect r) (Headers cfg) w;
          statusCode = (if StatusCode cfg = 0 then 200 else clampStatusCode (StatusCode cfg))
      in Write (if Body cfg \<noteq> [] then Body cfg else reflection) (WriteHeader statusCode w1))"

definition dynamic_path_body :: "request \<Rightarrow> string option" where
  "dynamic_path_body r = (case cut_prefix (rq_Path r) ''/b64_body:'' of
      (encoded, ok) \<Rightarrow>
        if ok then map_option go_string (b64_decode (fst (cut_suffix encoded ''/''))) else None)"

text \<open>The response configuration that the parameters of an unauthenticated request stand for.\<close>

definition dynamic_config :: "query \<Rightarrow> bool \<Rightarrow> ResponseConfig" where
  "dynamic_config q has_body =
     \<lparr>StatusCode = (case atoi (query_Get q ''status'') of Some code \<Rightarrow> if code > 0 then code else 0 | None \<Rightarrow> 0),
      Headers = query_values q ''header'', Body = (if has_body then ''-'' else [])\<rparr>"

definition has_dynamic_body :: "request \<Rightarrow> bool" where
  "has_dynamic_body r \<longleftrightarrow> dynamic_path_body r \<noteq> None
     \<or> query_Has (rq_query r) ''body'' \<or> query_Has (rq_query r) ''b64_body''"

definition write_dynamic_body :: "request \<Rightarrow> string \<Rightarrow> response \<Rightarrow> response" where
  "write_dynamic_body r reflection w =
     (let q = rq_query r
      in case dynamic_path_body r of
           Some b \<Rightarrow> Write b w
         | None \<Rightarrow>
             if query_Has q ''b64_body'' then (case b64_decode (query_Get q ''b64_body'') of
                 Some b \<Rightarrow> Write (go_string b) w | None \<Rightarrow> w)
             else if query_Has q ''body'' then Write (query_Get q ''body'') w
             else Write reflection w)"

definition serveDynamicResponse ::
  "request \<Rightarrow> string \<Rightarrow> response \<Rightarrow> 'db server \<Rightarrow> bool \<times> response" where
  "serveDynamicResponse r reflection w s =
     (let q = rq_query r;
          nonDelay = (has_dynamic_body r \<or> query_Has q ''header'' \<or> query_Has q ''status'')
      in if \<not> nonDelay \<and> \<not> query_Has q ''delay'' then (False, w)
         else if \<not> Auth (sv_cfg s) \<and> nonDelay
                 \<and> \<not> IsAllowedUnauthenticated (Some (dynamic_config q (has_dynamic_body r)))
         then (False, w)
         else (True, write_dynamic_body r reflection (applyDynamicParams r w)))"

definition serveResponse ::
  "'db env \<Rightarrow> request \<Rightarrow> string \<Rightarrow> string \<Rightarrow> response \<Rightarrow> 'db server \<Rightarrow> bool \<times> response" where
  "serveResponse e r correlationID reflection w s =
     (case (if DynamicResp (sv_cfg s) then serveDynamicResponse r reflection w s else (False, w)) of
        (True, w1) \<Rightarrow> (True, w1)
      | (False, w1) \<Rightarrow>
          if correlationID = [] then (False, w1)
          else (case Storage_GetResponse (env_now e) correlationID (sv_storage s) of
              None \<Rightarrow> (False, w1)
            | Some cfg \<Rightarrow>
                if Auth (sv_cfg s) \<or> IsAllowedUnauthenticated (Some cfg)
                then (True, writeResponseConfig r cfg reflection w1) else (False, w1)))"

section \<open>Static files and fixed pages\<close>

text \<open>The file that a request for a static path names, if it is one the server may open.\<close>

definition static_path :: "'db env \<Rightarrow> string \<Rightarrow> request \<Rightarrow> string option" where
  "static_path e directory r = (case cut_prefix (rq_Path r) ''/s/'' of
      (filePath, ok) \<Rightarrow>
        if \<not> ok \<or> filePath = [] then None
        else let cleaned = path_Clean (CHR ''/'' # filePath)
             in if cleaned = ''/'' then None
                else (case env_EvalSymlinks e (filepath_Join directory cleaned) of
                    None \<Rightarrow> None
                  | Some resolved \<Rightarrow> (case env_EvalSymlinks e directory of
                      None \<Rightarrow> None
                    | Some resolvedRoot \<Rightarrow>
                        if resolved \<noteq> resolvedRoot \<and> \<not> has_prefix resolved (resolvedRoot @ ''/'')
                        then None else Some resolved)))"

definition serveStaticFile :: "'db env \<Rightarrow> request \<Rightarrow> response \<Rightarrow> 'db server \<Rightarrow> response" where
  "serveStaticFile e r w s = (case static_path e (HTTPDirectory (sv_cfg s)) r of
      None \<Rightarrow> http_NotFound w
    | Some resolved \<Rightarrow> (case env_Open e resolved of
        None \<Rightarrow> http_NotFound w
      | Some f \<Rightarrow> (case file_Stat f of
          None \<Rightarrow> http_NotFound w
        | Some st \<Rightarrow>
            if fi_IsDir st then http_NotFound w
            else env_ServeContent e r st (file_Content f)
                   (if DynamicResp (sv_cfg s) then applyDynamicParams r w else w))))"

definition serveContentTyped :: "request \<Rightarrow> string \<Rightarrow> response \<Rightarrow> (bool \<times> response)" where
  "serveContentTyped r reflection w =
     (if rq_Path r = ''/robots.txt''
      then (True, Write (''User-agent: *'' @ [CHR 0x0A] @ ''Disallow: / # '' @ reflection)
                    (set_header ''Content-Type'' ''text/plain'' w))
      else if has_suffix (rq_Path r) ''.json''
      then (True, Write ([CHR ''{'', CHR 0x22] @ ''data'' @ [CHR 0x22, CHR '':'', CHR 0x22] @ reflection
                          @ [CHR 0x22, CHR ''}''])
                    (set_header ''Content-Type'' ''application/json'' w))
      else if has_suffix (rq_Path r) ''.xml''
      then (True, Write (''<data>'' @ reflection @ ''</data>'') (set_header ''Content-Type'' ''application/xml'' w))
      else (False, w))"

text \<open>The built-in page, around the domain it names.\<close>

definition defaultBannerHTML :: "string \<Rightarrow> string" where
  "defaultBannerHTML domain =
     ''<h1>Interactsh-lite Server</h1>'' @ [CHR 0x0A, CHR 0x0A]
     @ ''<a href='' @ [CHR 0x27] @ ''https://github.com/go-appsec/interactsh-lite'' @ [CHR 0x27]
     @ ''><b>Interactsh-lite</b></a> is an open-source tool for detecting out-of-band interactions. It is designed to detect vulnerabilities that cause external network interactions.<br><br>''
     @ [CHR 0x0A, CHR 0x0A]
     @ ''If you notice interactions with <b>*.'' @ domain
     @ ''</b> in your logs, it'' @ [CHR 0x27] @ ''s possible that someone (security engineers, pen-testers, bug-bounty hunters) has been testing your application.<br><br>''
     @ [CHR 0x0A, CHR 0x0A]
     @ ''You should investigate the service that generated these interactions, examine the root cause, and if a vulnerability exists, take the necessary steps to mitigate the issue.''"

definition serveBanner :: "string \<Rightarrow> response \<Rightarrow> 'db server \<Rightarrow> response" where
  "serveBanner domain w s =
     (let w1 = set_header ''Content-Type'' ''text/html'' w
      in case httpIndex s of
           Some page \<Rightarrow> Write (replace_all page ''{DOMAIN}'' domain) w1
         | None \<Rightarrow> Write (defaultBannerHTML domain) w1)"

section \<open>The default handler\<close>

text \<open>The closure that stops at the first live id: it keeps the id and the reversed label.\<close>

definition first_match :: "((string \<times> string) \<times> 's) on_match" where
  "first_match candidate label vs = (False, ((candidate, reverseString label), snd vs))"

definition reflect :: "'db env \<Rightarrow> string \<Rightarrow> 'db server \<Rightarrow> (string \<times> string) \<times> 'db server" where
  "reflect e hostname s =
     scanLabels hostname (nat (CorrelationIdLength (sv_cfg s))) (lift_lookup (server_lookup e)) first_match
       (([], []), s)"

text \<open>The priorities; nothing from here on changes the server.\<close>

definition default_response ::
  "'db env \<Rightarrow> request \<Rightarrow> string \<Rightarrow> string \<Rightarrow> string \<Rightarrow> response \<Rightarrow> 'db server \<Rightarrow> response" where
  "default_response e r domain correlationID reflection w s =
     (case defaultHTTPResponse s of
        Some page \<Rightarrow> Write (replace_all page ''{DOMAIN}'' domain) w
      | None \<Rightarrow>
          if HTTPDirectory (sv_cfg s) \<noteq> [] \<and> has_prefix (rq_Path r) ''/s/'' then serveStaticFile e r w s
          else (case serveContentTyped r reflection w of
              (True, w1) \<Rightarrow> w1
            | (False, _) \<Rightarrow>
                if reflection \<noteq> []
                then (case serveResponse e r correlationID reflection w s of
                    (True, w1) \<Rightarrow> w1
                  | (False, w1) \<Rightarrow>
                      Write (''<html><head></head><body>'' @ reflection @ ''</body></html>'')
                        (set_header ''Content-Type'' ''text/html'' w1))
                else serveBanner domain w s))"

definition serveDefault :: "'db env \<Rightarrow> 'db handler" where
  "serveDefault e r w s0 =
     (let hostname = to_lower (stripHostPort (rq_Host r))
      in case reflect e hostname s0 of ((correlationID, reflection), s) \<Rightarrow>
           (default_response e r (matchDomain s0 hostname) correlationID reflection w s, s))"

section \<open>The complete handler\<close>

definition server_header :: "'db server \<Rightarrow> string" where
  "server_header s = (if ServerHeader (sv_cfg s) \<noteq> [] then ServerHeader (sv_cfg s) else hd (Domains (sv_cfg s)))"

definition wrapAPI :: "'db handler \<Rightarrow> 'db handler" where
  "wrapAPI h r w s =
     ResponseHeadersMiddleware (server_header s) (ConfigVersion (sv_cfg s)) (DisableVersion (sv_cfg s)) True
       (CORSMiddleware (ACAOUrl (sv_cfg s)) (AuthMiddleware (Auth (sv_cfg s)) (Token (sv_cfg s)) h)) r w s"

definition interaction_chain :: "'db env \<Rightarrow> 'db handler" where
  "interaction_chain e r w s =
     LoggerMiddleware (OriginIPHeader (sv_cfg s)) (maxBodyBytes (sv_cfg s)) (Some (onHTTPInteraction e))
       (hostnameMiddleware
         (ResponseHeadersMiddleware (server_header s) (ConfigVersion (sv_cfg s)) (DisableVersion (sv_cfg s)) False
           (InteractionCORSMiddleware (serveDefault e)))) r w s"

definition dispatch :: "'db env \<Rightarrow> 'db handler" where
  "dispatch e r w s = (case find_route (Metrics (sv_cfg s)) r of
      RouteRegister \<Rightarrow> wrapAPI (handleRegister e) r w s
    | RoutePoll \<Rightarrow> wrapAPI (handlePoll e) r w s
    | RouteDeregister \<Rightarrow> wrapAPI (handleDeregister e) r w s
    | RouteMetrics \<Rightarrow> wrapAPI (handleMetrics e) r w s
    | RouteDefault \<Rightarrow> interaction_chain e r w s
    | RouteRedirect u \<Rightarrow> (WriteHeader 301 (set_header ''Location'' u w), s)
    | RouteNotFound \<Rightarrow> (http_NotFound w, s)
    | RouteBadRequest \<Rightarrow> (WriteHeader 400 w, s))"

definition Handler :: "'db env \<Rightarrow> 'db handler" where
  "Handler e r w s = MaxRequestSizeMiddleware (MaxRequestSize (sv_cfg s)) (dispatch e) r w s"

end
