(* ===== verification/Server_Demo.thy ===== *)
theory Server_Demo
  imports Http_Serve
begin

text \<open>
  A concrete server and its surroundings: one domain, ids of one character, a live session \<open>c\<close> with
  secret \<open>k\<close> in memory, a toy cipher and a codec that writes a fixed text.  Theorems with hypotheses
  are applied to it.
\<close>

definition demo_env :: "(bytes \<Rightarrow> bytes option) env" where
  "demo_env = \<lparr>env_now = 6, env_iv = (\<lambda>_. Inr (replicate 16 1)), env_key = Inr (replicate 32 0),
     env_aes = demo_cipher, env_rsa_encrypt = (\<lambda>_ m. Inr m),
     env_decoders = \<lparr>pem_decode = (\<lambda>b. Some b), parse_pkix = (\<lambda>_. Inr (RSAKey \<lparr>rsa_N = 1, rsa_E = 1\<rparr>))\<rparr>,
     env_leveldb = map_leveldb,
     env_marshal = (\<lambda>i. Inr ''{}''), env_json = (\<lambda>_. Inr ''{}''),
     env_decode_register = (\<lambda>_. Inl ''eof''), env_decode_deregister = (\<lambda>_. Inl ''eof''),
     env_EvalSymlinks = Some, env_Open = (\<lambda>_. None), env_ServeContent = (\<lambda>_ _ c w. Write c w),
     env_system = demo_host\<rparr>"

definition demo_config :: Config where
  "demo_config = zero_Config\<lparr>Domains := [''d.e''], CorrelationIdLength := 1\<rparr>"

definition demo_server :: "(bytes \<Rightarrow> bytes option) server" where
  "demo_server = \<lparr>sv_cfg = demo_config, sv_storage = MemoryBackend demo_m1,
     dnsCount = 0, httpCount = 0, smtpCount = 0, ldapCount = 0, ftpCount = 0,
     dnsMatched = 0, httpMatched = 0, smtpMatched = 0, tldBuckets = None, extraBucket = None,
     sv_ips = \<lparr>IPv4 = [[192, 0, 2, 1]], IPv6 = []\<rparr>, sv_customRecords = Map.empty,
     sv_acmeStore = (\<lambda>_. []), defaultHTTPResponse = None, httpIndex = None,
     uaTracker = newUserAgentTracker 0 uaReportThreshold, sv_services = [], ftpTempDir = []\<rparr>"

definition demo_request :: "string \<Rightarrow> string \<Rightarrow> string \<Rightarrow> request" where
  "demo_request method path query = \<lparr>rq_Method = method, rq_RequestURI = path @ CHR ''?'' # query,
     rq_ProtoMajor = 1, rq_ProtoMinor = 1, rq_EscapedPath = path, rq_Path = path, rq_RawQuery = query,
     rq_Host = ''c.d.e'', rq_Header = [], rq_TransferEncoding = [], rq_Body = [],
     rq_RemoteAddr = ''192.0.2.7:4711'', rq_TLS = False\<rparr>"

end
