(* ===== verification/Http_Properties.thy ===== *)
theory Http_Properties
  imports Server_Demo
begin

text \<open>
  Properties of the HTTP side: authentication of the API, what an unauthenticated server can be made
  to answer, the one way around it, and that serving a page leaves every account as it was.
\<close>

section \<open>Routing and authentication\<close>

lemma limit_body_simps [simp]:
  "rq_Method (limit_body n r) = rq_Method r" "rq_Header (limit_body n r) = rq_Header r"
  "rq_Path (limit_body n r) = rq_Path r" "rq_query (limit_body n r) = rq_query r"
  "rq_Host (limit_body n r) = rq_Host r" "rq_TLS (limit_body n r) = rq_TLS r"
  "find_route b (limit_body n r) = find_route b r"
  by (auto simp: limit_body_def rq_query_def find_route_def match_route_def Let_def)

definition api_route :: "route \<Rightarrow> bool" where
  "api_route rt \<longleftrightarrow> rt \<in> {RouteRegister, RoutePoll, RouteDeregister, RouteMetrics}"

lemma api_method: "api_route (find_route b r) \<Longrightarrow> rq_Method r \<noteq> ''OPTIONS''"
  by (auto simp: api_route_def find_route_def match_route_def Let_def split: if_splits)

definition size_limited :: "'db server \<Rightarrow> request \<Rightarrow> request" where
  "size_limited s r = (if MaxRequestSize (sv_cfg s) \<le> 0 then r
     else limit_body (wrap64 (MaxRequestSize (sv_cfg s) * 1024 * 1024)) r)"

lemma size_limited_simps [simp]:
  "rq_Method (size_limited s r) = rq_Method r" "rq_Header (size_limited s r) = rq_Header r"
  "rq_Path (size_limited s r) = rq_Path r" "rq_query (size_limited s r) = rq_query r"
  "rq_Host (size_limited s r) = rq_Host r" "find_route b (size_limited s r) = find_route b r"
  by (simp_all add: size_limited_def)

lemma Handler_dispatch: "Handler e r w s = dispatch e (size_limited s r) w s"
  by (simp add: Handler_def MaxRequestSizeMiddleware_def size_limited_def)

lemma wrapAPI_denied:
  assumes "Auth (sv_cfg s)" and "header_Get (rq_Header r) ''Authorization'' \<noteq> Token (sv_cfg s)"
    and "rq_Method r \<noteq> ''OPTIONS''" and "\<not> rec_wroteHeader w"
  shows "snd (wrapAPI h r w s) = s \<and> rec_statusCode (fst (wrapAPI h r w s)) = 401
     \<and> rec_body (fst (wrapAPI h r w s)) = rec_body w"
  using assms
  by (simp add: wrapAPI_def ResponseHeadersMiddleware_def CORSMiddleware_def Let_def AuthMiddleware_denied
      clampStatusCode_def)

lemma wrapAPI_passed:
  assumes "Auth (sv_cfg s) \<longrightarrow> header_Get (rq_Header r) ''Authorization'' = Token (sv_cfg s)"
    and "rq_Method r \<noteq> ''OPTIONS''" and "\<not> rec_wroteHeader w"
  obtains w' where "wrapAPI h r w s = h r w' s" "\<not> rec_wroteHeader w'" "rec_body w' = rec_body w"
proof -
  have "\<exists>w'. wrapAPI h r w s = h r w' s \<and> \<not> rec_wroteHeader w' \<and> rec_body w' = rec_body w"
    using assms
    by (auto simp: wrapAPI_def ResponseHeadersMiddleware_def CORSMiddleware_def Let_def AuthMiddleware_def)
  with that show ?thesis by blast
qed

text \<open>
  C25: with authentication enabled, no API request gets through without the token.  Whatever the
  request to a register, poll, deregister or metrics route holds, it is answered 401 with an empty
  body, and no part of the server's state changes: no session is created, drained or deleted.
\<close>

theorem api_requires_token:
  assumes "Auth (sv_cfg s)" and "header_Get (rq_Header r) ''Authorization'' \<noteq> Token (sv_cfg s)"
    and "api_route (find_route (Metrics (sv_cfg s)) r)"
  shows "snd (Handler e r newResponseRecorder s) = s
     \<and> rec_statusCode (fst (Handler e r newResponseRecorder s)) = 401
     \<and> rec_body (fst (Handler e r newResponseRecorder s)) = []"
proof -
  have "rq_Method (size_limited s r) \<noteq> ''OPTIONS''" using api_method [OF assms(3)] by simp
  moreover from assms(3) obtain h where
    "dispatch e (size_limited s r) newResponseRecorder s = wrapAPI h (size_limited s r) newResponseRecorder s"
    by (auto simp: dispatch_def api_route_def)
  ultimately show ?thesis using wrapAPI_denied [of s "size_limited s r" newResponseRecorder h] assms
    by (simp add: Handler_dispatch)
qed

theorem api_requires_token_witness:
  "rec_statusCode (fst (Handler demo_env (demo_request ''GET'' ''/poll'' ''id=c'') newResponseRecorder
     (demo_server\<lparr>sv_cfg := demo_config\<lparr>Auth := True, Token := ''t''\<rparr>\<rparr>))) = 401"
proof -
  let ?r = "demo_request ''GET'' ''/poll'' ''id=c''"
  have "api_route (find_route False ?r)" by code_simp
  then show ?thesis
    using api_requires_token [of "demo_server\<lparr>sv_cfg := demo_config\<lparr>Auth := True, Token := ''t''\<rparr>\<rparr>" ?r demo_env]
    by (simp add: demo_config_def zero_Config_def demo_request_def header_Get_def header_values_def)
qed

section \<open>Redirects only\<close>

lemma upper_lower_char: "is_upper c \<Longrightarrow> upper_char (lower_char c) = c"
proof -
  assume c: "is_upper c"
  then have "char_code (char_of (char_code c + 32)) = char_code c + 32"
    by (intro char_code_char_of) (simp add: is_upper_def)
  with c show ?thesis by (simp add: lower_char_def upper_char_def is_upper_def is_lower_def) (simp add: char_code_def)
qed

lemma letter_char:
  assumes "is_lower (lower_char c)"
  shows "upper_char c = upper_char (lower_char c)" "token_char c" "c \<noteq> CHR ''-''"
proof -
  have c: "is_lower c \<or> is_upper c" using assms by (auto simp: lower_char_def split: if_splits)
  then show "token_char c" by (auto simp: token_char_def)
  show "c \<noteq> CHR ''-''" using c by (auto simp: is_lower_def is_upper_def char_code_def)
  show "upper_char c = upper_char (lower_char c)"
  proof (cases "is_upper c")
    case True
    then have "\<not> is_lower c" by (simp add: is_upper_def is_lower_def)
    with True show ?thesis by (simp add: upper_lower_char) (simp add: upper_char_def)
  qed (simp add: lower_char_def)
qed

lemma canonical_chars_letters:
  "list_all (\<lambda>c. is_lower (lower_char c)) n \<Longrightarrow>
   canonical_chars False n = to_lower n \<and> list_all token_char n"
  by (induction n) (auto simp: letter_char)

lemma canonical_location:
  assumes "equal_fold name ''location''"
  shows "canonical_key name = ''Location''"
proof -
  have low: "to_lower name = ''location''" using assms by (simp add: equal_fold_def) (simp add: to_lower_def lower_char_def is_upper_def char_code_def)
  then obtain c n where name: "name = c # n" "lower_char c = CHR ''l''" "to_lower n = ''ocation''"
    by (cases name) auto
  have "list_all is_lower (to_lower name)" unfolding low by (simp add: is_lower_def char_code_def)
  then have all: "list_all (\<lambda>c. is_lower (lower_char c)) name" by (simp add: to_lower_def list.pred_map o_def)
  then have n: "canonical_chars False n = ''ocation''" "list_all token_char n"
    using canonical_chars_letters [of n] name by simp_all
  have c: "is_lower (lower_char c)" using all name(1) by simp
  have "upper_char c = CHR ''L''"
    unfolding letter_char(1) [OF c] name(2) by code_simp
  then show ?thesis using n letter_char(2,3) [OF c] by (simp add: name(1) canonical_key_def)
qed

text \<open>Header lines that all name the location change no other header.\<close>

definition only_location :: "header \<Rightarrow> header \<Rightarrow> bool" where
  "only_location h h' \<longleftrightarrow>
     (\<forall>k. canonical_key k \<noteq> ''Location'' \<longrightarrow> header_values h' k = header_values h k)"

lemma only_location_refl [simp]: "only_location h h"
  by (simp add: only_location_def)

text \<open>The locations that a response sends, before and after.\<close>

definition more_locations :: "header \<Rightarrow> header \<Rightarrow> bool" where
  "more_locations h h' \<longleftrightarrow>
     (\<exists>v vs. header_values h' ''Location'' = header_values h ''Location'' @ v # vs)"

lemma more_locations_trans:
  "more_locations h1 h2 \<Longrightarrow> h2 = h3 \<or> more_locations h2 h3 \<Longrightarrow> more_locations h1 h3"
  by (fastforce simp: more_locations_def)

lemma more_locations_Add:
  assumes "canonical_key k = ''Location''"
  shows "more_locations h (header_Add k v h)"
proof -
  have "canonical_key ''Location'' = ''Location''" by code_simp
  with assms have "header_values h k = header_values h ''Location''" by (simp add: header_values_def)
  with assms show ?thesis by (simp add: more_locations_def header_values_Add \<open>canonical_key ''Location'' = _\<close>)
qed

lemma location_line:
  assumes "header_name_is_location h"
  shows "only_location (rec_header w) (rec_header (apply_header_line b r h w))
     \<and> more_locations (rec_header w) (rec_header (apply_header_line b r h w))"
proof -
  have "canonical_key (trim_space (takeWhile (\<lambda>x. x \<noteq> CHR '':'') h)) = ''Location''"
    using assms by (intro canonical_location) (simp add: header_name_is_location_def)
  then show ?thesis
    using assms
    by (auto simp: apply_header_line_def cut_eq header_name_is_location_def only_location_def
        header_values_Add more_locations_Add Let_def)
qed

lemma apply_header_line_simps [simp]:
  "rec_body (apply_header_line b r h w) = rec_body w"
  "rec_wroteHeader (apply_header_line b r h w) = rec_wroteHeader w"
  "rec_statusCode (apply_header_line b r h w) = rec_statusCode w"
  by (auto simp: apply_header_line_def Let_def split: prod.split)

lemma header_lines_simps [simp]:
  "rec_body (fold (apply_header_line b r) hs w) = rec_body w"
  "rec_wroteHeader (fold (apply_header_line b r) hs w) = rec_wroteHeader w"
  "rec_statusCode (fold (apply_header_line b r) hs w) = rec_statusCode w"
  by (induction hs arbitrary: w) simp_all

lemma location_lines:
  "\<forall>h \<in> set hs. header_name_is_location h \<Longrightarrow>
   only_location (rec_header w) (rec_header (fold (apply_header_line b r) hs w))
   \<and> (hs \<noteq> [] \<longrightarrow> more_locations (rec_header w) (rec_header (fold (apply_header_line b r) hs w)))"
proof (induction hs arbitrary: w)
  case (Cons h hs)
  let ?w = "apply_header_line b r h w"
  have one: "only_location (rec_header w) (rec_header ?w)" "more_locations (rec_header w) (rec_header ?w)"
    using Cons.prems location_line [of h] by simp_all
  from Cons.IH [of ?w] Cons.prems one(1) have "only_location (rec_header w) (rec_header (fold (apply_header_line b r) hs ?w))"
    by (auto simp: only_location_def)
  moreover from Cons.IH [of ?w] Cons.prems
  have "more_locations (rec_header w) (rec_header (fold (apply_header_line b r) hs ?w))"
    by (intro more_locations_trans [OF one(2)]) (cases hs; simp)
  ultimately show ?case by simp
qed simp

definition redirect_only :: "response \<Rightarrow> string \<Rightarrow> response \<Rightarrow> bool" where
  "redirect_only w reflection w' \<longleftrightarrow> rec_statusCode w' \<in> {302, 307}
     \<and> rec_body w' = rec_body w @ reflection
     \<and> more_locations (rec_header w) (rec_header w') \<and> only_location (rec_header w) (rec_header w')"

definition plain_reflection :: "response \<Rightarrow> string \<Rightarrow> response \<Rightarrow> bool" where
  "plain_reflection w reflection w' \<longleftrightarrow> rec_statusCode w' = 200
     \<and> rec_body w' = rec_body w @ reflection \<and> rec_header w' = rec_header w"

lemma stored_response_unauth:
  assumes "IsAllowedUnauthenticated (Some cfg)" and "\<not> rec_wroteHeader w"
  shows "redirect_only w reflection (writeResponseConfig r cfg reflection w)"
  using assms location_lines [of "Headers cfg"]
  by (auto simp: IsAllowedUnauthenticated_iff writeResponseConfig_def redirect_only_def Let_def
      clampStatusCode_id simp del: IsAllowedUnauthenticated.simps)

lemma atoi_Nil: "atoi [] = None"
  by (simp add: atoi_def)

lemma query_Get_absent: "\<not> query_Has q k \<Longrightarrow> query_Get q k = [] \<and> query_values q k = []"
  by (auto simp: query_Has_def query_Get_def query_values_def)

lemma dynamic_response_unauth:
  assumes "serveDynamicResponse r reflection w s = (True, w')" and "\<not> Auth (sv_cfg s)"
    and "\<not> rec_wroteHeader w"
  shows "redirect_only w reflection w' \<or> plain_reflection w reflection w'"
proof -
  let ?q = "rq_query r"
  let ?allowed = "IsAllowedUnauthenticated (Some (dynamic_config ?q (has_dynamic_body r)))"
  have served: "has_dynamic_body r \<or> query_Has ?q ''header'' \<or> query_Has ?q ''status'' \<longrightarrow> ?allowed"
    and w': "w' = write_dynamic_body r reflection (applyDynamicParams r w)"
    using assms(1,2)
    by (auto simp: serveDynamicResponse_def Let_def simp del: IsAllowedUnauthenticated.simps split: if_splits)
  have no_body: "\<not> has_dynamic_body r"
  proof
    assume b: "has_dynamic_body r"
    with served have "IsAllowedUnauthenticated (Some (dynamic_config ?q True))" by simp
    then show False by (simp add: IsAllowedUnauthenticated_iff dynamic_config_def del: IsAllowedUnauthenticated.simps)
  qed
  then have w': "w' = Write reflection (applyDynamicParams r w)"
    by (auto simp: w' write_dynamic_body_def has_dynamic_body_def Let_def)
  show ?thesis
  proof (cases "query_Has ?q ''header'' \<or> query_Has ?q ''status''")
    case True
    with served no_body have "IsAllowedUnauthenticated (Some (dynamic_config ?q False))" by simp
    then have allowed: "query_values ?q ''header'' \<noteq> []" "StatusCode (dynamic_config ?q False) \<in> {302, 307}"
      "\<forall>h \<in> set (query_values ?q ''header''). header_name_is_location h"
      by (auto simp: IsAllowedUnauthenticated_iff dynamic_config_def simp del: IsAllowedUnauthenticated.simps)
    then have "dynamic_status ?q \<in> {302, 307}"
      by (auto simp: dynamic_config_def dynamic_status_def clampStatusCode_def split: option.splits if_splits)
    with location_lines [OF allowed(3), of w] allowed(1) assms(3) have "redirect_only w reflection w'"
      by (auto simp: w' applyDynamicParams_def redirect_only_def Let_def clampStatusCode_id)
    then show ?thesis ..
  next
    case False
    then have "plain_reflection w reflection w'"
      using query_Get_absent [of ?q] assms(3)
      by (simp add: w' applyDynamicParams_def plain_reflection_def dynamic_status_def atoi_Nil Let_def)
    then show ?thesis ..
  qed
qed

text \<open>
  C26: an unauthenticated server answers a payload request with a redirect or with nothing of the
  requester's choosing.  Whenever a stored or parameter-driven response is served without
  authentication, its status is 302 or 307, it sends at least one \<open>Location\<close> and sets no other header,
  and its body is the reflected label; or, for a request that only asks for a delay, it is the plain reflection
  with status 200 and no header of its own.
\<close>

theorem unauthenticated_redirects_only:
  assumes "serveResponse e r cid reflection w s = (True, w')" and "\<not> Auth (sv_cfg s)"
    and "\<not> rec_wroteHeader w"
  shows "redirect_only w reflection w' \<or> plain_reflection w reflection w'"
proof (cases "DynamicResp (sv_cfg s) \<and> fst (serveDynamicResponse r reflection w s)")
  case True
  then have "serveDynamicResponse r reflection w s = (True, w')"
    using assms(1) by (cases "serveDynamicResponse r reflection w s") (auto simp: serveResponse_def)
  then show ?thesis using assms(2,3) by (rule dynamic_response_unauth)
next
  case False
  obtain d w1 where d: "serveDynamicResponse r reflection w s = (d, w1)" by fastforce
  with False have "DynamicResp (sv_cfg s) \<longrightarrow> \<not> d \<and> w1 = w"
    by (auto simp: serveDynamicResponse_def Let_def split: if_splits)
  then have "(if DynamicResp (sv_cfg s) then serveDynamicResponse r reflection w s else (False, w)) = (False, w)"
    using d by simp
  then obtain cfg where "IsAllowedUnauthenticated (Some cfg)" "w' = writeResponseConfig r cfg reflection w"
    using assms(1,2)
    by (simp add: serveResponse_def split: if_splits option.splits del: IsAllowedUnauthenticated.simps)
  with assms(3) show ?thesis using stored_response_unauth by blast
qed

theorem unauthenticated_redirects_only_witness:
  "rec_statusCode (snd (serveResponse demo_env (demo_request ''GET'' ''/'' ''status=302&header=Location:x.y'')
     ''c'' ''c'' newResponseRecorder (demo_server\<lparr>sv_cfg := demo_config\<lparr>DynamicResp := True\<rparr>\<rparr>))) \<in> {200, 302, 307}"
proof -
  let ?r = "demo_request ''GET'' ''/'' ''status=302&header=Location:x.y''"
  let ?s = "demo_server\<lparr>sv_cfg := demo_config\<lparr>DynamicResp := True\<rparr>\<rparr>"
  have "query_Has (rq_query ?r) ''status''" "\<not> has_dynamic_body ?r"
    "IsAllowedUnauthenticated (Some (dynamic_config (rq_query ?r) False))"
    by code_simp+
  then have "fst (serveDynamicResponse ?r ''c'' newResponseRecorder ?s)"
    by (simp add: serveDynamicResponse_def Let_def del: IsAllowedUnauthenticated.simps)
  then obtain w' where "serveResponse demo_env ?r ''c'' ''c'' newResponseRecorder ?s = (True, w')"
    by (cases "serveDynamicResponse ?r ''c'' newResponseRecorder ?s") (simp add: serveResponse_def demo_config_def)
  then show ?thesis
    using unauthenticated_redirects_only [of demo_env ?r "''c''" "''c''" newResponseRecorder ?s w']
    by (auto simp: demo_config_def zero_Config_def redirect_only_def plain_reflection_def)
qed

text \<open>
  Static files are the one exception.  An unauthenticated server that serves dynamic responses
  and a directory applies the request's header and status parameters to a file without asking what
  they are: any header line and any status of the requester's choosing reach the file server.
\<close>

theorem static_files_unrestricted:
  "\<not> Auth (sv_cfg s) \<longrightarrow> DynamicResp (sv_cfg s) \<longrightarrow>
   static_path e (HTTPDirectory (sv_cfg s)) r = Some path \<longrightarrow>
   env_Open e path = Some \<lparr>file_Stat = Some info, file_Content = content\<rparr> \<longrightarrow> \<not> fi_IsDir info \<longrightarrow>
   serveStaticFile e r w s = env_ServeContent e r info content (applyDynamicParams r w)"
  by (simp add: serveStaticFile_def)

theorem static_files_unrestricted_witness:
  "serveStaticFile (demo_env\<lparr>env_Open := \<lambda>_. Some \<lparr>file_Stat = Some \<lparr>fi_Name = ''f'', fi_IsDir = False, fi_ModTime = 0\<rparr>,
        file_Content = ''hi''\<rparr>\<rparr>) (demo_request ''GET'' ''/s/f'' ''status=500&header=X:y'') newResponseRecorder
      (demo_server\<lparr>sv_cfg := demo_config\<lparr>DynamicResp := True, HTTPDirectory := ''/w''\<rparr>\<rparr>)
   = newResponseRecorder\<lparr>rec_statusCode := 500, rec_header := [(''X'', [''y''])], rec_body := ''hi'',
       rec_wroteHeader := True\<rparr>"
proof -
  let ?r = "demo_request ''GET'' ''/s/f'' ''status=500&header=X:y''"
  let ?s = "demo_server\<lparr>sv_cfg := demo_config\<lparr>DynamicResp := True, HTTPDirectory := ''/w''\<rparr>\<rparr>"
  let ?f = "\<lparr>file_Stat = Some \<lparr>fi_Name = ''f'', fi_IsDir = False, fi_ModTime = 0\<rparr>, file_Content = ''hi''\<rparr>"
  let ?e = "demo_env\<lparr>env_Open := \<lambda>_. Some ?f\<rparr>"
  have "static_path ?e ''/w'' ?r = Some ''/w/f''" by code_simp
  then have "serveStaticFile ?e ?r newResponseRecorder ?s
      = env_ServeContent ?e ?r (the (file_Stat ?f)) (file_Content ?f) (applyDynamicParams ?r newResponseRecorder)"
    using static_files_unrestricted [of ?s ?e ?r "''/w/f''" "the (file_Stat ?f)" "file_Content ?f" newResponseRecorder]
    by (simp add: demo_config_def zero_Config_def)
  moreover have "applyDynamicParams ?r newResponseRecorder = newResponseRecorder\<lparr>rec_statusCode := 500,
      rec_header := [(''X'', [''y''])], rec_wroteHeader := True\<rparr>"
    by code_simp
  ultimately show ?thesis by (simp add: demo_env_def Write_def newResponseRecorder_def)
qed

section \<open>Serving a page changes no account\<close>

lemma reflect_same:
  assumes "storage_good contents e (sv_storage s)"
  shows "same_server contents e s (snd (reflect e hostname s))"
proof -
  have "kept_by (\<lambda>vs. same_server contents e s (snd vs)) (lift_lookup (server_lookup e))"
    using same_server_lookup [of contents e s] by (simp add: kept_by_def lift_lookup_def case_prod_unfold)
  then have "same_server contents e s (snd (snd (scan_list (lift_lookup (server_lookup e)) first_match xs v)))"
    if "same_server contents e s (snd v)" for xs v
    using that
    by (intro scan_list_kept [where Q = "\<lambda>vs. same_server contents e s (snd vs)"]) (simp_all add: first_match_def)
  from this [of "(([], []), s)"] same_server_refl [OF assms] show ?thesis
    by (simp add: reflect_def scanLabels_scan_list)
qed

lemma serveDefault_same:
  assumes "storage_good contents e (sv_storage s)"
  shows "same_server contents e s (snd (serveDefault e r w s))"
  using reflect_same [OF assms, of "to_lower (stripHostPort (rq_Host r))"]
  by (simp add: serveDefault_def Let_def case_prod_unfold)

text \<open>The chain below the logger: its response, with the recorder's hostname and domain.\<close>

definition recorded_chain :: "'db env \<Rightarrow> 'db server \<Rightarrow> 'db handler" where
  "recorded_chain e s0 = hostnameMiddleware
     (ResponseHeadersMiddleware (server_header s0) (ConfigVersion (sv_cfg s0)) (DisableVersion (sv_cfg s0)) False
       (InteractionCORSMiddleware (serveDefault e)))"

definition body_limited :: "'db server \<Rightarrow> request \<Rightarrow> request" where
  "body_limited s r = (if maxBodyBytes (sv_cfg s) > 0 then limit_body (maxBodyBytes (sv_cfg s)) r else r)"

definition http_recorded :: "'db env \<Rightarrow> request \<Rightarrow> 'db server \<Rightarrow> response" where
  "http_recorded e r s = fst (recorded_chain e s (body_limited s (size_limited s r)) newResponseRecorder s)"

lemma recorded_chain_same:
  "storage_good contents e (sv_storage s) \<Longrightarrow> same_server contents e s (snd (recorded_chain e s r w s))"
  by (simp add: recorded_chain_def hostnameMiddleware_def ResponseHeadersMiddleware_def
      InteractionCORSMiddleware_def Let_def serveDefault_same same_server_refl)

lemma serveX_hostname [simp]:
  "rec_hostname (fold (apply_header_line b r) hs w) = rec_hostname w"
  "rec_domain (fold (apply_header_line b r) hs w) = rec_domain w"
  by (induction hs arbitrary: w) (auto simp: apply_header_line_def Let_def split: prod.split)

text \<open>\<open>http.ServeContent\<close> knows nothing of the recorder's own fields.\<close>

definition serve_content_ok :: "'db env \<Rightarrow> bool" where
  "serve_content_ok e \<longleftrightarrow> (\<forall>r st c w. rec_hostname (env_ServeContent e r st c w) = rec_hostname w
     \<and> rec_domain (env_ServeContent e r st c w) = rec_domain w)"

lemma http_NotFound_fields [simp]:
  "rec_hostname (http_NotFound w) = rec_hostname w" "rec_domain (http_NotFound w) = rec_domain w"
  by (simp_all add: http_NotFound_def)

lemma applyDynamicParams_fields [simp]:
  "rec_hostname (applyDynamicParams r w) = rec_hostname w" "rec_domain (applyDynamicParams r w) = rec_domain w"
  by (simp_all add: applyDynamicParams_def Let_def)

lemma serveStaticFile_fields:
  "serve_content_ok e \<Longrightarrow> rec_hostname (serveStaticFile e r w s) = rec_hostname w
     \<and> rec_domain (serveStaticFile e r w s) = rec_domain w"
  by (simp add: serveStaticFile_def serve_content_ok_def split: option.split)

lemma serveDynamic_fields:
  "rec_hostname (snd (serveDynamicResponse r reflection w s)) = rec_hostname w
     \<and> rec_domain (snd (serveDynamicResponse r reflection w s)) = rec_domain w"
  by (simp add: serveDynamicResponse_def write_dynamic_body_def Let_def
      del: IsAllowedUnauthenticated.simps split: option.split)

lemma writeResponseConfig_fields:
  "rec_hostname (writeResponseConfig r cfg reflection w) = rec_hostname w
     \<and> rec_domain (writeResponseConfig r cfg reflection w) = rec_domain w"
  by (simp add: writeResponseConfig_def Let_def)

lemma serveResponse_fields:
  "rec_hostname (snd (serveResponse e r cid reflection w s)) = rec_hostname w
     \<and> rec_domain (snd (serveResponse e r cid reflection w s)) = rec_domain w"
  using serveDynamic_fields [of r reflection w s]
  by (cases "serveDynamicResponse r reflection w s")
     (simp add: serveResponse_def writeResponseConfig_fields del: IsAllowedUnauthenticated.simps
       split: bool.split option.split)

lemma default_response_fields:
  assumes "serve_content_ok e"
  shows "rec_hostname (default_response e r domain cid reflection w s) = rec_hostname w
     \<and> rec_domain (default_response e r domain cid reflection w s) = rec_domain w"
proof -
  have typed: "rec_hostname (snd (serveContentTyped r reflection w)) = rec_hostname w
      \<and> rec_domain (snd (serveContentTyped r reflection w)) = rec_domain w"
    by (simp add: serveContentTyped_def)
  have banner: "rec_hostname (serveBanner domain w s) = rec_hostname w
      \<and> rec_domain (serveBanner domain w s) = rec_domain w"
    by (simp add: serveBanner_def Let_def split: option.split)
  obtain a w1 where a: "serveContentTyped r reflection w = (a, w1)" by fastforce
  obtain b w2 where b: "serveResponse e r cid reflection w s = (b, w2)" by fastforce
  have w12: "rec_hostname w1 = rec_hostname w" "rec_domain w1 = rec_domain w"
    "rec_hostname w2 = rec_hostname w" "rec_domain w2 = rec_domain w"
    using typed serveResponse_fields [of e r cid reflection w s] by (simp_all add: a b)
  show ?thesis
    unfolding default_response_def a b prod.case
    using banner serveStaticFile_fields [OF assms, of r w s] w12
    by (cases a; cases b) (simp_all split: option.split)
qed

lemma serveDefault_fields:
  assumes "serve_content_ok e"
  shows "rec_hostname (fst (serveDefault e r w s)) = rec_hostname w
     \<and> rec_domain (fst (serveDefault e r w s)) = rec_domain w"
  using default_response_fields [OF assms]
  by (simp add: serveDefault_def Let_def case_prod_unfold)

lemma recorded_chain_fields:
  assumes "serve_content_ok e"
  shows "rec_hostname (fst (recorded_chain e s r newResponseRecorder s)) = to_lower (stripHostPort (rq_Host r))
     \<and> rec_domain (fst (recorded_chain e s r newResponseRecorder s))
         = (case matchedDomain s (to_lower (stripHostPort (rq_Host r))) of None \<Rightarrow> [] | Some d \<Rightarrow> d)"
  using serveDefault_fields [OF assms]
  by (simp add: recorded_chain_def hostnameMiddleware_def ResponseHeadersMiddleware_def
      InteractionCORSMiddleware_def preflight_headers_def Let_def split: option.split)

end
