(* ===== verification/Http_Capture.thy ===== *)
theory Http_Capture
  imports Http_Properties
begin

text \<open>
  A request on the default route, through the whole handler: what the logger records of it is what
  the capture path stores, once for every live id of the host name.
\<close>

lemma Handler_default:
  assumes "find_route (Metrics (sv_cfg s)) r = RouteDefault"
    and "rb = body_limited s (size_limited s r)"
    and "recorded_chain e s rb newResponseRecorder s = (rec, s1)"
  shows "Handler e r w s = (forward_response rec w,
     onHTTPInteraction e rb (DumpRequest rb) (dump_response rec)
       (ExtractRemoteAddr rb (OriginIPHeader (sv_cfg s))) (rec_hostname rec) (rec_domain rec) s1)"
proof -
  have "dispatch e (size_limited s r) w s = interaction_chain e (size_limited s r) w s"
    using assms(1) by (simp add: dispatch_def)
  then show ?thesis
    using assms(3)
    by (simp add: Handler_dispatch interaction_chain_def LoggerMiddleware_def Let_def
        flip: recorded_chain_def assms(2) body_limited_def)
qed

lemma body_limited_simps [simp]:
  "rq_Host (body_limited s r) = rq_Host r" "rq_Header (body_limited s r) = rq_Header r"
  "rq_TLS (body_limited s r) = rq_TLS r" "rq_TLS (size_limited s r) = rq_TLS r"
  by (simp_all add: body_limited_def limit_body_def size_limited_def)

text \<open>The interaction that a request leaves, before an id is put into it.\<close>

definition recorded_interaction :: "'db env \<Rightarrow> request \<Rightarrow> 'db server \<Rightarrow> Interaction" where
  "recorded_interaction e r s =
     (let rb = body_limited s (size_limited s r)
      in http_interaction rb (DumpRequest rb) (dump_response (http_recorded e r s))
           (ExtractRemoteAddr rb (OriginIPHeader (sv_cfg s))) (env_now e))"

text \<open>
  The ids that a request names.  On a host under none of the configured domains nothing is looked
  for, unless the server scans everywhere: then the whole text of the request is, on every host.
\<close>

definition request_host :: "request \<Rightarrow> string" where
  "request_host r = to_lower (stripHostPort (rq_Host r))"

definition request_text :: "request \<Rightarrow> 'db server \<Rightarrow> string" where
  "request_text r s = DumpRequest (body_limited s (size_limited s r))"

definition request_domain :: "request \<Rightarrow> 'db server \<Rightarrow> string" where
  "request_domain r s = (case matchedDomain s (request_host r) of None \<Rightarrow> [] | Some d \<Rightarrow> d)"

definition request_ids :: "request \<Rightarrow> 'db server \<Rightarrow> string list" where
  "request_ids r s =
     (if request_domain r s = [] \<and> \<not> ScanEverywhere (sv_cfg s) then []
      else named_ids s (request_host r) (request_text r s))"

text \<open>The interaction that is stored for an id; without the scan its full id comes from the host.\<close>

definition http_stored :: "'db env \<Rightarrow> request \<Rightarrow> 'db server \<Rightarrow> string \<Rightarrow> Interaction" where
  "http_stored e r s cid =
     (recorded_interaction e r s)\<lparr>InteractionUniqueID := cid,
       FullId := named_full s (request_host r) (request_text r s) cid\<rparr>"

definition stored_interaction :: "'db env \<Rightarrow> request \<Rightarrow> 'db server \<Rightarrow> string \<Rightarrow> Interaction" where
  "stored_interaction e r s cid =
     (recorded_interaction e r s)\<lparr>InteractionUniqueID := cid,
       FullId := extractFullID (to_lower (stripHostPort (rq_Host r))) (Domains (sv_cfg s))\<rparr>"

lemma http_stored_labels: "\<not> ScanEverywhere (sv_cfg s) \<Longrightarrow> http_stored e r s cid = stored_interaction e r s cid"
  by (simp add: http_stored_def stored_interaction_def named_labels request_host_def)

text \<open>
  The environment of a capture: the codec writes every interaction, the random source gives IVs, the
  records fit the framing, and the file server leaves the recorder's own fields alone.
\<close>

definition capture_env ::
  "'db env \<Rightarrow> (Interaction \<Rightarrow> string) \<Rightarrow> (string \<Rightarrow> bytes) \<Rightarrow> bool" where
  "capture_env e js iv \<longleftrightarrow> env_marshal e = (\<lambda>i. Inr (js i)) \<and> env_iv e = (\<lambda>c. Inr (iv c))
     \<and> serve_content_ok e"

lemma http_capture_named:
  assumes good: "storage_good contents e (sv_storage s)" and env: "capture_env e js iv"
    and route: "find_route (Metrics (sv_cfg s)) r = RouteDefault"
    and fits: "\<And>c. live_at contents e s c \<Longrightarrow> c \<in> set (request_ids r s) \<Longrightarrow>
        record_fits (Inr (iv c)) (go_bytes (js (http_stored e r s c)))"
  obtains s' where "Handler e r newResponseRecorder s = (forward_response (http_recorded e r s) newResponseRecorder, s')"
    "storage_good contents e (sv_storage s')" "sv_cfg s' = sv_cfg s" "extraBucket s' = extraBucket s"
    "httpCount s' = httpCount s + 1"
    "\<And>c. account_at contents e s' c
       = (if live_at contents e s c \<and> c \<in> set (request_ids r s)
          then map_option (\<lambda>acc. acc\<lparr>acc_pending := acc_pending acc
              @ [encrypt_for (env_aes e) acc (iv c) (go_bytes (js (http_stored e r s c)))]\<rparr>)
              (account_at contents e s c)
          else account_at contents e s c)"
proof -
  let ?host = "request_host r" and ?d = "request_domain r s" and ?text = "request_text r s"
  define rb where "rb = body_limited s (size_limited s r)"
  obtain rec s1 where chain: "recorded_chain e s rb newResponseRecorder s = (rec, s1)" by fastforce
  have rec: "rec = http_recorded e r s" using chain by (simp add: http_recorded_def rb_def)
  have dump: "?text = DumpRequest rb" by (simp add: request_text_def rb_def)
  have "rec_hostname rec = ?host" "rec_domain rec = ?d"
    using recorded_chain_fields [of e s rb] env chain
    by (simp_all add: capture_env_def rb_def request_host_def request_domain_def)
  then have H: "Handler e r newResponseRecorder s = (forward_response rec newResponseRecorder,
      onHTTPInteraction e rb ?text (dump_response rec)
        (ExtractRemoteAddr rb (OriginIPHeader (sv_cfg s))) ?host ?d s1)"
    using Handler_default [OF route rb_def chain] by (simp add: dump)
  have "same_server contents e s s1" using recorded_chain_same [OF good, of rb newResponseRecorder] chain by simp
  then have s1: "storage_good contents e (sv_storage s1)" "account_at contents e s1 = account_at contents e s"
    "s1 = s\<lparr>sv_storage := sv_storage s1\<rparr>"
    by (simp_all add: same_server_def)
  define s2 where "s2 = s1\<lparr>httpCount := httpCount s1 + 1\<rparr>"
  have s2: "storage_good contents e (sv_storage s2)" "account_at contents e s2 = account_at contents e s"
    "sv_cfg s2 = sv_cfg s" "extraBucket s2 = extraBucket s" "httpCount s2 = httpCount s + 1"
    using s1 by (simp_all add: s2_def) (metis server.ext_inject server.surjective server.update_convs(2))+
  have live: "live_at contents e s2 = live_at contents e s" by (simp add: live_at_def fun_eq_iff s2(2))
  show ?thesis
  proof (cases "?d = [] \<and> \<not> ScanEverywhere (sv_cfg s)")
    case True
    then have "onHTTPInteraction e rb ?text (dump_response rec)
        (ExtractRemoteAddr rb (OriginIPHeader (sv_cfg s))) ?host ?d s1 = s2"
      by (simp add: onHTTPInteraction_def Let_def s2(3) flip: s2_def)
    then show ?thesis
      using that [of s2] s2 True H by (simp add: rec request_ids_def)
  next
    case False
    let ?i = "recorded_interaction e r s"
    let ?wi = "?i\<lparr>InteractionUniqueID := ?host, FullId := ?host\<rparr>"
    have i: "http_interaction rb ?text (dump_response rec)
        (ExtractRemoteAddr rb (OriginIPHeader (sv_cfg s))) (env_now e) = ?i"
      by (simp add: recorded_interaction_def Let_def rec rb_def request_text_def)
    have named: "named_ids s2 = named_ids s" "named_full s2 = named_full s"
      by (simp_all add: fun_eq_iff named_ids_def named_full_def scans_def Let_def s2(3))
    have ids: "request_ids r s = named_ids s ?host ?text" unfolding request_ids_def using False by (simp only: if_False)
    define ids where "ids = set (filter (live_at contents e s2) (named_ids s2 ?host ?text))"
    obtain st where cap: "captureInteraction e ?d ?host ?text ?wi ?i s2
         = (ids \<noteq> {}, (captureWildcard e ?d ?wi s2)\<lparr>sv_storage := st\<rparr>)"
      and st: "storage_good contents e st"
      "\<And>c. storage_view contents (env_now e) st c
         = (if c \<in> ids then map_option (\<lambda>acc. acc\<lparr>acc_pending := acc_pending acc
                @ [encrypt_for (env_aes e) acc (iv c) (go_bytes (js (http_stored e r s c)))]\<rparr>)
                (account_at contents e s2 c)
            else account_at contents e s2 c)"
    proof (rule capture_named [where data = "\<lambda>c. go_bytes (js (http_stored e r s c))"
          and contents = contents and e = e and s = s2 and i = ?i and wi = ?wi and domain = ?d
          and matchInput = ?host and scanInput = ?text and js = js and iv = iv and ids = ids])
      show "storage_good contents e (sv_storage s2)" by (rule s2)
      show "env_marshal e = (\<lambda>i. Inr (js i))" "env_iv e = (\<lambda>c. Inr (iv c))" using env by (simp_all add: capture_env_def)
      show "go_bytes (js (http_stored e r s c)) = go_bytes (js (?i\<lparr>InteractionUniqueID := c,
          FullId := named_full s2 ?host ?text c\<rparr>))" for c
        by (simp add: http_stored_def named)
      show "record_fits (Inr (iv c)) (go_bytes (js (http_stored e r s c)))" if "c \<in> ids" for c
        using that fits by (simp add: ids_def live named ids)
    qed (rule ids_def, rule that, assumption+)
    define s3 where "s3 = (captureWildcard e ?d ?wi s2)\<lparr>sv_storage := st\<rparr>"
    define s4 where "s4 = (if ids \<noteq> {} then s3\<lparr>httpMatched := httpMatched s3 + 1\<rparr> else s3)"
    have "onHTTPInteraction e rb ?text (dump_response rec)
          (ExtractRemoteAddr rb (OriginIPHeader (sv_cfg s))) ?host ?d s1 = s4"
      using False by (auto simp: onHTTPInteraction_def Let_def i cap s4_def s3_def s2(3) simp flip: s2_def)
    moreover have "httpCount (captureWildcard e ?d ?wi s2) = httpCount s2"
      by (simp add: captureWildcard_def split: option.split sum.split)
    ultimately show ?thesis
      using st s2 H
      by (intro that [of s4]) (auto simp: s4_def s3_def rec ids_def live named ids)
  qed
qed

text \<open>Without the scan, on a host of the server.\<close>

lemma http_request_captured:
  assumes good: "storage_good contents e (sv_storage s)" and env: "capture_env e js iv"
    and route: "find_route (Metrics (sv_cfg s)) r = RouteDefault"
    and scan: "\<not> ScanEverywhere (sv_cfg s)"
    and dom: "matchedDomain s (to_lower (stripHostPort (rq_Host r))) = Some d" "d \<noteq> []"
    and fits: "\<And>c. record_fits (Inr (iv c)) (go_bytes (js (stored_interaction e r s c)))"
  obtains s' where "Handler e r newResponseRecorder s = (forward_response (http_recorded e r s) newResponseRecorder, s')"
    "storage_good contents e (sv_storage s')" "sv_cfg s' = sv_cfg s" "extraBucket s' = extraBucket s"
    "httpCount s' = httpCount s + 1"
    "\<And>c. account_at contents e s' c
       = (if live_at contents e s c
             \<and> c \<in> set (candidates (nat (CorrelationIdLength (sv_cfg s))) (to_lower (stripHostPort (rq_Host r))))
          then map_option (\<lambda>acc. acc\<lparr>acc_pending := acc_pending acc
              @ [encrypt_for (env_aes e) acc (iv c) (go_bytes (js (stored_interaction e r s c)))]\<rparr>)
              (account_at contents e s c)
          else account_at contents e s c)"
proof -
  have "request_domain r s = d" using dom(1) by (simp add: request_domain_def request_host_def)
  then have ids: "request_ids r s
      = candidates (nat (CorrelationIdLength (sv_cfg s))) (to_lower (stripHostPort (rq_Host r)))"
    using scan dom(2) by (simp add: request_ids_def named_labels request_host_def)
  show ?thesis
    by (rule http_capture_named [OF good env route]) (use fits that in \<open>simp_all add: ids http_stored_labels [OF scan]\<close>)
qed

text \<open>
  C7: a request is captured for exactly the sessions it names.  Handling a request on the default
  route appends, for every live id that it names, one interaction encrypted with that session's key
  to its pending list; every other account is as before, and the client gets the recorded response.
  Without \<open>ScanEverywhere\<close> a request names the candidates of its host when the host is under a
  configured domain, and nothing otherwise; with it, the windows of its whole text, on any host.
\<close>

theorem http_capture_exact:
  assumes "storage_good contents e (sv_storage s)" and "capture_env e js iv"
    and "find_route (Metrics (sv_cfg s)) r = RouteDefault"
    and "\<And>c. live_at contents e s c \<Longrightarrow> c \<in> set (request_ids r s) \<Longrightarrow>
        record_fits (Inr (iv c)) (go_bytes (js (http_stored e r s c)))"
  shows "fst (Handler e r newResponseRecorder s) = forward_response (http_recorded e r s) newResponseRecorder
     \<and> account_at contents e (snd (Handler e r newResponseRecorder s)) = (\<lambda>c.
         if live_at contents e s c \<and> c \<in> set (request_ids r s)
         then map_option (\<lambda>acc. acc\<lparr>acc_pending := acc_pending acc
              @ [encrypt_for (env_aes e) acc (iv c) (go_bytes (js (http_stored e r s c)))]\<rparr>)
              (account_at contents e s c)
         else account_at contents e s c)"
  by (rule http_capture_named [OF assms(1-3)]) (use assms(4) in auto)

lemma demo_good:
  "storage_good contents demo_env (sv_storage (demo_server\<lparr>sv_cfg := cfg\<rparr>))"
  "account_at contents demo_env (demo_server\<lparr>sv_cfg := cfg\<rparr>) ''c'' = Some demo_account"
  using demo_m1_good [of 6] demo_m1_view [of 6]
  by (simp_all add: demo_server_def demo_env_def duration_defs max_int64_def)

lemma demo_capture_env: "capture_env demo_env (\<lambda>i. ''{}'') (\<lambda>c. replicate 16 1)"
  by (simp add: capture_env_def demo_env_def serve_content_ok_def)

lemma demo_fits: "record_fits (Inr (replicate 16 1)) (go_bytes ''{}'')"
  by (simp add: record_fits_def)

theorem http_capture_exact_witness:
  "map_option acc_pending (account_at (\<lambda>_ _. None) demo_env
     (snd (Handler demo_env (demo_request ''GET'' ''/a'' ''b=c'') newResponseRecorder demo_server)) ''c'')
   = Some [encrypt_for demo_cipher demo_account (replicate 16 1) (go_bytes ''{}'')]"
proof -
  let ?r = "demo_request ''GET'' ''/a'' ''b=c''"
  have s: "demo_server\<lparr>sv_cfg := demo_config\<rparr> = demo_server" by (simp add: demo_server_def)
  note g = demo_good [where cfg = demo_config and contents = "\<lambda>_ _. None", unfolded s]
  have cfg: "sv_cfg demo_server = demo_config" "\<not> ScanEverywhere demo_config" "CorrelationIdLength demo_config = 1"
    "Domains demo_config = [''d.e'']"
    by (simp_all add: demo_server_def demo_config_def zero_Config_def)
  have host: "request_host ?r = ''c.d.e''" by code_simp
  have "find_route (Metrics demo_config) ?r = RouteDefault" by code_simp
  moreover have "matchedDomain demo_server ''c.d.e'' = Some ''d.e''"
    by (simp add: matchedDomain_def cfg domain_matches_def) (simp add: has_suffix_def)
  moreover have "''c'' \<in> set (candidates 1 (to_lower ''c.d.e''))" by code_simp
  ultimately have "''c'' \<in> set (request_ids ?r demo_server)"
    by (simp add: request_ids_def request_domain_def host named_labels cfg)
  moreover have "env_aes demo_env = demo_cipher" by (simp add: demo_env_def)
  moreover have "acc_pending demo_account = []" by (simp add: demo_account_def)
  moreover have "find_route (Metrics (sv_cfg demo_server)) ?r = RouteDefault" unfolding cfg by code_simp
  ultimately show ?thesis
    using http_capture_exact [OF g(1) demo_capture_env, of ?r] demo_fits g(2) by (simp add: live_at_def)
qed

text \<open>The two modes: a foreign host names nothing, or everything that the text of the request holds.\<close>

lemma request_ids_modes:
  "\<not> ScanEverywhere (sv_cfg s) \<Longrightarrow> matchedDomain s (request_host r) = None \<Longrightarrow> request_ids r s = []"
  "ScanEverywhere (sv_cfg s) \<Longrightarrow> request_text r s \<noteq> [] \<Longrightarrow> request_ids r s
     = map (take (nat (CorrelationIdLength (sv_cfg s))))
         (everywhere_windows (nat (CorrelationIdLength (sv_cfg s))) (to_lower (request_text r s)))"
  by (simp_all add: request_ids_def request_domain_def named_ids_def scans_def Let_def)

end
