(* ===== verification/Client_Ids.thy ===== *)
theory Client_Ids
  imports Matching Go_Encoding
begin

text \<open>
  The identifiers the client makes (\<open>oobclient/client.go\<close>): correlation ids, session secrets and
  the nonces of payload domains.  A generated id is over the alphabet the server's matcher accepts,
  has the configured length and starts with the timestamp; a payload domain is always matched.
\<close>

section \<open>Correlation ids\<close>

definition raw_id :: "bytes \<Rightarrow> 32 word \<Rightarrow> bytes" where
  "raw_id rs ts =
     (let raw = rs @ [0];
          raw = raw[0 := ucast (drop_bit 24 ts)];
          raw = raw[1 := ucast (drop_bit 16 ts)]
      in raw[2 := (raw ! 2 AND 0x0F) OR (ucast (drop_bit 8 ts) AND 0xF0)])"

definition id_char :: "byte \<Rightarrow> char" where
  "id_char v = CIDEncodingAlphabet ! unat (v AND 0x1F)"

text \<open>The five bits from bit \<open>5 * i\<close> on, most significant first.\<close>

definition id_group :: "bytes \<Rightarrow> nat \<Rightarrow> byte" where
  "id_group raw i =
     (let bitOff = i * 5; byteIdx = bitOff div 8; bitIdx = bitOff mod 8
      in if bitIdx \<le> 3 then drop_bit (3 - bitIdx) (raw ! byteIdx)
         else push_bit (bitIdx - 3) (raw ! byteIdx) OR drop_bit (11 - bitIdx) (raw ! (byteIdx + 1)))"

definition generateCorrelationID ::
  "bytes result \<Rightarrow> bytes result \<Rightarrow> 32 word \<Rightarrow> nat \<Rightarrow> string result" where
  "generateCorrelationID rand1 rand2 ts n = (case rand1 of
      Inl err \<Rightarrow> Inl err
    | Inr rs \<Rightarrow>
        let raw = raw_id rs ts;
            buf = map (\<lambda>i. id_char (id_group raw i)) [0 ..< min n 20]
        in if n > 20
           then (case rand2 of
               Inl err \<Rightarrow> Inl err
             | Inr rb \<Rightarrow> Inr (buf @ map id_char rb))
           else Inr buf)"

lemma id_char_ok: "cidAlphabetTable (id_char v)"
proof -
  have "v AND 0x1F \<le> (0x1F :: byte)" by (simp add: word_and_le1)
  then have "unat (v AND 0x1F) \<le> unat (0x1F :: byte)" by (simp only: word_le_nat_alt)
  then have "unat (v AND 0x1F) < length CIDEncodingAlphabet" by (simp add: CIDEncodingAlphabet_def)
  then have "id_char v \<in> set CIDEncodingAlphabet" by (simp add: id_char_def)
  then show ?thesis by (auto simp: CIDEncodingAlphabet_def cidAlphabetTable_def)
qed

lemma byte_masks: "(0x1F :: byte) = mask 5" "(0x0F :: byte) = mask 4" "(0xF0 :: byte) = push_bit 4 (mask 4)"
  by (simp_all add: mask_eq_exp_minus_1)

lemma raw_id_bits:
  assumes "length rs = 12"
  shows "id_group (raw_id rs ts) 0 AND 0x1F = ucast (drop_bit 27 ts) AND 0x1F"
    "id_group (raw_id rs ts) 1 AND 0x1F = ucast (drop_bit 22 ts) AND 0x1F"
    "id_group (raw_id rs ts) 2 AND 0x1F = ucast (drop_bit 17 ts) AND 0x1F"
    "id_group (raw_id rs ts) 3 AND 0x1F = ucast (drop_bit 12 ts) AND 0x1F"
proof -
  have raw: "raw_id rs ts ! 0 = ucast (drop_bit 24 ts)" "raw_id rs ts ! Suc 0 = ucast (drop_bit 16 ts)"
    "raw_id rs ts ! 2 = (rs ! 2 AND 0x0F) OR (ucast (drop_bit 8 ts) AND 0xF0)"
    using assms by (simp_all add: raw_id_def Let_def nth_append)
  show "id_group (raw_id rs ts) 0 AND 0x1F = ucast (drop_bit 27 ts) AND 0x1F"
    by (rule bit_word_eqI) (auto simp: id_group_def Let_def raw byte_masks bit_simps)
  show "id_group (raw_id rs ts) 1 AND 0x1F = ucast (drop_bit 22 ts) AND 0x1F"
    by (rule bit_word_eqI) (auto simp: id_group_def Let_def raw byte_masks bit_simps)
  show "id_group (raw_id rs ts) 2 AND 0x1F = ucast (drop_bit 17 ts) AND 0x1F"
    by (rule bit_word_eqI) (auto simp: id_group_def Let_def raw byte_masks bit_simps)
  have raw3: "raw_id rs ts ! Suc (Suc 0) = (rs ! 2 AND 0x0F) OR (ucast (drop_bit 8 ts) AND 0xF0)"
    using raw(3) by (simp only: numeral_2_eq_2)
  have five: "n < 5 \<longleftrightarrow> n < 4 \<or> n = 4" for n :: nat by auto
  show "id_group (raw_id rs ts) 3 AND 0x1F = ucast (drop_bit 12 ts) AND 0x1F"
    by (rule bit_word_eqI) (auto simp: id_group_def Let_def raw raw3 byte_masks bit_simps five)
qed

lemma generateCorrelationID_Inr:
  assumes "length rs = 12" and "length rb = n - 20"
  shows "\<exists>s. generateCorrelationID (Inr rs) (Inr rb) ts n = Inr s \<and> length s = n
     \<and> list_all cidAlphabetTable s"
  using assms by (auto simp: generateCorrelationID_def Let_def list_all_iff id_char_ok)

definition timestamp_prefix :: "32 word \<Rightarrow> string" where
  "timestamp_prefix ts = map (\<lambda>k. CIDEncodingAlphabet ! unat ((ucast (drop_bit k ts) :: byte) AND 0x1F))
     [27, 22, 17, 12]"

section \<open>Session secrets\<close>

definition uuid_bytes :: "bytes \<Rightarrow> bytes" where
  "uuid_bytes r =
     (let uuid = r; uuid = uuid[6 := (uuid ! 6 AND 0x0f) OR 0x40]
      in uuid[8 := (uuid ! 8 AND 0x3f) OR 0x80])"

definition generateUUID4 :: "bytes \<Rightarrow> string" where
  "generateUUID4 r =
     (let uuid = uuid_bytes r
      in hex_encode (take 4 uuid) @ ''-'' @ hex_encode (take 2 (drop 4 uuid)) @ ''-''
         @ hex_encode (take 2 (drop 6 uuid)) @ ''-'' @ hex_encode (take 2 (drop 8 uuid)) @ ''-''
         @ hex_encode (take 6 (drop 10 uuid)))"

section \<open>Payload domains\<close>

text \<open>\<open>base32\<close> without padding over the z-base-32 alphabet: five bytes make eight characters.\<close>

definition zbase32_alphabet :: string where
  "zbase32_alphabet = ''ybndrfg8ejkmcpqxot1uwisza345h769''"

definition bits_of :: "byte \<Rightarrow> bool list" where
  "bits_of b = map (bit b) [7, 6, 5, 4, 3, 2, 1, 0]"

function b32_groups :: "bool list \<Rightarrow> string" where
  "b32_groups bs =
     (if bs = [] then []
      else zbase32_alphabet ! (horner_sum of_bool 2 (rev (take 5 (bs @ replicate 4 False))))
           # b32_groups (drop 5 bs))"
  by pat_completeness auto
termination by (relation "measure length") auto

declare b32_groups.simps [simp del]

definition zbase32_EncodeToString :: "bytes \<Rightarrow> string" where
  "zbase32_EncodeToString data = b32_groups (concat (map bits_of data))"

definition domain_nonce :: "bytes \<Rightarrow> nat \<Rightarrow> string" where
  "domain_nonce data n =
     (let nonce = zbase32_EncodeToString data
      in if length nonce > n then take n nonce else nonce)"

definition Domain :: "string \<Rightarrow> nat \<Rightarrow> string \<Rightarrow> bytes \<Rightarrow> string" where
  "Domain correlationID nonceLength host data =
     correlationID @ domain_nonce data nonceLength @ ''.'' @ host"

lemma zbase32_alphanumeric: "list_all alphanumericTable zbase32_alphabet"
  by code_simp

lemma b32_groups_ok: "length (b32_groups bs) = (length bs + 4) div 5 \<and> list_all alphanumericTable (b32_groups bs)"
proof (induction bs rule: b32_groups.induct)
  case (1 bs)
  show ?case
  proof (cases "bs = []")
    case False
    define v :: nat where "v = horner_sum of_bool 2 (rev (take 5 (bs @ replicate 4 False)))"
    have "v < 2 ^ length (rev (take 5 (bs @ replicate 4 False)))"
      unfolding v_def by (rule horner_sum_of_bool_2_less)
    also have "\<dots> \<le> 2 ^ 5" by (intro power_increasing) simp_all
    finally have "v < length zbase32_alphabet" by (simp add: zbase32_alphabet_def)
    then have "alphanumericTable (zbase32_alphabet ! v)"
      using zbase32_alphanumeric by (simp add: list_all_length)
    moreover have "(length (drop 5 bs) + 4) div 5 + 1 = (length bs + 4) div 5"
      using False by (cases "length bs \<ge> 5") (auto simp: le_div_geq Suc_leI div_eq_dividend_iff)
    moreover have "b32_groups bs = zbase32_alphabet ! v # b32_groups (drop 5 bs)"
      by (subst b32_groups.simps) (simp add: False v_def)
    ultimately show ?thesis using 1 [OF False] by simp
  qed (simp add: b32_groups.simps)
qed

lemma domain_nonce_ok:
  assumes "length data = n"
  shows "length (domain_nonce data n) = n \<and> list_all alphanumericTable (domain_nonce data n)"
proof -
  have "length (concat (map bits_of data)) = 8 * n"
    using assms by (simp add: length_concat bits_of_def o_def sum_list_triv)
  then have "length (zbase32_EncodeToString data) = (8 * n + 4) div 5"
    using b32_groups_ok [of "concat (map bits_of data)"] by (simp add: zbase32_EncodeToString_def)
  moreover have "n \<le> (8 * n + 4) div 5" by simp
  moreover have "list_all alphanumericTable (zbase32_EncodeToString data)"
    using b32_groups_ok by (simp add: zbase32_EncodeToString_def)
  ultimately show ?thesis
    by (auto simp: domain_nonce_def Let_def list_all_iff dest: in_set_takeD)
qed

lemma alphanumeric_lower: "alphanumericTable c \<Longrightarrow> lower_char c = c \<and> c \<noteq> CHR ''.''"
  by (auto simp: alphanumericTable_def lower_char_def is_lower_def is_upper_def is_digit_def char_code_def)

lemma cid_alphanumeric: "cidAlphabetTable c \<Longrightarrow> alphanumericTable c"
proof -
  have "list_all alphanumericTable CIDEncodingAlphabet" by code_simp
  then show "cidAlphabetTable c \<Longrightarrow> alphanumericTable c"
    by (simp add: cidAlphabetTable_def list_all_iff)
qed

lemma to_lower_alphanumeric: "list_all alphanumericTable s \<Longrightarrow> to_lower s = s \<and> CHR ''.'' \<notin> set s"
  by (induction s) (auto dest: alphanumeric_lower)

lemma split_on_append: "split_on c (p @ c # s) = split_on c p @ split_on c s"
proof (induction p)
  case (Cons x p)
  obtain q qs where "split_on c p = q # qs" by (cases "split_on c p") auto
  with Cons show ?case by simp
qed simp

section \<open>Properties\<close>

text \<open>
  A generated correlation id has the configured length, is accepted by the server's alphabet
  check, and its first four characters are the top twenty bits of the timestamp, so ids sort by
  the time they were made.
\<close>

theorem generated_id:
  assumes "length rs = 12" and "length rb = n - 20" and "4 \<le> n"
  shows "\<exists>s. generateCorrelationID (Inr rs) (Inr rb) ts n = Inr s \<and> length s = n
     \<and> isCIDBase32 s \<and> take 4 s = timestamp_prefix ts"
proof -
  obtain s where s: "generateCorrelationID (Inr rs) (Inr rb) ts n = Inr s" "length s = n"
    "list_all cidAlphabetTable s"
    using generateCorrelationID_Inr [OF assms(1,2)] by blast
  have idx: "take 4 [0 ..< min n 20] = [0, 1, 2, 3]"
    using assms(3) by (simp add: take_upt upt_conv_Cons)
  have "take 4 s = take 4 (map (\<lambda>i. id_char (id_group (raw_id rs ts) i)) [0 ..< min n 20])"
    using s(1) assms(3) by (auto simp: generateCorrelationID_def Let_def split: if_splits)
  also have "\<dots> = map (\<lambda>i. id_char (id_group (raw_id rs ts) i)) [0, 1, 2, 3]"
    by (simp only: take_map idx)
  also have "\<dots> = timestamp_prefix ts"
    using raw_id_bits [OF assms(1), of ts] by (simp add: timestamp_prefix_def id_char_def)
  finally have "take 4 s = timestamp_prefix ts" .
  moreover have "s \<noteq> []" using s(2) assms(3) by auto
  ultimately show ?thesis using s by (simp add: isCIDBase32_def)
qed

theorem generated_id_witness:
  "\<exists>s. generateCorrelationID (Inr (replicate 12 7)) (Inr []) 0x12345678 20 = Inr s
     \<and> isCIDBase32 s \<and> take 4 s = timestamp_prefix 0x12345678"
  using generated_id [of "replicate 12 7" "[]" 20 "0x12345678"] by auto

lemma domain_occurs:
  assumes "isCIDBase32 cid" and "length data = nonceLength" and "3 \<le> nonceLength"
    and "input = Domain cid nonceLength host data
         \<or> input = prefix @ ''.'' @ Domain cid nonceLength host data"
  obtains label where "label \<in> set (split_on CHR ''.'' (to_lower input))"
    "occurs_in_label (length cid) cid label"
proof -
  let ?label = "cid @ domain_nonce data nonceLength"
  have nonce: "length (domain_nonce data nonceLength) = nonceLength"
    "list_all alphanumericTable (domain_nonce data nonceLength)"
    using domain_nonce_ok [OF assms(2)] by simp_all
  have "list_all alphanumericTable cid"
    using assms(1) cid_alphanumeric by (auto simp: isCIDBase32_def list_all_iff)
  with nonce have label: "list_all alphanumericTable ?label" by simp
  have dom: "to_lower (Domain cid nonceLength host data) = ?label @ CHR ''.'' # to_lower host"
    using to_lower_alphanumeric [OF label] alphanumeric_lower
    by (simp add: Domain_def lower_char_def is_upper_def char_code_def)
  have "?label \<in> set (split_on CHR ''.'' (?label @ CHR ''.'' # to_lower host))"
    using to_lower_alphanumeric [OF label] by (subst split_on_append_sep) auto
  then have "?label \<in> set (split_on CHR ''.'' (to_lower input))"
    using assms(4) dom by (auto simp: split_on_append lower_char_def is_upper_def char_code_def)
  moreover have "occurs_in_label (length cid) cid ?label"
  proof -
    have "isAlphanumeric (take 3 (domain_nonce data nonceLength))"
      using nonce assms(3) by (auto simp: isAlphanumeric_def list_all_iff dest: in_set_takeD)
    moreover have "?label = [] @ cid @ take 3 (domain_nonce data nonceLength)
        @ drop 3 (domain_nonce data nonceLength)" by simp
    moreover have "length (take 3 (domain_nonce data nonceLength)) = minNonceLength"
      using nonce assms(3) by (simp add: minNonceLength_def)
    ultimately show ?thesis using assms(1) unfolding occurs_in_label_def by blast
  qed
  ultimately show thesis by (rule that)
qed

text \<open>
  Every domain the client hands out is matched by the server while its session is live: as it
  is, or with further labels in front of it.
\<close>

theorem domain_matched:
  assumes "live_session now m cid" and "isCIDBase32 cid"
    and "length data = nonceLength" and "3 \<le> nonceLength"
    and "input = Domain cid nonceLength host data
         \<or> input = prefix @ ''.'' @ Domain cid nonceLength host data"
  shows "\<exists>ms m'. MatchCorrelationID input (length cid) domains (HasCorrelationID now) m = (ms, m')
     \<and> cid \<in> UniqueID ` set ms"
proof -
  obtain label where "label \<in> set (split_on CHR ''.'' (to_lower input))"
    "occurs_in_label (length cid) cid label"
    using assms(2-5) by (rule domain_occurs)
  then show ?thesis using assms(1) match_exact_ids by blast
qed

theorem domain_matched_witness:
  "\<exists>ms m'. MatchCorrelationID (''x'' @ ''.'' @ Domain ''c'' 4 ''oast.pro'' [1, 2, 3, 4]) 1 []
     (HasCorrelationID 6) demo_m1 = (ms, m') \<and> ''c'' \<in> UniqueID ` set ms"
proof -
  have "view 6 demo_m1 ''c'' = Some demo_account"
    by (rule demo_m1_view) (simp_all add: duration_defs)
  then have "live_session 6 demo_m1 ''c''" by (simp add: live_session_view)
  moreover have "isCIDBase32 ''c''"
    by (simp add: isCIDBase32_def cidAlphabetTable_def CIDEncodingAlphabet_def)
  ultimately show ?thesis
    using domain_matched [of 6 demo_m1 "''c''" "[1, 2, 3, 4]" 4 _ "''oast.pro''" "''x''" "[]"] by simp
qed

text \<open>
  The session secret is a version 4 UUID: 36 characters, hyphens after the eighth, twelfth,
  sixteenth and twentieth digit, version digit 4 and a variant digit 8, 9, a or b.
\<close>

theorem uuid_format:
  assumes "length r = 16"
  shows "length (generateUUID4 r) = 36
     \<and> (generateUUID4 r ! 8 = CHR ''-'' \<and> generateUUID4 r ! 13 = CHR ''-''
        \<and> generateUUID4 r ! 18 = CHR ''-'' \<and> generateUUID4 r ! 23 = CHR ''-'')
     \<and> generateUUID4 r ! 14 = CHR ''4'' \<and> generateUUID4 r ! 19 \<in> set ''89ab''"
proof -
  obtain a0 a1 a2 a3 a4 a5 a6 a7 a8 a9 a10 a11 a12 a13 a14 a15
    where r: "r = [a0, a1, a2, a3, a4, a5, a6, a7, a8, a9, a10, a11, a12, a13, a14, a15]"
    using assms by (auto simp: length_Suc_conv numeral_eq_Suc)
  have div: "unat w div 16 = unat (drop_bit 4 w)" for w :: byte
    by (simp add: drop_bit_eq_div unat_div)
  have "drop_bit 4 ((a6 AND 0x0f) OR 0x40) = (4 :: byte)" by simp
  then have six: "unat ((a6 AND 0x0f) OR 0x40) div 16 = 4" by (simp add: div)
  have "drop_bit 4 ((a8 AND 0x3f) OR 0x80) = (drop_bit 4 a8 AND 3) OR (8 :: byte)" by simp
  moreover have "drop_bit 4 a8 AND 3 \<in> {0, 1, 2, 3 :: byte}"
  proof -
    have "drop_bit 4 a8 AND 3 \<le> (3 :: byte)" by (rule word_and_le1)
    then have "unat (drop_bit 4 a8 AND 3) \<le> 3" by (simp add: word_le_nat_alt)
    then have "unat (drop_bit 4 a8 AND 3) \<in> {0, 1, 2, 3}" by auto
    then show ?thesis by (auto simp: word_unat_eq_iff)
  qed
  ultimately have eight: "unat ((a8 AND 0x3f) OR 0x80) div 16 \<in> {8, 9, 10, 11}"
    by (auto simp: div)
  have digit: "hex_digit 8 = CHR ''8''" "hex_digit 9 = CHR ''9''" "hex_digit 10 = CHR ''a''"
    "hex_digit 11 = CHR ''b''" "hex_digit 4 = CHR ''4''" by (simp_all add: hex_digit_def)
  show ?thesis
    using six eight digit
    by (simp add: r generateUUID4_def uuid_bytes_def Let_def hex_encode_def hex_byte_def)
       (elim disjE; simp)
qed

theorem uuid_format_witness: "length (generateUUID4 (replicate 16 0xAB)) = 36"
  using uuid_format [of "replicate 16 0xAB"] by simp

end
