(* ===== verification/Client.thy ===== *)
theory Client
  imports Client_Ids
begin

text \<open>
  The client's requests (\<open>oobclient/client.go\<close>, \<open>options.go\<close>): settings, registration with a list
  of servers, polling, deregistration and restoring a session.

  The network, the URL parser and the JSON codec are arguments: \<open>net\<close> is a record of the calls the
  code makes on the network, acting on a world of any type, and \<open>codec\<close> the record of
  encoders and decoders.  A method that sends requests returns its error and the new world.
\<close>

section \<open>Options\<close>

record Options =
  opt_ServerURLs :: "string list"
  opt_Token :: string
  opt_HTTPTimeout :: int
  opt_KeepAliveInterval :: int
  opt_DisableKeepAlive :: bool
  opt_DisableHTTPFallback :: bool
  opt_Response :: "ResponseConfig option"
  opt_CorrelationIdLength :: int
  opt_CorrelationIdNonceLength :: int

definition zero_Options :: Options where
  "zero_Options = \<lparr>opt_ServerURLs = [], opt_Token = [], opt_HTTPTimeout = 0,
     opt_KeepAliveInterval = 0, opt_DisableKeepAlive = False, opt_DisableHTTPFallback = False,
     opt_Response = None, opt_CorrelationIdLength = 0, opt_CorrelationIdNonceLength = 0\<rparr>"

definition DefaultOptions :: Options where
  "DefaultOptions = zero_Options\<lparr>
     opt_ServerURLs := [''oscar.oastsrv.net'', ''alpha.oastsrv.net'', ''sierra.oastsrv.net'',
                        ''tango.oastsrv.net''],
     opt_HTTPTimeout := 10 * second, opt_KeepAliveInterval := 60 * second,
     opt_CorrelationIdLength := 20, opt_CorrelationIdNonceLength := 13\<rparr>"

definition fallbackServerURLs :: "string list" where
  "fallbackServerURLs = [''oast.pro'', ''oast.live'', ''oast.site'', ''oast.online'', ''oast.fun'', ''oast.me'']"

definition defaultServerCorrelationIdLength :: int where "defaultServerCorrelationIdLength = 16"
definition defaultServerNonceLength :: int where "defaultServerNonceLength = 4"
definition fallbackCorrelationIdLength :: int where "fallbackCorrelationIdLength = 20"
definition fallbackMinNonceLength :: int where "fallbackMinNonceLength = 13"

record settings =
  set_servers :: "string list"
  set_userProvided :: bool
  set_idLength :: int
  set_nonceLength :: int
  set_keepAlive :: int

definition client_settings :: "Options \<Rightarrow> settings result" where
  "client_settings opt =
     (let userProvided = (opt_ServerURLs opt \<noteq> []
            \<and> opt_ServerURLs opt \<noteq> opt_ServerURLs DefaultOptions);
          servers = (if \<not> userProvided then opt_ServerURLs DefaultOptions else opt_ServerURLs opt);
          idLength = (if opt_CorrelationIdLength opt = 0
            then (if userProvided then opt_CorrelationIdLength DefaultOptions
                  else defaultServerCorrelationIdLength)
            else opt_CorrelationIdLength opt);
          nonceLength = (if opt_CorrelationIdNonceLength opt = 0
            then (if userProvided then opt_CorrelationIdNonceLength DefaultOptions
                  else defaultServerNonceLength)
            else opt_CorrelationIdNonceLength opt)
      in if \<not> userProvided \<and> opt_CorrelationIdLength opt \<noteq> 0
            \<and> idLength \<noteq> defaultServerCorrelationIdLength
         then Inl (''CorrelationIdLength must be '' @ itoa defaultServerCorrelationIdLength
                   @ '' when using default servers'')
         else if userProvided \<and> idLength < 4
         then Inl ''CorrelationIdLength must be at least 4''
         else if nonceLength < 4
         then Inl ''CorrelationIdNonceLength must be at least 4''
         else Inr \<lparr>set_servers = servers, set_userProvided = userProvided, set_idLength = idLength,
                set_nonceLength = nonceLength,
                set_keepAlive = (if opt_DisableKeepAlive opt then 0
                  else if opt_KeepAliveInterval opt = 0 then opt_KeepAliveInterval DefaultOptions
                  else opt_KeepAliveInterval opt)\<rparr>)"

section \<open>Client state and the world\<close>

record url =
  url_Scheme :: string
  url_Host :: string
  url_Path :: string

definition url_String :: "url \<Rightarrow> string" where
  "url_String u = url_Scheme u @ ''://'' @ url_Host u @ url_Path u"

record client =
  cl_serverURL :: "url option"
  cl_correlationID :: string
  cl_secretKey :: string
  cl_token :: string
  cl_publicKeyB64 :: string
  cl_nonceLength :: int
  cl_keepAliveInterval :: int
  cl_disableHTTPFallback :: bool
  cl_response :: "ResponseConfig option"

record http_request =
  req_Method :: string
  req_URL :: string
  req_Header :: "(string \<times> string) list"
  req_Body :: string

record http_response =
  resp_StatusCode :: int
  resp_Body :: string

record 'w net =
  net_Do :: "http_request \<Rightarrow> 'w \<Rightarrow> http_response result \<times> 'w"
  net_LookupHost :: "string \<Rightarrow> 'w \<Rightarrow> string list result \<times> 'w"
  net_ParseURL :: "string \<Rightarrow> url result"

record registerRequest =
  rr_PublicKey :: string
  rr_SecretKey :: string
  rr_CorrelationID :: string
  rr_Response :: "ResponseConfig option"

record deregisterRequest =
  dr_CorrelationID :: string
  dr_SecretKey :: string

record pollResponse =
  poll_Data :: "string list"
  poll_Extra :: "string list"
  poll_AESKey :: string
  poll_TLDData :: "string list"

record codec =
  marshal_register :: "registerRequest \<Rightarrow> string result"
  marshal_deregister :: "deregisterRequest \<Rightarrow> string result"
  decode_message :: "string \<Rightarrow> string option result"  \<comment> \<open>the field \<open>message\<close>, if it is a string\<close>
  decode_poll :: "string \<Rightarrow> pollResponse result"
  unmarshal_interaction :: "string \<Rightarrow> Interaction option"

definition auth_header :: "client \<Rightarrow> (string \<times> string) list" where
  "auth_header c = (if cl_token c \<noteq> [] then [(''Authorization'', cl_token c)] else [])"

section \<open>Registration\<close>

definition performRegistration ::
  "'w net \<Rightarrow> codec \<Rightarrow> client \<Rightarrow> url \<Rightarrow> 'w \<Rightarrow> client_error option \<times> 'w" where
  "performRegistration net codec c u w =
     (case marshal_register codec \<lparr>rr_PublicKey = cl_publicKeyB64 c, rr_SecretKey = cl_secretKey c,
             rr_CorrelationID = cl_correlationID c, rr_Response = cl_response c\<rparr> of
        Inl err \<Rightarrow> (Some (OtherError (''failed to marshal registration request: '' @ err)), w)
      | Inr data \<Rightarrow>
          let regURL = url_String u @ ''/register''
          in (case net_ParseURL net regURL of
                Inl err \<Rightarrow> (Some (OtherError (''failed to create request: '' @ err)), w)
              | Inr _ \<Rightarrow>
                  (case net_Do net \<lparr>req_Method = ''POST'', req_URL = regURL,
                          req_Header = (''Content-Type'', ''application/json'') # auth_header c,
                          req_Body = data\<rparr> w of
                     (Inl err, w1) \<Rightarrow> (Some (OtherError (''registration request failed: '' @ err)), w1)
                   | (Inr resp, w1) \<Rightarrow>
                       if resp_StatusCode resp = 401 then (Some ErrUnauthorized, w1)
                       else if resp_StatusCode resp \<noteq> 200
                       then (Some (OtherError (''registration failed with status ''
                               @ itoa (resp_StatusCode resp) @ '': '' @ resp_Body resp)), w1)
                       else (case decode_message codec (resp_Body resp) of
                           Inl err \<Rightarrow> (Some (OtherError
                               (''failed to decode registration response: '' @ err)), w1)
                         | Inr msg \<Rightarrow>
                             if msg \<noteq> Some ''registration successful''
                             then (Some (OtherError (''unexpected registration response: ''
                                     @ resp_Body resp)), w1)
                             else (None, w1)))))"

definition tryRegisterServer ::
  "'w net \<Rightarrow> codec \<Rightarrow> client \<Rightarrow> string \<Rightarrow> 'w \<Rightarrow> client_error option \<times> client \<times> 'w" where
  "tryRegisterServer net codec c server w =
     (let serverURL = (if \<not> has_prefix server ''http://'' \<and> \<not> has_prefix server ''https://''
                       then ''https://'' @ server else server)
      in case net_ParseURL net serverURL of
           Inl err \<Rightarrow> (Some (OtherError (''invalid server URL: '' @ err)), c, w)
         | Inr parsed \<Rightarrow> (case performRegistration net codec c parsed w of
               (None, w1) \<Rightarrow> (None, c\<lparr>cl_serverURL := Some parsed\<rparr>, w1)
             | (Some err, w1) \<Rightarrow>
                 if cl_disableHTTPFallback c \<or> url_Scheme parsed \<noteq> ''https'' then (Some err, c, w1)
                 else (case performRegistration net codec c (parsed\<lparr>url_Scheme := ''http''\<rparr>) w1 of
                     (None, w2) \<Rightarrow> (None, c\<lparr>cl_serverURL := Some (parsed\<lparr>url_Scheme := ''http''\<rparr>)\<rparr>, w2)
                   | (Some err, w2) \<Rightarrow> (Some err, c, w2))))"

definition error_text :: "client_error \<Rightarrow> string" where
  "error_text e = (case e of
      ErrSessionEvicted \<Rightarrow> ''session evicted by server''
    | ErrUnauthorized \<Rightarrow> ''unauthorized: invalid or missing token''
    | ErrClientClosed \<Rightarrow> ''client is closed''
    | ErrAlreadyPolling \<Rightarrow> ''polling already started''
    | OtherError msg \<Rightarrow> msg)"

text \<open>One round over the servers, in the order they are tried.\<close>

primrec register_loop ::
  "'w net \<Rightarrow> codec \<Rightarrow> client \<Rightarrow> string list \<Rightarrow> string list \<Rightarrow> string list \<Rightarrow> 'w
     \<Rightarrow> client_error option \<times> client \<times> 'w" where
  "register_loop net codec c [] failedIPs errs w =
     (Some (OtherError (''failed to register with any server: '' @ join [CHR 0x0A] errs)), c, w)"
| "register_loop net codec c (server # servers) failedIPs errs w =
     (let attempt = (\<lambda>w. case tryRegisterServer net codec c server w of
             (None, c1, w1) \<Rightarrow> (None, c1, w1)
           | (Some err, c1, w1) \<Rightarrow>
               if err = ErrUnauthorized then (Some err, c1, w1)
               else (case net_LookupHost net server w1 of (ips, w2) \<Rightarrow>
                   register_loop net codec c servers
                     (case ips of Inr l \<Rightarrow> failedIPs @ l | Inl _ \<Rightarrow> failedIPs)
                     (errs @ [server @ '': '' @ error_text err]) w2))
      in if failedIPs = [] then attempt w
         else (case net_LookupHost net server w of
             (Inl err, w1) \<Rightarrow> register_loop net codec c servers failedIPs (errs @ [err]) w1
           | (Inr ips, w1) \<Rightarrow>
               if \<exists>ip \<in> set ips. ip \<in> set failedIPs
               then register_loop net codec c servers failedIPs errs w1
               else attempt w1))"

text \<open>\<open>startIndex\<close> is the value of the shared counter after the atomic increment.\<close>

definition tryRegisterServers ::
  "'w net \<Rightarrow> codec \<Rightarrow> 32 word \<Rightarrow> client \<Rightarrow> string list \<Rightarrow> 'w \<Rightarrow> client_error option \<times> client \<times> 'w" where
  "tryRegisterServers net codec startIndex c serverURLs w =
     (let n = length serverURLs; start = unat startIndex mod n
      in register_loop net codec c (map (\<lambda>i. serverURLs ! ((start + i) mod n)) [0 ..< n]) [] [] w)"

section \<open>Creating a client\<close>

text \<open>
  \<open>keys\<close> is the outcome of generating a key pair and encoding its public half; \<open>fresh_id n\<close> is the
  outcome of \<open>generateCorrelationID n\<close>, at the first and at the second call.  The last component of
  the result is the world.  Starting the keep-alive goroutine is \<open>Client_Lifecycle\<close>.
\<close>

definition New :: "'w net \<Rightarrow> codec \<Rightarrow> Options \<Rightarrow> string result \<Rightarrow> (int \<Rightarrow> string result)
     \<Rightarrow> (int \<Rightarrow> string result) \<Rightarrow> string \<Rightarrow> 32 word \<Rightarrow> 32 word \<Rightarrow> 'w
     \<Rightarrow> (client_error + client) \<times> 'w" where
  "New net codec opt keys fresh_id fresh_id2 uuid start1 start2 w =
     (case client_settings opt of
        Inl err \<Rightarrow> (Inl (OtherError err), w)
      | Inr cfg \<Rightarrow> (case keys of
          Inl err \<Rightarrow> (Inl (OtherError err), w)
        | Inr publicKeyB64 \<Rightarrow> (case fresh_id (set_idLength cfg) of
            Inl err \<Rightarrow> (Inl (OtherError err), w)
          | Inr cid \<Rightarrow>
              let c = \<lparr>cl_serverURL = None, cl_correlationID = cid, cl_secretKey = uuid,
                     cl_token = opt_Token opt, cl_publicKeyB64 = publicKeyB64,
                     cl_nonceLength = set_nonceLength cfg, cl_keepAliveInterval = set_keepAlive cfg,
                     cl_disableHTTPFallback = opt_DisableHTTPFallback opt,
                     cl_response = opt_Response opt\<rparr>
              in (case tryRegisterServers net codec start1 c (set_servers cfg) w of
                    (None, c1, w1) \<Rightarrow> (Inr c1, w1)
                  | (Some err, c1, w1) \<Rightarrow>
                      if set_userProvided cfg \<or> fallbackServerURLs = [] then (Inl err, w1)
                      else
                        let retry = (\<lambda>newID.
                              let c2 = c1\<lparr>cl_correlationID := newID,
                                    cl_nonceLength := max (cl_nonceLength c1) fallbackMinNonceLength\<rparr>
                              in case tryRegisterServers net codec start2 c2 fallbackServerURLs w1 of
                                   (None, c3, w2) \<Rightarrow> (Inr c3, w2)
                                 | (Some err2, c3, w2) \<Rightarrow>
                                     (Inl (OtherError (error_text err @ [CHR 0x0A] @ error_text err2)), w2))
                        in if int (length (cl_correlationID c1)) < fallbackCorrelationIdLength
                           then (case fresh_id2 fallbackCorrelationIdLength of
                               Inl err \<Rightarrow> (Inl (OtherError err), w1)
                             | Inr newID \<Rightarrow> retry newID)
                           else retry (cl_correlationID c1)))))"

section \<open>Polling and deregistration\<close>

definition decrypt_all ::
  "codec \<Rightarrow> (string \<Rightarrow> string \<Rightarrow> bytes result) \<Rightarrow> string \<Rightarrow> string list \<Rightarrow> Interaction list" where
  "decrypt_all codec decrypt aesKey data =
     concat (map (\<lambda>encData. case decrypt aesKey encData of
         Inl err \<Rightarrow> []
       | Inr plaintext \<Rightarrow>
           (case unmarshal_interaction codec
               (trim_right_func (\<lambda>ch. ch \<in> set [CHR '' '', CHR 0x09, CHR 0x0D, CHR 0x0A]) (go_string plaintext)) of
              None \<Rightarrow> []
            | Some i \<Rightarrow> [i])) data)"

definition unmarshal_all :: "codec \<Rightarrow> string list \<Rightarrow> Interaction list" where
  "unmarshal_all codec data =
     concat (map (\<lambda>d. case unmarshal_interaction codec d of None \<Rightarrow> [] | Some i \<Rightarrow> [i]) data)"

text \<open>The second component is the interactions the callback gets, in order.\<close>

definition pollInteractions ::
  "'w net \<Rightarrow> codec \<Rightarrow> (string \<Rightarrow> string \<Rightarrow> bytes result) \<Rightarrow> client \<Rightarrow> 'w
     \<Rightarrow> client_error option \<times> Interaction list \<times> 'w" where
  "pollInteractions net codec decrypt c w =
     (case cl_serverURL c of
        None \<Rightarrow> (Some (OtherError ''no server''), [], w)
      | Some u \<Rightarrow>
          let pollURL = url_String u @ ''/poll?id='' @ cl_correlationID c @ ''&secret='' @ cl_secretKey c
          in (case net_ParseURL net pollURL of
                Inl err \<Rightarrow> (Some (OtherError (''failed to create poll request: '' @ err)), [], w)
              | Inr _ \<Rightarrow>
                  (case net_Do net \<lparr>req_Method = ''GET'', req_URL = pollURL, req_Header = auth_header c,
                          req_Body = []\<rparr> w of
                     (Inl err, w1) \<Rightarrow> (Some (OtherError (''poll request failed: '' @ err)), [], w1)
                   | (Inr resp, w1) \<Rightarrow>
                       if resp_StatusCode resp = 401 then (Some ErrUnauthorized, [], w1)
                       else if resp_StatusCode resp \<noteq> 200
                       then (if contains_sub (resp_Body resp) ''could not get correlation-id''
                             then (Some ErrSessionEvicted, [], w1)
                             else (Some (OtherError (''poll failed with status ''
                                     @ itoa (resp_StatusCode resp) @ '': '' @ resp_Body resp)), [], w1))
                       else (case decode_poll codec (resp_Body resp) of
                           Inl err \<Rightarrow> (Some (OtherError (''failed to decode poll response: '' @ err)), [], w1)
                         | Inr r \<Rightarrow>
                             (None,
                              decrypt_all codec decrypt (poll_AESKey r) (poll_Data r)
                              @ unmarshal_all codec (poll_Extra r)
                              @ unmarshal_all codec (filter (\<lambda>d. d \<noteq> []) (poll_TLDData r)), w1)))))"

definition performDeregistration ::
  "'w net \<Rightarrow> codec \<Rightarrow> client \<Rightarrow> 'w \<Rightarrow> client_error option \<times> 'w" where
  "performDeregistration net codec c w =
     (case marshal_deregister codec
             \<lparr>dr_CorrelationID = cl_correlationID c, dr_SecretKey = cl_secretKey c\<rparr> of
        Inl err \<Rightarrow> (Some (OtherError err), w)
      | Inr data \<Rightarrow> (case cl_serverURL c of
          None \<Rightarrow> (Some (OtherError ''no server''), w)
        | Some u \<Rightarrow>
            let deregURL = url_String u @ ''/deregister''
            in (case net_ParseURL net deregURL of
                  Inl err \<Rightarrow> (Some (OtherError err), w)
                | Inr _ \<Rightarrow>
                    (case net_Do net \<lparr>req_Method = ''POST'', req_URL = deregURL,
                            req_Header = (''Content-Type'', ''application/json'') # auth_header c,
                            req_Body = data\<rparr> w of
                       (Inl err, w1) \<Rightarrow> (Some (OtherError err), w1)
                     | (Inr resp, w1) \<Rightarrow>
                         if resp_StatusCode resp \<noteq> 200
                         then (Some (OtherError (''deregistration failed with status ''
                                 @ itoa (resp_StatusCode resp))), w1)
                         else (None, w1)))))"

section \<open>Saved sessions\<close>

record sessionInfo =
  si_ServerURL :: string
  si_Token :: string
  si_PrivateKey :: string
  si_CorrelationID :: string
  si_SecretKey :: string
  si_PublicKey :: string
  si_Response :: "ResponseConfig option"
  si_CorrelationNonceLength :: int

definition SaveSession_info :: "string \<Rightarrow> client \<Rightarrow> sessionInfo option" where
  "SaveSession_info privateKeyDER c = map_option (\<lambda>u.
     \<lparr>si_ServerURL = url_String u, si_Token = cl_token c, si_PrivateKey = privateKeyDER,
      si_CorrelationID = cl_correlationID c, si_SecretKey = cl_secretKey c,
      si_PublicKey = cl_publicKeyB64 c, si_Response = cl_response c,
      si_CorrelationNonceLength = cl_nonceLength c\<rparr>) (cl_serverURL c)"

text \<open>
  \<open>data\<close> is the parsed session file; \<open>private_ok\<close> and \<open>public_ok\<close> say whether its keys parse, with the
  error otherwise.  The options are given or not.
\<close>

definition LoadSession ::
  "'w net \<Rightarrow> codec \<Rightarrow> sessionInfo result \<Rightarrow> (string \<Rightarrow> string option) \<Rightarrow> (string \<Rightarrow> string option)
     \<Rightarrow> Options option \<Rightarrow> 'w \<Rightarrow> (client_error + client) \<times> 'w" where
  "LoadSession net codec data private_ok public_ok opts w =
     (case data of
        Inl err \<Rightarrow> (Inl (OtherError err), w)
      | Inr session \<Rightarrow> (case private_ok (si_PrivateKey session) of
          Some err \<Rightarrow> (Inl (OtherError (''failed to parse private key: '' @ err)), w)
        | None \<Rightarrow> (case public_ok (si_PublicKey session) of
            Some err \<Rightarrow> (Inl (OtherError (''failed to decode public key: '' @ err)), w)
          | None \<Rightarrow> (case net_ParseURL net (si_ServerURL session) of
              Inl err \<Rightarrow> (Inl (OtherError (''failed to parse server URL: '' @ err)), w)
            | Inr u \<Rightarrow>
                let keepAlive0 = opt_KeepAliveInterval DefaultOptions;
                    nonce0 = (if si_CorrelationNonceLength session > 0 then si_CorrelationNonceLength session
                              else opt_CorrelationIdNonceLength DefaultOptions);
                    keepAlive = (case opts of None \<Rightarrow> keepAlive0 | Some opt \<Rightarrow>
                        if opt_DisableKeepAlive opt then 0
                        else if opt_KeepAliveInterval opt > 0 then opt_KeepAliveInterval opt
                        else keepAlive0);
                    nonce = (case opts of None \<Rightarrow> nonce0 | Some opt \<Rightarrow>
                        if opt_CorrelationIdNonceLength opt > 0 then opt_CorrelationIdNonceLength opt
                        else nonce0);
                    c = \<lparr>cl_serverURL = Some u, cl_correlationID = si_CorrelationID session,
                         cl_secretKey = si_SecretKey session, cl_token = si_Token session,
                         cl_publicKeyB64 = si_PublicKey session, cl_nonceLength = nonce,
                         cl_keepAliveInterval = keepAlive,
                         cl_disableHTTPFallback =
                           (case opts of None \<Rightarrow> False | Some opt \<Rightarrow> opt_DisableHTTPFallback opt),
                         cl_response = si_Response session\<rparr>
                in (case performRegistration net codec c u w of
                      (Some err, w1) \<Rightarrow>
                        (Inl (OtherError (''failed to re-register session: '' @ error_text err)), w1)
                    | (None, w1) \<Rightarrow> (Inr c, w1))))))"

section \<open>Properties\<close>

text \<open>
  What is assumed of the network and the URL parser: every request is logged, looking a host up
  sends none, and parsing an absolute URL keeps its scheme.
\<close>

definition net_logs :: "'w net \<Rightarrow> ('w \<Rightarrow> http_request list) \<Rightarrow> bool" where
  "net_logs net log \<longleftrightarrow> (\<forall>req w. log (snd (net_Do net req w)) = log w @ [req])
     \<and> (\<forall>h w. log (snd (net_LookupHost net h w)) = log w)"

definition parser_keeps_scheme :: "'w net \<Rightarrow> bool" where
  "parser_keeps_scheme net \<longleftrightarrow>
     (\<forall>s u. net_ParseURL net (''https://'' @ s) = Inr u \<longrightarrow> url_Scheme u = ''https'')"

text \<open>Between two worlds a list of requests is sent, each with a property.\<close>

definition sends :: "(http_request \<Rightarrow> bool) \<Rightarrow> ('w \<Rightarrow> http_request list) \<Rightarrow> 'w \<Rightarrow> 'w \<Rightarrow> bool" where
  "sends P log w w' \<longleftrightarrow> (\<exists>reqs. log w' = log w @ reqs \<and> list_all P reqs)"

lemma sends_refl [simp]: "sends P log w w"
  by (simp add: sends_def)

lemma sends_trans: "sends P log w w1 \<Longrightarrow> sends P log w1 w2 \<Longrightarrow> sends P log w w2"
  by (auto simp: sends_def)

lemma sends_lookup:
  "net_logs net log \<Longrightarrow> net_LookupHost net server w = (ips, w') \<Longrightarrow> sends P log w w'"
  unfolding net_logs_def sends_def by (intro exI [of _ "[]"]) (metis append_Nil2 list.pred_inject(1) snd_conv)

text \<open>The request of a registration with a server.\<close>

definition register_request :: "client \<Rightarrow> url \<Rightarrow> string \<Rightarrow> http_request" where
  "register_request c u data = \<lparr>req_Method = ''POST'', req_URL = url_String u @ ''/register'',
     req_Header = (''Content-Type'', ''application/json'') # auth_header c, req_Body = data\<rparr>"

lemma performRegistration_sends:
  assumes "net_logs net log" "performRegistration net codec c u w = (r, w')"
    and "\<And>data. P (register_request c u data)"
  shows "sends P log w w'"
proof -
  have do: "sends P log w (snd (net_Do net (register_request c u data) w))" for data
    using assms(1,3) unfolding net_logs_def sends_def by (intro exI [of _ "[register_request c u data]"]) simp
  with assms(2) show ?thesis
    by (auto simp: performRegistration_def Let_def simp flip: register_request_def
        split: sum.splits prod.splits if_splits dest!: arg_cong [where f = snd] sym [where t = w'])
qed

text \<open>
  What a client without the fallback may send and keep: HTTPS, or what a server was given as.
\<close>

definition given_http :: "'w net \<Rightarrow> string list \<Rightarrow> url \<Rightarrow> bool" where
  "given_http net servers u \<longleftrightarrow>
     (\<exists>server \<in> set servers. has_prefix server ''http://'' \<and> net_ParseURL net server = Inr u)"

definition may_send :: "'w net \<Rightarrow> string list \<Rightarrow> http_request \<Rightarrow> bool" where
  "may_send net servers q \<longleftrightarrow> has_prefix (req_URL q) ''https://''
     \<or> (\<exists>u. given_http net servers u \<and> req_URL q = url_String u @ ''/register'')"

definition may_keep :: "'w net \<Rightarrow> string list \<Rightarrow> client \<Rightarrow> client \<Rightarrow> bool" where
  "may_keep net servers c c' \<longleftrightarrow>
     (\<exists>u. c' = c\<lparr>cl_serverURL := Some u\<rparr> \<and> (url_Scheme u = ''https'' \<or> given_http net servers u))"

lemma tryRegisterServer_https:
  assumes net: "net_logs net log" "parser_keeps_scheme net"
    and "cl_disableHTTPFallback c" "server \<in> set servers"
    and reg: "tryRegisterServer net codec c server w = (r, c', w')"
  shows "sends (may_send net servers) log w w' \<and> (r = None \<longrightarrow> may_keep net servers c c')"
proof -
  define serverURL where "serverURL = (if \<not> has_prefix server ''http://'' \<and> \<not> has_prefix server ''https://''
      then ''https://'' @ server else server)"
  show ?thesis
  proof (cases "net_ParseURL net serverURL")
    case (Inl err)
    with reg show ?thesis by (auto simp: tryRegisterServer_def Let_def simp flip: serverURL_def)
  next
    case (Inr u)
    have u: "url_Scheme u = ''https'' \<or> given_http net servers u"
    proof (cases "has_prefix server ''http://''")
      case True
      then have "serverURL = server" by (simp add: serverURL_def)
      with True Inr assms(4) show ?thesis by (auto simp: given_http_def)
    next
      case False
      then obtain rest where "serverURL = ''https://'' @ rest"
        unfolding serverURL_def by (cases "has_prefix server ''https://''") (auto simp: has_prefix_iff)
      with Inr net(2) show ?thesis unfolding parser_keeps_scheme_def by blast
    qed
    obtain e w1 where p: "performRegistration net codec c u w = (e, w1)" by fastforce
    have "may_send net servers (register_request c u data)" for data
      using u by (auto simp: may_send_def register_request_def url_String_def has_prefix_def)
    from performRegistration_sends [where P = "may_send net servers", OF net(1) p this] have "sends (may_send net servers) log w w1" .
    then show ?thesis
      using reg Inr assms(3) p u
      by (cases e) (auto simp: tryRegisterServer_def Let_def may_keep_def simp flip: serverURL_def)
  qed
qed

lemma try_sends:
  assumes "net_logs net log" "tryRegisterServer net codec c server w = (r, c', w')"
  shows "sends (\<lambda>_. True) log w w' \<and> (r = None \<longrightarrow> True)"
proof -
  have one: "sends (\<lambda>_. True) log w1 w2" if "performRegistration net codec c u w1 = (e, w2)" for u w1 e w2
    using performRegistration_sends [where P = "\<lambda>_. True", OF assms(1) that] by simp
  with assms(2) show ?thesis
    by (auto simp: tryRegisterServer_def Let_def split: sum.splits option.splits prod.splits if_splits
        intro: one sends_trans [OF one one])
qed

text \<open>A loop over servers does what each attempt does; looking up sends nothing.\<close>

lemma register_loop_sends:
  assumes net: "net_logs net log"
    and tried: "\<And>server w r c' w'. server \<in> set servers \<Longrightarrow> tryRegisterServer net codec c server w = (r, c', w') \<Longrightarrow>
        sends P log w w' \<and> (r = None \<longrightarrow> Q c')"
    and loop: "register_loop net codec c servers failedIPs errs w = (r, c', w')"
  shows "sends P log w w' \<and> (r = None \<longrightarrow> Q c')"
  using tried loop
proof (induction servers arbitrary: failedIPs errs w)
  case Nil
  then show ?case by auto
next
  case (Cons server servers)
  note tried = Cons.prems(1) and look = sends_lookup [OF net, where P = P]
  have IH: "sends P log w1 w' \<and> (r = None \<longrightarrow> Q c')"
    if "register_loop net codec c servers fs es w1 = (r, c', w')" for fs es w1
    by (rule Cons.IH [OF _ that], rule tried) simp_all
  have attempt: "sends P log w1 w' \<and> (r = None \<longrightarrow> Q c')"
    if at: "(case tryRegisterServer net codec c server w1 of
             (None, c1, w1) \<Rightarrow> (None, c1, w1)
           | (Some err, c1, w1) \<Rightarrow>
               if err = ErrUnauthorized then (Some err, c1, w1)
               else (case net_LookupHost net server w1 of (ips, w2) \<Rightarrow>
                   register_loop net codec c servers
                     (case ips of Inr l \<Rightarrow> failedIPs @ l | Inl _ \<Rightarrow> failedIPs)
                     (errs @ [server @ '': '' @ error_text err]) w2)) = (r, c', w')" for w1
  proof -
    obtain e c1 w2 where e: "tryRegisterServer net codec c server w1 = (e, c1, w2)" by (rule prod_cases3)
    have first: "sends P log w1 w2 \<and> (e = None \<longrightarrow> Q c1)" using tried [OF _ e] by simp
    obtain ips w3 where ips: "net_LookupHost net server w2 = (ips, w3)" by fastforce
    show ?thesis
    proof (cases "e = None \<or> e = Some ErrUnauthorized")
      case True
      with at e first show ?thesis by auto
    next
      case False
      then obtain err where "e = Some err" "err \<noteq> ErrUnauthorized" by auto
      with at e ips have "register_loop net codec c servers
          (case ips of Inr l \<Rightarrow> failedIPs @ l | Inl _ \<Rightarrow> failedIPs)
          (errs @ [server @ '': '' @ error_text err]) w3 = (r, c', w')" by simp
      from IH [OF this] first look [OF ips] show ?thesis by (blast intro: sends_trans)
    qed
  qed
  show ?case
  proof (cases "failedIPs = []")
    case True
    from Cons.prems(2) [unfolded register_loop.simps Let_def if_P [OF True]] show ?thesis by (rule attempt)
  next
    case False
    obtain ips w1 where ips: "net_LookupHost net server w = (ips, w1)" by fastforce
    from Cons.prems(2) have "(\<exists>es. register_loop net codec c servers failedIPs es w1 = (r, c', w'))
        \<or> sends P log w1 w' \<and> (r = None \<longrightarrow> Q c')"
      unfolding register_loop.simps Let_def if_not_P [OF False] ips prod.case
      using attempt [of w1] by (auto split: sum.splits if_splits)
    with IH look [OF ips] show ?thesis by (blast intro: sends_trans)
  qed
qed

lemma rotated_servers:
  assumes "servers \<noteq> []"
  shows "map (\<lambda>i. servers ! ((start + i) mod length servers)) [0 ..< length servers]
      = servers ! (start mod length servers) # map (\<lambda>i. servers ! ((start + i) mod length servers)) [1 ..< length servers]"
    "set (map (\<lambda>i. servers ! ((start + i) mod length servers)) [0 ..< length servers]) \<subseteq> set servers"
  using assms by (auto simp: upt_conv_Cons)

text \<open>
  C39: a client with the HTTP fallback disabled never falls back.  While it registers, whatever the
  servers answer, every request it sends is over HTTPS, or goes to the register address of a server
  that was itself given as \<open>http://\<close>; and when it registers, the server URL it keeps is an HTTPS
  one, or one given as \<open>http://\<close>.
\<close>

theorem registration_https_only:
  assumes "net_logs net log" and "parser_keeps_scheme net" and "cl_disableHTTPFallback c" and "servers \<noteq> []"
    and "tryRegisterServers net codec start c servers w = (r, c', w')"
  shows "(\<exists>reqs. log w' = log w @ reqs \<and> list_all (\<lambda>q. has_prefix (req_URL q) ''https://''
           \<or> (\<exists>u. given_http net servers u \<and> req_URL q = url_String u @ ''/register'')) reqs)
     \<and> (r = None \<longrightarrow> (\<exists>u. c' = c\<lparr>cl_serverURL := Some u\<rparr>
           \<and> (url_Scheme u = ''https'' \<or> given_http net servers u)))"
proof -
  have "sends (may_send net servers) log w w' \<and> (r = None \<longrightarrow> may_keep net servers c c')"
    by (rule register_loop_sends [OF assms(1) _ assms(5) [unfolded tryRegisterServers_def Let_def]])
       (rule tryRegisterServer_https [OF assms(1-3)], use rotated_servers(2) [OF assms(4)] in blast, assumption)
  then show ?thesis by (simp add: sends_def may_send_def [abs_def] may_keep_def)
qed

text \<open>Registration sets the server URL and nothing else, and only when it succeeds.\<close>

lemma tryRegisterServer_client:
  "tryRegisterServer net codec c server w = (r, c', w') \<Longrightarrow>
     (r = None \<longrightarrow> (\<exists>u. c' = c\<lparr>cl_serverURL := Some u\<rparr>)) \<and> (r \<noteq> None \<longrightarrow> c' = c)"
  by (auto simp: tryRegisterServer_def Let_def split: sum.splits option.splits prod.splits if_splits)

lemma register_loop_client:
  "register_loop net codec c servers failedIPs errs w = (r, c', w') \<Longrightarrow>
     (r = None \<longrightarrow> (\<exists>u. c' = c\<lparr>cl_serverURL := Some u\<rparr>)) \<and> (r \<noteq> None \<longrightarrow> c' = c)"
proof (induction servers arbitrary: failedIPs errs w)
  case (Cons server servers)
  then show ?case
    by (fastforce simp: Let_def dest: tryRegisterServer_client Cons.IH
        split: sum.splits option.splits prod.splits if_splits)
qed auto

lemma tryRegisterServers_client:
  "tryRegisterServers net codec start c servers w = (r, c', w') \<Longrightarrow>
     (r = None \<longrightarrow> (\<exists>u. c' = c\<lparr>cl_serverURL := Some u\<rparr>)) \<and> (r \<noteq> None \<longrightarrow> c' = c)"
  unfolding tryRegisterServers_def Let_def by (rule register_loop_client)

text \<open>A network that logs its requests and answers each with one fixed response.\<close>

definition demo_parse :: "string \<Rightarrow> url result" where
  "demo_parse s = (if has_prefix s ''https://''
     then Inr \<lparr>url_Scheme = ''https'', url_Host = drop 8 s, url_Path = []\<rparr>
     else if has_prefix s ''http://''
     then Inr \<lparr>url_Scheme = ''http'', url_Host = drop 7 s, url_Path = []\<rparr>
     else Inl ''unsupported'')"

definition demo_net :: "http_response \<Rightarrow> http_request list net" where
  "demo_net resp = \<lparr>net_Do = (\<lambda>req w. (Inr resp, w @ [req])), net_LookupHost = (\<lambda>h w. (Inr [h], w)),
     net_ParseURL = demo_parse\<rparr>"

definition demo_codec :: codec where
  "demo_codec = \<lparr>marshal_register = (\<lambda>r. Inr (rr_CorrelationID r)),
     marshal_deregister = (\<lambda>r. Inr (dr_CorrelationID r)), decode_message = (\<lambda>s. Inr (Some s)),
     decode_poll = (\<lambda>s. Inl s), unmarshal_interaction = (\<lambda>s. None)\<rparr>"

definition demo_client :: client where
  "demo_client = \<lparr>cl_serverURL = None, cl_correlationID = ''abcd'', cl_secretKey = ''s'',
     cl_token = ''t'', cl_publicKeyB64 = ''p'', cl_nonceLength = 4, cl_keepAliveInterval = 0,
     cl_disableHTTPFallback = False, cl_response = None\<rparr>"

lemma demo_net_ok: "net_logs (demo_net resp) (\<lambda>w. w)" "parser_keeps_scheme (demo_net resp)"
  by (simp_all add: net_logs_def demo_net_def parser_keeps_scheme_def demo_parse_def has_prefix_def)

theorem registration_https_only_witness:
  "list_all (\<lambda>q. has_prefix (req_URL q) ''https://'' \<or> req_URL q = ''http://b/register'')
     (snd (snd (tryRegisterServers (demo_net \<lparr>resp_StatusCode = 500, resp_Body = []\<rparr>) demo_codec 5
        (demo_client\<lparr>cl_disableHTTPFallback := True\<rparr>) [''a'', ''http://b''] [])))"
proof -
  let ?net = "demo_net \<lparr>resp_StatusCode = 500, resp_Body = []\<rparr>"
  obtain r c' w' where run: "tryRegisterServers ?net demo_codec 5
      (demo_client\<lparr>cl_disableHTTPFallback := True\<rparr>) [''a'', ''http://b''] [] = (r, c', w')" by (rule prod_cases3)
  have "given_http ?net [''a'', ''http://b''] u \<Longrightarrow> url_String u @ ''/register'' = ''http://b/register''" for u
    by (auto simp: given_http_def has_prefix_def demo_net_def demo_parse_def url_String_def)
  with registration_https_only [OF demo_net_ok _ _ run] run show ?thesis
    by (force simp: list_all_iff)
qed

text \<open>
  C40: a refused registration is repeated in the clear.  Whenever the first server tried is reached
  over HTTPS and refuses with any status but 200, a rejected token included, and the fallback is not
  disabled, the client sends the same request again over plain HTTP, with the token when it has one.
  When the server rejects the token there too, registration ends with that error and no other server
  is asked; when it accepts, the client stays with the plain HTTP address.
\<close>

theorem unauthorized_retried_over_http:
  fixes c u data
  defines "https \<equiv> register_request c u data"
    and "http \<equiv> register_request c (u\<lparr>url_Scheme := ''http''\<rparr>) data"
  assumes "net_logs net log" and "servers \<noteq> []" and "\<not> cl_disableHTTPFallback c"
    and "server = servers ! (unat start mod length servers)" and "\<not> has_prefix server ''http://''"
    and "net_ParseURL net (if has_prefix server ''https://'' then server else ''https://'' @ server) = Inr u"
    and "url_Scheme u = ''https''"
    and "net_ParseURL net (req_URL https) = Inr v1" "net_ParseURL net (req_URL http) = Inr v2"
    and "marshal_register codec \<lparr>rr_PublicKey = cl_publicKeyB64 c, rr_SecretKey = cl_secretKey c,
           rr_CorrelationID = cl_correlationID c, rr_Response = cl_response c\<rparr> = Inr data"
    and "net_Do net https w = (Inr resp, w1)" "resp_StatusCode resp \<noteq> 200"
    and run: "tryRegisterServers net codec start c servers w = (r, c', w')"
  shows "(\<exists>rest. log w' = log w @ [https, http] @ rest
       \<and> (\<forall>resp2 w2. net_Do net http w1 = (Inr resp2, w2) \<longrightarrow>
           (resp_StatusCode resp2 = 401 \<longrightarrow> r = Some ErrUnauthorized \<and> c' = c \<and> rest = [])
           \<and> (resp_StatusCode resp2 = 200 \<and> decode_message codec (resp_Body resp2) = Inr (Some ''registration successful'')
               \<longrightarrow> r = None \<and> c' = c\<lparr>cl_serverURL := Some (u\<lparr>url_Scheme := ''http''\<rparr>)\<rparr> \<and> rest = [])))
     \<and> req_URL http = ''http://'' @ url_Host u @ url_Path u @ ''/register'' \<and> req_Body http = req_Body https
     \<and> (cl_token c \<noteq> [] \<longrightarrow> (''Authorization'', cl_token c) \<in> set (req_Header http))"
proof -
  let ?u = "u\<lparr>url_Scheme := ''http''\<rparr>"
  note net = assms(3)
  have first: "\<exists>err. performRegistration net codec c u w = (Some err, w1)"
    using assms(10,12-14) by (auto simp: performRegistration_def Let_def https_def register_request_def)
  obtain e2 w2 where second: "performRegistration net codec c ?u w1 = (e2, w2)" by fastforce
  obtain reply where reply: "net_Do net http w1 = (reply, w2)"
    using second assms(11,12)
    by (cases "net_Do net http w1")
       (auto simp: performRegistration_def Let_def http_def register_request_def split: sum.splits if_splits)
  have logs: "log w2 = log w @ [https, http]"
    using net reply assms(13) unfolding net_logs_def by (metis append_assoc append_Cons append_Nil snd_conv)
  have tried: "tryRegisterServer net codec c server w
      = (e2, if e2 = None then c\<lparr>cl_serverURL := Some ?u\<rparr> else c, w2)"
    using assms(5,7-9) first second by (cases e2) (auto simp: tryRegisterServer_def)
  have e2: "resp_StatusCode resp2 = 401 \<Longrightarrow> e2 = Some ErrUnauthorized"
    "resp_StatusCode resp2 = 200 \<Longrightarrow> decode_message codec (resp_Body resp2) = Inr (Some ''registration successful'')
       \<Longrightarrow> e2 = None" if "reply = Inr resp2" for resp2
    using second reply that assms(11,12)
    by (auto simp: performRegistration_def Let_def http_def register_request_def split: if_splits)
  define others where "others = map (\<lambda>i. servers ! ((unat start mod length servers + i) mod length servers)) [1 ..< length servers]"
  have loop: "register_loop net codec c (server # others) [] [] w = (r, c', w')"
    using run rotated_servers(1) [OF assms(4), of "unat start mod length servers"] assms(6)
    by (simp add: tryRegisterServers_def Let_def others_def)
  have any: "register_loop net codec c others fs es w3 = (r, c', w') \<Longrightarrow> sends (\<lambda>_. True) log w3 w'" for fs es w3
    using register_loop_sends [OF net, where P = "\<lambda>_. True" and Q = "\<lambda>_. True"] try_sends [OF net] by blast
  have stop: "(r, c', w') = (e2, if e2 = None then c\<lparr>cl_serverURL := Some ?u\<rparr> else c, w2)"
    if "e2 = None \<or> e2 = Some ErrUnauthorized"
    using loop that by (auto simp: tried)
  have "\<exists>rest. log w' = log w2 @ rest \<and> (e2 = None \<or> e2 = Some ErrUnauthorized \<longrightarrow> rest = [])"
  proof (cases "e2 = None \<or> e2 = Some ErrUnauthorized")
    case True
    with stop show ?thesis by simp
  next
    case False
    then obtain err where err: "e2 = Some err" "err \<noteq> ErrUnauthorized" by auto
    obtain ips w3 where ips: "net_LookupHost net server w2 = (ips, w3)" by fastforce
    with loop err have "register_loop net codec c others (case ips of Inr l \<Rightarrow> l | Inl _ \<Rightarrow> [])
        [server @ '': '' @ error_text err] w3 = (r, c', w')"
      by (simp add: tried cong: sum.case_cong)
    from any [OF this] sends_lookup [OF net ips] have "sends (\<lambda>_. True) log w2 w'" by (blast intro: sends_trans)
    with False show ?thesis by (auto simp: sends_def)
  qed
  then obtain rest where rest: "log w' = log w2 @ rest" "e2 = None \<or> e2 = Some ErrUnauthorized \<longrightarrow> rest = []" by blast
  have "req_URL http = ''http://'' @ url_Host u @ url_Path u @ ''/register''" "req_Body http = req_Body https"
    "cl_token c \<noteq> [] \<longrightarrow> (''Authorization'', cl_token c) \<in> set (req_Header http)"
    by (simp_all add: http_def https_def register_request_def url_String_def auth_header_def)
  with rest logs stop e2 reply show ?thesis by (intro conjI exI [of _ rest]) auto
qed

theorem unauthorized_retried_over_http_witness:
  "tryRegisterServers (demo_net \<lparr>resp_StatusCode = 401, resp_Body = []\<rparr>) demo_codec 0 demo_client [''srv'', ''b''] []
   = (Some ErrUnauthorized, demo_client,
      [\<lparr>req_Method = ''POST'', req_URL = ''https://srv/register'',
        req_Header = [(''Content-Type'', ''application/json''), (''Authorization'', ''t'')], req_Body = ''abcd''\<rparr>,
       \<lparr>req_Method = ''POST'', req_URL = ''http://srv/register'',
        req_Header = [(''Content-Type'', ''application/json''), (''Authorization'', ''t'')], req_Body = ''abcd''\<rparr>])"
proof -
  let ?resp = "\<lparr>resp_StatusCode = 401, resp_Body = []\<rparr>" and ?u = "\<lparr>url_Scheme = ''https'', url_Host = ''srv'', url_Path = []\<rparr>"
  let ?req = "register_request demo_client ?u ''abcd''"
  obtain r c' w' where run: "tryRegisterServers (demo_net ?resp) demo_codec 0 demo_client [''srv'', ''b''] [] = (r, c', w')"
    by (rule prod_cases3)
  have "req_URL ?req = ''https://srv/register''" "req_URL (register_request demo_client (?u\<lparr>url_Scheme := ''http''\<rparr>) ''abcd'')
      = ''http://srv/register''"
    by (simp_all add: register_request_def url_String_def)
  then have parsed: "\<exists>v. net_ParseURL (demo_net ?resp) (req_URL ?req) = Inr v"
    "\<exists>v. net_ParseURL (demo_net ?resp) (req_URL (register_request demo_client (?u\<lparr>url_Scheme := ''http''\<rparr>) ''abcd'')) = Inr v"
    by (simp_all add: demo_net_def demo_parse_def has_prefix_def)
  then obtain v1 v2 where parsed: "net_ParseURL (demo_net ?resp) (req_URL ?req) = Inr v1"
    "net_ParseURL (demo_net ?resp) (req_URL (register_request demo_client (?u\<lparr>url_Scheme := ''http''\<rparr>) ''abcd'')) = Inr v2"
    by blast
  have "\<not> cl_disableHTTPFallback demo_client" "net_Do (demo_net ?resp) q w = (Inr ?resp, w @ [q])"
    "marshal_register demo_codec \<lparr>rr_PublicKey = cl_publicKeyB64 demo_client, rr_SecretKey = cl_secretKey demo_client,
           rr_CorrelationID = cl_correlationID demo_client, rr_Response = cl_response demo_client\<rparr> = Inr ''abcd''" for q w
    by (simp_all add: demo_client_def demo_net_def demo_codec_def)
  from unauthorized_retried_over_http [OF demo_net_ok(1) _ this(1) _ _ _ _ parsed this(3,2) _ run, of "''srv''"] this(2)
  have "r = Some ErrUnauthorized \<and> c' = demo_client
      \<and> w' = [?req, register_request demo_client (?u\<lparr>url_Scheme := ''http''\<rparr>) ''abcd'']"
    by (fastforce simp: demo_net_def demo_parse_def has_prefix_def)
  with run show ?thesis by (simp add: register_request_def url_String_def auth_header_def demo_client_def)
qed

text \<open>
  A client that \<open>New\<close> returns is registered: it has a server URL, a nonce of at least four
  characters, and a correlation id of the length its server expects: the configured one (at least
  four) for servers of the user, 16 for the default servers and at least 20 for the fallback ones.
\<close>

theorem new_client_valid:
  assumes "New net codec opt keys fresh_id fresh_id2 uuid s1 s2 w = (Inr c, w')"
    and "\<And>n s. fresh_id n = Inr s \<Longrightarrow> int (length s) = n"
    and "\<And>n s. fresh_id2 n = Inr s \<Longrightarrow> int (length s) = n"
  shows "cl_serverURL c \<noteq> None \<and> 4 \<le> cl_nonceLength c \<and> 4 \<le> length (cl_correlationID c)
     \<and> cl_secretKey c = uuid"
proof -
  obtain cfg pk cid where cfg: "client_settings opt = Inr cfg" and keys: "keys = Inr pk"
    and cid: "fresh_id (set_idLength cfg) = Inr cid"
    using assms(1) by (auto simp: New_def split: sum.splits)
  have len: "4 \<le> set_nonceLength cfg" "4 \<le> set_idLength cfg"
    using cfg by (auto simp: client_settings_def Let_def defaultServerCorrelationIdLength_def
        DefaultOptions_def defaultServerNonceLength_def split: if_splits)
  define c0 where "c0 = \<lparr>cl_serverURL = None, cl_correlationID = cid, cl_secretKey = uuid,
     cl_token = opt_Token opt, cl_publicKeyB64 = pk, cl_nonceLength = set_nonceLength cfg,
     cl_keepAliveInterval = set_keepAlive cfg, cl_disableHTTPFallback = opt_DisableHTTPFallback opt,
     cl_response = opt_Response opt\<rparr>"
  obtain e1 c1 w1 where first: "tryRegisterServers net codec s1 c0 (set_servers cfg) w = (e1, c1, w1)"
    by (cases "tryRegisterServers net codec s1 c0 (set_servers cfg) w")
  note fc = tryRegisterServers_client [OF first]
  have cid4: "4 \<le> length cid" using assms(2) [OF cid] len by simp
  show ?thesis
  proof (cases e1)
    case None
    with assms(1) first fc len cid4 cfg keys cid show ?thesis
      by (auto simp: New_def Let_def c0_def)
  next
    case (Some err)
    then have "c1 = c0" using fc by simp
    with assms(1) first Some cfg keys cid obtain newID e2 c2 w2 where
      new: "newID = cid \<or> fresh_id2 fallbackCorrelationIdLength = Inr newID"
      and second: "tryRegisterServers net codec s2 (c0\<lparr>cl_correlationID := newID,
           cl_nonceLength := max (cl_nonceLength c0) fallbackMinNonceLength\<rparr>) fallbackServerURLs w1
         = (e2, c2, w2)" "e2 = None" "c = c2"
      by (auto simp: New_def Let_def simp flip: c0_def split: if_splits sum.splits prod.splits option.splits)
        (auto simp: c0_def)
    have "4 \<le> length newID"
      using new cid4 assms(3) [of fallbackCorrelationIdLength newID] by (auto simp: fallbackCorrelationIdLength_def)
    with tryRegisterServers_client [OF second(1)] second(2,3) len show ?thesis
      by (auto simp: c0_def)
  qed
qed

definition demo_fresh_id :: "int \<Rightarrow> string result" where
  "demo_fresh_id n = (if n < 0 then Inl [] else Inr (replicate (nat n) CHR ''a''))"

definition demo_ok :: "http_request list net" where
  "demo_ok = demo_net \<lparr>resp_StatusCode = 200, resp_Body = ''registration successful''\<rparr>"

lemma demo_register_ok:
  "url_Scheme u \<in> {''https'', ''http''} \<Longrightarrow> \<exists>w'. performRegistration demo_ok demo_codec c u w = (None, w')"
  by (auto simp: performRegistration_def demo_ok_def demo_net_def demo_codec_def demo_parse_def
      has_prefix_def url_String_def)

lemma zero_opts: "opt_Token zero_Options = []" "opt_DisableHTTPFallback zero_Options = False"
  "opt_Response zero_Options = None"
  by (simp_all add: zero_Options_def)

lemma demo_settings: "client_settings zero_Options = Inr \<lparr>set_servers = opt_ServerURLs DefaultOptions,
     set_userProvided = False, set_idLength = 16, set_nonceLength = 4, set_keepAlive = 60 * second\<rparr>"
  by (simp add: client_settings_def zero_Options_def DefaultOptions_def
      defaultServerCorrelationIdLength_def defaultServerNonceLength_def)

lemma demo_try_ok:
  "\<exists>c' w'. tryRegisterServers demo_ok demo_codec 0 c (opt_ServerURLs DefaultOptions) w = (None, c', w')"
proof -
  let ?u = "\<lparr>url_Scheme = ''https'', url_Host = ''oscar.oastsrv.net'', url_Path = []\<rparr>"
  obtain w' where "performRegistration demo_ok demo_codec c ?u w = (None, w')"
    using demo_register_ok [of ?u c w] by auto
  then have "tryRegisterServer demo_ok demo_codec c ''oscar.oastsrv.net'' w
      = (None, c\<lparr>cl_serverURL := Some ?u\<rparr>, w')"
    by (simp add: tryRegisterServer_def demo_ok_def demo_net_def demo_parse_def has_prefix_def)
  then show ?thesis
    by (simp add: tryRegisterServers_def DefaultOptions_def upt_conv_Cons)
qed

theorem new_client_valid_witness:
  "\<exists>c w'. New demo_ok demo_codec zero_Options (Inr ''p'') demo_fresh_id demo_fresh_id ''u'' 0 0 [] = (Inr c, w')
     \<and> cl_serverURL c \<noteq> None \<and> 4 \<le> length (cl_correlationID c)"
proof -
  define c0 where "c0 = \<lparr>cl_serverURL = None, cl_correlationID = replicate 16 CHR ''a'', cl_secretKey = ''u'',
     cl_token = [], cl_publicKeyB64 = ''p'', cl_nonceLength = 4, cl_keepAliveInterval = 60 * second,
     cl_disableHTTPFallback = False, cl_response = None\<rparr>"
  obtain c w' where "tryRegisterServers demo_ok demo_codec 0 c0 (opt_ServerURLs DefaultOptions) [] = (None, c, w')"
    using demo_try_ok by blast
  then have new: "New demo_ok demo_codec zero_Options (Inr ''p'') demo_fresh_id demo_fresh_id ''u'' 0 0 [] = (Inr c, w')"
    by (simp add: New_def demo_settings demo_fresh_id_def Let_def zero_opts c0_def)
  have ids: "\<And>n s. demo_fresh_id n = Inr s \<Longrightarrow> int (length s) = n"
    by (auto simp: demo_fresh_id_def split: if_splits)
  from new_client_valid [OF new ids ids] new show ?thesis by blast
qed

text \<open>
  Saving a session and loading it gives back the same client (with default behaviour settings):
  correlation id, secret, token, keys, nonce length, response and server; it re-registers once,
  with exactly the credentials the saved client registered with.
\<close>

theorem session_roundtrip:
  assumes "cl_serverURL c = Some u" and "net_ParseURL net (url_String u) = Inr u"
    and "private_ok der = None" and "public_ok (cl_publicKeyB64 c) = None" and "0 < cl_nonceLength c"
    and "performRegistration net codec c u w = (None, w')"
  shows "\<exists>si. SaveSession_info der c = Some si
     \<and> LoadSession net codec (Inr si) private_ok public_ok None w
        = (Inr (c\<lparr>cl_keepAliveInterval := opt_KeepAliveInterval DefaultOptions,
                  cl_disableHTTPFallback := False\<rparr>), w')"
proof -
  define c' where "c' = c\<lparr>cl_keepAliveInterval := opt_KeepAliveInterval DefaultOptions,
                  cl_disableHTTPFallback := False\<rparr>"
  have f: "cl_publicKeyB64 c' = cl_publicKeyB64 c" "cl_secretKey c' = cl_secretKey c"
    "cl_correlationID c' = cl_correlationID c" "cl_response c' = cl_response c" "auth_header c' = auth_header c"
    by (simp_all add: c'_def auth_header_def)
  have "performRegistration net codec c' u w = performRegistration net codec c u w"
    unfolding performRegistration_def f by (rule refl)
  then have "performRegistration net codec c' u w = (None, w')" using assms(6) by simp
  then show ?thesis
    using assms(1-5)
    by (cases c) (simp add: SaveSession_info_def LoadSession_def Let_def c'_def)
qed

theorem session_roundtrip_witness:
  "\<exists>si c'. SaveSession_info ''der'' (demo_client\<lparr>cl_serverURL :=
          Some \<lparr>url_Scheme = ''https'', url_Host = ''h'', url_Path = []\<rparr>\<rparr>) = Some si
     \<and> fst (LoadSession demo_ok demo_codec (Inr si) (\<lambda>_. None) (\<lambda>_. None) None []) = Inr c'
     \<and> cl_correlationID c' = ''abcd''"
proof -
  let ?u = "\<lparr>url_Scheme = ''https'', url_Host = ''h'', url_Path = []\<rparr>"
  obtain w' where "performRegistration demo_ok demo_codec (demo_client\<lparr>cl_serverURL := Some ?u\<rparr>) ?u []
      = (None, w')" using demo_register_ok [of ?u] by fastforce
  from session_roundtrip [OF _ _ _ _ _ this, of "\<lambda>_. None" "''der''" "\<lambda>_. None"]
  show ?thesis
    by (auto simp: demo_ok_def demo_net_def demo_parse_def has_prefix_def url_String_def demo_client_def)
qed

end
