(* ===== verification/End_To_End.thy ===== *)
theory End_To_End
  imports Http_Capture Client
begin

text \<open>
  Client and server together.  The network of the client is the server's own handler: a request of
  the client is put on the wire, handled, and answered with what the handler writes.  The theorem
  follows one interaction from the request that causes it to the callback of the client that
  registered the id.
\<close>

section \<open>The wire\<close>

text \<open>
  What \<open>net/http\<close> makes of a client's request at the server: the URL split into scheme, host, path
  and query, the headers under their canonical names.
\<close>

definition wire_request :: "string \<Rightarrow> http_request \<Rightarrow> request" where
  "wire_request remote q =
     (let rest = drop 3 (dropWhile (\<lambda>c. c \<noteq> CHR '':'') (req_URL q));
          uri = dropWhile (\<lambda>c. c \<noteq> CHR ''/'') rest;
          path = takeWhile (\<lambda>c. c \<noteq> CHR ''?'') uri
      in \<lparr>rq_Method = req_Method q, rq_RequestURI = uri, rq_ProtoMajor = 1, rq_ProtoMinor = 1,
          rq_EscapedPath = path, rq_Path = path, rq_RawQuery = drop 1 (dropWhile (\<lambda>c. c \<noteq> CHR ''?'') uri),
          rq_Host = takeWhile (\<lambda>c. c \<noteq> CHR ''/'') rest,
          rq_Header = map (\<lambda>(k, v). (canonical_key k, [v])) (req_Header q), rq_TransferEncoding = [],
          rq_Body = req_Body q, rq_RemoteAddr = remote, rq_TLS = has_prefix (req_URL q) ''https://''\<rparr>)"

definition server_net :: "'db env \<Rightarrow> string \<Rightarrow> (string \<Rightarrow> url result) \<Rightarrow> 'db server net" where
  "server_net e remote parse = \<lparr>
     net_Do = (\<lambda>q s. case Handler e (wire_request remote q) newResponseRecorder s of
        (w, s1) \<Rightarrow> (Inr \<lparr>resp_StatusCode = rec_statusCode w, resp_Body = rec_body w\<rparr>, s1)),
     net_LookupHost = (\<lambda>h s. (Inr [], s)), net_ParseURL = parse\<rparr>"

definition poll_url :: "url \<Rightarrow> client \<Rightarrow> string" where
  "poll_url u c = url_String u @ ''/poll?id='' @ cl_correlationID c @ ''&secret='' @ cl_secretKey c"

text \<open>A server URL as the client keeps it, and ids and secrets that need no escaping.\<close>

definition plain_url :: "url \<Rightarrow> bool" where
  "plain_url u \<longleftrightarrow> url_Scheme u \<in> {''http'', ''https''} \<and> CHR ''/'' \<notin> set (url_Host u) \<and> url_Path u = []"

definition plain_client :: "client \<Rightarrow> bool" where
  "plain_client c \<longleftrightarrow> list_all unreserved (cl_correlationID c) \<and> list_all unreserved (cl_secretKey c)"

lemma query_escape_unreserved: "list_all unreserved s \<Longrightarrow> query_escape s = s"
  by (induction s) (auto simp: query_escape_def escape_char_def)

lemma poll_query:
  assumes "plain_client c"
  shows "parse_query (''id='' @ cl_correlationID c @ ''&secret='' @ cl_secretKey c)
     = [(''id'', cl_correlationID c), (''secret'', cl_secretKey c)]"
proof -
  have "query_escape ''id'' = ''id''" "query_escape ''secret'' = ''secret''" by code_simp+
  then have "''id='' @ cl_correlationID c @ ''&secret='' @ cl_secretKey c
      = encode_pairs [(''id'', cl_correlationID c), (''secret'', cl_secretKey c)]"
    using assms by (simp add: encode_pairs_def encode_pair_def plain_client_def query_escape_unreserved)
  then show ?thesis by (simp only: parse_encode_pairs)
qed

definition poll_request :: "url \<Rightarrow> client \<Rightarrow> http_request" where
  "poll_request u c = \<lparr>req_Method = ''GET'', req_URL = poll_url u c, req_Header = auth_header c, req_Body = []\<rparr>"

lemma wire_poll:
  assumes "plain_url u" and "plain_client c"
  shows "rq_Method (wire_request remote (poll_request u c)) = ''GET''"
    "find_route b (wire_request remote (poll_request u c)) = RoutePoll"
    "rq_query (wire_request remote (poll_request u c))
       = [(''id'', cl_correlationID c), (''secret'', cl_secretKey c)]"
    "header_Get (rq_Header (wire_request remote (poll_request u c))) ''Authorization'' = cl_token c"
proof -
  define tl where "tl = ''id='' @ cl_correlationID c @ ''&secret='' @ cl_secretKey c"
  let ?rest = "url_Host u @ ''/poll?'' @ tl"
  have "poll_url u c = url_Scheme u @ ''://'' @ ?rest"
    using assms(1) by (simp add: poll_url_def url_String_def plain_url_def tl_def)
  moreover have "CHR '':'' \<notin> set (url_Scheme u)" using assms(1) by (auto simp: plain_url_def)
  ultimately have "dropWhile (\<lambda>x. x \<noteq> CHR '':'') (poll_url u c) = ''://'' @ ?rest"
    by (auto simp: dropWhile_append3)
  then have rest: "drop 3 (dropWhile (\<lambda>x. x \<noteq> CHR '':'') (poll_url u c)) = ?rest" by simp
  have uri: "dropWhile (\<lambda>x. x \<noteq> CHR ''/'') ?rest = ''/poll?'' @ tl"
    using assms(1) by (auto simp: dropWhile_append3 plain_url_def)
  show "rq_Method (wire_request remote (poll_request u c)) = ''GET''"
    by (simp add: wire_request_def poll_request_def Let_def)
  have path: "cleanPath ''/poll'' = ''/poll''" by code_simp
  show "find_route b (wire_request remote (poll_request u c)) = RoutePoll"
    unfolding wire_request_def poll_request_def Let_def http_request.select_convs rest uri
    by (simp add: find_route_def match_route_def path)
  show "rq_query (wire_request remote (poll_request u c))
       = [(''id'', cl_correlationID c), (''secret'', cl_secretKey c)]"
    using poll_query [OF assms(2)]
    unfolding wire_request_def poll_request_def Let_def http_request.select_convs rest uri
    by (simp add: rq_query_def tl_def)
  have "canonical_key ''Authorization'' = ''Authorization''" by code_simp
  then show "header_Get (rq_Header (wire_request remote (poll_request u c))) ''Authorization'' = cl_token c"
    by (simp add: wire_request_def poll_request_def Let_def auth_header_def header_Get_def header_values_def)
qed

section \<open>The poll\<close>

text \<open>
  What the two ends rely on: base64 data survives the JSON of a poll response, and the private key
  undoes the public one on the session's key.
\<close>

definition poll_codec :: "'db env \<Rightarrow> codec \<Rightarrow> bool" where
  "poll_codec e codec \<longleftrightarrow> (\<forall>xs k. \<exists>json.
     env_json e (PollBody \<lparr>pr_Data = map b64_encode xs, pr_AESKey = b64_encode k, pr_Extra = [], pr_TLDData = []\<rparr>) = Inr json
     \<and> decode_poll codec json
         = Inr \<lparr>poll_Data = map b64_encode xs, poll_Extra = [], poll_AESKey = b64_encode k, poll_TLDData = []\<rparr>)"

definition keys_work :: "'db env \<Rightarrow> (bytes \<Rightarrow> bytes result) \<Rightarrow> account \<Rightarrow> bool" where
  "keys_work e rsa_decrypt acc \<longleftrightarrow> aes_ok (env_aes e) \<and> length (acc_key acc) \<in> {16, 24, 32}
     \<and> (\<exists>enc. env_rsa_encrypt e (acc_public acc) (acc_key acc) = Inr enc \<and> rsa_decrypt enc = Inr (acc_key acc))"

lemma decrypt_for:
  assumes "aes_ok aes" "length (acc_key acc) \<in> {16, 24, 32}" "length iv = aes_BlockSize"
    and "rsa_decrypt enc = Inr (acc_key acc)"
  shows "decryptInteraction aes rsa_decrypt (b64_encode enc) (b64_encode (encrypt_for aes acc iv x)) = Inr x"
  using assms ctr_xor_involution [of "aes (acc_key acc)" iv x]
  by (simp add: decryptInteraction_def encrypt_for_def NewCipher_def aes_ok_def)

lemma Handler_poll:
  assumes "find_route (Metrics (sv_cfg s)) r = RoutePoll" and "rq_Method r = ''GET''"
    and "Auth (sv_cfg s) \<longrightarrow> header_Get (rq_Header r) ''Authorization'' = Token (sv_cfg s)"
  obtains w' where "Handler e r newResponseRecorder s = handlePoll e (size_limited s r) w' s"
    "\<not> rec_wroteHeader w'" "rec_body w' = []"
proof -
  have d: "Handler e r newResponseRecorder s
      = wrapAPI (handlePoll e) (size_limited s r) newResponseRecorder s"
    using assms(1) by (simp add: Handler_dispatch dispatch_def)
  obtain w' where "wrapAPI (handlePoll e) (size_limited s r) newResponseRecorder s
      = handlePoll e (size_limited s r) w' s" "\<not> rec_wroteHeader w'" "rec_body w' = rec_body newResponseRecorder"
    by (rule wrapAPI_passed [of s "size_limited s r" newResponseRecorder "handlePoll e"])
       (use assms in simp_all)
  with that [of w'] d show thesis by simp
qed

text \<open>A poll over the wire hands the client what its account held, and then the account is empty.\<close>

lemma poll_delivers:
  assumes good: "storage_good contents e (sv_storage s)"
    and acc: "account_at contents e s (cl_correlationID c) = Some acc"
    and sk: "acc_secret acc = go_bytes (cl_secretKey c)"
    and n: "length (cl_correlationID c) = nat (CorrelationIdLength (sv_cfg s))" "0 \<le> CorrelationIdLength (sv_cfg s)"
    and auth: "Auth (sv_cfg s) \<longrightarrow> cl_token c = Token (sv_cfg s)"
    and shared: "extraBucket s = None" "\<not> Wildcard (sv_cfg s)"
    and c: "cl_serverURL c = Some u" "plain_url u" "plain_client c" "\<exists>pu. parse (poll_url u c) = Inr pu"
    and codec: "poll_codec e codec" and pending: "acc_pending acc \<noteq> []"
    and enc: "env_rsa_encrypt e (acc_public acc) (acc_key acc) = Inr enc" and key: "acc_key acc \<noteq> []"
  obtains s' where
    "pollInteractions (server_net e remote parse) codec decrypt c s
       = (None, decrypt_all codec decrypt (b64_encode enc) (map b64_encode (acc_pending acc)), s')"
    "account_at contents e s' = (account_at contents e s)(cl_correlationID c \<mapsto> acc\<lparr>acc_pending := []\<rparr>)"
proof -
  let ?r = "wire_request remote (poll_request u c)"
  note wire = wire_poll [OF c(2,3), where remote = remote]
  obtain w' where H: "Handler e ?r newResponseRecorder s = handlePoll e (size_limited s ?r) w' s"
    "\<not> rec_wroteHeader w'" "rec_body w' = []"
    by (rule Handler_poll [OF wire(2) wire(1), where s = s and e = e]) (use auth in \<open>auto simp: wire(4)\<close>)
  have q: "query_Get (rq_query ?r) ''id'' = cl_correlationID c" "query_Get (rq_query ?r) ''secret'' = cl_secretKey c"
    by (simp_all add: wire(3) query_Get_def query_values_def)
  have cid: "check_id s (query_Get (rq_query (size_limited s ?r)) ''id'') = Inr (cl_correlationID c)"
    using n by (simp add: q check_id_Inr)
  have secret: "acc_secret acc = go_bytes (query_Get (rq_query (size_limited s ?r)) ''secret'')"
    by (simp add: q sk)
  have wrapped: "EncryptAESKey (env_rsa_encrypt e) (acc_key acc) (acc_public acc) = Inr (b64_encode enc)"
    using enc key by (simp add: EncryptAESKey_def)
  obtain extra tld s' where
    poll: "handlePoll e (size_limited s ?r) w' s = (writeJSON e 200 (PollBody \<lparr>pr_Data = map b64_encode (acc_pending acc),
        pr_AESKey = (if acc_pending acc = [] then [] else b64_encode enc), pr_Extra = extra, pr_TLDData = tld\<rparr>) w', s')"
    and "storage_good contents e (sv_storage s')"
    and s': "account_at contents e s' = (account_at contents e s)(cl_correlationID c \<mapsto> acc\<lparr>acc_pending := []\<rparr>)"
    and none: "extraBucket s = None \<longrightarrow> extra = []" "\<not> Wildcard (sv_cfg s) \<longrightarrow> tld = []"
    by (rule handlePoll_live [OF good cid acc secret wrapped, of w'])
  let ?body = "\<lparr>pr_Data = map b64_encode (acc_pending acc), pr_AESKey = b64_encode enc, pr_Extra = [], pr_TLDData = []\<rparr>"
  obtain json where json: "env_json e (PollBody ?body) = Inr json" "decode_poll codec json
      = Inr \<lparr>poll_Data = map b64_encode (acc_pending acc), poll_Extra = [], poll_AESKey = b64_encode enc, poll_TLDData = []\<rparr>"
    using codec unfolding poll_codec_def by blast
  have "Handler e ?r newResponseRecorder s = (writeJSON e 200 (PollBody ?body) w', s')"
    using H(1) poll none shared pending by simp
  moreover have "rec_statusCode (writeJSON e 200 (PollBody ?body) w') = 200"
    "rec_body (writeJSON e 200 (PollBody ?body) w') = json"
    using writeJSON_status [OF json(1) H(2), of 200] H(3) by simp_all
  ultimately have sent: "net_Do (server_net e remote parse) (poll_request u c) s
      = (Inr \<lparr>resp_StatusCode = 200, resp_Body = json\<rparr>, s')"
    by (simp add: server_net_def)
  obtain pu where pu: "net_ParseURL (server_net e remote parse) (poll_url u c) = Inr pu"
    using c(4) by (auto simp: server_net_def)
  have "pollInteractions (server_net e remote parse) codec decrypt c s
       = (None, decrypt_all codec decrypt (b64_encode enc) (map b64_encode (acc_pending acc)), s')"
    unfolding pollInteractions_def c(1) option.case Let_def poll_url_def [symmetric] poll_request_def [symmetric]
      pu sent sum.case prod.case
    by (simp add: json(2) unmarshal_all_def)
  from this s' show thesis by (rule that)
qed

section \<open>From the request to the callback\<close>

text \<open>What the client makes of the interactions it had not polled yet.\<close>

definition undelivered ::
  "codec \<Rightarrow> block_cipher \<Rightarrow> (bytes \<Rightarrow> bytes result) \<Rightarrow> bytes \<Rightarrow> account \<Rightarrow> Interaction list" where
  "undelivered codec aes rsa_decrypt enc acc =
     decrypt_all codec (decryptInteraction aes rsa_decrypt) (b64_encode enc) (map b64_encode (acc_pending acc))"

lemma decrypt_all_append: "decrypt_all codec d k (xs @ ys) = decrypt_all codec d k xs @ decrypt_all codec d k ys"
  by (simp add: decrypt_all_def)

text \<open>
  C1: an interaction reaches the client that owns the id.  A host the client handed out is requested
  from the server over HTTP; the next poll of the client, over the same server, is answered, and its
  callback gets, after what was still undelivered, the interaction of that request: protocol, raw
  request, raw response, peer, time, id and full id as the server recorded them.  The account is empty
  afterwards.  This goes through the router, the middleware chains, the matcher, encryption, storage,
  the poll handler, the JSON codec and the client's decryption.
\<close>

theorem interaction_reaches_client:
  assumes good: "storage_good contents e (sv_storage s)" and env: "capture_env e js iv"
    and acc: "account_at contents e s (cl_correlationID c) = Some acc" "acc_secret acc = go_bytes (cl_secretKey c)"
    and id: "isCIDBase32 (cl_correlationID c)" "CorrelationIdLength (sv_cfg s) = int (length (cl_correlationID c))"
    and host: "stripHostPort (rq_Host r) = Domain (cl_correlationID c) n domain random"
      "length random = n" "3 \<le> n" "matchedDomain s (to_lower (stripHostPort (rq_Host r))) = Some d" "d \<noteq> []"
    and route: "find_route (Metrics (sv_cfg s)) r = RouteDefault"
    and cfg: "\<not> ScanEverywhere (sv_cfg s)" "extraBucket s = None" "\<not> Wildcard (sv_cfg s)"
      "Auth (sv_cfg s) \<longrightarrow> cl_token c = Token (sv_cfg s)"
    and client: "cl_serverURL c = Some u" "plain_url u" "plain_client c" "\<exists>pu. parse (poll_url u c) = Inr pu"
    and codec: "poll_codec e codec" "unmarshal_interaction codec
        (trim_right_func (\<lambda>ch. ch \<in> set [CHR '' '', CHR 0x09, CHR 0x0D, CHR 0x0A])
          (js (stored_interaction e r s (cl_correlationID c))))
        = Some (stored_interaction e r s (cl_correlationID c))"
    and fits: "\<And>cid. record_fits (Inr (iv cid)) (go_bytes (js (stored_interaction e r s cid)))"
      "length (iv (cl_correlationID c)) = aes_BlockSize"
    and keys: "aes_ok (env_aes e)" "length (acc_key acc) \<in> {16, 24, 32}"
      "env_rsa_encrypt e (acc_public acc) (acc_key acc) = Inr enc" "rsa_decrypt enc = Inr (acc_key acc)"
  shows "\<exists>s2. pollInteractions (server_net e remote parse) codec (decryptInteraction (env_aes e) rsa_decrypt) c
       (snd (Handler e r newResponseRecorder s))
     = (None, undelivered codec (env_aes e) rsa_decrypt enc acc @ [stored_interaction e r s (cl_correlationID c)], s2)
     \<and> account_at contents e s2 (cl_correlationID c) = Some (acc\<lparr>acc_pending := []\<rparr>)"
proof -
  let ?cid = "cl_correlationID c" and ?host = "to_lower (stripHostPort (rq_Host r))"
  let ?x = "encrypt_for (env_aes e) acc (iv ?cid) (go_bytes (js (stored_interaction e r s ?cid)))"
  obtain label where "label \<in> set (split_on CHR ''.'' (to_lower (stripHostPort (rq_Host r))))"
    "occurs_in_label (length ?cid) ?cid label"
    by (rule domain_occurs [OF id(1) host(2,3) disjI1 [OF host(1)]])
  then have named: "?cid \<in> set (candidates (nat (CorrelationIdLength (sv_cfg s))) ?host)"
    using id(2) by (auto simp: candidates_occurs)
  obtain s1 where s1: "Handler e r newResponseRecorder s = (forward_response (http_recorded e r s) newResponseRecorder, s1)"
    "storage_good contents e (sv_storage s1)" "sv_cfg s1 = sv_cfg s" "extraBucket s1 = extraBucket s"
    "account_at contents e s1 ?cid = Some (acc\<lparr>acc_pending := acc_pending acc @ [?x]\<rparr>)"
    by (rule http_request_captured [OF good env route cfg(1) host(4,5) fits(1)])
       (use named acc(1) in \<open>auto simp: live_at_def\<close>)
  obtain s2 where poll: "pollInteractions (server_net e remote parse) codec (decryptInteraction (env_aes e) rsa_decrypt) c s1
      = (None, decrypt_all codec (decryptInteraction (env_aes e) rsa_decrypt) (b64_encode enc)
           (map b64_encode (acc_pending acc @ [?x])), s2)"
    "account_at contents e s2 = (account_at contents e s1)(?cid \<mapsto> acc\<lparr>acc_pending := []\<rparr>)"
    by (rule poll_delivers [OF s1(2,5), where u = u and parse = parse and codec = codec and enc = enc
        and remote = remote and decrypt = "decryptInteraction (env_aes e) rsa_decrypt"])
       (use acc(2) id(2) cfg client codec(1) keys s1(3,4) in auto)
  have "decrypt_all codec (decryptInteraction (env_aes e) rsa_decrypt) (b64_encode enc) [b64_encode ?x]
      = [stored_interaction e r s ?cid]"
    using decrypt_for [where rsa_decrypt = rsa_decrypt and enc = enc, OF keys(1,2) fits(2) keys(4)] codec(2) by (simp add: decrypt_all_def)
  then have "decrypt_all codec (decryptInteraction (env_aes e) rsa_decrypt) (b64_encode enc)
           (map b64_encode (acc_pending acc @ [?x]))
      = undelivered codec (env_aes e) rsa_decrypt enc acc @ [stored_interaction e r s ?cid]"
    by (simp add: decrypt_all_append undelivered_def)
  with poll show ?thesis by (simp add: s1(1))
qed

section \<open>A concrete run\<close>

text \<open>The wire format of the run is that of query strings, which is proved to round-trip.\<close>

definition wire_env :: "(bytes \<Rightarrow> bytes option) env" where
  "wire_env = demo_env\<lparr>env_json := \<lambda>v. case v of
     PollBody p \<Rightarrow> Inr (encode_pairs ((''aes_key'', pr_AESKey p) # map (\<lambda>d. (''data'', d)) (pr_Data p)))
   | _ \<Rightarrow> Inr []\<rparr>"

definition wire_codec :: "Interaction \<Rightarrow> codec" where
  "wire_codec i = demo_codec\<lparr>decode_poll := \<lambda>t. Inr \<lparr>poll_Data = query_values (parse_query t) ''data'',
       poll_Extra = [], poll_AESKey = query_Get (parse_query t) ''aes_key'', poll_TLDData = []\<rparr>,
     unmarshal_interaction := \<lambda>t. if t = ''{}'' then Some i else None\<rparr>"

definition wire_client :: client where
  "wire_client = demo_client\<lparr>cl_serverURL := Some \<lparr>url_Scheme = ''http'', url_Host = ''d.e'', url_Path = []\<rparr>,
     cl_correlationID := ''c'', cl_secretKey := ''k'', cl_token := []\<rparr>"

definition wire_visit :: request where
  "wire_visit = (demo_request ''GET'' ''/a'' [])\<lparr>rq_Host := Domain ''c'' 4 ''d.e'' [1, 2, 3, 4]\<rparr>"

lemma wire_poll_codec: "poll_codec wire_env (wire_codec i)"
proof -
  have "query_values (map (\<lambda>d. (''data'', d)) ds) ''data'' = ds" for ds
    by (induction ds) (simp_all add: query_values_def)
  then show ?thesis
    by (simp add: poll_codec_def wire_env_def wire_codec_def parse_encode_pairs query_Get_def)
       (simp add: query_values_def)
qed

lemma wire_env_simps [simp]:
  "env_now wire_env = 6" "env_aes wire_env = demo_cipher" "env_leveldb wire_env = map_leveldb"
  "env_rsa_encrypt wire_env k m = Inr m"
  by (simp_all add: wire_env_def demo_env_def)

lemma wire_capture_env: "capture_env wire_env (\<lambda>i. ''{}'') (\<lambda>c. replicate 16 1)"
  by (simp add: wire_env_def capture_env_def demo_env_def serve_content_ok_def)

lemma wire_server:
  "sv_cfg demo_server = demo_config" "CorrelationIdLength demo_config = 1" "Domains demo_config = [''d.e'']"
  "\<not> ScanEverywhere demo_config" "\<not> Wildcard demo_config" "\<not> Auth demo_config" "\<not> Metrics demo_config"
  "extraBucket demo_server = None"
  by (simp_all add: demo_server_def demo_config_def zero_Config_def)

theorem interaction_reaches_client_witness:
  "\<exists>i s2. pollInteractions (server_net wire_env ''192.0.2.9:80'' demo_parse) (wire_codec i)
       (decryptInteraction demo_cipher Inr) wire_client (snd (Handler wire_env wire_visit newResponseRecorder demo_server))
     = (None, [i], s2) \<and> InteractionUniqueID i = ''c'' \<and> Protocol i = ''http''"
proof -
  let ?i = "stored_interaction wire_env wire_visit demo_server ''c''"
  let ?u = "\<lparr>url_Scheme = ''http'', url_Host = ''d.e'', url_Path = []\<rparr>"
  have host: "stripHostPort (rq_Host wire_visit) = Domain ''c'' 4 ''d.e'' [1, 2, 3, 4]"
    "find (domain_matches (to_lower (stripHostPort (rq_Host wire_visit)))) [''d.e''] = Some ''d.e''"
    "find_route False wire_visit = RouteDefault"
    by code_simp+
  have parsed: "\<exists>pu. demo_parse (poll_url ?u wire_client) = Inr pu"
    by (simp add: demo_parse_def poll_url_def url_String_def has_prefix_def)
  have acc: "storage_good (\<lambda>_ _. None) wire_env (sv_storage demo_server)"
    "account_at (\<lambda>_ _. None) wire_env demo_server ''c'' = Some demo_account"
    using demo_m1_good [of 6] demo_m1_view [of 6]
    by (simp_all add: demo_server_def duration_defs max_int64_def)
  have account: "acc_secret demo_account = go_bytes ''k''" "acc_pending demo_account = []"
    "acc_key demo_account = replicate 32 0"
    by (simp_all add: demo_account_def)
  have client: "cl_correlationID wire_client = ''c''" "cl_secretKey wire_client = ''k''"
    "cl_serverURL wire_client = Some ?u"
    by (simp_all add: wire_client_def demo_client_def)
  have plain: "plain_client wire_client" "plain_url ?u" "isCIDBase32 ''c''" by code_simp+
  have "trim_right_func (\<lambda>ch. ch \<in> set [CHR '' '', CHR 0x09, CHR 0x0D, CHR 0x0A]) ''{}'' = ''{}''" by code_simp
  then have codec: "unmarshal_interaction (wire_codec ?i)
      (trim_right_func (\<lambda>ch. ch \<in> set [CHR '' '', CHR 0x09, CHR 0x0D, CHR 0x0A]) ''{}'') = Some ?i"
    by (simp add: wire_codec_def)
  have aes: "aes_ok demo_cipher" by (simp add: aes_ok_def block_ok_def demo_cipher_def)
  have "\<exists>s2. pollInteractions (server_net wire_env ''192.0.2.9:80'' demo_parse) (wire_codec ?i)
       (decryptInteraction (env_aes wire_env) Inr) wire_client (snd (Handler wire_env wire_visit newResponseRecorder demo_server))
     = (None, undelivered (wire_codec ?i) (env_aes wire_env) Inr (replicate 32 0) demo_account
          @ [stored_interaction wire_env wire_visit demo_server (cl_correlationID wire_client)], s2)
     \<and> account_at (\<lambda>_ _. None) wire_env s2 (cl_correlationID wire_client) = Some (demo_account\<lparr>acc_pending := []\<rparr>)"
  proof (rule interaction_reaches_client [OF acc(1) wire_capture_env])
    show "stripHostPort (rq_Host wire_visit) = Domain (cl_correlationID wire_client) 4 ''d.e'' [1, 2, 3, 4]"
      unfolding client by (rule host)
    show "matchedDomain demo_server (to_lower (stripHostPort (rq_Host wire_visit))) = Some ''d.e''"
      unfolding matchedDomain_def wire_server by (rule host)
    show "cl_serverURL wire_client = Some ?u" by (rule client)
    show "unmarshal_interaction (wire_codec ?i)
      (trim_right_func (\<lambda>ch. ch \<in> set [CHR '' '', CHR 0x09, CHR 0x0D, CHR 0x0A]) ''{}'')
      = Some (stored_interaction wire_env wire_visit demo_server (cl_correlationID wire_client))"
      unfolding client by (rule codec)
    show "env_rsa_encrypt wire_env (acc_public demo_account) (acc_key demo_account) = Inr (replicate 32 0)"
      by (simp add: account)
  qed (use acc(2) account host(3) parsed plain wire_poll_codec demo_fits aes in
       \<open>simp_all add: wire_server client aes_BlockSize_def\<close>)
  moreover have "undelivered (wire_codec ?i) (env_aes wire_env) Inr (replicate 32 0) demo_account = []"
    by (simp add: undelivered_def decrypt_all_def account(2))
  moreover have "InteractionUniqueID ?i = ''c''" "Protocol ?i = ''http''"
    by (simp_all add: stored_interaction_def recorded_interaction_def http_interaction_def Let_def wire_visit_def demo_request_def)
  ultimately show ?thesis by (intro exI [of _ ?i]) (auto simp: client)
qed

end
