(* ===== verification/Client_Lifecycle.thy ===== *)
theory Client_Lifecycle
  imports Oob_Types
begin

text \<open>
  The life cycle of a client (\<open>oobclient/client.go\<close>): the state guarded by \<open>mu\<close>, the poll loop and
  the keep-alive goroutine, and \<open>Close\<close>, which marks the client closed under the lock, joins the
  keep-alive goroutine without it, and then deregisters.

  A step is one critical section of a method, or one move of a goroutine; the log is a history of
  the requests sent, so the reachable states are those of every schedule.
\<close>

section \<open>The state and the methods\<close>

datatype clientState = stateIdle | statePolling | stateClosed

datatype loop_phase = LoopWaiting | LoopPolling

datatype keep_alive = NoKeepAlive | KeepAliveWaiting | KeepAliveRegistering | KeepAliveExited

datatype closing = NotClosing | ClosingJoin | ClosingDeregister | ClosingDone

datatype client_call = RegisterRequest | DeregisterRequest | PollRequest nat

record lifecycle =
  lc_state :: clientState
  pollCancel :: "nat option"                       \<comment> \<open>cancels the poll loop with this number\<close>
  loops :: "nat \<rightharpoonup> loop_phase \<times> bool"            \<comment> \<open>running poll loops, and whether cancelled\<close>
  next_loop :: nat
  keepAlive :: keep_alive
  keepAliveCancelled :: bool
  closing :: closing
  requests :: "client_call list"

definition new_lifecycle :: "bool \<Rightarrow> lifecycle" where
  "new_lifecycle keep = \<lparr>lc_state = stateIdle, pollCancel = None, loops = Map.empty, next_loop = 0,
     keepAlive = (if keep then KeepAliveWaiting else NoKeepAlive), keepAliveCancelled = False,
     closing = NotClosing, requests = [RegisterRequest]\<rparr>"

definition cancel_loop :: "nat option \<Rightarrow> lifecycle \<Rightarrow> lifecycle" where
  "cancel_loop i s = (case i of
      None \<Rightarrow> s
    | Some n \<Rightarrow> s\<lparr>loops := (loops s)(n := map_option (\<lambda>(p, c). (p, True)) (loops s n)), pollCancel := None\<rparr>)"

definition StartPolling :: "lifecycle \<Rightarrow> client_error option \<times> lifecycle" where
  "StartPolling s = (case lc_state s of
      statePolling \<Rightarrow> (Some ErrAlreadyPolling, s)
    | stateClosed \<Rightarrow> (Some ErrClientClosed, s)
    | stateIdle \<Rightarrow>
        (None, s\<lparr>pollCancel := Some (next_loop s), lc_state := statePolling,
                 loops := (loops s)(next_loop s \<mapsto> (LoopWaiting, False)), next_loop := Suc (next_loop s)\<rparr>))"

definition StopPolling :: "lifecycle \<Rightarrow> client_error option \<times> lifecycle" where
  "StopPolling s = (case lc_state s of
      stateClosed \<Rightarrow> (Some ErrClientClosed, s)
    | stateIdle \<Rightarrow> (None, s)
    | statePolling \<Rightarrow> (None, (cancel_loop (pollCancel s) s)\<lparr>lc_state := stateIdle\<rparr>))"

definition IsPolling :: "lifecycle \<Rightarrow> bool" where
  "IsPolling s \<longleftrightarrow> lc_state s = statePolling"

definition IsClosed :: "lifecycle \<Rightarrow> bool" where
  "IsClosed s \<longleftrightarrow> lc_state s = stateClosed"

text \<open>The locked section of \<open>Close\<close>; false: already closed, \<open>Close\<close> returns nil.\<close>

definition Close_locked :: "lifecycle \<Rightarrow> bool \<times> lifecycle" where
  "Close_locked s =
     (if lc_state s = stateClosed then (False, s)
      else (True, (cancel_loop (pollCancel s) s)\<lparr>keepAliveCancelled := True, lc_state := stateClosed,
              closing := ClosingJoin\<rparr>))"

section \<open>Steps\<close>

inductive client_step :: "lifecycle \<Rightarrow> lifecycle \<Rightarrow> bool" where
  start: "StartPolling s = (r, s') \<Longrightarrow> client_step s s'"
| stop: "StopPolling s = (r, s') \<Longrightarrow> client_step s s'"
| close: "Close_locked s = (b, s') \<Longrightarrow> client_step s s'"
| join: "closing s = ClosingJoin \<Longrightarrow> keepAlive s \<in> {NoKeepAlive, KeepAliveExited}
     \<Longrightarrow> client_step s (s\<lparr>closing := ClosingDeregister\<rparr>)"
| deregister: "closing s = ClosingDeregister
     \<Longrightarrow> client_step s (s\<lparr>closing := ClosingDone, requests := requests s @ [DeregisterRequest]\<rparr>)"
| keep_tick: "keepAlive s = KeepAliveWaiting \<Longrightarrow> client_step s
     (s\<lparr>keepAlive := (if lc_state s = stateClosed then KeepAliveExited else KeepAliveRegistering)\<rparr>)"
| keep_cancelled: "keepAlive s = KeepAliveWaiting \<Longrightarrow> keepAliveCancelled s
     \<Longrightarrow> client_step s (s\<lparr>keepAlive := KeepAliveExited\<rparr>)"
| keep_register: "keepAlive s = KeepAliveRegistering \<Longrightarrow> client_step s
     (s\<lparr>keepAlive := KeepAliveWaiting, requests := requests s @ [RegisterRequest]\<rparr>)"
| keep_aborted: "keepAlive s = KeepAliveRegistering \<Longrightarrow> keepAliveCancelled s
     \<Longrightarrow> client_step s (s\<lparr>keepAlive := KeepAliveWaiting\<rparr>)"
| poll_tick: "loops s i = Some (LoopWaiting, c) \<Longrightarrow> client_step s
     (s\<lparr>loops := (loops s)(i \<mapsto> (LoopPolling, c)), requests := requests s @ [PollRequest i]\<rparr>)"
| poll_return: "loops s i = Some (LoopPolling, c)
     \<Longrightarrow> client_step s (s\<lparr>loops := (loops s)(i \<mapsto> (LoopWaiting, c))\<rparr>)"
| poll_exit: "loops s i = Some (LoopWaiting, True)
     \<Longrightarrow> client_step s (s\<lparr>loops := (loops s)(i := None)\<rparr>)"

inductive client_reachable :: "lifecycle \<Rightarrow> bool" where
  start: "client_reachable (new_lifecycle keep)"
| step: "client_reachable s \<Longrightarrow> client_step s s' \<Longrightarrow> client_reachable s'"

section \<open>The invariant\<close>

definition session_requests :: "lifecycle \<Rightarrow> client_call list" where
  "session_requests s = filter (\<lambda>r. r \<in> {RegisterRequest, DeregisterRequest}) (requests s)"

definition live_loops :: "lifecycle \<Rightarrow> nat set" where
  "live_loops s = {i. \<exists>p. loops s i = Some (p, False)}"

definition poll_ok :: "lifecycle \<Rightarrow> bool" where
  "poll_ok s \<longleftrightarrow> (lc_state s = statePolling \<longleftrightarrow> pollCancel s \<noteq> None)
     \<and> live_loops s = set_option (pollCancel s) \<and> (\<forall>i. loops s i \<noteq> None \<longrightarrow> i < next_loop s)"

definition close_ok :: "lifecycle \<Rightarrow> bool" where
  "close_ok s \<longleftrightarrow> (lc_state s = stateClosed \<longleftrightarrow> closing s \<noteq> NotClosing)
     \<and> (closing s \<in> {ClosingDeregister, ClosingDone} \<longrightarrow> keepAlive s \<in> {NoKeepAlive, KeepAliveExited})
     \<and> (\<exists>n. session_requests s = replicate n RegisterRequest
            @ (if closing s = ClosingDone then [DeregisterRequest] else []))"

lemma cancel_loop_simps [simp]:
  "lc_state (cancel_loop i s) = lc_state s" "closing (cancel_loop i s) = closing s"
  "keepAlive (cancel_loop i s) = keepAlive s" "requests (cancel_loop i s) = requests s"
  "next_loop (cancel_loop i s) = next_loop s" "loops (cancel_loop i s) j = (if i = Some j then map_option (\<lambda>(p, c). (p, True)) (loops s j) else loops s j)"
  "pollCancel (cancel_loop (pollCancel s) s) = None" "pollCancel (cancel_loop (Some n) s) = None"
  by (auto simp: cancel_loop_def split: option.split)

lemma live_loops_cancel: "live_loops (cancel_loop i s) = live_loops s - set_option i"
  by (auto simp: live_loops_def cancel_loop_def split: option.splits if_splits)

lemma live_loops_upd [simp]:
  "live_loops (s\<lparr>lc_state := x\<rparr>) = live_loops s" "live_loops (s\<lparr>closing := y\<rparr>) = live_loops s"
  "live_loops (s\<lparr>keepAlive := z\<rparr>) = live_loops s" "live_loops (s\<lparr>requests := rs\<rparr>) = live_loops s"
  "live_loops (s\<lparr>keepAliveCancelled := b\<rparr>) = live_loops s"
  by (simp_all add: live_loops_def)

lemma live_loops_phase:
  "loops s i = Some (p, c) \<Longrightarrow> live_loops (s\<lparr>loops := (loops s)(i \<mapsto> (p', c))\<rparr>) = live_loops s"
  "loops s i = Some (p, True) \<Longrightarrow> live_loops (s\<lparr>loops := (loops s)(i := None)\<rparr>) = live_loops s"
  by (auto simp: live_loops_def split: if_splits)

lemma live_loops_requests: "live_loops (s\<lparr>loops := l, requests := rs\<rparr>) = live_loops (s\<lparr>loops := l\<rparr>)"
  by (simp add: live_loops_def)

lemma poll_ok_step: "client_step s s' \<Longrightarrow> poll_ok s \<Longrightarrow> poll_ok s'"
proof (induction rule: client_step.induct)
  case (start s r s')
  then show ?case
    by (auto simp: StartPolling_def poll_ok_def live_loops_def less_Suc_eq
        split: clientState.splits if_splits)
next
  case (stop s r s')
  then show ?case
    by (auto simp: StopPolling_def poll_ok_def live_loops_cancel split: clientState.splits if_splits)
next
  case (close s b s')
  then show ?case
    by (auto simp: Close_locked_def poll_ok_def live_loops_cancel split: if_splits)
next
  case (poll_tick s i c)
  then show ?case by (auto simp: poll_ok_def live_loops_requests live_loops_phase)
next
  case (poll_return s i c)
  then show ?case by (auto simp: poll_ok_def live_loops_phase)
next
  case (poll_exit s i)
  then show ?case by (auto simp: poll_ok_def live_loops_phase)
qed (auto simp: poll_ok_def)

lemma session_requests_upd [simp]:
  "session_requests (s\<lparr>lc_state := x\<rparr>) = session_requests s"
  "session_requests (s\<lparr>closing := y\<rparr>) = session_requests s"
  "session_requests (s\<lparr>keepAlive := z\<rparr>) = session_requests s"
  "session_requests (s\<lparr>keepAliveCancelled := b\<rparr>) = session_requests s"
  "session_requests (s\<lparr>loops := l\<rparr>) = session_requests s"
  "session_requests (s\<lparr>pollCancel := pc\<rparr>) = session_requests s"
  "session_requests (s\<lparr>next_loop := n\<rparr>) = session_requests s"
  "session_requests (cancel_loop i s) = session_requests s"
  "session_requests (s\<lparr>requests := requests s @ [r]\<rparr>) =
     session_requests s @ (if r \<in> {RegisterRequest, DeregisterRequest} then [r] else [])"
  by (simp_all add: session_requests_def)

lemma close_ok_step: "client_step s s' \<Longrightarrow> close_ok s \<Longrightarrow> close_ok s'"
proof (induction rule: client_step.induct)
  case (start s r s')
  then show ?case by (auto simp: StartPolling_def close_ok_def split: clientState.splits)
next
  case (stop s r s')
  then show ?case by (auto simp: StopPolling_def close_ok_def split: clientState.splits)
next
  case (close s b s')
  then show ?case by (auto simp: Close_locked_def close_ok_def split: if_splits)
next
  case (keep_register s)
  then obtain n where n: "session_requests s = replicate n RegisterRequest"
    and "closing s \<notin> {ClosingDeregister, ClosingDone}"
    by (auto simp: close_ok_def)
  moreover have "session_requests (s\<lparr>keepAlive := KeepAliveWaiting, requests := requests s @ [RegisterRequest]\<rparr>)
      = replicate (Suc n) RegisterRequest"
    using n by (simp add: session_requests_def replicate_append_same)
  ultimately show ?case using keep_register by (auto simp: close_ok_def intro!: exI [of _ "Suc n"])
qed (auto simp: close_ok_def session_requests_def)

lemma client_reachable_ok: "client_reachable s \<Longrightarrow> poll_ok s \<and> close_ok s"
proof (induction rule: client_reachable.induct)
  case (start keep)
  have "session_requests (new_lifecycle keep) = replicate (Suc 0) RegisterRequest"
    by (simp add: session_requests_def new_lifecycle_def)
  then have "close_ok (new_lifecycle keep)"
    unfolding close_ok_def by (intro conjI, simp_all add: new_lifecycle_def) (metis append_Nil2 replicate.simps)
  then show ?case by (simp add: poll_ok_def live_loops_def new_lifecycle_def)
next
  case (step s s')
  then show ?case using poll_ok_step close_ok_step by blast
qed

inductive_cases client_stepE: "client_step s s'"

lemma closed_absorbing: "client_step s s' \<Longrightarrow> lc_state s = stateClosed \<Longrightarrow> lc_state s' = stateClosed"
  by (erule client_stepE) (auto simp: StartPolling_def StopPolling_def Close_locked_def)

text \<open>The phases of closing, in their order; no step goes back.\<close>

fun closing_rank :: "closing \<Rightarrow> nat" where
  "closing_rank NotClosing = 0"
| "closing_rank ClosingJoin = 1"
| "closing_rank ClosingDeregister = 2"
| "closing_rank ClosingDone = 3"

instantiation closing :: linorder
begin

definition less_eq_closing :: "closing \<Rightarrow> closing \<Rightarrow> bool" where
  "less_eq_closing x y \<longleftrightarrow> closing_rank x \<le> closing_rank y"

definition less_closing :: "closing \<Rightarrow> closing \<Rightarrow> bool" where
  "less_closing x y \<longleftrightarrow> closing_rank x < closing_rank y"

instance
proof
  fix x y :: closing
  assume "x \<le> y" "y \<le> x"
  then show "x = y" by (cases x; cases y) (simp_all add: less_eq_closing_def)
qed (auto simp: less_eq_closing_def less_closing_def)

end

lemma closing_monotone: "client_step s s' \<Longrightarrow> close_ok s \<Longrightarrow> closing s \<le> closing s'"
  by (erule client_stepE)
     (auto simp: StartPolling_def StopPolling_def Close_locked_def close_ok_def less_eq_closing_def
       split: clientState.splits if_splits)

section \<open>Properties\<close>

text \<open>
  C31: In every schedule of methods and goroutines a client runs at most one poll loop that is not
  cancelled, and runs one exactly while it reports that it is polling: never before
  \<open>StartPolling\<close>, and never after \<open>StopPolling\<close> or \<open>Close\<close>.
\<close>

theorem one_poll_loop:
  assumes "client_reachable s"
  shows "(IsPolling s \<longrightarrow> (\<exists>i. live_loops s = {i})) \<and> (\<not> IsPolling s \<longrightarrow> live_loops s = {})"
  using client_reachable_ok [OF assms] by (auto simp: poll_ok_def IsPolling_def)

text \<open>
  C33: A closed client stays closed, and deregistration is the last word: in every schedule there is
  at most one deregistration request, only after \<open>Close\<close>, and no keep-alive registration follows
  it, so a closed session is never registered again.
\<close>

theorem deregistration_is_last:
  assumes "client_reachable s"
  shows "(\<exists>n. session_requests s = replicate n RegisterRequest
            \<or> session_requests s = replicate n RegisterRequest @ [DeregisterRequest] \<and> IsClosed s)
     \<and> (\<forall>s'. client_step s s' \<longrightarrow> IsClosed s \<longrightarrow> IsClosed s')"
  using client_reachable_ok [OF assms] closed_absorbing [of s]
  by (auto simp: close_ok_def IsClosed_def split: if_splits)

text \<open>Moves of the goroutines alone: no method is called.\<close>

definition goroutine_step :: "lifecycle \<Rightarrow> lifecycle \<Rightarrow> bool" where
  "goroutine_step s s' \<longleftrightarrow> client_step s s' \<and> lc_state s' = lc_state s \<and> closing s \<le> closing s'"

lemma keep_alive_leaves:
  assumes "lc_state s = stateClosed" "closing s = ClosingJoin"
  obtains s' where "goroutine_step\<^sup>*\<^sup>* s s'" "closing s' = ClosingJoin" "lc_state s' = stateClosed"
    "keepAlive s' \<in> {NoKeepAlive, KeepAliveExited}"
proof -
  note result = that
  have waiting: ?thesis if s1: "goroutine_step\<^sup>*\<^sup>* s s1" "keepAlive s1 = KeepAliveWaiting"
    "lc_state s1 = stateClosed" "closing s1 = ClosingJoin" for s1
  proof -
    have "goroutine_step s1 (s1\<lparr>keepAlive := KeepAliveExited\<rparr>)"
      using client_step.keep_tick [OF s1(2)] s1(3) by (simp add: goroutine_step_def)
    with s1(1) have "goroutine_step\<^sup>*\<^sup>* s (s1\<lparr>keepAlive := KeepAliveExited\<rparr>)" by simp
    with s1(3,4) show ?thesis by (intro result [of "s1\<lparr>keepAlive := KeepAliveExited\<rparr>"]) simp_all
  qed
  show ?thesis
  proof (cases "keepAlive s")
    case KeepAliveWaiting
    with assms show ?thesis by (intro waiting [of s]) simp_all
  next
    case KeepAliveRegistering
    let ?s = "s\<lparr>keepAlive := KeepAliveWaiting, requests := requests s @ [RegisterRequest]\<rparr>"
    have "goroutine_step s ?s"
      using client_step.keep_register [OF KeepAliveRegistering] by (simp add: goroutine_step_def)
    with assms show ?thesis by (intro waiting [of ?s]) auto
  qed (use assms in \<open>auto intro!: result [of s]\<close>)
qed

text \<open>
  C32: closing cannot get stuck.  In whatever state \<open>Close\<close> has marked the client closed, also in the
  middle of a keep-alive registration, the goroutines alone can finish: the keep-alive goroutine
  exits, \<open>Close\<close> joins it, and the deregistration is sent.
\<close>

theorem close_finishes:
  assumes "client_reachable s" and "IsClosed s"
  shows "\<exists>s'. goroutine_step\<^sup>*\<^sup>* s s' \<and> closing s' = ClosingDone \<and> DeregisterRequest \<in> set (requests s')"
proof -
  have ok: "close_ok s" by (rule conjunct2 [OF client_reachable_ok [OF assms(1)]])
  have finish: "\<exists>s'. goroutine_step\<^sup>*\<^sup>* s s' \<and> closing s' = ClosingDone \<and> DeregisterRequest \<in> set (requests s')"
    if "goroutine_step\<^sup>*\<^sup>* s s1" "closing s1 = ClosingDeregister" for s1
  proof -
    let ?s = "s1\<lparr>closing := ClosingDone, requests := requests s1 @ [DeregisterRequest]\<rparr>"
    have "goroutine_step s1 ?s"
      using client_step.deregister [OF that(2)] that(2) by (simp add: goroutine_step_def less_eq_closing_def)
    with that(1) have "goroutine_step\<^sup>*\<^sup>* s ?s" by simp
    then show ?thesis by (intro exI [of _ ?s]) simp
  qed
  show ?thesis
  proof (cases "closing s")
    case NotClosing
    with ok assms(2) show ?thesis by (simp add: close_ok_def IsClosed_def)
  next
    case ClosingJoin
    obtain s1 where s1: "goroutine_step\<^sup>*\<^sup>* s s1" "closing s1 = ClosingJoin" "lc_state s1 = stateClosed"
      "keepAlive s1 \<in> {NoKeepAlive, KeepAliveExited}"
      using keep_alive_leaves [OF _ ClosingJoin] assms(2) by (auto simp: IsClosed_def)
    have "goroutine_step s1 (s1\<lparr>closing := ClosingDeregister\<rparr>)"
      using client_step.join [OF s1(2,4)] s1(2) by (simp add: goroutine_step_def less_eq_closing_def)
    with s1(1) have "goroutine_step\<^sup>*\<^sup>* s (s1\<lparr>closing := ClosingDeregister\<rparr>)" by simp
    then show ?thesis by (rule finish) simp
  next
    case ClosingDeregister
    then show ?thesis by (intro finish [of s]) simp_all
  next
    case ClosingDone
    have "DeregisterRequest \<in> set (session_requests s)"
      using ok ClosingDone by (auto simp: close_ok_def)
    then have "DeregisterRequest \<in> set (requests s)" by (simp add: session_requests_def)
    with ClosingDone show ?thesis by (intro exI [of _ s]) simp
  qed
qed

text \<open>A run: start polling, close while the keep-alive goroutine is idle, deregister.\<close>

lemma demo_lifecycle:
  obtains s where "client_reachable s" "session_requests s = [RegisterRequest, DeregisterRequest]"
    "\<not> IsPolling s"
proof -
  define s1 where "s1 = snd (StartPolling (new_lifecycle True))"
  define s2 where "s2 = snd (Close_locked s1)"
  define s3 where "s3 = s2\<lparr>keepAlive := KeepAliveExited\<rparr>"
  define s4 where "s4 = s3\<lparr>closing := ClosingDeregister\<rparr>"
  define s5 where "s5 = s4\<lparr>closing := ClosingDone, requests := requests s4 @ [DeregisterRequest]\<rparr>"
  note defs = s1_def s2_def s3_def s4_def s5_def
  have "client_reachable s1" unfolding s1_def
    by (rule client_reachable.step [OF client_reachable.start])
       (rule client_step.start, rule prod.collapse [symmetric])
  then have "client_reachable s2" unfolding s2_def
    by (rule client_reachable.step) (rule client_step.close, rule prod.collapse [symmetric])
  then have "client_reachable s3" unfolding s3_def
    by (rule client_reachable.step)
       (rule client_step.keep_cancelled,
        simp_all add: s1_def s2_def StartPolling_def Close_locked_def new_lifecycle_def)
  then have "client_reachable s4" unfolding s4_def
    by (rule client_reachable.step)
       (rule client_step.join, simp_all add: s1_def s2_def s3_def StartPolling_def Close_locked_def new_lifecycle_def)
  then have "client_reachable s5" unfolding s5_def
    by (rule client_reachable.step) (rule client_step.deregister, simp add: s4_def)
  moreover have "session_requests s5 = [RegisterRequest, DeregisterRequest]" "\<not> IsPolling s5"
    by (simp_all add: defs StartPolling_def Close_locked_def new_lifecycle_def session_requests_def
        IsPolling_def cancel_loop_def)
  ultimately show ?thesis using that by blast
qed

theorem one_poll_loop_witness: "\<exists>s. client_reachable s \<and> live_loops s = {}"
proof -
  obtain s where s: "client_reachable s" "\<not> IsPolling s" by (rule demo_lifecycle)
  from one_poll_loop [OF s(1)] s show ?thesis by blast
qed

theorem deregistration_is_last_witness:
  "\<exists>s. client_reachable s \<and> session_requests s = [RegisterRequest, DeregisterRequest] \<and> IsClosed s"
proof -
  obtain s where s: "client_reachable s" "session_requests s = [RegisterRequest, DeregisterRequest]"
    by (rule demo_lifecycle)
  from deregistration_is_last [OF s(1)] obtain n where
    "session_requests s = replicate n RegisterRequest
     \<or> session_requests s = replicate n RegisterRequest @ [DeregisterRequest] \<and> IsClosed s" by blast
  moreover have "session_requests s \<noteq> replicate n RegisterRequest"
    using s(2) by (metis in_set_replicate list.set_intros(1,2) client_call.distinct(1))
  ultimately show ?thesis using s by blast
qed

theorem close_finishes_witness:
  "\<exists>s s'. closing s = ClosingJoin \<and> keepAlive s = KeepAliveRegistering \<and> goroutine_step\<^sup>*\<^sup>* s s' \<and> closing s' = ClosingDone"
proof -
  define s1 where "s1 = (new_lifecycle True)\<lparr>keepAlive := KeepAliveRegistering\<rparr>"
  define s where "s = snd (Close_locked s1)"
  have "client_step (new_lifecycle True) s1"
    using client_step.keep_tick [of "new_lifecycle True"] by (simp add: s1_def new_lifecycle_def)
  then have "client_reachable s1" by (rule client_reachable.step [OF client_reachable.start])
  then have "client_reachable s" unfolding s_def
    by (rule client_reachable.step) (rule client_step.close, rule prod.collapse [symmetric])
  moreover have "IsClosed s" "closing s = ClosingJoin" "keepAlive s = KeepAliveRegistering"
    by (simp_all add: s_def s1_def Close_locked_def new_lifecycle_def IsClosed_def)
  ultimately show ?thesis using close_finishes by blast
qed

end
