(* ===== verification/Go_IP.thy ===== *)
theory Go_IP
  imports Go_Net
begin

text \<open>
  IP addresses of package \<open>net\<close>: an address is a list of 4 or 16 bytes, an IPv4 address may come in
  its 16-byte form.  \<open>ParseIP\<close> follows \<open>netip.ParseAddr\<close>: dotted decimal without leading zeros, or
  groups of up to four hex digits with at most one \<open>::\<close> and possibly a dotted tail.
\<close>

type_synonym IP = bytes

definition byte_of :: "nat \<Rightarrow> byte" where
  "byte_of n = word_of_int (int n)"

definition v4_field :: "string \<Rightarrow> byte option" where
  "v4_field s =
     (if s = [] \<or> length s > 3 \<or> (length s > 1 \<and> hd s = CHR ''0'') then None
      else case digits_value 0 s of
          None \<Rightarrow> None
        | Some v \<Rightarrow> if v \<le> 255 then Some (byte_of (nat v)) else None)"

definition parse_v4 :: "string \<Rightarrow> IP option" where
  "parse_v4 s = (case map v4_field (split_on CHR ''.'' s) of
      [Some a, Some b, Some c, Some d] \<Rightarrow> Some [a, b, c, d]
    | _ \<Rightarrow> None)"

definition is_hex :: "char \<Rightarrow> bool" where
  "is_hex c \<longleftrightarrow> unhex c \<noteq> None"

definition hex_number :: "string \<Rightarrow> nat" where
  "hex_number = foldl (\<lambda>acc c. 16 * acc + the (unhex c)) 0"

text \<open>
  The loop over the groups.  It keeps the bytes read so far and where the \<open>::\<close> stood; the first
  argument is the number of groups still allowed.
\<close>

fun v6_groups :: "nat \<Rightarrow> string \<Rightarrow> bytes \<Rightarrow> nat option \<Rightarrow> (bytes \<times> nat option) option" where
  "v6_groups 0 s acc gap = (if s = [] then Some (acc, gap) else None)"
| "v6_groups (Suc n) s acc gap =
     (let digits = takeWhile is_hex s; rest = dropWhile is_hex s
      in if digits = [] \<or> length digits > 4 then None
         else if rest \<noteq> [] \<and> hd rest = CHR ''.''
         then (if (gap = None \<and> length acc \<noteq> 12) \<or> length acc + 4 > 16 then None
               else map_option (\<lambda>v4. (acc @ v4, gap)) (parse_v4 s))
         else let acc1 = acc @ [byte_of (hex_number digits div 256), byte_of (hex_number digits mod 256)]
              in case rest of
                   [] \<Rightarrow> Some (acc1, gap)
                 | c # rest1 \<Rightarrow>
                     if c \<noteq> CHR '':'' \<or> rest1 = [] then None
                     else if hd rest1 = CHR '':''
                     then (if gap \<noteq> None then None
                           else if tl rest1 = [] then Some (acc1, Some (length acc1))
                           else v6_groups n (tl rest1) acc1 (Some (length acc1)))
                     else v6_groups n rest1 acc1 gap)"

definition v6_expand :: "bytes \<times> nat option \<Rightarrow> IP option" where
  "v6_expand r = (case r of
      (acc, None) \<Rightarrow> if length acc = 16 then Some acc else None
    | (acc, Some i) \<Rightarrow>
        if length acc < 16 then Some (take i acc @ replicate (16 - length acc) 0 @ drop i acc) else None)"

definition parse_v6 :: "string \<Rightarrow> IP option" where
  "parse_v6 s =
     (if s = ''::'' then Some (replicate 16 0)
      else Option.bind (if has_prefix s ''::'' then v6_groups 8 (drop 2 s) [] (Some 0)
                        else v6_groups 8 s [] None) v6_expand)"

definition v4_in_v6 :: "IP \<Rightarrow> IP" where
  "v4_in_v6 ip = replicate 10 0 @ [255, 255] @ ip"

text \<open>A zone (after \<open>%\<close>) makes \<open>net.ParseIP\<close> fail.\<close>

definition ParseIP :: "string \<Rightarrow> IP option" where
  "ParseIP s = (case find (\<lambda>c. c \<in> {CHR ''.'', CHR '':'', CHR ''%''}) s of
      None \<Rightarrow> None
    | Some c \<Rightarrow>
        if c = CHR ''.'' then map_option v4_in_v6 (parse_v4 s)
        else if c = CHR '':'' then (if CHR ''%'' \<in> set s then None else parse_v6 s)
        else None)"

definition To4 :: "IP \<Rightarrow> IP option" where
  "To4 ip = (if length ip = 4 then Some ip
     else if length ip = 16 \<and> take 12 ip = replicate 10 0 @ [255, 255] then Some (drop 12 ip)
     else None)"

definition ip_Equal :: "IP \<Rightarrow> IP \<Rightarrow> bool" where
  "ip_Equal a b \<longleftrightarrow>
     (if length a = length b then a = b
      else if length a = 4 \<and> length b = 16 then b = v4_in_v6 a
      else if length a = 16 \<and> length b = 4 then a = v4_in_v6 b
      else False)"

definition IsUnspecified :: "IP \<Rightarrow> bool" where
  "IsUnspecified ip \<longleftrightarrow> ip_Equal ip (v4_in_v6 [0, 0, 0, 0]) \<or> ip_Equal ip (replicate 16 0)"

definition IsLoopback :: "IP \<Rightarrow> bool" where
  "IsLoopback ip = (case To4 ip of
      Some v4 \<Rightarrow> hd v4 = 127
    | None \<Rightarrow> ip_Equal ip (replicate 15 0 @ [1]))"

definition IsMulticast :: "IP \<Rightarrow> bool" where
  "IsMulticast ip = (case To4 ip of
      Some v4 \<Rightarrow> hd v4 AND 0xf0 = 0xe0
    | None \<Rightarrow> length ip = 16 \<and> hd ip = 0xff)"

definition IsLinkLocalUnicast :: "IP \<Rightarrow> bool" where
  "IsLinkLocalUnicast ip = (case To4 ip of
      Some v4 \<Rightarrow> hd v4 = 169 \<and> v4 ! 1 = 254
    | None \<Rightarrow> length ip = 16 \<and> hd ip = 0xfe \<and> ip ! 1 AND 0xc0 = 0x80)"

definition IsGlobalUnicast :: "IP \<Rightarrow> bool" where
  "IsGlobalUnicast ip \<longleftrightarrow> length ip \<in> {4, 16} \<and> \<not> ip_Equal ip (v4_in_v6 [255, 255, 255, 255])
     \<and> \<not> IsUnspecified ip \<and> \<not> IsLoopback ip \<and> \<not> IsMulticast ip \<and> \<not> IsLinkLocalUnicast ip"

definition IsPrivate :: "IP \<Rightarrow> bool" where
  "IsPrivate ip = (case To4 ip of
      Some v4 \<Rightarrow> hd v4 = 10 \<or> hd v4 = 172 \<and> v4 ! 1 AND 0xf0 = 16 \<or> hd v4 = 192 \<and> v4 ! 1 = 168
    | None \<Rightarrow> length ip = 16 \<and> hd ip AND 0xfe = 0xfc)"

section \<open>Facts\<close>

lemma parse_v4_length: "parse_v4 s = Some ip \<Longrightarrow> length ip = 4"
  by (auto simp: parse_v4_def split: list.splits option.splits)

lemma v6_expand_length: "v6_expand r = Some ip \<Longrightarrow> length ip = 16"
  by (auto simp: v6_expand_def min_def split: prod.splits option.splits if_splits)

lemma ParseIP_length: "ParseIP s = Some ip \<Longrightarrow> length ip = 16"
  by (auto simp: ParseIP_def parse_v6_def v4_in_v6_def bind_eq_Some_conv parse_v4_length
      dest: v6_expand_length split: option.splits if_splits)

lemma To4_length: "To4 ip = Some v4 \<Longrightarrow> length v4 = 4"
  by (auto simp: To4_def split: if_splits)

lemma ParseIP_examples:
  "ParseIP ''169.254.169.254'' = Some (v4_in_v6 [169, 254, 169, 254])"
  "ParseIP ''1.2.3'' = None" "ParseIP ''1.2.3.04'' = None" "ParseIP ''1::2::3'' = None"
  "ParseIP ''1:2:3:4:5:6:7:8::'' = None" "ParseIP ''fe80::1%eth0'' = None"
  by code_simp+

end
