(* ===== verification/Dns.thy ===== *)
theory Dns
  imports Server_Capture Go_IP
begin

text \<open>
  The DNS server (\<open>oobsrv/dns.go\<close>): custom records, the store of ACME challenges, the responses,
  and the handler with its capture.  Of the DNS package the model has the records and the reply the
  code builds; what the package keeps itself (ids, flags it copies from the query) stays inside the
  query, and the text forms of messages and types are arguments.
\<close>

section \<open>Records and messages\<close>

definition defaultTTL :: "32 word" where "defaultTTL = 3600"

type_synonym rr_type = "16 word"

definition TypeNone :: rr_type where "TypeNone = 0"
definition TypeA :: rr_type where "TypeA = 1"
definition TypeNS :: rr_type where "TypeNS = 2"
definition TypeCNAME :: rr_type where "TypeCNAME = 5"
definition TypeSOA :: rr_type where "TypeSOA = 6"
definition TypeMX :: rr_type where "TypeMX = 15"
definition TypeTXT :: rr_type where "TypeTXT = 16"
definition TypeAAAA :: rr_type where "TypeAAAA = 28"
definition TypeANY :: rr_type where "TypeANY = 255"

lemmas rr_type_defs = TypeNone_def TypeA_def TypeNS_def TypeCNAME_def TypeSOA_def TypeMX_def TypeTXT_def
  TypeAAAA_def TypeANY_def

datatype rdata =
    RA IP | RAAAA IP | RNS string | RCNAME string | RMX "16 word" string | RTXT "string list"
  | RSOA string string "32 word" "32 word" "32 word" "32 word" "32 word"

record RR =
  rr_Name :: string
  rr_Type :: rr_type
  rr_Ttl :: "32 word"
  rr_Data :: rdata

record dns_question =
  q_Name :: string
  q_Type :: rr_type

record dns_query =
  dq_Question :: "dns_question list"
  dq_Rest :: string   \<comment> \<open>id, flags and further sections, as the package keeps them\<close>

record dns_reply =
  re_To :: dns_query
  re_Authoritative :: bool
  re_RecursionAvailable :: bool
  re_Answer :: "RR list"
  re_Ns :: "RR list"
  re_Extra :: "RR list"

record dns_text =
  query_String :: "dns_query \<Rightarrow> string"
  reply_String :: "dns_reply \<Rightarrow> string"
  type_String :: "rr_type \<Rightarrow> string"

section \<open>Custom records\<close>

definition supportedRecordTypes :: "string list" where
  "supportedRecordTypes = [''A'', ''AAAA'', ''CNAME'', ''MX'', ''TXT'', ''NS'']"

definition builtinSSRFRecords :: customRecords where
  "builtinSSRFRecords =
     [''aws'' \<mapsto> [\<lparr>cr_Type = ''A'', cr_Value = ''169.254.169.254'', cr_TTL = 3600, cr_Priority = 0\<rparr>],
      ''alibaba'' \<mapsto> [\<lparr>cr_Type = ''A'', cr_Value = ''100.100.100.200'', cr_TTL = 3600, cr_Priority = 0\<rparr>],
      ''localhost'' \<mapsto> [\<lparr>cr_Type = ''A'', cr_Value = ''127.0.0.1'', cr_TTL = 3600, cr_Priority = 0\<rparr>],
      ''oracle'' \<mapsto> [\<lparr>cr_Type = ''A'', cr_Value = ''192.0.0.192'', cr_TTL = 3600, cr_Priority = 0\<rparr>]]"

text \<open>
  The YAML file after decoding: its keys in the order the map is ranged over, each with a string, a
  list (the outcome of decoding it into records) or something else.
\<close>

datatype yaml_value = YamlString string | YamlList "customRecord list result" | YamlOther

definition check_record :: "string \<Rightarrow> customRecord \<Rightarrow> customRecord result" where
  "check_record key rec0 =
     (let rec1 = rec0\<lparr>cr_Type := to_upper (cr_Type rec0)\<rparr>
      in if cr_Type rec1 \<notin> set supportedRecordTypes
         then Inl (''unsupported record type '' @ go_quote (cr_Type rec1) @ '' for subdomain '' @ go_quote key)
         else let rec2 = (if cr_TTL rec1 = 0 then rec1\<lparr>cr_TTL := 3600\<rparr> else rec1)
              in Inr (if cr_Type rec2 = ''MX'' \<and> cr_Priority rec2 = 0 then rec2\<lparr>cr_Priority := 10\<rparr> else rec2))"

primrec check_records :: "string \<Rightarrow> customRecord list \<Rightarrow> customRecord list result" where
  "check_records key [] = Inr []"
| "check_records key (r # rs) = (case check_record key r of
      Inl err \<Rightarrow> Inl err
    | Inr r1 \<Rightarrow> (case check_records key rs of Inl err \<Rightarrow> Inl err | Inr rs1 \<Rightarrow> Inr (r1 # rs1)))"

fun parse_entries :: "(string \<times> yaml_value) list \<Rightarrow> customRecords \<Rightarrow> customRecords result" where
  "parse_entries [] records = Inr records"
| "parse_entries ((key0, val) # entries) records =
     (let key = to_lower key0
      in case val of
           YamlString v \<Rightarrow> parse_entries entries
             (records(key \<mapsto> [\<lparr>cr_Type = ''A'', cr_Value = v, cr_TTL = 3600, cr_Priority = 0\<rparr>]))
         | YamlList (Inl err) \<Rightarrow> Inl (''parsing records for '' @ go_quote key @ '': '' @ err)
         | YamlList (Inr recs) \<Rightarrow> (case check_records key recs of
               Inl err \<Rightarrow> Inl err
             | Inr recs1 \<Rightarrow> parse_entries entries (records(key \<mapsto> recs1)))
         | YamlOther \<Rightarrow> Inl (''unexpected value type for subdomain '' @ go_quote key))"

definition parseCustomRecords :: "(string \<times> yaml_value) list result \<Rightarrow> customRecords result" where
  "parseCustomRecords raw = (case raw of
      Inl err \<Rightarrow> Inl (''parsing custom records: '' @ err)
    | Inr entries \<Rightarrow> parse_entries entries Map.empty)"

text \<open>\<open>read\<close> is \<open>os.ReadFile\<close>, \<open>decode\<close> the YAML decoder.\<close>

definition loadCustomRecords ::
  "(string \<Rightarrow> string result) \<Rightarrow> (string \<Rightarrow> (string \<times> yaml_value) list result) \<Rightarrow> string
     \<Rightarrow> customRecords result" where
  "loadCustomRecords readFile decode path =
     (if path = [] then Inr builtinSSRFRecords
      else case readFile path of
          Inl err \<Rightarrow> Inl (''reading custom records file: '' @ err)
        | Inr data \<Rightarrow> (case parseCustomRecords (decode data) of
            Inl err \<Rightarrow> Inl err
          | Inr operator \<Rightarrow> Inr (builtinSSRFRecords ++ operator)))"

section \<open>The store of ACME challenges\<close>

definition normalizeFQDN :: "string \<Rightarrow> string" where
  "normalizeFQDN fqdn = trim_suffix (to_lower fqdn) ''.''"

definition acme_Add :: "string \<Rightarrow> string \<Rightarrow> acmeStore \<Rightarrow> acmeStore" where
  "acme_Add fqdn0 v records =
     (let fqdn = normalizeFQDN fqdn0
      in if v \<notin> set (records fqdn) then records(fqdn := records fqdn @ [v]) else records)"

definition acme_Get :: "string \<Rightarrow> acmeStore \<Rightarrow> string list" where
  "acme_Get fqdn records = records (normalizeFQDN fqdn)"

definition acme_Delete :: "string \<Rightarrow> string \<Rightarrow> acmeStore \<Rightarrow> acmeStore" where
  "acme_Delete fqdn0 v records =
     (let fqdn = normalizeFQDN fqdn0 in records(fqdn := filter (\<lambda>x. x \<noteq> v) (records fqdn)))"

section \<open>Names\<close>

definition extractSubdomain :: "string \<Rightarrow> string \<Rightarrow> string" where
  "extractSubdomain qname domain =
     (if qname = domain then []
      else let suffix = CHR ''.'' # domain
           in if has_suffix qname suffix then take (length qname - length suffix) qname else [])"

definition ensureTrailingDot :: "string \<Rightarrow> string" where
  "ensureTrailingDot name = (if \<not> has_suffix name ''.'' then name @ ''.'' else name)"

section \<open>Responses\<close>

definition a_record :: "string \<Rightarrow> IP \<Rightarrow> RR" where
  "a_record name ip = \<lparr>rr_Name = name, rr_Type = TypeA, rr_Ttl = defaultTTL, rr_Data = RA ip\<rparr>"

definition aaaa_record :: "string \<Rightarrow> IP \<Rightarrow> RR" where
  "aaaa_record name ip = \<lparr>rr_Name = name, rr_Type = TypeAAAA, rr_Ttl = defaultTTL, rr_Data = RAAAA ip\<rparr>"

definition ns_record :: "string \<Rightarrow> string \<Rightarrow> RR" where
  "ns_record name ns = \<lparr>rr_Name = name, rr_Type = TypeNS, rr_Ttl = defaultTTL, rr_Data = RNS ns\<rparr>"

definition txt_record :: "string \<Rightarrow> string \<Rightarrow> RR" where
  "txt_record name v = \<lparr>rr_Name = name, rr_Type = TypeTXT, rr_Ttl = 0, rr_Data = RTXT [v]\<rparr>"

definition soaRecord :: "string \<Rightarrow> string \<Rightarrow> RR" where
  "soaRecord fqdn domainDot = \<lparr>rr_Name = fqdn, rr_Type = TypeSOA, rr_Ttl = 0,
     rr_Data = RSOA (''ns1.'' @ domainDot) ''letsencrypt.org.'' 1 0 0 60 60\<rparr>"

definition ns_names :: "string \<Rightarrow> string list" where
  "ns_names domainDot = [''ns1.'' @ domainDot, ''ns2.'' @ domainDot]"

definition addNSAuthority :: "string \<Rightarrow> dns_reply \<Rightarrow> dns_reply" where
  "addNSAuthority domainDot m = m\<lparr>re_Ns := re_Ns m @ map (ns_record domainDot) (ns_names domainDot)\<rparr>"

definition addGlueRecords :: "ServerIPs \<Rightarrow> string \<Rightarrow> dns_reply \<Rightarrow> dns_reply" where
  "addGlueRecords ips domainDot m = m\<lparr>re_Extra := re_Extra m
     @ concat (map (\<lambda>ns. map (a_record ns) (IPv4 ips) @ map (aaaa_record ns) (IPv6 ips)) (ns_names domainDot))\<rparr>"

definition addNODATAAuthority :: "string \<Rightarrow> dns_reply \<Rightarrow> dns_reply" where
  "addNODATAAuthority domainDot m = m\<lparr>re_Ns := re_Ns m @ [soaRecord domainDot domainDot]\<rparr>"

text \<open>The end of the address cases: authority and glue with an answer, the SOA without one.\<close>

definition finish_addresses :: "ServerIPs \<Rightarrow> string \<Rightarrow> dns_reply \<Rightarrow> dns_reply" where
  "finish_addresses ips domainDot m =
     (if re_Answer m \<noteq> [] then addGlueRecords ips domainDot (addNSAuthority domainDot m)
      else addNODATAAuthority domainDot m)"

definition add_answers :: "RR list \<Rightarrow> dns_reply \<Rightarrow> dns_reply" where
  "add_answers rs m = m\<lparr>re_Answer := re_Answer m @ rs\<rparr>"

definition buildDefaultResponse ::
  "ServerIPs \<Rightarrow> string \<Rightarrow> rr_type \<Rightarrow> string \<Rightarrow> dns_reply \<Rightarrow> dns_reply" where
  "buildDefaultResponse ips qname qtype domain m =
     (let fqdn = ensureTrailingDot qname; domainDot = ensureTrailingDot domain;
          as = map (a_record fqdn) (IPv4 ips); aaaas = map (aaaa_record fqdn) (IPv6 ips)
      in if qtype = TypeA then finish_addresses ips domainDot (add_answers as m)
         else if qtype = TypeAAAA then finish_addresses ips domainDot (add_answers aaaas m)
         else if qtype = TypeMX
         then add_answers [\<lparr>rr_Name = fqdn, rr_Type = TypeMX, rr_Ttl = defaultTTL,
                rr_Data = RMX 1 (''mail.'' @ domainDot)\<rparr>] m
         else if qtype = TypeNS then add_answers (map (ns_record fqdn) (ns_names domainDot)) m
         else if qtype = TypeSOA then add_answers [soaRecord fqdn domainDot] m
         else if qtype = TypeTXT then add_answers [txt_record fqdn []] m
         else if qtype = TypeANY then finish_addresses ips domainDot (add_answers aaaas (add_answers as m))
         else m)"

definition dnsStringToType :: "string \<Rightarrow> rr_type" where
  "dnsStringToType s0 = (let s = to_upper s0
      in if s = ''A'' then TypeA else if s = ''AAAA'' then TypeAAAA else if s = ''CNAME'' then TypeCNAME
         else if s = ''MX'' then TypeMX else if s = ''TXT'' then TypeTXT else if s = ''NS'' then TypeNS
         else TypeNone)"

definition customRecordToRR :: "string \<Rightarrow> customRecord \<Rightarrow> RR option" where
  "customRecordToRR fqdn rec =
     (let t = to_upper (cr_Type rec);
          rr = (\<lambda>ty d. Some \<lparr>rr_Name = fqdn, rr_Type = ty, rr_Ttl = cr_TTL rec, rr_Data = d\<rparr>)
      in if t = ''A'' then (case ParseIP (cr_Value rec) of
             None \<Rightarrow> None
           | Some ip \<Rightarrow> (case To4 ip of None \<Rightarrow> None | Some ip4 \<Rightarrow> rr TypeA (RA ip4)))
         else if t = ''AAAA'' then (case ParseIP (cr_Value rec) of
             None \<Rightarrow> None
           | Some ip \<Rightarrow> if To4 ip \<noteq> None then None else rr TypeAAAA (RAAAA ip))
         else if t = ''CNAME'' then rr TypeCNAME (RCNAME (ensureTrailingDot (cr_Value rec)))
         else if t = ''MX'' then rr TypeMX (RMX (cr_Priority rec) (ensureTrailingDot (cr_Value rec)))
         else if t = ''TXT'' then rr TypeTXT (RTXT [cr_Value rec])
         else if t = ''NS'' then rr TypeNS (RNS (ensureTrailingDot (cr_Value rec)))
         else None)"

definition custom_answers :: "string \<Rightarrow> rr_type \<Rightarrow> customRecord list \<Rightarrow> RR list" where
  "custom_answers fqdn qtype records = concat (map (\<lambda>rec.
     if qtype \<noteq> TypeANY \<and> qtype \<noteq> dnsStringToType (cr_Type rec) then []
     else case customRecordToRR fqdn rec of None \<Rightarrow> [] | Some rr \<Rightarrow> [rr]) records)"

definition buildCustomResponse :: "string \<Rightarrow> rr_type \<Rightarrow> customRecord list \<Rightarrow> dns_reply \<Rightarrow> dns_reply" where
  "buildCustomResponse qname qtype records m =
     add_answers (custom_answers (ensureTrailingDot qname) qtype records) m"

definition buildACMEResponse ::
  "ServerIPs \<Rightarrow> acmeStore \<Rightarrow> string \<Rightarrow> rr_type \<Rightarrow> string \<Rightarrow> dns_reply \<Rightarrow> dns_reply" where
  "buildACMEResponse ips acme qname qtype domain m =
     (let fqdn = ensureTrailingDot qname; domainDot = ensureTrailingDot domain
      in if qtype = TypeTXT then add_answers (map (txt_record fqdn) (acme_Get (normalizeFQDN qname) acme)) m
         else if qtype = TypeSOA then add_answers [soaRecord fqdn domainDot] m
         else if qtype = TypeNS then add_answers (map (ns_record fqdn) (ns_names domainDot)) m
         else if qtype = TypeA then add_answers (map (a_record fqdn) (IPv4 ips)) m
         else if qtype = TypeAAAA then add_answers (map (aaaa_record fqdn) (IPv6 ips)) m
         else m)"

section \<open>The handler\<close>

definition dns_interaction :: "string \<Rightarrow> string \<Rightarrow> string \<Rightarrow> string \<Rightarrow> int \<Rightarrow> Interaction" where
  "dns_interaction qtype rawRequest rawResponse remoteIP now =
     zero_Interaction\<lparr>Protocol := ''dns'', QType := qtype, RawRequest := rawRequest,
       RawResponse := rawResponse, RemoteAddress := remoteIP, Timestamp := now\<rparr>"

definition captureDNSInteraction ::
  "'db env \<Rightarrow> dns_text \<Rightarrow> dns_query \<Rightarrow> string \<Rightarrow> dns_question \<Rightarrow> string \<Rightarrow> string \<Rightarrow> string
     \<Rightarrow> 'db server \<Rightarrow> 'db server" where
  "captureDNSInteraction e dt r rawResponse q domain subdomain remoteAddr s =
     (let remoteIP = stripHostPort remoteAddr; rawRequest = query_String dt r;
          qnameLower = normalizeFQDN (q_Name q);
          i = dns_interaction (type_String dt (q_Type q)) rawRequest rawResponse remoteIP (env_now e)
      in case captureInteraction e domain subdomain rawRequest
                (i\<lparr>InteractionUniqueID := qnameLower, FullId := qnameLower\<rparr>) i s of
           (matched, s1) \<Rightarrow> if matched then s1\<lparr>dnsMatched := dnsMatched s1 + 1\<rparr> else s1)"

definition is_acme :: "string \<Rightarrow> bool" where
  "is_acme subdomain \<longleftrightarrow> subdomain = ''_acme-challenge'' \<or> has_prefix subdomain ''_acme-challenge.''"

text \<open>The reply that is written, if any, and the server afterwards.\<close>

definition handleDNS ::
  "'db env \<Rightarrow> dns_text \<Rightarrow> string \<Rightarrow> dns_query \<Rightarrow> 'db server \<Rightarrow> dns_reply option \<times> 'db server" where
  "handleDNS e dt remoteAddr r s0 = (case dq_Question r of
      [] \<Rightarrow> (None, s0)
    | q # _ \<Rightarrow>
        let s = s0\<lparr>dnsCount := dnsCount s0 + 1\<rparr>; qnameLower = normalizeFQDN (q_Name q);
            m = \<lparr>re_To = r, re_Authoritative = True, re_RecursionAvailable = False,
                 re_Answer = [], re_Ns = [], re_Extra = []\<rparr>
        in case matchedDomain s qnameLower of
             None \<Rightarrow> (Some m, s)
           | Some domain \<Rightarrow>
               let subdomain = extractSubdomain qnameLower domain
               in if is_acme subdomain
                  then (Some (buildACMEResponse (sv_ips s) (sv_acmeStore s) (q_Name q) (q_Type q) domain m), s)
                  else let m1 = (case sv_customRecords s subdomain of
                             Some records \<Rightarrow> buildCustomResponse (q_Name q) (q_Type q) records m
                           | None \<Rightarrow> buildDefaultResponse (sv_ips s) (q_Name q) (q_Type q) domain m)
                       in (Some m1, captureDNSInteraction e dt r (reply_String dt m1) q domain subdomain remoteAddr s))"

section \<open>The server's addresses\<close>

definition ClassifyIPs :: "string list \<Rightarrow> ServerIPs" where
  "ClassifyIPs ips = (let parsed = concat (map (\<lambda>s. case ParseIP (trim_space s) of None \<Rightarrow> [] | Some ip \<Rightarrow> [ip]) ips)
     in \<lparr>IPv4 = map (\<lambda>ip. the (To4 ip)) (filter (\<lambda>ip. To4 ip \<noteq> None) parsed),
         IPv6 = filter (\<lambda>ip. To4 ip = None) parsed\<rparr>)"

text \<open>
  Auto-detection: what the external service answers per network (status and body), the addresses of
  the local interfaces, and the local address of a UDP socket per network.
\<close>

record ip_world =
  iw_external :: "string \<Rightarrow> (int \<times> string) result"
  iw_interfaces :: "IP list result"
  iw_udp :: "string \<Rightarrow> string result"

definition shorten_ip :: "IP \<Rightarrow> IP" where
  "shorten_ip ip = (case To4 ip of Some ip4 \<Rightarrow> ip4 | None \<Rightarrow> ip)"

definition detectIPExternal :: "ip_world \<Rightarrow> string \<Rightarrow> IP result" where
  "detectIPExternal iw network = (case iw_external iw network of
      Inl err \<Rightarrow> Inl (''external ip check: '' @ err)
    | Inr (status, body) \<Rightarrow>
        if status \<noteq> 200 then Inl (''external ip check: status '' @ itoa status)
        else case ParseIP (trim_space (take 256 body)) of
            None \<Rightarrow> Inl (''invalid ip from external service: '' @ go_quote (trim_space (take 256 body)))
          | Some ip \<Rightarrow> Inr (shorten_ip ip))"

definition validateLocalIP :: "ip_world \<Rightarrow> IP \<Rightarrow> bool" where
  "validateLocalIP iw ip = (case iw_interfaces iw of
      Inl err \<Rightarrow> False
    | Inr addrs \<Rightarrow> list_ex (\<lambda>a. ip_Equal a ip) addrs)"

definition isUsablePublicIP :: "IP \<Rightarrow> bool" where
  "isUsablePublicIP ip \<longleftrightarrow> IsGlobalUnicast ip \<and> \<not> IsPrivate ip"

definition detectIPUDP :: "ip_world \<Rightarrow> string \<Rightarrow> IP result" where
  "detectIPUDP iw network = (case iw_udp iw network of
      Inl err \<Rightarrow> Inl (''udp dial: '' @ err)
    | Inr addr \<Rightarrow> (case SplitHostPort addr of
        None \<Rightarrow> Inl ''parsing local address: missing port in address''
      | Some (host, port) \<Rightarrow> (case ParseIP host of
          None \<Rightarrow> Inl (''invalid local ip: '' @ go_quote host)
        | Some ip \<Rightarrow> Inr (shorten_ip ip))))"

definition detectPublicUDP :: "ip_world \<Rightarrow> string \<Rightarrow> IP result" where
  "detectPublicUDP iw network = (case detectIPUDP iw network of
      Inl err \<Rightarrow> Inl err
    | Inr ip \<Rightarrow> if \<not> isUsablePublicIP ip \<or> \<not> validateLocalIP iw ip
        then Inl ''udp source is not a usable public ip'' else Inr ip)"

definition detect_family :: "ip_world \<Rightarrow> string \<Rightarrow> string \<Rightarrow> IP result" where
  "detect_family iw tcp udp = (case detectIPExternal iw tcp of
      Inr ip \<Rightarrow> if validateLocalIP iw ip then Inr ip else detectPublicUDP iw udp
    | Inl err \<Rightarrow> detectPublicUDP iw udp)"

definition detectIPv4 :: "ip_world \<Rightarrow> IP result" where
  "detectIPv4 iw = detect_family iw ''tcp4'' ''udp4''"

definition detectIPv6 :: "ip_world \<Rightarrow> IP result" where
  "detectIPv6 iw = detect_family iw ''tcp6'' ''udp6''"

definition DetectIPs :: "ip_world \<Rightarrow> ServerIPs result" where
  "DetectIPs iw = (case (detectIPv4 iw, detectIPv6 iw) of
      (Inl e4, Inl e6) \<Rightarrow> Inl (''ip auto-detection failed: '' @ e4 @ [CHR 0x0A] @ e6 @ '' (configure ips in config)'')
    | (r4, r6) \<Rightarrow> Inr \<lparr>IPv4 = (case r4 of Inr ip \<Rightarrow> [ip] | Inl _ \<Rightarrow> []),
                        IPv6 = (case r6 of Inr ip \<Rightarrow> [ip] | Inl _ \<Rightarrow> [])\<rparr>)"

definition resolveIPs :: "ip_world \<Rightarrow> 'db server \<Rightarrow> string option \<times> 'db server" where
  "resolveIPs iw s =
     (if IPs (sv_cfg s) \<noteq> [] then (None, s\<lparr>sv_ips := ClassifyIPs (IPs (sv_cfg s))\<rparr>)
      else if (case ParseIP (ListenIP (sv_cfg s)) of Some ip \<Rightarrow> \<not> IsUnspecified ip | None \<Rightarrow> False)
      then (None, s\<lparr>sv_ips := ClassifyIPs [ListenIP (sv_cfg s)]\<rparr>)
      else case DetectIPs iw of Inl err \<Rightarrow> (Some err, s) | Inr ips \<Rightarrow> (None, s\<lparr>sv_ips := ips\<rparr>))"

end
