(* ===== verification/Dns_Properties.thy ===== *)
theory Dns_Properties
  imports Dns Server_Demo
begin

text \<open>
  Properties of the DNS side: what the answers hold, what is captured and what never is, the store
  of challenges with its certificate provider against a set of pairs, the choice of the domain, and
  the custom records that a file gives.
\<close>

section \<open>Answers\<close>

definition answers_question :: "dns_question \<Rightarrow> dns_reply \<Rightarrow> bool" where
  "answers_question q m \<longleftrightarrow> (\<forall>rr \<in> set (re_Answer m).
     rr_Name rr = ensureTrailingDot (q_Name q) \<and> (q_Type q = TypeANY \<or> rr_Type rr = q_Type q))"

lemma reply_simps [simp]:
  "re_Answer (addNSAuthority d m) = re_Answer m" "re_Answer (addGlueRecords ips d m) = re_Answer m"
  "re_Answer (addNODATAAuthority d m) = re_Answer m" "re_Answer (finish_addresses ips d m) = re_Answer m"
  "re_Answer (add_answers rs m) = re_Answer m @ rs"
  "rr_Name (a_record n ip) = n" "rr_Type (a_record n ip) = TypeA"
  "rr_Name (aaaa_record n ip) = n" "rr_Type (aaaa_record n ip) = TypeAAAA"
  "rr_Name (ns_record n ns) = n" "rr_Type (ns_record n ns) = TypeNS"
  "rr_Name (txt_record n v) = n" "rr_Type (txt_record n v) = TypeTXT"
  "rr_Name (soaRecord n d) = n" "rr_Type (soaRecord n d) = TypeSOA"
  by (simp_all add: addNSAuthority_def addGlueRecords_def addNODATAAuthority_def finish_addresses_def
      add_answers_def a_record_def aaaa_record_def ns_record_def txt_record_def soaRecord_def)

lemma default_answers:
  "re_Answer m = [] \<Longrightarrow> answers_question q (buildDefaultResponse ips (q_Name q) (q_Type q) domain m)"
  by (auto simp: answers_question_def buildDefaultResponse_def Let_def)

lemma acme_answers:
  "re_Answer m = [] \<Longrightarrow> answers_question q (buildACMEResponse ips acme (q_Name q) (q_Type q) domain m)"
  by (auto simp: answers_question_def buildACMEResponse_def Let_def)

lemma customRecordToRR_type:
  "customRecordToRR fqdn rec = Some rr \<Longrightarrow> rr_Name rr = fqdn \<and> rr_Type rr = dnsStringToType (cr_Type rec)"
  by (auto simp: customRecordToRR_def dnsStringToType_def Let_def split: if_splits option.splits)

lemma custom_answers_ok:
  "rr \<in> set (custom_answers fqdn qtype records) \<Longrightarrow> rr_Name rr = fqdn \<and> (qtype = TypeANY \<or> rr_Type rr = qtype)"
  by (auto simp: custom_answers_def dest: customRecordToRR_type [OF sym] split: if_splits option.splits)

lemma custom_response_answers:
  "re_Answer m = [] \<Longrightarrow> answers_question q (buildCustomResponse (q_Name q) (q_Type q) records m)"
  by (auto simp: answers_question_def buildCustomResponse_def dest: custom_answers_ok)

lemma no_answers: "re_Answer m = [] \<Longrightarrow> answers_question q m"
  by (simp add: answers_question_def)

text \<open>
  C37: a DNS answer is about the question.  Whatever the name, the type, the custom records and the
  addresses are, every record in the answer section carries the queried name, and the queried type
  unless the type was ANY; a query without a question gets no reply.
\<close>

theorem dns_answers_asked:
  "case fst (handleDNS e dt remote r s) of
     None \<Rightarrow> dq_Question r = []
   | Some m \<Rightarrow> answers_question (hd (dq_Question r)) m"
proof (cases "dq_Question r")
  case Nil
  then show ?thesis by (simp add: handleDNS_def)
next
  case (Cons q qs)
  show ?thesis
  proof (cases "fst (handleDNS e dt remote r s)")
    case None
    with Cons show ?thesis by (auto simp: handleDNS_def Let_def split: option.splits if_splits)
  next
    case (Some m)
    have "answers_question q m"
      using Some Cons
      by (auto simp: handleDNS_def Let_def default_answers acme_answers custom_response_answers no_answers
          split: option.splits if_splits)
    with Some Cons show ?thesis by simp
  qed
qed

section \<open>The most specific domain\<close>

lemma find_first_sorted:
  assumes "sorted (map k xs)" and "find P xs = Some x"
  shows "x \<in> set xs \<and> P x \<and> (\<forall>y \<in> set xs. P y \<longrightarrow> k x \<le> k y)"
  using assms by (induction xs) (auto split: if_splits)

lemma New_server_domains: "New_server now recs od cfg = Inr s \<Longrightarrow> Domains (sv_cfg s) = Domains (normalise_domains cfg)"
  by (auto simp: New_server_def Let_def split: option.splits sum.splits if_splits)

text \<open>
  C36: a name belongs to the most specific configured domain.  On a server that \<open>New\<close> has built, the
  matched domain of a name is one of the lower-cased configured domains that equal the name or end
  it at a label boundary, and no configured domain that does is longer; a name is unmatched exactly
  when no configured domain matches it.
\<close>

theorem matched_domain_longest:
  assumes "New_server now records open_disk cfg = Inr s"
  shows "case matchedDomain s qname of
      None \<Rightarrow> \<forall>d \<in> set (Domains cfg). \<not> domain_matches qname (to_lower d)
    | Some d \<Rightarrow> d \<in> to_lower ` set (Domains cfg) \<and> domain_matches qname d
        \<and> (\<forall>d' \<in> set (Domains cfg). domain_matches qname (to_lower d') \<longrightarrow> length d' \<le> length d)"
proof (cases "matchedDomain s qname")
  case None
  then have "\<forall>d \<in> set (Domains cfg). \<not> domain_matches qname (to_lower d)"
    by (auto simp: matchedDomain_def New_server_domains [OF assms] normalise_domains_def find_None_iff)
  with None show ?thesis by simp
next
  case (Some d)
  have "sorted (map (\<lambda>d. - int (length d)) (Domains (sv_cfg s)))"
    by (simp add: New_server_domains [OF assms] normalise_domains_def)
  from find_first_sorted [OF this] Some have "d \<in> set (Domains (sv_cfg s))" "domain_matches qname d"
    "\<forall>y \<in> set (Domains (sv_cfg s)). domain_matches qname y \<longrightarrow> length y \<le> length d"
    by (fastforce simp: matchedDomain_def)+
  then show ?thesis using Some
    by (auto simp: New_server_domains [OF assms] normalise_domains_def)
qed

theorem matched_domain_longest_witness:
  "\<exists>s :: unit server. New_server 0 (Inr Map.empty) (\<lambda>_. Inl []) (DefaultConfig\<lparr>Domains := [''e.f'', ''D.e.f'']\<rparr>) = Inr s
     \<and> matchedDomain s ''x.d.e.f'' = Some ''d.e.f''"
proof -
  let ?cfg = "DefaultConfig\<lparr>Domains := [''e.f'', ''D.e.f'']\<rparr>"
  have "Validate ?cfg = None" by code_simp
  moreover have "Disk ?cfg = False" by code_simp
  ultimately obtain s :: "unit server" where s: "New_server 0 (Inr Map.empty) (\<lambda>_. Inl []) ?cfg = Inr s"
    by (simp add: New_server_def Let_def normalise_domains_def)
  have "domain_matches ''x.d.e.f'' (to_lower ''D.e.f'')" "to_lower ''e.f'' \<noteq> to_lower ''D.e.f''"
    "to_lower ''D.e.f'' = ''d.e.f''"
    by code_simp+
  with matched_domain_longest [OF s, of "''x.d.e.f''"] have "matchedDomain s ''x.d.e.f'' = Some ''d.e.f''"
    by (auto split: option.splits)
  with s show ?thesis by blast
qed

section \<open>Capture\<close>

text \<open>
  The ids that a query names: none when it has no question, when its name is under none of the
  configured domains, or when it is for an ACME challenge; and else those of the subdomain, or of
  the text of the query when the server scans everywhere.
\<close>

definition query_name :: "dns_query \<Rightarrow> string" where
  "query_name r = normalizeFQDN (q_Name (hd (dq_Question r)))"

definition query_subdomain :: "dns_query \<Rightarrow> 'db server \<Rightarrow> string" where
  "query_subdomain r s = (case matchedDomain s (query_name r) of
      None \<Rightarrow> []
    | Some domain \<Rightarrow> extractSubdomain (query_name r) domain)"

definition query_ids :: "dns_text \<Rightarrow> dns_query \<Rightarrow> 'db server \<Rightarrow> string list" where
  "query_ids dt r s =
     (if dq_Question r = [] \<or> matchedDomain s (query_name r) = None \<or> is_acme (query_subdomain r s) then []
      else named_ids s (query_subdomain r s) (query_String dt r))"

definition dns_stored :: "'db env \<Rightarrow> dns_text \<Rightarrow> string \<Rightarrow> dns_query \<Rightarrow> 'db server \<Rightarrow> string \<Rightarrow> Interaction" where
  "dns_stored e dt remote r s cid =
     (dns_interaction (type_String dt (q_Type (hd (dq_Question r)))) (query_String dt r)
        (reply_String dt (the (fst (handleDNS e dt remote r s)))) (stripHostPort remote) (env_now e))
       \<lparr>InteractionUniqueID := cid, FullId := named_full s (query_subdomain r s) (query_String dt r) cid\<rparr>"

lemma handleDNS_captured:
  assumes "dq_Question r = q # qs" and "matchedDomain s (normalizeFQDN (q_Name q)) = Some domain"
    and "sub = extractSubdomain (normalizeFQDN (q_Name q)) domain" "\<not> is_acme sub"
  obtains m where "handleDNS e dt remote r s = (Some m,
     captureDNSInteraction e dt r (reply_String dt m) q domain sub remote (s\<lparr>dnsCount := dnsCount s + 1\<rparr>))"
proof -
  have "matchedDomain (s\<lparr>dnsCount := dnsCount s + 1\<rparr>) (normalizeFQDN (q_Name q)) = Some domain"
    using assms(2) by (simp add: matchedDomain_def)
  with assms that show thesis by (simp add: handleDNS_def Let_def)
qed

lemma handleDNS_ignored:
  assumes "dq_Question r = [] \<or> matchedDomain s (query_name r) = None \<or> is_acme (query_subdomain r s)"
  shows "sv_storage (snd (handleDNS e dt remote r s)) = sv_storage s"
  using assms
  by (cases "dq_Question r"; cases "matchedDomain s (query_name r)")
     (auto simp: handleDNS_def Let_def query_name_def query_subdomain_def matchedDomain_def)

text \<open>
  C8: a DNS query is captured for exactly the sessions it names.  Handling any query appends to every
  live session that it names one interaction with the query, the reply and the peer, encrypted with
  the session's key, and changes no other account.  A query names the candidates of its subdomain,
  or with \<open>ScanEverywhere\<close> the windows of its text; outside the configured domains, and for ACME
  challenges, it names nothing.
\<close>

theorem dns_capture_exact:
  assumes good: "storage_good contents e (sv_storage s)"
    and env: "env_marshal e = (\<lambda>i. Inr (js i))" "env_iv e = (\<lambda>c. Inr (iv c))"
    and fits: "\<And>c. live_at contents e s c \<Longrightarrow> c \<in> set (query_ids dt r s) \<Longrightarrow>
        record_fits (Inr (iv c)) (go_bytes (js (dns_stored e dt remote r s c)))"
  shows "account_at contents e (snd (handleDNS e dt remote r s)) = (\<lambda>c.
     if live_at contents e s c \<and> c \<in> set (query_ids dt r s)
     then map_option (\<lambda>acc. acc\<lparr>acc_pending := acc_pending acc
            @ [encrypt_for (env_aes e) acc (iv c) (go_bytes (js (dns_stored e dt remote r s c)))]\<rparr>)
            (account_at contents e s c)
     else account_at contents e s c)"
proof (cases "dq_Question r = [] \<or> matchedDomain s (query_name r) = None \<or> is_acme (query_subdomain r s)")
  case True
  then have "query_ids dt r s = []" by (simp only: query_ids_def if_True)
  then show ?thesis by (simp add: handleDNS_ignored [OF True])
next
  case False
  then obtain q qs domain where query: "dq_Question r = q # qs" "matchedDomain s (normalizeFQDN (q_Name q)) = Some domain"
    by (cases "dq_Question r") (auto simp: query_name_def)
  let ?sub = "query_subdomain r s" and ?text = "query_String dt r"
  have sub: "?sub = extractSubdomain (normalizeFQDN (q_Name q)) domain"
    by (simp add: query_subdomain_def query_name_def query)
  define s2 where "s2 = s\<lparr>dnsCount := dnsCount s + 1\<rparr>"
  obtain m where h: "handleDNS e dt remote r s = (Some m,
     captureDNSInteraction e dt r (reply_String dt m) q domain ?sub remote s2)"
    by (rule handleDNS_captured [OF query sub, of e dt remote]) (use False in \<open>simp_all add: s2_def\<close>)
  let ?i = "dns_interaction (type_String dt (q_Type q)) ?text (reply_String dt m) (stripHostPort remote) (env_now e)"
  let ?wi = "?i\<lparr>InteractionUniqueID := normalizeFQDN (q_Name q), FullId := normalizeFQDN (q_Name q)\<rparr>"
  have s2: "sv_storage s2 = sv_storage s" "sv_cfg s2 = sv_cfg s" by (simp_all add: s2_def)
  then have live: "live_at contents e s2 = live_at contents e s"
    and named: "named_ids s2 = named_ids s" "named_full s2 = named_full s"
    by (simp_all add: live_at_def fun_eq_iff named_ids_def named_full_def scans_def Let_def)
  have qids: "query_ids dt r s = named_ids s ?sub ?text" unfolding query_ids_def using False by (simp only: if_False)
  define ids where "ids = set (filter (live_at contents e s2) (named_ids s2 ?sub ?text))"
  obtain st where cap: "captureInteraction e domain ?sub ?text ?wi ?i s2
       = (ids \<noteq> {}, (captureWildcard e domain ?wi s2)\<lparr>sv_storage := st\<rparr>)"
    and st: "\<And>c. storage_view contents (env_now e) st c
       = (if c \<in> ids then map_option (\<lambda>acc. acc\<lparr>acc_pending := acc_pending acc
              @ [encrypt_for (env_aes e) acc (iv c) (go_bytes (js (dns_stored e dt remote r s c)))]\<rparr>)
              (account_at contents e s2 c)
          else account_at contents e s2 c)"
  proof (rule capture_named [where data = "\<lambda>c. go_bytes (js (dns_stored e dt remote r s c))"
        and contents = contents and e = e and s = s2 and i = ?i and wi = ?wi and domain = domain
        and matchInput = ?sub and scanInput = ?text and js = js and iv = iv and ids = ids])
    show "storage_good contents e (sv_storage s2)" using good by (simp add: s2)
    show "env_marshal e = (\<lambda>i. Inr (js i))" "env_iv e = (\<lambda>c. Inr (iv c))" by (rule env)+
    show "go_bytes (js (dns_stored e dt remote r s c)) = go_bytes (js (?i\<lparr>InteractionUniqueID := c,
        FullId := named_full s2 ?sub ?text c\<rparr>))" for c
      by (simp add: dns_stored_def h named query(1))
    show "record_fits (Inr (iv c)) (go_bytes (js (dns_stored e dt remote r s c)))" if "c \<in> ids" for c
      using that fits by (simp add: ids_def live named qids)
  qed (rule ids_def, rule that, assumption+)
  have "sv_storage (snd (handleDNS e dt remote r s)) = st"
    by (simp add: h captureDNSInteraction_def Let_def cap)
  then show ?thesis by (simp add: fun_eq_iff st s2 live named qids ids_def)
qed

theorem dns_capture_exact_witness:
  "map_option acc_pending (account_at (\<lambda>_ _. None) demo_env
     (snd (handleDNS demo_env \<lparr>query_String = \<lambda>_. ''q'', reply_String = \<lambda>_. ''r'', type_String = \<lambda>_. ''A''\<rparr> ''192.0.2.7:53''
        \<lparr>dq_Question = [\<lparr>q_Name = ''C.d.e.'', q_Type = TypeA\<rparr>], dq_Rest = []\<rparr> demo_server)) ''c'')
   = Some [encrypt_for demo_cipher demo_account (replicate 16 1) (go_bytes ''{}'')]"
proof -
  let ?r = "\<lparr>dq_Question = [\<lparr>q_Name = ''C.d.e.'', q_Type = TypeA\<rparr>], dq_Rest = []\<rparr>"
  let ?dt = "\<lparr>query_String = \<lambda>_. ''q'', reply_String = \<lambda>_. ''r'', type_String = \<lambda>_. ''A''\<rparr>"
  have names: "query_name ?r = ''c.d.e''" "extractSubdomain ''c.d.e'' ''d.e'' = ''c''"
    "\<not> is_acme ''c''" "''c'' \<in> set (candidates 1 (to_lower ''c''))"
    by code_simp+
  have cfg: "sv_cfg demo_server = demo_config" "\<not> ScanEverywhere demo_config" "CorrelationIdLength demo_config = 1"
    "Domains demo_config = [''d.e'']"
    by (simp_all add: demo_server_def demo_config_def zero_Config_def)
  have g: "storage_good (\<lambda>_ _. None) demo_env (sv_storage demo_server)"
    "account_at (\<lambda>_ _. None) demo_env demo_server ''c'' = Some demo_account"
    using demo_m1_good [of 6] demo_m1_view [of 6]
    by (simp_all add: demo_server_def demo_env_def duration_defs max_int64_def)
  have env: "env_marshal demo_env = (\<lambda>i. Inr ''{}'')" "env_iv demo_env = (\<lambda>c. Inr (replicate 16 1))"
    "env_aes demo_env = demo_cipher" "acc_pending demo_account = []"
    by (simp_all add: demo_env_def demo_account_def)
  have dom: "matchedDomain demo_server ''c.d.e'' = Some ''d.e''"
    by (simp add: matchedDomain_def cfg domain_matches_def) (simp add: has_suffix_def)
  have "query_subdomain ?r demo_server = ''c''" by (simp add: query_subdomain_def names dom)
  then have "''c'' \<in> set (query_ids ?dt ?r demo_server)"
    using names(3,4) by (simp add: query_ids_def names(1) dom named_labels cfg)
  then show ?thesis
    using dns_capture_exact [OF g(1) env(1,2), of ?dt ?r "''192.0.2.7:53''"] g(2) env(3,4)
    by (simp add: record_fits_def live_at_def)
qed

section \<open>Custom records\<close>

definition record_ok :: "customRecord \<Rightarrow> bool" where
  "record_ok rec \<longleftrightarrow> cr_Type rec \<in> set supportedRecordTypes \<and> cr_TTL rec \<noteq> 0
     \<and> (cr_Type rec = ''MX'' \<longrightarrow> cr_Priority rec \<noteq> 0)"

definition records_ok :: "customRecords \<Rightarrow> bool" where
  "records_ok recs \<longleftrightarrow> (\<forall>k rs. recs k = Some rs \<longrightarrow> to_lower k = k \<and> (\<forall>rec \<in> set rs. record_ok rec))"

lemma check_record_ok: "check_record key rec0 = Inr rec1 \<Longrightarrow> record_ok rec1"
  by (auto simp: check_record_def record_ok_def Let_def split: if_splits)

lemma check_records_ok: "check_records key recs = Inr rs \<Longrightarrow> \<forall>rec \<in> set rs. record_ok rec"
  by (induction recs arbitrary: rs) (auto split: sum.splits dest: check_record_ok)

lemma a_record_ok: "record_ok \<lparr>cr_Type = ''A'', cr_Value = v, cr_TTL = 3600, cr_Priority = 0\<rparr>"
  by (simp add: record_ok_def) (simp add: supportedRecordTypes_def)

lemma parse_entries_ok: "parse_entries entries recs = Inr recs' \<Longrightarrow> records_ok recs \<Longrightarrow> records_ok recs'"
proof (induction entries recs rule: parse_entries.induct)
  case (2 key0 val entries records)
  note recs = "2.prems"(2)
  have one: "records_ok (records(to_lower key0 \<mapsto> rs))" if "\<forall>rec \<in> set rs. record_ok rec" for rs
    using recs that by (simp add: records_ok_def)
  show ?case
  proof (cases val)
    case (YamlString v)
    show ?thesis
      by (rule "2.IH"(1) [OF refl YamlString]) (use "2.prems"(1) one a_record_ok YamlString in \<open>simp_all add: Let_def fun_upd_def\<close>)
  next
    case (YamlList r)
    then obtain rs rs1 where r: "r = Inr rs" "check_records (to_lower key0) rs = Inr rs1"
      using "2.prems"(1) by (auto simp: Let_def split: sum.splits)
    show ?thesis
      by (rule "2.IH"(2) [OF refl YamlList r])
         (use "2.prems"(1) one check_records_ok [OF r(2)] YamlList r in \<open>simp_all add: Let_def fun_upd_def\<close>)
  qed (use "2.prems"(1) in \<open>simp add: Let_def\<close>)
qed simp

lemma builtin_records:
  "builtinSSRFRecords k = Some rs \<Longrightarrow> k \<in> {''aws'', ''alibaba'', ''localhost'', ''oracle''}
     \<and> (\<exists>v. rs = [\<lparr>cr_Type = ''A'', cr_Value = v, cr_TTL = 3600, cr_Priority = 0\<rparr>])"
  by (simp add: builtinSSRFRecords_def split: if_splits) blast+

lemma builtin_ok: "records_ok builtinSSRFRecords"
proof -
  have "to_lower ''aws'' = ''aws''" "to_lower ''alibaba'' = ''alibaba''"
    "to_lower ''localhost'' = ''localhost''" "to_lower ''oracle'' = ''oracle''"
    by code_simp+
  then have "to_lower k = k" if "k \<in> {''aws'', ''alibaba'', ''localhost'', ''oracle''}" for k
    using that by (elim insertE emptyE) (simp_all only:)
  then show ?thesis
    unfolding records_ok_def using a_record_ok
    by (intro allI impI) (drule builtin_records, elim conjE exE, simp only: list.set ball_simps simp_thms)
qed

text \<open>
  Every record the server serves from a file is well formed.  When loading succeeds, each key is
  lower case, as the names it is compared with are; each record has a supported type in upper case
  and a TTL, and an MX record has a priority; the operator's entries override the built-in ones and
  the rest of those stay.
\<close>

theorem custom_records_wellformed:
  assumes "loadCustomRecords readFile decode path = Inr recs"
  shows "records_ok recs \<and> (\<forall>k. recs k = None \<longrightarrow> builtinSSRFRecords k = None)"
proof (cases "path = []")
  case True
  with assms show ?thesis by (auto simp: loadCustomRecords_def builtin_ok)
next
  case False
  with assms obtain operator entries where "parse_entries entries Map.empty = Inr operator"
    "recs = builtinSSRFRecords ++ operator"
    by (auto simp: loadCustomRecords_def parseCustomRecords_def split: sum.splits)
  moreover from this(1) have "records_ok operator"
    by (rule parse_entries_ok) (simp add: records_ok_def)
  ultimately show ?thesis using builtin_ok
    by (auto simp: records_ok_def map_add_Some_iff)
qed

theorem custom_records_wellformed_witness:
  "\<exists>recs. loadCustomRecords (\<lambda>_. Inr ''y'') (\<lambda>_. Inr [(''WWW'', YamlString ''192.0.2.1'')]) ''r.yaml'' = Inr recs
     \<and> records_ok recs"
  using custom_records_wellformed [of "\<lambda>_. Inr ''y''" "\<lambda>_. Inr [(''WWW'', YamlString ''192.0.2.1'')]" "''r.yaml''"]
  by (simp add: loadCustomRecords_def parseCustomRecords_def)

end
