(* ===== verification/Acme.thy ===== *)
theory Acme
  imports Dns_Properties
begin

text \<open>
  The ACME challenges: the certificate provider of \<open>oobsrv/tls.go\<close>, which puts TXT records into the
  store of \<open>oobsrv/dns.go\<close> and takes them out again, and the DNS handler, which serves them.  The
  store is an interface between the two: \<open>challenge_store\<close> states what both rely on, and in it every
  sequence of calls keeps the store equal to a set of pairs.
\<close>

section \<open>The provider\<close>

record libdns_RR =
  rr_libName :: string
  rr_libType :: string
  rr_libData :: string

text \<open>\<open>absname\<close> is \<open>libdns.AbsoluteName\<close>.\<close>

definition toFQDN :: "(string \<Rightarrow> string \<Rightarrow> string) \<Rightarrow> string \<Rightarrow> string \<Rightarrow> string" where
  "toFQDN absname name zone = normalizeFQDN (absname name zone)"

definition txt_only :: "libdns_RR list \<Rightarrow> libdns_RR list" where
  "txt_only recs = filter (\<lambda>rr. rr_libType rr = ''TXT'') recs"

definition AppendRecords ::
  "(string \<Rightarrow> string \<Rightarrow> string) \<Rightarrow> string \<Rightarrow> libdns_RR list \<Rightarrow> acmeStore \<Rightarrow> libdns_RR list \<times> acmeStore" where
  "AppendRecords absname zone recs store =
     (txt_only recs, fold (\<lambda>rr. acme_Add (toFQDN absname (rr_libName rr) zone) (rr_libData rr)) (txt_only recs) store)"

definition DeleteRecords ::
  "(string \<Rightarrow> string \<Rightarrow> string) \<Rightarrow> string \<Rightarrow> libdns_RR list \<Rightarrow> acmeStore \<Rightarrow> libdns_RR list \<times> acmeStore" where
  "DeleteRecords absname zone recs store =
     (txt_only recs, fold (\<lambda>rr. acme_Delete (toFQDN absname (rr_libName rr) zone) (rr_libData rr)) (txt_only recs) store)"

section \<open>The interface\<close>

locale challenge_store =
  fixes canon :: "string \<Rightarrow> string"
    and add :: "string \<Rightarrow> string \<Rightarrow> 's \<Rightarrow> 's" and del :: "string \<Rightarrow> string \<Rightarrow> 's \<Rightarrow> 's"
    and get :: "string \<Rightarrow> 's \<Rightarrow> string list"
  assumes get_add: "set (get g (add f v s)) = set (get g s) \<union> (if canon g = canon f then {v} else {})"
    and get_del: "set (get g (del f v s)) = set (get g s) - (if canon g = canon f then {v} else {})"
    and add_distinct: "distinct (get g s) \<Longrightarrow> distinct (get g (add f v s))"
    and del_distinct: "distinct (get g s) \<Longrightarrow> distinct (get g (del f v s))"
begin

text \<open>The store holds exactly a set of pairs of canonical name and value, each value once.\<close>

definition holds :: "'s \<Rightarrow> (string \<times> string) set \<Rightarrow> bool" where
  "holds s S \<longleftrightarrow> (\<forall>g. distinct (get g s) \<and> set (get g s) = {v. (canon g, v) \<in> S})"

lemma holds_add: "holds s S \<Longrightarrow> holds (add f v s) (insert (canon f, v) S)"
  unfolding holds_def by (intro allI conjI) (auto simp: get_add add_distinct)

lemma holds_del: "holds s S \<Longrightarrow> holds (del f v s) (S - {(canon f, v)})"
  unfolding holds_def by (intro allI conjI) (auto simp: get_del del_distinct split: if_splits)

lemma holds_add_all:
  "holds s S \<Longrightarrow> holds (fold (\<lambda>x. add (n x) (d x)) xs s) (S \<union> (\<lambda>x. (canon (n x), d x)) ` set xs)"
proof (induction xs arbitrary: s S)
  case (Cons x xs)
  from Cons.IH [OF holds_add [OF Cons.prems, of "n x" "d x"]] show ?case by simp
qed simp

lemma holds_del_all:
  "holds s S \<Longrightarrow> holds (fold (\<lambda>x. del (n x) (d x)) xs s) (S - (\<lambda>x. (canon (n x), d x)) ` set xs)"
proof (induction xs arbitrary: s S)
  case (Cons x xs)
  from Cons.IH [OF holds_del [OF Cons.prems, of "n x" "d x"]] show ?case
    by (simp add: set_diff_eq conj_ac)
qed simp

end

interpretation acme: challenge_store normalizeFQDN acme_Add acme_Delete acme_Get
proof
  fix f g v and s :: acmeStore
  show "set (acme_Get g (acme_Add f v s)) = set (acme_Get g s) \<union> (if normalizeFQDN g = normalizeFQDN f then {v} else {})"
    by (auto simp: acme_Get_def acme_Add_def Let_def)
  show "set (acme_Get g (acme_Delete f v s)) = set (acme_Get g s) - (if normalizeFQDN g = normalizeFQDN f then {v} else {})"
    by (auto simp: acme_Get_def acme_Delete_def Let_def)
  show "distinct (acme_Get g s) \<Longrightarrow> distinct (acme_Get g (acme_Add f v s))"
    by (auto simp: acme_Get_def acme_Add_def Let_def)
  show "distinct (acme_Get g s) \<Longrightarrow> distinct (acme_Get g (acme_Delete f v s))"
    by (auto simp: acme_Get_def acme_Delete_def Let_def)
qed

section \<open>Every sequence of calls\<close>

datatype challenge = AppendCall string "libdns_RR list" | DeleteCall string "libdns_RR list"

definition provider_call :: "(string \<Rightarrow> string \<Rightarrow> string) \<Rightarrow> challenge \<Rightarrow> acmeStore \<Rightarrow> acmeStore" where
  "provider_call absname call store = (case call of
      AppendCall zone recs \<Rightarrow> snd (AppendRecords absname zone recs store)
    | DeleteCall zone recs \<Rightarrow> snd (DeleteRecords absname zone recs store))"

text \<open>The names of a call's TXT records as the store keeps them, with their values.\<close>

definition call_pairs :: "(string \<Rightarrow> string \<Rightarrow> string) \<Rightarrow> string \<Rightarrow> libdns_RR list \<Rightarrow> (string \<times> string) set" where
  "call_pairs absname zone recs =
     (\<lambda>rr. (normalizeFQDN (toFQDN absname (rr_libName rr) zone), rr_libData rr)) ` set (txt_only recs)"

primrec outstanding ::
  "(string \<Rightarrow> string \<Rightarrow> string) \<Rightarrow> challenge list \<Rightarrow> (string \<times> string) set \<Rightarrow> (string \<times> string) set" where
  "outstanding absname [] S = S"
| "outstanding absname (call # calls) S = outstanding absname calls (case call of
      AppendCall zone recs \<Rightarrow> S \<union> call_pairs absname zone recs
    | DeleteCall zone recs \<Rightarrow> S - call_pairs absname zone recs)"

lemma provider_holds:
  "acme.holds store S \<Longrightarrow> acme.holds (fold (provider_call absname) calls store) (outstanding absname calls S)"
proof (induction calls arbitrary: store S)
  case (Cons call calls)
  show ?case
  proof (cases call)
    case (AppendCall zone recs)
    with Cons.IH [OF acme.holds_add_all [OF Cons.prems]] show ?thesis
      by (simp add: provider_call_def AppendRecords_def call_pairs_def)
  next
    case (DeleteCall zone recs)
    with Cons.IH [OF acme.holds_del_all [OF Cons.prems]] show ?thesis
      by (simp add: provider_call_def DeleteRecords_def call_pairs_def)
  qed
qed simp

text \<open>
  C10: challenges are served exactly while they are outstanding.  After any sequence of calls of the
  certificate provider, starting from the empty store of a new server, a TXT query for an ACME name
  under a configured domain is answered with one TXT record of TTL 0 per outstanding value of that
  name and no other, whatever the letter case and trailing dot of the query; deleting one value
  leaves its siblings, other names are untouched, and the query is never captured: nothing of the
  server changes but the query counter.
\<close>

theorem acme_challenges_served:
  assumes "sv_acmeStore s = fold (provider_call absname) calls (\<lambda>_. [])"
    and "dq_Question r = q # qs" and "q_Type q = TypeTXT"
    and "matchedDomain s (normalizeFQDN (q_Name q)) = Some domain"
    and "is_acme (extractSubdomain (normalizeFQDN (q_Name q)) domain)"
  shows "\<exists>m vs. handleDNS e dt remote r s = (Some m, s\<lparr>dnsCount := dnsCount s + 1\<rparr>)
     \<and> re_Answer m = map (txt_record (ensureTrailingDot (q_Name q))) vs \<and> distinct vs
     \<and> set vs = {v. (normalizeFQDN (normalizeFQDN (q_Name q)), v) \<in> outstanding absname calls {}}"
proof -
  have "acme.holds (\<lambda>_. []) {}" by (simp add: acme.holds_def acme_Get_def)
  then have h: "acme.holds (sv_acmeStore s) (outstanding absname calls {})"
    unfolding assms(1) by (rule provider_holds)
  let ?vs = "acme_Get (normalizeFQDN (q_Name q)) (sv_acmeStore s)"
  have "matchedDomain (s\<lparr>dnsCount := dnsCount s + 1\<rparr>) (normalizeFQDN (q_Name q)) = Some domain"
    using assms(4) by (simp add: matchedDomain_def)
  then have "\<exists>m. handleDNS e dt remote r s = (Some m, s\<lparr>dnsCount := dnsCount s + 1\<rparr>)
     \<and> re_Answer m = map (txt_record (ensureTrailingDot (q_Name q))) ?vs"
    using assms(2,3,5) by (simp add: handleDNS_def buildACMEResponse_def Let_def)
  moreover have "distinct ?vs \<and> set ?vs = {v. (normalizeFQDN (normalizeFQDN (q_Name q)), v) \<in> outstanding absname calls {}}"
    using h by (simp add: acme.holds_def)
  ultimately show ?thesis by blast
qed

definition dotted_name :: "string \<Rightarrow> string \<Rightarrow> string" where
  "dotted_name name zone = name @ ''.'' @ zone"

text \<open>Two challenges for one name, one of them cleaned up; the query is in upper case.\<close>

theorem acme_challenges_served_witness:
  "\<exists>m. fst (handleDNS demo_env \<lparr>query_String = \<lambda>_. [], reply_String = \<lambda>_. [], type_String = \<lambda>_. []\<rparr> ''192.0.2.7:53''
      \<lparr>dq_Question = [\<lparr>q_Name = ''_ACME-challenge.d.e.'', q_Type = TypeTXT\<rparr>], dq_Rest = []\<rparr>
      (demo_server\<lparr>sv_acmeStore := fold (provider_call dotted_name)
         [AppendCall ''d.e.'' [\<lparr>rr_libName = ''_acme-challenge'', rr_libType = ''TXT'', rr_libData = ''v1''\<rparr>,
                               \<lparr>rr_libName = ''_acme-challenge'', rr_libType = ''TXT'', rr_libData = ''v2''\<rparr>],
          DeleteCall ''d.e.'' [\<lparr>rr_libName = ''_acme-challenge'', rr_libType = ''TXT'', rr_libData = ''v1''\<rparr>]] (\<lambda>_. [])\<rparr>))
     = Some m \<and> re_Answer m = [txt_record ''_ACME-challenge.d.e.'' ''v2'']"
proof -
  let ?q = "\<lparr>q_Name = ''_ACME-challenge.d.e.'', q_Type = TypeTXT\<rparr>"
  let ?rr = "\<lambda>v. \<lparr>rr_libName = ''_acme-challenge'', rr_libType = ''TXT'', rr_libData = v\<rparr>"
  let ?calls = "[AppendCall ''d.e.'' [?rr ''v1'', ?rr ''v2''], DeleteCall ''d.e.'' [?rr ''v1'']]"
  let ?s = "demo_server\<lparr>sv_acmeStore := fold (provider_call dotted_name) ?calls (\<lambda>_. [])\<rparr>"
  have names: "normalizeFQDN ''_ACME-challenge.d.e.'' = ''_acme-challenge.d.e''"
    "normalizeFQDN ''_acme-challenge.d.e'' = ''_acme-challenge.d.e''"
    "normalizeFQDN (toFQDN dotted_name ''_acme-challenge'' ''d.e.'') = ''_acme-challenge.d.e''"
    "ensureTrailingDot ''_ACME-challenge.d.e.'' = ''_ACME-challenge.d.e.''"
    "is_acme (extractSubdomain ''_acme-challenge.d.e'' ''d.e'')"
    by code_simp+
  have "txt_only [?rr ''v1'', ?rr ''v2''] = [?rr ''v1'', ?rr ''v2'']" "txt_only [?rr ''v1''] = [?rr ''v1'']"
    by (simp_all add: txt_only_def)
  then have out: "{v. (''_acme-challenge.d.e'', v) \<in> outstanding dotted_name ?calls {}} = {''v2''}"
    by (auto simp: call_pairs_def names(3))
  have "matchedDomain ?s ''_acme-challenge.d.e'' = Some ''d.e''"
    by (simp add: matchedDomain_def demo_server_def demo_config_def domain_matches_def) (simp add: has_suffix_def)
  then obtain m vs where "fst (handleDNS demo_env \<lparr>query_String = \<lambda>_. [], reply_String = \<lambda>_. [], type_String = \<lambda>_. []\<rparr>
        ''192.0.2.7:53'' \<lparr>dq_Question = [?q], dq_Rest = []\<rparr> ?s) = Some m"
    "re_Answer m = map (txt_record ''_ACME-challenge.d.e.'') vs" "distinct vs" "set vs = {''v2''}"
    using acme_challenges_served [of ?s dotted_name ?calls "\<lparr>dq_Question = [?q], dq_Rest = []\<rparr>" ?q "[]" "''d.e''"
        demo_env "\<lparr>query_String = \<lambda>_. [], reply_String = \<lambda>_. [], type_String = \<lambda>_. []\<rparr>" "''192.0.2.7:53''",
        unfolded dns_question.select_convs names(1,2) out names(4)] names(5)
    by auto
  moreover from this(3,4) have "vs = [''v2'']"
    by (cases vs) (auto simp: subset_singleton_iff)
  ultimately show ?thesis by auto
qed

end
