(* ===== verification/Smtp.thy ===== *)
theory Smtp
  imports Server_Capture
begin

text \<open>
  The SMTP server (\<open>oobsrv/smtp.go\<close>): the connection wrapper that keeps the raw envelope, the
  parsing of that envelope, the session that the SMTP package drives, the SASL servers, and the
  capture of a message for its recipients.  The package's own command parser is not part of the
  model: its calls of the session are the operations here.
\<close>

section \<open>The raw envelope\<close>

definition teeConnMaxBuf :: nat where "teeConnMaxBuf = 8192"
definition smtpReadTimeout :: int where "smtpReadTimeout = minute"
definition smtpWriteTimeout :: int where "smtpWriteTimeout = 30 * second"
definition smtpMaxRecipients :: int where "smtpMaxRecipients = 50"

record teeConn =
  tee_buf :: string
  tee_stopped :: bool

text \<open>\<open>p\<close> are the bytes that one read of the underlying connection has returned.\<close>

definition tee_Read :: "string \<Rightarrow> teeConn \<Rightarrow> teeConn" where
  "tee_Read p t =
     (if p \<noteq> [] \<and> \<not> tee_stopped t \<and> length (tee_buf t) < teeConnMaxBuf
      then t\<lparr>tee_buf := tee_buf t @ take (teeConnMaxBuf - length (tee_buf t)) p\<rparr> else t)"

definition tee_Reset :: "teeConn \<Rightarrow> teeConn" where
  "tee_Reset t = \<lparr>tee_buf = [], tee_stopped = False\<rparr>"

text \<open>What stands before the closing bracket; a bracket or escaped character inside quotes is skipped.\<close>

fun scan_path :: "bool \<Rightarrow> string \<Rightarrow> string option" where
  "scan_path inQuote [] = None"
| "scan_path inQuote (c # cs) =
     (if c = CHR 0x5C \<and> inQuote
      then (case cs of [] \<Rightarrow> None | d # ds \<Rightarrow> map_option (\<lambda>r. c # d # r) (scan_path inQuote ds))
      else if c = CHR 0x22 then map_option (\<lambda>r. c # r) (scan_path (\<not> inQuote) cs)
      else if c = CHR ''>'' \<and> \<not> inQuote then Some []
      else map_option (\<lambda>r. c # r) (scan_path inQuote cs))"

definition extractRawPath :: "string \<Rightarrow> string" where
  "extractRawPath param0 =
     (let param = trim_space param0
      in if has_prefix param ''<>'' then []
         else case index_byte param CHR ''<'' of
             None \<Rightarrow> []
           | Some start \<Rightarrow> (case scan_path False (drop (start + 1) param) of None \<Rightarrow> [] | Some p \<Rightarrow> p))"

definition envelope_line :: "string \<Rightarrow> string \<times> string list \<Rightarrow> string \<times> string list" where
  "envelope_line line0 env = (case env of (sender, recipients) \<Rightarrow>
     let line = trim_right_func (\<lambda>c. c = CHR 0x0D) line0; upper = to_upper line
     in if has_prefix upper ''MAIL FROM:''
        then (let path = extractRawPath (drop (length ''MAIL FROM:'') line)
              in (if path \<noteq> [] then path else sender, recipients))
        else if has_prefix upper ''RCPT TO:''
        then (let path = extractRawPath (drop (length ''RCPT TO:'') line)
              in (sender, if path \<noteq> [] then recipients @ [path] else recipients))
        else (sender, recipients))"

definition parseRawEnvelope :: "string \<Rightarrow> string \<times> string list" where
  "parseRawEnvelope raw = fold envelope_line (split_on CHR 0x0A raw) ([], [])"

section \<open>The session\<close>

record smtpSession =
  smtp_remoteAddr :: string
  smtp_from :: string
  smtp_recipients :: "string list"
  smtp_tee :: "teeConn option"

definition NewSession :: "string \<Rightarrow> teeConn option \<Rightarrow> smtpSession" where
  "NewSession remoteAddr tee =
     \<lparr>smtp_remoteAddr = remoteAddr, smtp_from = [], smtp_recipients = [], smtp_tee = tee\<rparr>"

definition smtp_Mail :: "string \<Rightarrow> smtpSession \<Rightarrow> smtpSession" where
  "smtp_Mail sender s = s\<lparr>smtp_from := sender\<rparr>"

definition smtp_Rcpt :: "string \<Rightarrow> smtpSession \<Rightarrow> smtpSession" where
  "smtp_Rcpt rcpt s = s\<lparr>smtp_recipients := smtp_recipients s @ [rcpt]\<rparr>"

definition smtp_Reset :: "smtpSession \<Rightarrow> smtpSession" where
  "smtp_Reset s = s\<lparr>smtp_from := [], smtp_recipients := [], smtp_tee := map_option tee_Reset (smtp_tee s)\<rparr>"

text \<open>The sender and the recipients that a message is filed under.\<close>

definition data_envelope :: "smtpSession \<Rightarrow> string \<times> string list" where
  "data_envelope s = (case smtp_tee s of
      None \<Rightarrow> (smtp_from s, smtp_recipients s)
    | Some t \<Rightarrow> (case parseRawEnvelope (tee_buf t) of (rawFrom, rawRecipients) \<Rightarrow>
        (if rawFrom \<noteq> [] then rawFrom else smtp_from s,
         if rawRecipients \<noteq> [] then rawRecipients else smtp_recipients s)))"

text \<open>The SASL servers: the challenge or nothing, done, and the next state.  They accept everything.\<close>

datatype sasl_server = PlainServer | LoginServer bool | CramMD5Server bool

definition AuthMechanisms :: "string list" where
  "AuthMechanisms = [''PLAIN'', ''LOGIN'', ''CRAM-MD5'']"

definition smtp_Auth :: "string \<Rightarrow> sasl_server result" where
  "smtp_Auth mech =
     (if mech = ''PLAIN'' then Inr PlainServer
      else if mech = ''LOGIN'' then Inr (LoginServer False)
      else if mech = ''CRAM-MD5'' then Inr (CramMD5Server False)
      else Inl (''unsupported mechanism: '' @ mech))"

definition loginServer_Next :: "string \<Rightarrow> bool \<Rightarrow> (string option \<times> bool) \<times> bool" where
  "loginServer_Next response gotUsername =
     (if \<not> gotUsername
      then (if response = [] then ((Some ''Username:'', False), False)
            else ((Some ''Password:'', False), True))
      else ((None, True), gotUsername))"

definition cramMD5Server_Next :: "int \<Rightarrow> bool \<Rightarrow> (string option \<times> bool) \<times> bool" where
  "cramMD5Server_Next now challenged =
     (if \<not> challenged then ((Some (''<'' @ itoa (wrap64 now) @ ''@interactsh>''), False), True)
      else ((None, True), challenged))"

section \<open>Capturing a message\<close>

record smtpCaptureSet =
  seen_recipients :: "string set"
  seen_domains :: "string set"
  seen_cids :: "string set"

definition smtp_interaction :: "string \<Rightarrow> string \<Rightarrow> string \<Rightarrow> string \<Rightarrow> int \<Rightarrow> Interaction" where
  "smtp_interaction sender rcpt body remoteIP now =
     zero_Interaction\<lparr>Protocol := ''smtp'', RawRequest := body, SMTPFrom := sender, SMTPTo := rcpt,
       RemoteAddress := remoteIP, Timestamp := now\<rparr>"

text \<open>The loop over the matches; appending never fails.\<close>

primrec smtp_store ::
  "'db env \<Rightarrow> (string \<Rightarrow> Interaction) \<Rightarrow> string \<Rightarrow> Match list \<Rightarrow> bool \<Rightarrow> smtpCaptureSet \<Rightarrow> 'db server
     \<Rightarrow> bool \<times> smtpCaptureSet \<times> 'db server" where
  "smtp_store e mk body [] stored seen s = (stored, seen, s)"
| "smtp_store e mk body (m # ms) stored seen s =
     (let i = (mk (if UniqueID m \<in> seen_cids seen then [] else body))
                \<lparr>InteractionUniqueID := UniqueID m, FullId := FullID m\<rparr>;
          seen1 = seen\<lparr>seen_cids := insert (UniqueID m) (seen_cids seen)\<rparr>
      in case env_marshal e i of
           Inl err \<Rightarrow> smtp_store e mk body ms stored seen1 s
         | Inr data \<Rightarrow> (case Storage_AppendInteraction e (UniqueID m) (go_bytes data) (sv_storage s) of
             (err, st) \<Rightarrow> smtp_store e mk body ms (stored \<or> err = None) seen1 (s\<lparr>sv_storage := st\<rparr>)))"

definition captureSMTPInteraction ::
  "'db env \<Rightarrow> string \<Rightarrow> string \<Rightarrow> string \<Rightarrow> string \<Rightarrow> smtpCaptureSet \<Rightarrow> 'db server
     \<Rightarrow> bool \<times> smtpCaptureSet \<times> 'db server" where
  "captureSMTPInteraction e sender rcpt body remoteIP seen s = (case cut CHR ''@'' rcpt of (_, dom0, ok) \<Rightarrow>
     if \<not> ok then (False, seen, s)
     else let recipientDomain = to_lower dom0
          in case matchedDomain s recipientDomain of
               None \<Rightarrow> (False, seen, s)
             | Some domain \<Rightarrow>
                 let mk = (\<lambda>b. smtp_interaction sender rcpt b remoteIP (env_now e));
                     (seen1, s1) = (if domain \<notin> seen_domains seen
                       then (seen\<lparr>seen_domains := insert domain (seen_domains seen)\<rparr>,
                             captureWildcard e domain
                               ((mk body)\<lparr>InteractionUniqueID := recipientDomain, FullId := recipientDomain\<rparr>) s)
                       else (seen, s))
                 in case MatchCorrelationID recipientDomain (nat (CorrelationIdLength (sv_cfg s1)))
                           (Domains (sv_cfg s1)) (server_lookup e) s1 of
                      (matches, s2) \<Rightarrow> smtp_store e mk body matches False seen1 s2)"

text \<open>
  The loop over the recipients.  \<open>ivs\<close> gives the bytes drawn for the append to an id on behalf of a
  recipient; each recipient is handled once.
\<close>

primrec smtp_recipients_loop ::
  "'db env \<Rightarrow> (string \<Rightarrow> string \<Rightarrow> bytes result) \<Rightarrow> string \<Rightarrow> string \<Rightarrow> string \<Rightarrow> string list \<Rightarrow> bool
     \<Rightarrow> smtpCaptureSet \<Rightarrow> 'db server \<Rightarrow> bool \<times> smtpCaptureSet \<times> 'db server" where
  "smtp_recipients_loop e ivs sender body remoteIP [] matched seen s = (matched, seen, s)"
| "smtp_recipients_loop e ivs sender body remoteIP (rcpt # rcpts) matched seen s =
     (if rcpt \<in> seen_recipients seen then smtp_recipients_loop e ivs sender body remoteIP rcpts matched seen s
      else case captureSMTPInteraction (e\<lparr>env_iv := ivs rcpt\<rparr>) sender rcpt body remoteIP
                  (seen\<lparr>seen_recipients := insert rcpt (seen_recipients seen)\<rparr>) s of
             (m, seen1, s1) \<Rightarrow> smtp_recipients_loop e ivs sender body remoteIP rcpts (matched \<or> m) seen1 s1)"

definition onSMTPData ::
  "'db env \<Rightarrow> (string \<Rightarrow> string \<Rightarrow> bytes result) \<Rightarrow> string \<Rightarrow> string list \<Rightarrow> string \<Rightarrow> string
     \<Rightarrow> 'db server \<Rightarrow> 'db server" where
  "onSMTPData e ivs sender recipients body remoteAddr s0 =
     (let s = s0\<lparr>smtpCount := smtpCount s0 + 1\<rparr>
      in case smtp_recipients_loop e ivs sender body (stripHostPort remoteAddr) recipients False
                \<lparr>seen_recipients = {}, seen_domains = {}, seen_cids = {}\<rparr> s of
           (matched, _, s1) \<Rightarrow> if matched then s1\<lparr>smtpMatched := smtpMatched s1 + 1\<rparr> else s1)"

text \<open>
  \<open>Data\<close>: the message body as it arrives, and the error that ends it, if one does before the limit.
\<close>

definition smtp_Data ::
  "'db env \<Rightarrow> (string \<Rightarrow> string \<Rightarrow> bytes result) \<Rightarrow> string \<times> string option \<Rightarrow> smtpSession \<Rightarrow> 'db server
     \<Rightarrow> string option \<times> smtpSession \<times> 'db server" where
  "smtp_Data e ivs reader ss s = (case data_envelope ss of (sender, recipients) \<Rightarrow>
     let ss1 = ss\<lparr>smtp_tee := map_option (\<lambda>t. t\<lparr>tee_stopped := True\<rparr>) (smtp_tee ss)\<rparr>;
         limit = nat (maxBodyBytes (sv_cfg s)); (data, err) = reader
     in if length data < limit \<and> err \<noteq> None then (err, ss1, s)
        else (None, ss1, onSMTPData e ivs sender recipients (take limit data) (smtp_remoteAddr ss) s))"

end
