(* ===== verification/Smtp_Properties.thy ===== *)
theory Smtp_Properties
  imports Smtp Server_Demo
begin

text \<open>
  Properties of the SMTP side: what one message leaves in the accounts of its recipients, and what
  the cap on the raw envelope does to the list of recipients.
\<close>

section \<open>One recipient\<close>

text \<open>The domain part of a recipient when it is under a configured domain.\<close>

definition rcpt_domain :: "'db server \<Rightarrow> string \<Rightarrow> string option" where
  "rcpt_domain s rcpt = (case cut CHR ''@'' rcpt of (_, dom0, ok) \<Rightarrow>
     if ok \<and> matchedDomain s (to_lower dom0) \<noteq> None then Some (to_lower dom0) else None)"

definition names_id :: "'db server \<Rightarrow> string \<Rightarrow> string \<Rightarrow> bool" where
  "names_id s c rcpt = (case rcpt_domain s rcpt of
      None \<Rightarrow> False
    | Some d \<Rightarrow> c \<in> set (candidates (nat (CorrelationIdLength (sv_cfg s))) (to_lower d)))"

text \<open>The interaction filed under an id for a recipient, with a given body.\<close>

definition smtp_filed ::
  "'db env \<Rightarrow> string \<Rightarrow> string \<Rightarrow> 'db server \<Rightarrow> string \<Rightarrow> string \<Rightarrow> string \<Rightarrow> Interaction" where
  "smtp_filed e sender remoteIP s rcpt c body =
     (smtp_interaction sender rcpt body remoteIP (env_now e))
       \<lparr>InteractionUniqueID := c,
         FullId := extractFullID (to_lower (the (rcpt_domain s rcpt))) (Domains (sv_cfg s))\<rparr>"

lemma append_never_fails:
  "Storage_AppendInteraction e c x st = (None, storage_append e (env_iv e c) c x st)"
  using Storage_AppendInteraction_append [of e c x st] by (simp add: prod_eq_iff Storage_AppendInteraction_def)

lemma smtp_store_fold:
  assumes "env_marshal e = (\<lambda>i. Inr (js i))" and "\<forall>m \<in> set ms. FullID m = full"
  shows "distinct (map UniqueID ms) \<Longrightarrow> \<forall>c \<in> set (map UniqueID ms). c \<in> seen_cids seen \<longleftrightarrow> c \<in> old \<Longrightarrow>
    smtp_store e mk body ms stored seen s = (stored \<or> ms \<noteq> [],
      seen\<lparr>seen_cids := seen_cids seen \<union> set (map UniqueID ms)\<rparr>,
      s\<lparr>sv_storage := fold (\<lambda>c. storage_append e (env_iv e c) c (go_bytes (js
          ((mk (if c \<in> old then [] else body))\<lparr>InteractionUniqueID := c, FullId := full\<rparr>))))
        (map UniqueID ms) (sv_storage s)\<rparr>)"
  using assms(2)
proof (induction ms arbitrary: stored seen s)
  case (Cons m ms)
  let ?seen1 = "seen\<lparr>seen_cids := insert (UniqueID m) (seen_cids seen)\<rparr>"
  have "\<forall>c \<in> set (map UniqueID ms). c \<in> seen_cids ?seen1 \<longleftrightarrow> c \<in> old"
    using Cons.prems by simp (metis image_eqI)
  with Cons.IH [of ?seen1 "stored \<or> None = (None :: string option)"] Cons.prems
  show ?case
    by (simp add: assms(1) append_never_fails Let_def)
qed simp

lemma same_server_wild:
  "storage_good contents e (sv_storage s) \<Longrightarrow> same_server contents e (captureWildcard e d i s) s1 \<Longrightarrow>
   storage_good contents e (sv_storage s1) \<and> account_at contents e s1 = account_at contents e s
     \<and> sv_cfg s1 = sv_cfg s"
  by (auto simp: same_server_def) (metis captureWildcard_storage(2) server.select_convs(1) server.surjective server.update_convs(2))

lemma cfg_only:
  assumes "sv_cfg s1 = sv_cfg s"
  shows "rcpt_domain s1 rcpt = rcpt_domain s rcpt" "names_id s1 c rcpt = names_id s c rcpt"
    "smtp_filed e sender ip s1 rcpt c b = smtp_filed e sender ip s rcpt c b"
  unfolding rcpt_domain_def matchedDomain_def names_id_def smtp_filed_def assms by (rule refl)+

lemma capture_rcpt:
  assumes good: "storage_good contents e (sv_storage s)"
    and js: "env_marshal e = (\<lambda>i. Inr (js i))" and iv: "env_iv e = (\<lambda>c. Inr (iv c))"
    and fits: "\<And>c b. record_fits (Inr (iv c)) (go_bytes (js (smtp_filed e sender ip s rcpt c b)))"
  shows "\<exists>seen1 s1. captureSMTPInteraction e sender rcpt body ip seen s
       = ((\<exists>c. live_at contents e s c \<and> names_id s c rcpt), seen1, s1)
     \<and> seen_recipients seen1 = seen_recipients seen
     \<and> seen_cids seen1 = seen_cids seen \<union> {c. live_at contents e s c \<and> names_id s c rcpt}
     \<and> storage_good contents e (sv_storage s1) \<and> sv_cfg s1 = sv_cfg s
     \<and> account_at contents e s1 = (\<lambda>c. if live_at contents e s c \<and> names_id s c rcpt
         then map_option (\<lambda>acc. acc\<lparr>acc_pending := acc_pending acc @ [encrypt_for (env_aes e) acc (iv c)
              (go_bytes (js (smtp_filed e sender ip s rcpt c (if c \<in> seen_cids seen then [] else body))))]\<rparr>)
              (account_at contents e s c)
         else account_at contents e s c)"
proof (cases "rcpt_domain s rcpt")
  case None
  then have "captureSMTPInteraction e sender rcpt body ip seen s = (False, seen, s)"
    by (auto simp: captureSMTPInteraction_def rcpt_domain_def Let_def split: prod.splits if_splits option.splits)
  then show ?thesis using None good by (simp add: names_id_def)
next
  case (Some rd)
  then obtain domain where rd: "snd (snd (cut CHR ''@'' rcpt))" "to_lower (fst (snd (cut CHR ''@'' rcpt))) = rd"
    "matchedDomain s rd = Some domain"
    by (auto simp: rcpt_domain_def split: prod.splits if_splits)
  let ?n = "nat (CorrelationIdLength (sv_cfg s))"
  define mk where "mk = (\<lambda>b. smtp_interaction sender rcpt b ip (env_now e))"
  define seen0 where "seen0 = (if domain \<notin> seen_domains seen
     then seen\<lparr>seen_domains := insert domain (seen_domains seen)\<rparr> else seen)"
  define s0 where "s0 = (if domain \<notin> seen_domains seen
     then captureWildcard e domain ((mk body)\<lparr>InteractionUniqueID := rd, FullId := rd\<rparr>) s else s)"
  have s0: "sv_storage s0 = sv_storage s" "sv_cfg s0 = sv_cfg s" by (simp_all add: s0_def)
  have run: "captureSMTPInteraction e sender rcpt body ip seen s
      = (case MatchCorrelationID rd ?n (Domains (sv_cfg s)) (server_lookup e) s0 of
           (matches, s2) \<Rightarrow> smtp_store e mk body matches False seen0 s2)"
    using rd by (simp add: captureSMTPInteraction_def Let_def case_prod_unfold s0_def seen0_def mk_def)
  have good0: "storage_good contents e (sv_storage s0)" using good by (simp add: s0)
  obtain ms s1 where ms: "find_matches e rd [] s0 = (ms, s1)" "same_server contents e s0 s1"
    "map UniqueID ms = dedup (filter (live_at contents e s0) (candidates (nat (CorrelationIdLength (sv_cfg s0))) (to_lower rd)))"
    "\<forall>m \<in> set ms. FullID m = extractFullID (to_lower rd) (Domains (sv_cfg s0))"
    by (rule find_matches_labels [OF good0, of "[]" rd]) auto
  have live: "live_at contents e s0 = live_at contents e s" by (simp add: live_at_def fun_eq_iff s0)
  have found: "MatchCorrelationID rd ?n (Domains (sv_cfg s)) (server_lookup e) s0 = (ms, s1)"
    using ms(1) by (simp add: find_matches_def Let_def s0)
  have ids: "set (map UniqueID ms) = {c. live_at contents e s c \<and> names_id s c rcpt}"
    unfolding ms(3) live s0 by (auto simp: names_id_def Some)
  have dist: "distinct (map UniqueID ms)" unfolding ms(3) by simp
  have s1: "storage_good contents e (sv_storage s1)" "account_at contents e s1 = account_at contents e s"
    "sv_cfg s1 = sv_cfg s"
    using ms(2) s0 by (auto simp: same_server_def) (metis server.select_convs(1) server.surjective server.update_convs(2))
  let ?data = "\<lambda>c. go_bytes (js (smtp_filed e sender ip s rcpt c (if c \<in> seen_cids seen then [] else body)))"
  define run' where "run' = fold (\<lambda>c. storage_append e (Inr (iv c)) c (?data c)) (map UniqueID ms) (sv_storage s1)"
  have "smtp_store e mk body ms False seen0 s1 = (False \<or> ms \<noteq> [],
      seen0\<lparr>seen_cids := seen_cids seen0 \<union> set (map UniqueID ms)\<rparr>,
      s1\<lparr>sv_storage := fold (\<lambda>c. storage_append e (env_iv e c) c (go_bytes (js
          ((mk (if c \<in> seen_cids seen then [] else body))\<lparr>InteractionUniqueID := c,
             FullId := extractFullID (to_lower rd) (Domains (sv_cfg s0))\<rparr>)))) (map UniqueID ms) (sv_storage s1)\<rparr>)"
    by (rule smtp_store_fold [OF js ms(4) dist]) (simp add: seen0_def)
  also have "\<dots> = (ms \<noteq> [], seen0\<lparr>seen_cids := seen_cids seen0 \<union> set (map UniqueID ms)\<rparr>, s1\<lparr>sv_storage := run'\<rparr>)"
    by (simp add: run'_def iv smtp_filed_def mk_def Some s0)
  finally have cap: "captureSMTPInteraction e sender rcpt body ip seen s
      = (ms \<noteq> [], seen0\<lparr>seen_cids := seen_cids seen0 \<union> set (map UniqueID ms)\<rparr>, s1\<lparr>sv_storage := run'\<rparr>)"
    by (simp add: run found)
  have "\<forall>c \<in> set (map UniqueID ms). record_fits (Inr (iv c)) (?data c) \<and> account_at contents e s1 c \<noteq> None"
    unfolding ids using fits by (auto simp: s1(2) live_at_def)
  from server_storage.append_all [OF s1(1) dist this]
  have view: "storage_good contents e run' \<and> storage_view contents (env_now e) run' c
      = (if c \<in> set (map UniqueID ms) then map_option (\<lambda>acc. acc\<lparr>acc_pending := acc_pending acc
              @ [encrypt_for (env_aes e) acc (iv c) (?data c)]\<rparr>) (account_at contents e s c)
         else account_at contents e s c)" for c
    unfolding run'_def s1(2) .
  have "(ms \<noteq> []) = (\<exists>c. live_at contents e s c \<and> names_id s c rcpt)"
    using ids by (metis (mono_tags, lifting) Collect_empty_eq list.map_disc_iff set_empty)
  then show ?thesis
    unfolding cap using view s1(3) ids by (simp add: seen0_def fun_eq_iff)
qed

section \<open>One message\<close>

text \<open>What a message leaves in the account of an id: one copy per recipient, the body in the first.\<close>

fun filed_copies :: "(string \<Rightarrow> string \<Rightarrow> 'a) \<Rightarrow> string \<Rightarrow> string list \<Rightarrow> 'a list" where
  "filed_copies f body [] = []"
| "filed_copies f body (r # rs) = f r body # map (\<lambda>r. f r []) rs"

lemma filed_copies_empty: "filed_copies f [] rs = map (\<lambda>r. f r []) rs"
  by (cases rs) simp_all

definition new_recipients :: "string set \<Rightarrow> string list \<Rightarrow> string list" where
  "new_recipients old rs = filter (\<lambda>r. r \<notin> old) (dedup rs)"

lemma new_recipients_Cons:
  "new_recipients old (r # rs) = (if r \<in> old then new_recipients old rs else r # new_recipients (insert r old) rs)"
  by (auto simp: new_recipients_def intro!: filter_cong)

lemma iv_update_simps [simp]:
  "storage_good contents (e\<lparr>env_iv := f\<rparr>) st = storage_good contents e st"
  "live_at contents (e\<lparr>env_iv := f\<rparr>) s = live_at contents e s"
  "smtp_filed (e\<lparr>env_iv := f\<rparr>) sender ip s r c b = smtp_filed e sender ip s r c b"
  "env_now (e\<lparr>env_iv := f\<rparr>) = env_now e" "env_aes (e\<lparr>env_iv := f\<rparr>) = env_aes e"
  by (simp_all add: storage_good_def live_at_def fun_eq_iff smtp_filed_def split: Storage.split)

lemma capture_rcpt_iv:
  assumes good: "storage_good contents e (sv_storage s)"
    and js: "env_marshal e = (\<lambda>i. Inr (js i))"
    and fits: "\<And>c b. record_fits (Inr (iv c)) (go_bytes (js (smtp_filed e sender ip s rcpt c b)))"
  obtains seen1 s1 where "captureSMTPInteraction (e\<lparr>env_iv := \<lambda>c. Inr (iv c)\<rparr>) sender rcpt body ip seen s
       = ((\<exists>c. live_at contents e s c \<and> names_id s c rcpt), seen1, s1)"
    "seen_recipients seen1 = seen_recipients seen"
    "seen_cids seen1 = seen_cids seen \<union> {c. live_at contents e s c \<and> names_id s c rcpt}"
    "storage_good contents e (sv_storage s1)" "sv_cfg s1 = sv_cfg s"
    "account_at contents e s1 = (\<lambda>c. if live_at contents e s c \<and> names_id s c rcpt
         then map_option (\<lambda>acc. acc\<lparr>acc_pending := acc_pending acc @ [encrypt_for (env_aes e) acc (iv c)
              (go_bytes (js (smtp_filed e sender ip s rcpt c (if c \<in> seen_cids seen then [] else body))))]\<rparr>)
              (account_at contents e s c)
         else account_at contents e s c)"
proof -
  let ?e = "e\<lparr>env_iv := \<lambda>c. Inr (iv c)\<rparr>"
  have pre: "storage_good contents ?e (sv_storage s)" "env_marshal ?e = (\<lambda>i. Inr (js i))" "env_iv ?e = (\<lambda>c. Inr (iv c))"
    using good js by simp_all
  have "record_fits (Inr (iv c)) (go_bytes (js (smtp_filed ?e sender ip s rcpt c b)))" for c b
    using fits by simp
  from capture_rcpt [OF pre this, of body seen] show ?thesis
    unfolding iv_update_simps by (elim exE conjE) (rule that)
qed

lemma encrypt_for_pending [simp]: "encrypt_for aes (acc\<lparr>acc_pending := q\<rparr>) = encrypt_for aes acc"
  by (simp add: encrypt_for_def fun_eq_iff)

definition copies_for ::
  "'db env \<Rightarrow> (Interaction \<Rightarrow> string) \<Rightarrow> (string \<Rightarrow> string \<Rightarrow> bytes) \<Rightarrow> string \<Rightarrow> string \<Rightarrow> 'db server \<Rightarrow> string
     \<Rightarrow> account \<Rightarrow> string \<Rightarrow> string list \<Rightarrow> bytes list" where
  "copies_for e js iv sender ip s c acc body rs = filed_copies
     (\<lambda>r b. encrypt_for (env_aes e) acc (iv r c) (go_bytes (js (smtp_filed e sender ip s r c b)))) body
     (filter (names_id s c) rs)"

lemma copies_for_pending [simp]:
  "copies_for e js iv sender ip s c (acc\<lparr>acc_pending := q\<rparr>) = copies_for e js iv sender ip s c acc"
  by (simp add: copies_for_def fun_eq_iff)

lemma copies_for_cfg: "sv_cfg s1 = sv_cfg s \<Longrightarrow> copies_for e js iv sender ip s1 = copies_for e js iv sender ip s"
proof (intro ext)
  fix c acc body rs
  assume same: "sv_cfg s1 = sv_cfg s"
  have "names_id s1 c = names_id s c" by (rule ext) (rule cfg_only(2) [OF same])
  then show "copies_for e js iv sender ip s1 c acc body rs = copies_for e js iv sender ip s c acc body rs"
    by (simp add: copies_for_def cfg_only(3) [OF same])
qed

lemma recipients_loop:
  assumes js: "env_marshal e = (\<lambda>i. Inr (js i))" and ivs: "ivs = (\<lambda>r c. Inr (iv r c))"
  shows "storage_good contents e (sv_storage s) \<Longrightarrow>
    (\<And>r c b. record_fits (Inr (iv r c)) (go_bytes (js (smtp_filed e sender ip s r c b)))) \<Longrightarrow>
    \<exists>seen1 s1. smtp_recipients_loop e ivs sender body ip rs matched seen s
       = (matched \<or> (\<exists>c. live_at contents e s c \<and> (\<exists>r \<in> set (new_recipients (seen_recipients seen) rs). names_id s c r)),
          seen1, s1)
     \<and> storage_good contents e (sv_storage s1) \<and> sv_cfg s1 = sv_cfg s
     \<and> account_at contents e s1 = (\<lambda>c. map_option (\<lambda>acc. acc\<lparr>acc_pending := acc_pending acc
          @ copies_for e js iv sender ip s c acc (if c \<in> seen_cids seen then [] else body)
              (new_recipients (seen_recipients seen) rs)\<rparr>) (account_at contents e s c))"
proof (induction rs arbitrary: matched seen s)
  case Nil
  then show ?case by (simp add: new_recipients_def copies_for_def option.map_ident)
next
  case (Cons r rs)
  show ?case
  proof (cases "r \<in> seen_recipients seen")
    case True
    with Cons.IH [OF Cons.prems, of matched seen] show ?thesis by (simp add: new_recipients_Cons)
  next
    case False
    let ?seen = "seen\<lparr>seen_recipients := insert r (seen_recipients seen)\<rparr>"
    have "record_fits (Inr (iv r c)) (go_bytes (js (smtp_filed e sender ip s r c b)))" for c b
      by (rule Cons.prems)
    note step = capture_rcpt_iv [OF Cons.prems(1) js this, of body ?seen]
    obtain seen1 s1 where
      cap: "captureSMTPInteraction (e\<lparr>env_iv := \<lambda>c. Inr (iv r c)\<rparr>) sender r body ip ?seen s
          = ((\<exists>c. live_at contents e s c \<and> names_id s c r), seen1, s1)"
      "seen_recipients seen1 = seen_recipients ?seen"
      "seen_cids seen1 = seen_cids ?seen \<union> {c. live_at contents e s c \<and> names_id s c r}"
      "storage_good contents e (sv_storage s1)" "sv_cfg s1 = sv_cfg s"
      and acct: "account_at contents e s1 = (\<lambda>c. if live_at contents e s c \<and> names_id s c r
         then map_option (\<lambda>acc. acc\<lparr>acc_pending := acc_pending acc @ [encrypt_for (env_aes e) acc (iv r c)
              (go_bytes (js (smtp_filed e sender ip s r c (if c \<in> seen_cids ?seen then [] else body))))]\<rparr>)
              (account_at contents e s c)
         else account_at contents e s c)"
      by (rule step)
    note cap = cap [simplified] and acct = acct [simplified]
    have live: "live_at contents e s1 = live_at contents e s" by (simp add: live_at_def fun_eq_iff acct)
    have fits: "record_fits (Inr (iv r' c)) (go_bytes (js (smtp_filed e sender ip s1 r' c b)))" for r' c b
      using Cons.prems(2) by (simp add: cfg_only [OF cap(5)])
    from Cons.IH [OF cap(4) fits, of "matched \<or> (\<exists>c. live_at contents e s c \<and> names_id s c r)" seen1]
    obtain seen2 s2 where
      run: "smtp_recipients_loop e ivs sender body ip rs (matched \<or> (\<exists>c. live_at contents e s c \<and> names_id s c r)) seen1 s1
       = ((matched \<or> (\<exists>c. live_at contents e s c \<and> names_id s c r))
            \<or> (\<exists>c. live_at contents e s c \<and> (\<exists>r \<in> set (new_recipients (insert r (seen_recipients seen)) rs). names_id s c r)),
          seen2, s2)"
      "storage_good contents e (sv_storage s2)" "sv_cfg s2 = sv_cfg s"
      and acct2: "account_at contents e s2 = (\<lambda>c. map_option (\<lambda>acc. acc\<lparr>acc_pending := acc_pending acc
          @ copies_for e js iv sender ip s c acc (if c \<in> seen_cids seen1 then [] else body)
              (new_recipients (insert r (seen_recipients seen)) rs)\<rparr>) (account_at contents e s1 c))"
      by (auto simp: cap(2,5) live cfg_only [OF cap(5)] copies_for_cfg [OF cap(5)])
    have "account_at contents e s2 c = map_option (\<lambda>acc. acc\<lparr>acc_pending := acc_pending acc
          @ copies_for e js iv sender ip s c acc (if c \<in> seen_cids seen then [] else body)
              (new_recipients (seen_recipients seen) (r # rs))\<rparr>) (account_at contents e s c)" for c
    proof (cases "live_at contents e s c \<and> names_id s c r")
      case True
      then show ?thesis
        by (simp add: acct2 acct cap(3) new_recipients_Cons False option.map_comp o_def)
           (simp add: copies_for_def filed_copies_empty)
    next
      case no: False
      then show ?thesis
        by (cases "account_at contents e s c")
           (auto simp: acct2 acct cap(3) new_recipients_Cons False live_at_def, simp_all add: copies_for_def)
    qed
    moreover have "smtp_recipients_loop e ivs sender body ip (r # rs) matched seen s = (matched
        \<or> (\<exists>c. live_at contents e s c \<and> (\<exists>r \<in> set (new_recipients (seen_recipients seen) (r # rs)). names_id s c r)),
        seen2, s2)"
      unfolding new_recipients_Cons using run(1) cap(1) False by (auto simp: ivs)
    ultimately show ?thesis using run(2,3) by (intro exI conjI) (assumption, simp_all add: fun_eq_iff)
  qed
qed

text \<open>The counters are the handler's own: capturing a recipient leaves them.\<close>

definition smtp_counts :: "'db server \<Rightarrow> 64 word \<times> 64 word" where
  "smtp_counts s = (smtpCount s, smtpMatched s)"

lemma smtp_store_counts: "smtp_counts (snd (snd (smtp_store e mk body ms stored seen s))) = smtp_counts s"
  by (induction ms arbitrary: stored seen s)
     (simp_all add: smtp_counts_def Let_def split: sum.split prod.split)

lemma captureWildcard_counts: "smtp_counts (captureWildcard e d i s) = smtp_counts s"
  by (simp add: captureWildcard_def smtp_counts_def split: option.split sum.split)

lemma MatchCorrelationID_counts:
  "smtp_counts (snd (MatchCorrelationID text n ds (server_lookup e) s)) = smtp_counts s"
  by (rule MatchCorrelationID_kept [where P = "\<lambda>s'. smtp_counts s' = smtp_counts s"])
     (auto simp: kept_by_def smtp_counts_def server_lookup_def case_prod_unfold)

lemma captureSMTP_counts:
  "smtp_counts (snd (snd (captureSMTPInteraction e sender rcpt body ip seen s))) = smtp_counts s"
  by (simp add: captureSMTPInteraction_def Let_def case_prod_unfold smtp_store_counts MatchCorrelationID_counts
      captureWildcard_counts split: option.split)

lemma recipients_loop_counts:
  "smtp_counts (snd (snd (smtp_recipients_loop e ivs sender body ip rs matched seen s))) = smtp_counts s"
proof (induction rs arbitrary: matched seen s)
  case (Cons r rs)
  then show ?case
    using captureSMTP_counts [of "e\<lparr>env_iv := ivs r\<rparr>" sender r body ip _ s] by (simp add: case_prod_unfold)
qed simp

text \<open>
  C9: a message is filed once per distinct recipient.  For every live session the pending list grows
  by one copy for each distinct recipient whose domain part names the session's id, in the order of
  the recipients; only the first of them carries the body, and each copy is encrypted with the
  session's key.  Other accounts are as before.  The message is counted once, and as matched exactly
  when some recipient names a live session.
\<close>

theorem smtp_message_filed:
  assumes good: "storage_good contents e (sv_storage s)"
    and js: "env_marshal e = (\<lambda>i. Inr (js i))" and ivs: "ivs = (\<lambda>r c. Inr (iv r c))"
    and fits: "\<And>r c b. record_fits (Inr (iv r c)) (go_bytes (js (smtp_filed e sender (stripHostPort remote) s r c b)))"
  shows "account_at contents e (onSMTPData e ivs sender recipients body remote s) = (\<lambda>c. map_option
       (\<lambda>acc. acc\<lparr>acc_pending := acc_pending acc
          @ copies_for e js iv sender (stripHostPort remote) s c acc body (dedup recipients)\<rparr>)
       (account_at contents e s c))
     \<and> smtp_counts (onSMTPData e ivs sender recipients body remote s) = (smtpCount s + 1, smtpMatched s
       + (if \<exists>c. live_at contents e s c \<and> (\<exists>r \<in> set recipients. names_id s c r) then 1 else 0))"
proof -
  let ?ip = "stripHostPort remote"
  let ?seen = "\<lparr>seen_recipients = {}, seen_domains = {}, seen_cids = {}\<rparr>"
  define s0 where "s0 = s\<lparr>smtpCount := smtpCount s + 1\<rparr>"
  have s0: "sv_storage s0 = sv_storage s" "sv_cfg s0 = sv_cfg s" by (simp_all add: s0_def)
  have live: "live_at contents e s0 = live_at contents e s" by (simp add: live_at_def fun_eq_iff s0)
  have good0: "storage_good contents e (sv_storage s0)" using good by (simp add: s0)
  have fits0: "record_fits (Inr (iv r c)) (go_bytes (js (smtp_filed e sender ?ip s0 r c b)))" for r c b
    unfolding cfg_only(3) [OF s0(2)] by (rule fits)
  have names: "names_id s0 c r = names_id s c r" for c r by (rule cfg_only(2) [OF s0(2)])
  have fresh: "new_recipients {} recipients = dedup recipients" by (simp add: new_recipients_def)
  define matched where
    "matched = (\<exists>c. live_at contents e s c \<and> (\<exists>r \<in> set recipients. names_id s c r))"
  obtain seen1 s1 where run:
    "smtp_recipients_loop e ivs sender body ?ip recipients False ?seen s0 = (matched, seen1, s1)"
    and acct: "account_at contents e s1 = (\<lambda>c. map_option (\<lambda>acc. acc\<lparr>acc_pending := acc_pending acc
          @ copies_for e js iv sender ?ip s c acc body (dedup recipients)\<rparr>) (account_at contents e s c))"
    using recipients_loop [OF js ivs good0 fits0, where rs = recipients and body = body and matched = False and seen = ?seen]
    by (auto simp: live names fresh copies_for_cfg [OF s0(2)] matched_def s0(1))
  have "smtp_counts s1 = smtp_counts s0"
    using recipients_loop_counts [of e ivs sender body ?ip recipients False ?seen s0] by (simp add: run)
  then show ?thesis
    using run acct unfolding matched_def [symmetric]
    by (simp add: onSMTPData_def flip: s0_def) (simp add: smtp_counts_def s0_def)
qed

theorem smtp_message_filed_witness:
  "map_option (length \<circ> acc_pending) (account_at (\<lambda>_ _. None) demo_env
     (onSMTPData demo_env (\<lambda>r c. Inr (replicate 16 1)) ''x@y'' [''a@c.d.e'', ''b@c.D.e'', ''a@c.d.e'', ''a@q.r''] ''hi''
        ''192.0.2.7:25'' demo_server) ''c'') = Some 2"
proof -
  let ?rs = "[''a@c.d.e'', ''b@c.D.e'', ''a@c.d.e'', ''a@q.r'']"
  have cfg: "sv_cfg demo_server = demo_config" "CorrelationIdLength demo_config = 1" "Domains demo_config = [''d.e'']"
    by (simp_all add: demo_server_def demo_config_def zero_Config_def)
  have g: "storage_good (\<lambda>_ _. None) demo_env (sv_storage demo_server)"
    "account_at (\<lambda>_ _. None) demo_env demo_server ''c'' = Some demo_account"
    using demo_m1_good [of 6] demo_m1_view [of 6]
    by (simp_all add: demo_server_def demo_env_def duration_defs max_int64_def)
  have env: "env_marshal demo_env = (\<lambda>i. Inr ''{}'')" "acc_pending demo_account = []"
    by (simp_all add: demo_env_def demo_account_def)
  have rs: "dedup ?rs = [''a@c.d.e'', ''b@c.D.e'', ''a@q.r'']" by simp
  have cut: "cut CHR ''@'' ''a@c.d.e'' = (''a'', ''c.d.e'', True)" "cut CHR ''@'' ''b@c.D.e'' = (''b'', ''c.D.e'', True)"
    "cut CHR ''@'' ''a@q.r'' = (''a'', ''q.r'', True)" "to_lower ''c.D.e'' = ''c.d.e''" "to_lower ''c.d.e'' = ''c.d.e''"
    "to_lower ''q.r'' = ''q.r''" "''c'' \<in> set (candidates 1 ''c.d.e'')"
    by code_simp+
  have dom: "matchedDomain demo_server ''c.d.e'' = Some ''d.e''" "matchedDomain demo_server ''q.r'' = None"
    by (simp_all add: matchedDomain_def cfg domain_matches_def) (simp_all add: has_suffix_def)
  note simps = names_id_def rcpt_domain_def prod.case cut dom cfg option.case if_True if_False simp_thms
    option.distinct nat_one_as_int [symmetric]
  have "names_id demo_server ''c'' ''a@c.d.e''" "names_id demo_server ''c'' ''b@c.D.e''"
    "\<not> names_id demo_server ''c'' ''a@q.r''"
    by (simp_all only: simps nat_1)
  then have "filter (names_id demo_server ''c'') (dedup ?rs) = [''a@c.d.e'', ''b@c.D.e'']"
    by (simp only: rs filter.simps if_True if_False)
  then have copies: "length (copies_for e js iv sender ip demo_server ''c'' acc body (dedup ?rs)) = 2"
    for e :: "(bytes \<Rightarrow> bytes option) env" and js iv sender ip acc body
    by (simp add: copies_for_def)
  from smtp_message_filed [OF g(1) env(1) refl, where recipients = ?rs and iv = "\<lambda>r c. replicate 16 1"
      and remote = "''192.0.2.7:25''" and sender = "''x@y''" and body = "''hi''"]
  show ?thesis by (simp add: g(2) copies [unfolded rs] env(2) record_fits_def)
qed

section \<open>The cap on the raw envelope\<close>

lemma tee_Read_all:
  "\<not> tee_stopped t \<Longrightarrow> length (tee_buf t) \<le> teeConnMaxBuf \<Longrightarrow>
     tee_Read p t = t\<lparr>tee_buf := take teeConnMaxBuf (tee_buf t @ p)\<rparr>"
  by (auto simp: tee_Read_def)

lemma tee_reads:
  "\<not> tee_stopped t \<Longrightarrow> length (tee_buf t) \<le> teeConnMaxBuf \<Longrightarrow>
     fold tee_Read ps t = t\<lparr>tee_buf := take teeConnMaxBuf (tee_buf t @ concat ps)\<rparr>"
proof (induction ps arbitrary: t)
  case (Cons p ps)
  then show ?case by (cases "length p \<le> teeConnMaxBuf - length (tee_buf t)") (simp_all add: tee_Read_all)
qed simp

text \<open>
  C38: the raw envelope of a connection is the first 8192 bytes read from it since the last reset,
  however the reads split the stream and however much follows; reads after a message body has begun
  add nothing.  So a recipient whose command stands after the first 8192 bytes is not among the
  recipients of the message when an earlier one was recorded, although the session accepted it.
\<close>

theorem smtp_envelope_capped:
  "tee_buf (fold tee_Read ps (tee_Reset t)) = take teeConnMaxBuf (concat ps)
     \<and> fold tee_Read qs (t\<lparr>tee_stopped := True\<rparr>) = t\<lparr>tee_stopped := True\<rparr>
     \<and> (let ss = \<lparr>smtp_remoteAddr = ip, smtp_from = sender, smtp_recipients = rcpts,
                    smtp_tee = Some (fold tee_Read ps (tee_Reset t))\<rparr>;
            raw = snd (parseRawEnvelope (take teeConnMaxBuf (concat ps)))
        in snd (data_envelope ss) = (if raw = [] then rcpts else raw))"
proof -
  have "tee_buf (fold tee_Read ps (tee_Reset t)) = take teeConnMaxBuf (concat ps)"
    by (simp add: tee_reads tee_Reset_def)
  moreover have "fold tee_Read qs (t\<lparr>tee_stopped := True\<rparr>) = t\<lparr>tee_stopped := True\<rparr>"
    by (induction qs) (simp_all add: tee_Read_def)
  ultimately show ?thesis by (simp add: data_envelope_def case_prod_unfold)
qed

end
