(* ===== verification/Ldap.thy ===== *)
theory Ldap
  imports Server_Capture
begin

text \<open>
  The LDAP server (\<open>oobsrv/ldap.go\<close>): the handlers of the requests, the routing to them, StartTLS and
  the two captures.  A request carries what the accessors of the LDAP package return for it, a
  response what the handler put into it; the two extension names and the outcomes of TLS handshakes
  are arguments.
\<close>

section \<open>Requests, responses and connections\<close>

datatype change_operation = ChangeAdd | ChangeDelete | ChangeReplace | ChangeOther int

datatype ldap_request =
    BindRequest string string string   \<comment> \<open>AuthenticationChoice, Name, AuthenticationSimple\<close>
  | SearchRequest string string "string list"   \<comment> \<open>BaseObject, FilterString, Attributes\<close>
  | AddRequest string "(string \<times> string list) list"
  | DeleteRequest string
  | ModifyRequest string "(change_operation \<times> string \<times> string list) list"
  | CompareRequest string string string
  | AbandonRequest int
  | ExtendedRequest string string   \<comment> \<open>RequestName, RequestValue as printed\<close>
  | OtherRequest string   \<comment> \<open>ProtocolOpName\<close>

datatype ldap_code =
    LDAPResultSuccess | LDAPResultOperationsError | LDAPResultCompareTrue | LDAPResultUnwillingToPerform

datatype ldap_response =
    BindResponse ldap_code
  | SearchResultEntry string "(string \<times> string list) list"
  | SearchResultDone ldap_code
  | AddResponse ldap_code
  | DeleteResponse ldap_code
  | ModifyResponse ldap_code
  | CompareResponse ldap_code
  | ExtendedResponse ldap_code "string option" string   \<comment> \<open>name and diagnostic message, if set\<close>
  | OtherResponse ldap_code

text \<open>The connection: the data attached to it, and whether it is open.\<close>

record ldap_client =
  lc_startTLSDone :: bool
  lc_open :: bool

record ldap_names =
  NoticeOfStartTLS :: string
  NoticeOfWhoAmI :: string

definition ldapStartTLSTimeout :: int where "ldapStartTLSTimeout = 10 * second"

section \<open>Capturing\<close>

definition ldap_interaction :: "string \<Rightarrow> string \<Rightarrow> int \<Rightarrow> Interaction" where
  "ldap_interaction rawRequest remoteAddr now =
     zero_Interaction\<lparr>Protocol := ''ldap'', RawRequest := rawRequest, RemoteAddress := remoteAddr, Timestamp := now\<rparr>"

definition captureLDAPSearchInteraction ::
  "'db env \<Rightarrow> string \<Rightarrow> string \<Rightarrow> string \<Rightarrow> 'db server \<Rightarrow> 'db server" where
  "captureLDAPSearchInteraction e baseDN rawRequest remoteAddr s =
     (case MatchLDAPCorrelationID baseDN (nat (CorrelationIdLength (sv_cfg s))) (Domains (sv_cfg s))
             (server_lookup e) s of
        (matches, s1) \<Rightarrow>
          storeMatchedInteractions e matches (ldap_interaction rawRequest remoteAddr (env_now e)) s1)"

definition captureLDAPExtra :: "'db env \<Rightarrow> string \<Rightarrow> string \<Rightarrow> 'db server \<Rightarrow> 'db server" where
  "captureLDAPExtra e rawRequest remoteAddr s = (case extraBucket s of
      None \<Rightarrow> s
    | Some bucket \<Rightarrow> (case env_marshal e (ldap_interaction rawRequest remoteAddr (env_now e)) of
        Inl err \<Rightarrow> s
      | Inr data \<Rightarrow> s\<lparr>extraBucket := Some (bucket_Append (go_bytes data) bucket)\<rparr>))"

text \<open>The guard that every handler puts before the full log.\<close>

definition logs_ldap :: "'db server \<Rightarrow> bool" where
  "logs_ldap s \<longleftrightarrow> LDAP (sv_cfg s) \<and> extraBucket s \<noteq> None"

definition count_ldap :: "'db server \<Rightarrow> 'db server" where
  "count_ldap s = s\<lparr>ldapCount := ldapCount s + 1\<rparr>"

definition log_ldap :: "'db env \<Rightarrow> string \<Rightarrow> string \<Rightarrow> 'db server \<Rightarrow> 'db server" where
  "log_ldap e rawRequest remoteAddr s =
     (if logs_ldap s then captureLDAPExtra e rawRequest remoteAddr s else s)"

section \<open>The texts of the log\<close>

abbreviation nl :: string where "nl \<equiv> [CHR 0x0A]"

definition bind_text :: "string \<Rightarrow> string \<Rightarrow> string \<Rightarrow> string" where
  "bind_text choice name simple =
     ''Type=Bind'' @ nl @ ''AuthenticationChoice='' @ choice @ nl @ ''User='' @ name @ nl
       @ ''Pass='' @ (if choice = ''simple'' then simple else []) @ nl"

definition search_text :: "string \<Rightarrow> string \<Rightarrow> string list \<Rightarrow> string" where
  "search_text baseDN filterStr attrs =
     ''Type=Search'' @ nl @ ''BaseDn='' @ baseDN @ nl @ ''Filter='' @ filterStr @ nl
       @ ''Attributes='' @ join '', '' attrs @ nl"

definition add_text :: "string \<Rightarrow> (string \<times> string list) list \<Rightarrow> string" where
  "add_text entry attrs =
     ''Type=Add'' @ nl @ ''Entity='' @ entry @ nl
       @ concat (map (\<lambda>(name, vals). concat (map (\<lambda>val.
           ''Attribute Name='' @ name @ '' Attribute Value='' @ val @ nl) vals)) attrs)"

definition delete_text :: "string \<Rightarrow> string" where
  "delete_text entry = ''Type=Delete'' @ nl @ ''Entity='' @ entry @ nl"

fun operation_name :: "change_operation \<Rightarrow> string" where
  "operation_name ChangeAdd = ''Add''"
| "operation_name ChangeDelete = ''Delete''"
| "operation_name ChangeReplace = ''Replace''"
| "operation_name (ChangeOther n) = ''Unknown('' @ itoa n @ '')''"

definition modify_text :: "string \<Rightarrow> (change_operation \<times> string \<times> string list) list \<Rightarrow> string" where
  "modify_text object changes =
     ''Type=Modify'' @ nl @ ''Entity='' @ object @ nl
       @ concat (map (\<lambda>(opn, name, vals). ''Operation='' @ operation_name opn @ '' Attribute='' @ name
           @ '' Values=['' @ join '' - '' vals @ '']'' @ nl) changes)"

definition compare_text :: "string \<Rightarrow> string \<Rightarrow> string \<Rightarrow> string" where
  "compare_text entry attr val =
     ''Type=Compare'' @ nl @ ''Entity='' @ entry @ nl @ ''Attribute name to compare='' @ attr @ nl
       @ ''Attribute value expected='' @ val @ nl"

definition abandon_text :: "int \<Rightarrow> string" where
  "abandon_text messageID = ''Type=Abandon'' @ nl @ ''MessageID='' @ itoa messageID @ nl"

definition extended_text :: "string \<Rightarrow> string \<Rightarrow> string" where
  "extended_text name val = ''Type=Extended'' @ nl @ ''Name='' @ name @ nl @ ''Value='' @ val @ nl"

section \<open>The handlers\<close>

definition handleLDAPBind where
  "handleLDAPBind e choice name simple remote s =
     ([BindResponse LDAPResultSuccess], log_ldap e (bind_text choice name simple) remote (count_ldap s))"

definition fake_entry :: "string \<Rightarrow> ldap_response" where
  "fake_entry baseDN = SearchResultEntry (''cn=interactsh,'' @ baseDN)
     [(''mail'', [''interact@s.h'', ''interact@s.h'']), (''company'', [''aaa'']), (''department'', [''bbbb'']),
      (''l'', [''cccc'']), (''mobile'', [''123456789'']), (''telephoneNumber'', [''123456789'']),
      (''cn'', [''interact''])]"

definition handleLDAPSearch where
  "handleLDAPSearch e baseDN filterStr attrs remote s =
     (let raw = search_text baseDN filterStr attrs
      in ([fake_entry baseDN, SearchResultDone LDAPResultSuccess],
          captureLDAPSearchInteraction e baseDN raw remote (log_ldap e raw remote (count_ldap s))))"

definition handleLDAPAdd where
  "handleLDAPAdd e entry attrs remote s =
     ([AddResponse LDAPResultSuccess], log_ldap e (add_text entry attrs) remote (count_ldap s))"

definition handleLDAPDelete where
  "handleLDAPDelete e entry remote s =
     ([DeleteResponse LDAPResultSuccess], log_ldap e (delete_text entry) remote (count_ldap s))"

definition handleLDAPModify where
  "handleLDAPModify e object changes remote s =
     ([ModifyResponse LDAPResultSuccess], log_ldap e (modify_text object changes) remote (count_ldap s))"

definition handleLDAPCompare where
  "handleLDAPCompare e entry attr val remote s =
     ([CompareResponse LDAPResultCompareTrue], log_ldap e (compare_text entry attr val) remote (count_ldap s))"

definition handleLDAPAbandon where
  "handleLDAPAbandon e messageID remote s =
     ([], log_ldap e (abandon_text messageID) remote (count_ldap s))"

text \<open>\<open>tls\<close>: a TLS configuration is present; \<open>handshake\<close>: the handshake succeeds in time.\<close>

definition handleLDAPStartTLS ::
  "'db env \<Rightarrow> ldap_names \<Rightarrow> bool \<Rightarrow> bool \<Rightarrow> string \<Rightarrow> ldap_client \<Rightarrow> 'db server
     \<Rightarrow> ldap_response list \<times> ldap_client \<times> 'db server" where
  "handleLDAPStartTLS e names tls handshake remote c s0 =
     (let s = log_ldap e (''Type=Extended'' @ nl @ ''Name=StartTLS'' @ nl) remote (count_ldap s0)
      in if lc_startTLSDone c
         then ([ExtendedResponse LDAPResultOperationsError None
                 ''StartTLS not allowed on an established TLS session''], c, s)
         else if \<not> tls
         then ([ExtendedResponse LDAPResultOperationsError None ''TLS not available''], c, s)
         else ([ExtendedResponse LDAPResultSuccess (Some (NoticeOfStartTLS names)) []],
               if handshake then c\<lparr>lc_startTLSDone := True\<rparr> else c\<lparr>lc_open := False\<rparr>, s))"

definition handleLDAPWhoAmI where
  "handleLDAPWhoAmI e remote s =
     ([ExtendedResponse LDAPResultSuccess None []],
      log_ldap e (''Type=Extended'' @ nl @ ''Name=WhoAmI'' @ nl) remote (count_ldap s))"

definition handleLDAPNotFound where
  "handleLDAPNotFound e req remote s = (case req of
      ExtendedRequest name val \<Rightarrow>
        ([ExtendedResponse LDAPResultSuccess None []], log_ldap e (extended_text name val) remote (count_ldap s))
    | OtherRequest opName \<Rightarrow>
        ([OtherResponse LDAPResultUnwillingToPerform], log_ldap e (''Type='' @ opName @ nl) remote (count_ldap s))
    | _ \<Rightarrow> ([], s))"

text \<open>The routes, as \<open>startLDAP\<close> registers them.\<close>

definition ldap_serve ::
  "'db env \<Rightarrow> ldap_names \<Rightarrow> bool \<Rightarrow> string \<Rightarrow> ldap_request \<times> bool \<Rightarrow> ldap_client \<Rightarrow> 'db server
     \<Rightarrow> ldap_response list \<times> ldap_client \<times> 'db server" where
  "ldap_serve e names tls remote rh c s = (case rh of (req, handshake) \<Rightarrow> (case req of
      BindRequest choice name simple \<Rightarrow> apsnd (Pair c) (handleLDAPBind e choice name simple remote s)
    | SearchRequest baseDN filterStr attrs \<Rightarrow> apsnd (Pair c) (handleLDAPSearch e baseDN filterStr attrs remote s)
    | AddRequest entry attrs \<Rightarrow> apsnd (Pair c) (handleLDAPAdd e entry attrs remote s)
    | DeleteRequest entry \<Rightarrow> apsnd (Pair c) (handleLDAPDelete e entry remote s)
    | ModifyRequest object changes \<Rightarrow> apsnd (Pair c) (handleLDAPModify e object changes remote s)
    | CompareRequest entry attr val \<Rightarrow> apsnd (Pair c) (handleLDAPCompare e entry attr val remote s)
    | AbandonRequest messageID \<Rightarrow> apsnd (Pair c) (handleLDAPAbandon e messageID remote s)
    | ExtendedRequest name val \<Rightarrow>
        if name = NoticeOfStartTLS names then handleLDAPStartTLS e names tls handshake remote c s
        else if name = NoticeOfWhoAmI names then apsnd (Pair c) (handleLDAPWhoAmI e remote s)
        else apsnd (Pair c) (handleLDAPNotFound e req remote s)
    | OtherRequest opName \<Rightarrow> apsnd (Pair c) (handleLDAPNotFound e req remote s)))"

text \<open>
  A sequence of calls that the LDAP package makes on one connection, each with the outcome its
  handshake would have.  The package reads the requests and runs the handlers, in an order of its
  own; a list stands for any such order, with the handlers one after the other.  Nothing is read
  from a closed connection.  The result counts the requests served.
\<close>

primrec ldap_run ::
  "'db env \<Rightarrow> ldap_names \<Rightarrow> bool \<Rightarrow> string \<Rightarrow> (ldap_request \<times> bool) list \<Rightarrow> ldap_client \<Rightarrow> 'db server
     \<Rightarrow> nat \<times> ldap_response list \<times> ldap_client \<times> 'db server" where
  "ldap_run e names tls remote [] c s = (0, [], c, s)"
| "ldap_run e names tls remote (r # rs) c s =
     (if \<not> lc_open c then (0, [], c, s)
      else case ldap_serve e names tls remote r c s of
        (resp, c1, s1) \<Rightarrow> (case ldap_run e names tls remote rs c1 s1 of
          (n, resps, c2, s2) \<Rightarrow> (Suc n, resp @ resps, c2, s2)))"

end
