(* ===== verification/Ldap_Properties.thy ===== *)
theory Ldap_Properties
  imports Ldap Server_Demo
begin

text \<open>
  Properties of the LDAP side: what a search leaves in the accounts it names, what a connection
  leaves in the log and the counter, and the negotiation of TLS on a connection.
\<close>

section \<open>The full id of a match\<close>

text \<open>The part of a name that an id is found in: the first one that has it as a candidate.\<close>

definition ldap_full_id :: "nat \<Rightarrow> string list \<Rightarrow> string list \<Rightarrow> string \<Rightarrow> string" where
  "ldap_full_id n domains parts c =
     (case find (\<lambda>p. c \<in> set (candidates n (to_lower (trim_space p)))) parts of
        None \<Rightarrow> []
      | Some p \<Rightarrow> extractFullID (to_lower (trim_space p)) domains)"

definition dn_parts :: "string \<Rightarrow> string list" where
  "dn_parts baseDN = fields_func (\<lambda>r. r = CHR ''='' \<or> r = CHR '','') baseDN"

definition dn_candidates :: "nat \<Rightarrow> string \<Rightarrow> string set" where
  "dn_candidates n baseDN = (\<Union>p \<in> set (dn_parts baseDN). set (candidates n (to_lower (trim_space p))))"

context registry
begin

lemma ldap_parts_full:
  assumes "distinct (map UniqueID ms)" "ldap_parts n domains lookup ps ms s = (ms', s')"
  shows "\<exists>rest. ms' = ms @ rest \<and> (\<forall>m \<in> set rest. FullID m = ldap_full_id n domains ps (UniqueID m))"
  using assms
proof (induction ps arbitrary: ms s)
  case Nil
  then show ?case by simp
next
  case (Cons p ps)
  let ?part = "to_lower (trim_space p)"
  show ?case
  proof (cases "?part = []")
    case True
    then have "ldap_full_id n domains (p # ps) = ldap_full_id n domains ps"
      by (simp add: fun_eq_iff ldap_full_id_def candidates_def)
    with Cons.IH [OF Cons.prems(1), of s] Cons.prems(2) True show ?thesis by simp
  next
    case False
    obtain pm s1 where
      run: "scan_list (ldap_lookup ms lookup) ldap_on_match (candidate_pairs n ?part) ([], s)
              = (True, (pm, s1))" and s1: "live s1 = live s"
      and pm: "map UniqueID (ms @ pm) = dedup (map UniqueID ms @ filter (live s) (candidates n ?part))"
      using scan_ldap [of ms "[]" "candidate_pairs n ?part" s] Cons.prems
      by (auto simp: map_fst_candidate_pairs)
    let ?pm = "set_full_id (extractFullID ?part domains) pm"
    have ids: "map UniqueID (ms @ ?pm) = map UniqueID (ms @ pm)" by (simp add: set_full_id_def o_def)
    then have dist: "distinct (map UniqueID (ms @ ?pm))" using pm by (metis distinct_dedup)
    have rest: "ldap_parts n domains lookup ps (ms @ ?pm) s1 = (ms', s')"
      using Cons.prems(2) False by (simp add: scanLabels_scan_list run)
    from Cons.IH [OF dist rest] obtain rs where
      rs: "ms' = (ms @ ?pm) @ rs" "\<forall>m \<in> set rs. FullID m = ldap_full_id n domains ps (UniqueID m)"
      by blast
    have all: "map UniqueID ms' = dedup (map UniqueID (ms @ ?pm)
          @ filter (live s) (concat (map (\<lambda>p. candidates n (to_lower (trim_space p))) ps)))"
      using ldap_parts_ids [OF dist, of n domains ps s1] rest by (simp add: s1 del: map_append)
    have "distinct (map UniqueID ms')" unfolding all by simp
    then have fresh: "UniqueID m \<notin> UniqueID ` set (ms @ ?pm)" if "m \<in> set rs" for m
      using that unfolding rs(1) map_append [of UniqueID "ms @ _"] distinct_append by (auto simp del: map_append)
    have "UniqueID ` set (ms @ ?pm) = set (map UniqueID (ms @ pm))" unfolding ids [symmetric] by (simp add: image_Un)
    then have cands: "UniqueID ` set (ms @ ?pm)
        = UniqueID ` set ms \<union> set (filter (live s) (candidates n ?part))" unfolding pm by simp
    have "UniqueID ` set ms' \<subseteq> UniqueID ` set (ms @ ?pm) \<union> {c. live s c}"
      using arg_cong [OF all, of set] by auto
    then have "UniqueID m \<notin> set (candidates n ?part)" if "m \<in> set rs" for m
      using fresh [OF that] that unfolding cands by (auto simp: rs(1))
    then have "FullID m = ldap_full_id n domains (p # ps) (UniqueID m)" if "m \<in> set rs" for m
      using rs(2) that by (simp add: ldap_full_id_def)
    moreover have "UniqueID m \<in> set (candidates n ?part) \<and> FullID m = extractFullID ?part domains"
      if "m \<in> set ?pm" for m
    proof -
      have "distinct (map UniqueID (ms @ pm))" unfolding pm by simp
      then have "UniqueID ` set ms \<inter> UniqueID ` set pm = {}" by simp
      moreover have "UniqueID m \<in> UniqueID ` set pm" using that by (auto simp: set_full_id_def)
      ultimately have "UniqueID m \<notin> UniqueID ` set ms" by blast
      moreover have "UniqueID m \<in> UniqueID ` set (ms @ ?pm)" using that by simp
      ultimately show ?thesis using that unfolding cands by (auto simp: set_full_id_def)
    qed
    then have "FullID m = ldap_full_id n domains (p # ps) (UniqueID m)" if "m \<in> set ?pm" for m
      using that by (simp add: ldap_full_id_def)
    ultimately show ?thesis using rs(1) by auto
  qed
qed

end

section \<open>Searches\<close>

lemma log_ldap_simps [simp]:
  "sv_storage (count_ldap s) = sv_storage s" "sv_cfg (count_ldap s) = sv_cfg s"
  "extraBucket (count_ldap s) = extraBucket s" "ldapCount (count_ldap s) = ldapCount s + 1"
  "sv_storage (log_ldap e raw remote s) = sv_storage s" "sv_cfg (log_ldap e raw remote s) = sv_cfg s"
  "ldapCount (log_ldap e raw remote s) = ldapCount s"
  by (simp_all add: count_ldap_def log_ldap_def captureLDAPExtra_def split: option.split sum.split)

lemma MatchLDAP_kept:
  assumes "kept_by P lookup" and "P s"
  shows "P (snd (MatchLDAPCorrelationID baseDN n domains lookup s))"
proof -
  have step: "kept_by (\<lambda>vs. P (snd vs)) (ldap_lookup ms lookup)" for ms
    using assms(1) by (simp add: kept_by_def ldap_lookup_def case_prod_unfold)
  have scan: "P (snd (snd (scan_list (ldap_lookup ms lookup) ldap_on_match xs ([], s))))" if "P s" for xs ms s
    using that by (intro scan_list_kept [OF step]) (auto simp: ldap_on_match_def case_prod_unfold)
  have "P (snd (ldap_parts n domains lookup ps ms s))" if "P s" for ps ms s
    using that
  proof (induction ps arbitrary: ms s)
    case (Cons p ps)
    then show ?case
      using scan [OF Cons.prems, of ms "candidate_pairs n (to_lower (trim_space p))"]
      by (simp add: Let_def scanLabels_scan_list case_prod_unfold)
  qed simp
  then show ?thesis using assms(2) by (simp add: MatchLDAPCorrelationID_def)
qed

definition ldap_stored :: "'db env \<Rightarrow> string \<Rightarrow> string \<Rightarrow> string \<Rightarrow> 'db server \<Rightarrow> string \<Rightarrow> Interaction" where
  "ldap_stored e baseDN raw remote s c =
     (ldap_interaction raw remote (env_now e))\<lparr>InteractionUniqueID := c,
       FullId := ldap_full_id (nat (CorrelationIdLength (sv_cfg s))) (Domains (sv_cfg s)) (dn_parts baseDN) c\<rparr>"

lemma search_captured:
  assumes good: "storage_good contents e (sv_storage s)"
    and js: "env_marshal e = (\<lambda>i. Inr (js i))" and iv: "env_iv e = (\<lambda>c. Inr (iv c))"
    and fits: "\<And>c. record_fits (Inr (iv c)) (go_bytes (js (ldap_stored e baseDN raw remote s c)))"
  shows "storage_good contents e (sv_storage (captureLDAPSearchInteraction e baseDN raw remote s))
    \<and> account_at contents e (captureLDAPSearchInteraction e baseDN raw remote s) = (\<lambda>c.
       if live_at contents e s c \<and> c \<in> dn_candidates (nat (CorrelationIdLength (sv_cfg s))) baseDN
       then map_option (\<lambda>acc. acc\<lparr>acc_pending := acc_pending acc
              @ [encrypt_for (env_aes e) acc (iv c) (go_bytes (js (ldap_stored e baseDN raw remote s c)))]\<rparr>)
              (account_at contents e s c)
       else account_at contents e s c)"
proof -
  let ?n = "nat (CorrelationIdLength (sv_cfg s))" and ?ds = "Domains (sv_cfg s)"
  let ?i = "ldap_interaction raw remote (env_now e)"
  let ?data = "\<lambda>c. go_bytes (js (ldap_stored e baseDN raw remote s c))"
  obtain ms s1 where run: "MatchLDAPCorrelationID baseDN ?n ?ds (server_lookup e) s = (ms, s1)"
    and ids: "map UniqueID ms = dedup (filter (live_at contents e s)
        (concat (map (\<lambda>p. candidates ?n (to_lower (trim_space p))) (dn_parts baseDN))))"
    using server_registry.MatchLDAP_ids [of baseDN ?n ?ds e s contents] unfolding dn_parts_def by blast
  have full: "\<forall>m \<in> set ms. FullID m = ldap_full_id ?n ?ds (dn_parts baseDN) (UniqueID m)"
    using server_registry.ldap_parts_full [of "[]" ?n ?ds e "dn_parts baseDN" s ms s1] run
    by (simp add: MatchLDAPCorrelationID_def dn_parts_def)
  have "same_server contents e s s1"
    using MatchLDAP_kept [OF same_server_lookup same_server_refl [OF good], of baseDN ?n ?ds] run by simp
  then have s1: "storage_good contents e (sv_storage s1)" "account_at contents e s1 = account_at contents e s"
    by (simp_all add: same_server_def)
  have set: "set (map UniqueID ms) = {c. live_at contents e s c \<and> c \<in> dn_candidates ?n baseDN}"
    unfolding ids by (auto simp: dn_candidates_def)
  have dist: "distinct (map UniqueID ms)" unfolding ids by simp
  have "\<forall>c \<in> set (map UniqueID ms). record_fits (Inr (iv c)) (?data c) \<and> account_at contents e s1 c \<noteq> None"
    unfolding set using fits by (auto simp: s1(2) live_at_def)
  from server_storage.append_all [OF s1(1) dist this]
  have view: "storage_good contents e (fold (\<lambda>c. storage_append e (Inr (iv c)) c (?data c)) (map UniqueID ms) (sv_storage s1))
     \<and> storage_view contents (env_now e) (fold (\<lambda>c. storage_append e (Inr (iv c)) c (?data c)) (map UniqueID ms) (sv_storage s1)) c
      = (if live_at contents e s c \<and> c \<in> dn_candidates ?n baseDN
         then map_option (\<lambda>acc. acc\<lparr>acc_pending := acc_pending acc @ [encrypt_for (env_aes e) acc (iv c) (?data c)]\<rparr>)
              (account_at contents e s c)
         else account_at contents e s c)" for c
    unfolding set s1(2) by simp
  have "sv_storage (captureLDAPSearchInteraction e baseDN raw remote s)
      = fold (\<lambda>c. storage_append e (Inr (iv c)) c (?data c)) (map UniqueID ms) (sv_storage s1)"
    unfolding captureLDAPSearchInteraction_def run prod.case
      storeMatched_storage [OF js, where full = "ldap_full_id ?n ?ds (dn_parts baseDN)", OF full]
    by (simp add: iv ldap_stored_def)
  with view show ?thesis by (simp add: fun_eq_iff)
qed

text \<open>
  C14: an LDAP search is captured for exactly the sessions its base DN names.  The handler appends to
  every live session whose id stands in a part of the DN one interaction with the text of the
  search, the peer and the full name of the first part that holds the id; no other account changes;
  the answer is the made-up entry followed by success, whatever was asked.
\<close>

theorem ldap_search_captured:
  assumes "storage_good contents e (sv_storage s)"
    and "env_marshal e = (\<lambda>i. Inr (js i))" and "env_iv e = (\<lambda>c. Inr (iv c))"
    and "\<And>c. record_fits (Inr (iv c)) (go_bytes (js (ldap_stored e baseDN (search_text baseDN flt attrs) remote s c)))"
  shows "fst (handleLDAPSearch e baseDN flt attrs remote s) = [fake_entry baseDN, SearchResultDone LDAPResultSuccess]
    \<and> account_at contents e (snd (handleLDAPSearch e baseDN flt attrs remote s)) = (\<lambda>c.
       if live_at contents e s c \<and> c \<in> dn_candidates (nat (CorrelationIdLength (sv_cfg s))) baseDN
       then map_option (\<lambda>acc. acc\<lparr>acc_pending := acc_pending acc
              @ [encrypt_for (env_aes e) acc (iv c)
                   (go_bytes (js (ldap_stored e baseDN (search_text baseDN flt attrs) remote s c)))]\<rparr>)
              (account_at contents e s c)
       else account_at contents e s c)"
proof -
  let ?raw = "search_text baseDN flt attrs"
  define s0 where "s0 = log_ldap e ?raw remote (count_ldap s)"
  have s0: "sv_storage s0 = sv_storage s" "sv_cfg s0 = sv_cfg s" by (simp_all add: s0_def)
  have live: "live_at contents e s0 = live_at contents e s" by (simp add: live_at_def fun_eq_iff s0)
  have stored: "ldap_stored e baseDN ?raw remote s0 = ldap_stored e baseDN ?raw remote s"
    by (simp add: ldap_stored_def fun_eq_iff s0)
  have good0: "storage_good contents e (sv_storage s0)" using assms(1) by (simp add: s0)
  have fits0: "record_fits (Inr (iv c)) (go_bytes (js (ldap_stored e baseDN ?raw remote s0 c)))" for c
    unfolding stored by (rule assms(4))
  show ?thesis
    using search_captured [OF good0 assms(2,3) fits0]
    unfolding handleLDAPSearch_def Let_def live stored s0 s0_def [symmetric] by simp
qed

theorem ldap_search_captured_witness:
  "map_option acc_pending (account_at (\<lambda>_ _. None) demo_env
     (snd (handleLDAPSearch demo_env ''ou=C,dc=d'' ''(cn=x)'' [] ''192.0.2.7:389'' demo_server)) ''c'')
   = Some [encrypt_for demo_cipher demo_account (replicate 16 1) (go_bytes ''{}'')]"
proof -
  have cfg: "sv_cfg demo_server = demo_config" "CorrelationIdLength demo_config = 1"
    by (simp_all add: demo_server_def demo_config_def zero_Config_def)
  have g: "storage_good (\<lambda>_ _. None) demo_env (sv_storage demo_server)"
    "account_at (\<lambda>_ _. None) demo_env demo_server ''c'' = Some demo_account"
    using demo_m1_good [of 6] demo_m1_view [of 6]
    by (simp_all add: demo_server_def demo_env_def duration_defs max_int64_def)
  have env: "env_marshal demo_env = (\<lambda>i. Inr ''{}'')" "env_iv demo_env = (\<lambda>c. Inr (replicate 16 1))"
    "env_aes demo_env = demo_cipher" "acc_pending demo_account = []"
    by (simp_all add: demo_env_def demo_account_def)
  have "dn_parts ''ou=C,dc=d'' = [''ou'', ''C'', ''dc'', ''d'']" "''c'' \<in> set (candidates 1 (to_lower (trim_space ''C'')))"
    by code_simp+
  then have "''c'' \<in> dn_candidates 1 ''ou=C,dc=d''" by (simp add: dn_candidates_def)
  with ldap_search_captured [OF g(1) env(1,2), where baseDN = "''ou=C,dc=d''" and flt = "''(cn=x)''" and attrs = "[]"
      and remote = "''192.0.2.7:389''", unfolded cfg]
  show ?thesis by (simp add: g(2) env(3,4) record_fits_def live_at_def)
qed

section \<open>Connections\<close>

text \<open>A response that opens the negotiation of TLS.\<close>

fun starts_tls :: "ldap_response \<Rightarrow> bool" where
  "starts_tls (ExtendedResponse LDAPResultSuccess (Some name) diag) = True"
| "starts_tls _ = False"

text \<open>One when TLS was negotiated, or its handshake failed and the connection was closed; else zero.\<close>

definition tls_used :: "ldap_client \<Rightarrow> nat" where
  "tls_used c = (if lc_startTLSDone c \<or> \<not> lc_open c then 1 else 0)"

lemma serve_tls:
  assumes "ldap_serve e names tls remote r c s = (resp, c1, s1)" and "lc_open c"
  shows "length (filter starts_tls resp) + tls_used c = tls_used c1
     \<and> (\<not> tls \<longrightarrow> filter starts_tls resp = []) \<and> (lc_startTLSDone c \<longrightarrow> lc_startTLSDone c1)"
  using assms
  by (auto simp: ldap_serve_def handleLDAPBind_def handleLDAPSearch_def handleLDAPAdd_def handleLDAPDelete_def
      handleLDAPModify_def handleLDAPCompare_def handleLDAPAbandon_def handleLDAPStartTLS_def handleLDAPWhoAmI_def
      handleLDAPNotFound_def tls_used_def fake_entry_def Let_def apsnd_def map_prod_def
      split: ldap_request.splits if_splits prod.splits)

text \<open>
  C17: TLS is negotiated at most once on a connection.  Over any sequence of requests, the number of
  responses that open a negotiation is one when at the end the connection has negotiated TLS or was
  closed by a failed handshake, and otherwise zero; without a TLS configuration it is always zero.
\<close>

theorem starttls_at_most_once:
  "case ldap_run e names tls remote rs \<lparr>lc_startTLSDone = False, lc_open = True\<rparr> s of (n, resps, c, s') \<Rightarrow>
     length (filter starts_tls resps) = tls_used c
     \<and> (tls \<or> filter starts_tls resps = [])"
proof -
  have "case ldap_run e names tls remote rs c0 s of (n, resps, c, s') \<Rightarrow>
     length (filter starts_tls resps) + tls_used c0 = tls_used c \<and> (\<not> tls \<longrightarrow> filter starts_tls resps = [])" for c0
  proof (induction rs arbitrary: c0 s)
    case (Cons r rs)
    show ?case
    proof (cases "lc_open c0")
      case True
      obtain resp c1 s1 where one: "ldap_serve e names tls remote r c0 s = (resp, c1, s1)" by (rule prod_cases3)
      obtain n resps c2 s2 where run: "ldap_run e names tls remote rs c1 s1 = (n, resps, c2, s2)" by (rule prod_cases4)
      from Cons.IH [of c1 s1] serve_tls [OF one True] True show ?thesis by (simp add: one run)
    qed simp
  qed simp
  from this [of "\<lparr>lc_startTLSDone = False, lc_open = True\<rparr>"] show ?thesis
    by (auto simp: tls_used_def split: prod.splits)
qed

text \<open>The log of a connection: the texts of its requests, appended in order.\<close>

definition log_entries :: "(Interaction \<Rightarrow> string) \<Rightarrow> string \<Rightarrow> int \<Rightarrow> string list \<Rightarrow> SharedBucket \<Rightarrow> SharedBucket" where
  "log_entries js remote now raws = fold (\<lambda>raw. bucket_Append (go_bytes (js (ldap_interaction raw remote now)))) raws"

lemma log_ldap_bucket:
  assumes "env_marshal e = (\<lambda>i. Inr (js i))"
  shows "extraBucket (log_ldap e raw remote s)
     = (if LDAP (sv_cfg s) then map_option (log_entries js remote (env_now e) [raw]) (extraBucket s) else extraBucket s)"
  by (simp add: log_ldap_def logs_ldap_def captureLDAPExtra_def log_entries_def assms split: option.split)

lemma storeMatched_only:
  "extraBucket (storeMatchedInteractions e ms i s) = extraBucket s \<and> sv_cfg (storeMatchedInteractions e ms i s) = sv_cfg s
     \<and> ldapCount (storeMatchedInteractions e ms i s) = ldapCount s"
  by (induction ms arbitrary: s) (simp_all split: sum.split)

lemma search_only:
  "extraBucket (captureLDAPSearchInteraction e baseDN raw remote s) = extraBucket s"
  "sv_cfg (captureLDAPSearchInteraction e baseDN raw remote s) = sv_cfg s"
  "ldapCount (captureLDAPSearchInteraction e baseDN raw remote s) = ldapCount s"
proof -
  have "kept_by (\<lambda>s'. extraBucket s' = extraBucket s \<and> sv_cfg s' = sv_cfg s \<and> ldapCount s' = ldapCount s) (server_lookup e)"
    by (simp add: kept_by_def server_lookup_def case_prod_unfold)
  from MatchLDAP_kept [OF this, of s]
  show "extraBucket (captureLDAPSearchInteraction e baseDN raw remote s) = extraBucket s"
    "sv_cfg (captureLDAPSearchInteraction e baseDN raw remote s) = sv_cfg s"
    "ldapCount (captureLDAPSearchInteraction e baseDN raw remote s) = ldapCount s"
    by (simp_all add: captureLDAPSearchInteraction_def storeMatched_only case_prod_unfold)
qed

text \<open>What the log says of each request, line by line.\<close>

definition lines_of :: "string list \<Rightarrow> string" where
  "lines_of ls = concat (map (\<lambda>l. l @ nl) ls)"

fun logged_text :: "ldap_names \<Rightarrow> ldap_request \<Rightarrow> string" where
  "logged_text names (BindRequest choice name simple) = lines_of
     [''Type=Bind'', ''AuthenticationChoice='' @ choice, ''User='' @ name,
      ''Pass='' @ (if choice = ''simple'' then simple else [])]"
| "logged_text names (SearchRequest baseDN flt attrs) = lines_of
     [''Type=Search'', ''BaseDn='' @ baseDN, ''Filter='' @ flt, ''Attributes='' @ join '', '' attrs]"
| "logged_text names (AddRequest entry attrs) = lines_of
     ([''Type=Add'', ''Entity='' @ entry]
      @ concat (map (\<lambda>(name, vals). map (\<lambda>val. ''Attribute Name='' @ name @ '' Attribute Value='' @ val) vals) attrs))"
| "logged_text names (DeleteRequest entry) = lines_of [''Type=Delete'', ''Entity='' @ entry]"
| "logged_text names (ModifyRequest object changes) = lines_of
     ([''Type=Modify'', ''Entity='' @ object]
      @ map (\<lambda>(opn, name, vals). ''Operation='' @ operation_name opn @ '' Attribute='' @ name
          @ '' Values=['' @ join '' - '' vals @ '']'') changes)"
| "logged_text names (CompareRequest entry attr val) = lines_of
     [''Type=Compare'', ''Entity='' @ entry, ''Attribute name to compare='' @ attr,
      ''Attribute value expected='' @ val]"
| "logged_text names (AbandonRequest messageID) = lines_of [''Type=Abandon'', ''MessageID='' @ itoa messageID]"
| "logged_text names (ExtendedRequest name val) = lines_of (''Type=Extended'' #
     (if name = NoticeOfStartTLS names then [''Name=StartTLS'']
      else if name = NoticeOfWhoAmI names then [''Name=WhoAmI'']
      else [''Name='' @ name, ''Value='' @ val]))"
| "logged_text names (OtherRequest opName) = lines_of [''Type='' @ opName]"

lemma lines_of_simps [simp]:
  "lines_of [] = []" "lines_of (l # ls) = l @ nl @ lines_of ls" "lines_of (ls @ ms) = lines_of ls @ lines_of ms"
  by (simp_all add: lines_of_def)

lemma lines_of_concat: "lines_of (concat xss) = concat (map lines_of xss)"
  by (induction xss) simp_all

lemma lines_of_map: "lines_of (map f xs) = concat (map (\<lambda>x. f x @ nl) xs)"
  by (induction xs) simp_all

lemma logged_text_handlers:
  "bind_text choice name simple = logged_text names (BindRequest choice name simple)"
  "search_text baseDN flt attrs = logged_text names (SearchRequest baseDN flt attrs)"
  "add_text entry as = logged_text names (AddRequest entry as)"
  "delete_text entry = logged_text names (DeleteRequest entry)"
  "modify_text entry cs = logged_text names (ModifyRequest entry cs)"
  "compare_text entry attr val = logged_text names (CompareRequest entry attr val)"
  "abandon_text n = logged_text names (AbandonRequest n)"
  by (simp_all add: bind_text_def search_text_def add_text_def delete_text_def modify_text_def compare_text_def
      abandon_text_def lines_of_concat lines_of_map o_def case_prod_unfold)

definition logged_by ::
  "(Interaction \<Rightarrow> string) \<Rightarrow> string \<Rightarrow> 'db env \<Rightarrow> string list \<Rightarrow> 'db server \<Rightarrow> 'db server \<Rightarrow> bool" where
  "logged_by js remote e raws s s' \<longleftrightarrow>
     ldapCount s' = ldapCount s + of_nat (length raws) \<and> sv_cfg s' = sv_cfg s
     \<and> extraBucket s' = (if LDAP (sv_cfg s)
          then map_option (log_entries js remote (env_now e) raws) (extraBucket s) else extraBucket s)"

lemma logged_by_one:
  "env_marshal e = (\<lambda>i. Inr (js i)) \<Longrightarrow> raw = raw' \<Longrightarrow> logged_by js remote e [raw'] s (log_ldap e raw remote (count_ldap s))"
  by (simp add: logged_by_def log_ldap_bucket)

lemma logged_by_search:
  "logged_by js remote e raws s s1 \<Longrightarrow> logged_by js remote e raws s (captureLDAPSearchInteraction e dn raw r s1)"
  by (simp add: logged_by_def search_only)

lemma logged_by_trans:
  "logged_by js remote e as s s1 \<Longrightarrow> logged_by js remote e bs s1 s2 \<Longrightarrow> logged_by js remote e (as @ bs) s s2"
  by (auto simp: logged_by_def log_entries_def option.map_comp o_def)

lemma serve_logged:
  assumes js: "env_marshal e = (\<lambda>i. Inr (js i))" and "ldap_serve e names tls remote r c s = (resp, c1, s1)"
  shows "logged_by js remote e [logged_text names (fst r)] s s1"
proof -
  note one = logged_by_one [OF js]
  obtain req hs where r: "r = (req, hs)" by (cases r)
  show ?thesis
    using assms(2) unfolding r fst_conv
    by (cases req)
       (auto simp: ldap_serve_def handleLDAPBind_def handleLDAPSearch_def handleLDAPAdd_def handleLDAPDelete_def
          handleLDAPModify_def handleLDAPCompare_def handleLDAPAbandon_def handleLDAPStartTLS_def handleLDAPWhoAmI_def
          handleLDAPNotFound_def Let_def extended_text_def logged_text_handlers [where names = names] split: if_splits simp del: logged_text.simps(1-7)
          intro!: logged_by_search one)
qed

text \<open>
  C18: every LDAP request is counted once and logged once, as itself.  Over any sequence of requests
  served on a connection, the counter grows by their number, and with full LDAP logging on, the
  shared log receives for each of them one entry, in the order they are served: the entry holds the
  fields of that very request, line by line, with the address of the peer and the time.  With logging
  off, or without authentication, the log is left alone.  Every request of the sequence is served
  unless the connection is closed.
\<close>

theorem ldap_requests_logged:
  assumes "env_marshal e = (\<lambda>i. Inr (js i))"
  shows "case ldap_run e names tls remote rs c s of (n, resps, c', s') \<Rightarrow>
     n \<le> length rs \<and> (lc_open c' \<longrightarrow> n = length rs)
     \<and> ldapCount s' = ldapCount s + of_nat n
     \<and> extraBucket s' = (if LDAP (sv_cfg s)
          then map_option (fold (\<lambda>r. bucket_Append (go_bytes (js (ldap_interaction (logged_text names (fst r)) remote (env_now e)))))
                 (take n rs)) (extraBucket s)
          else extraBucket s)"
proof -
  have "case ldap_run e names tls remote rs c s of (n, resps, c', s') \<Rightarrow>
     n \<le> length rs \<and> (lc_open c' \<longrightarrow> n = length rs)
     \<and> logged_by js remote e (map (\<lambda>r. logged_text names (fst r)) (take n rs)) s s'"
  proof (induction rs arbitrary: c s)
    case (Cons r rs)
    show ?case
    proof (cases "lc_open c")
      case True
      obtain resp c1 s1 where one: "ldap_serve e names tls remote r c s = (resp, c1, s1)" by (rule prod_cases3)
      obtain n resps c2 s2 where run: "ldap_run e names tls remote rs c1 s1 = (n, resps, c2, s2)" by (rule prod_cases4)
      have "n \<le> length rs" "lc_open c2 \<longrightarrow> n = length rs"
        and log: "logged_by js remote e (map (\<lambda>r. logged_text names (fst r)) (take n rs)) s1 s2"
        using Cons.IH [where c = c1 and s = s1] by (simp_all add: run)
      moreover have "logged_by js remote e (map (\<lambda>r. logged_text names (fst r)) (take (Suc n) (r # rs))) s s2"
        using logged_by_trans [OF serve_logged [OF assms one] log] by simp
      ultimately show ?thesis using True by (simp only: ldap_run.simps one run simp_thms if_False prod.case list.size) simp
    next
      case False
      then show ?thesis by (simp add: logged_by_def log_entries_def option.map_id)
    qed
  qed (simp add: logged_by_def log_entries_def option.map_id)
  then show ?thesis
    by (auto simp: logged_by_def log_entries_def fold_map o_def split: prod.splits)
qed

theorem ldap_requests_logged_witness:
  "extraBucket (snd (snd (snd (ldap_run (demo_env\<lparr>env_marshal := \<lambda>i. Inr (RawRequest i)\<rparr>)
      \<lparr>NoticeOfStartTLS = ''s'', NoticeOfWhoAmI = ''w''\<rparr> True ''192.0.2.7:389''
      [(BindRequest ''simple'' ''u'' ''p'', True), (ExtendedRequest ''s'' [], False), (DeleteRequest ''x'', True)]
      \<lparr>lc_startTLSDone = False, lc_open = True\<rparr>
      (demo_server\<lparr>sv_cfg := demo_config\<lparr>LDAP := True\<rparr>, extraBucket := Some (NewSharedBucket 0 100 0)\<rparr>)))))
   = Some (bucket_Append (go_bytes (''Type=Extended'' @ nl @ ''Name=StartTLS'' @ nl))
      (bucket_Append (go_bytes (''Type=Bind'' @ nl @ ''AuthenticationChoice=simple'' @ nl @ ''User=u'' @ nl @ ''Pass=p'' @ nl))
        (NewSharedBucket 0 100 0)))"
proof -
  let ?e = "demo_env\<lparr>env_marshal := \<lambda>i. Inr (RawRequest i)\<rparr>"
  let ?names = "\<lparr>NoticeOfStartTLS = ''s'', NoticeOfWhoAmI = ''w''\<rparr>"
  let ?rs = "[(BindRequest ''simple'' ''u'' ''p'', True), (ExtendedRequest ''s'' [], False), (DeleteRequest ''x'', True)]"
  let ?s = "demo_server\<lparr>sv_cfg := demo_config\<lparr>LDAP := True\<rparr>, extraBucket := Some (NewSharedBucket 0 100 0)\<rparr>"
  let ?c = "\<lparr>lc_startTLSDone = False, lc_open = True\<rparr>"
  have js: "env_marshal ?e = (\<lambda>i. Inr (RawRequest i))" by simp
  have served: "fst (ldap_run ?e ?names True ''192.0.2.7:389'' ?rs ?c ?s) = 2"
    by (simp add: ldap_serve_def handleLDAPBind_def handleLDAPStartTLS_def Let_def)
  obtain n resps c' s' where run: "ldap_run ?e ?names True ''192.0.2.7:389'' ?rs ?c ?s = (n, resps, c', s')"
    by (rule prod_cases4)
  have n: "n = 2" using served unfolding run by simp
  have ldap_raw: "RawRequest (ldap_interaction raw remote now) = raw" for raw remote now
    by (simp add: ldap_interaction_def)
  have log: "LDAP (sv_cfg ?s)" "extraBucket ?s = Some (NewSharedBucket 0 100 0)" by simp_all
  have "extraBucket s' = (if LDAP (sv_cfg ?s)
      then map_option (fold (\<lambda>r. bucket_Append (go_bytes (logged_text ?names (fst r)))) (take n ?rs)) (extraBucket ?s) else extraBucket ?s)"
    using ldap_requests_logged [OF js, where names = ?names and tls = True and remote = "''192.0.2.7:389''" and rs = ?rs
        and c = ?c and s = ?s] unfolding run prod.case by (simp only: ldap_raw)
  then show ?thesis unfolding run snd_conv log(2) n by (simp add: numeral_2_eq_2)
qed

end
