(* ===== verification/Ftp.thy ===== *)
theory Ftp
  imports Server_Capture
begin

text \<open>
  The FTP server (\<open>oobsrv/ftp.go\<close>): the driver with its path check, the notifications that are
  logged, and the limits its start computes.  The file system and the FTP package are arguments.
  The facts say that the path the driver opens stays under its root.
\<close>

section \<open>The driver\<close>

record ftpDriver =
  rootDir :: string
  maxUploadBytes :: int

text \<open>The calls into \<open>os\<close> and \<open>path/filepath\<close>; \<open>'i\<close> is what \<open>os.FileInfo\<close> holds.\<close>

record 'i ftp_fs =
  fs_EvalSymlinks :: "string \<Rightarrow> string result"
  fs_Stat :: "string \<Rightarrow> 'i result"
  fs_ReadDir :: "string \<Rightarrow> 'i result list result"
  fs_Open :: "string \<Rightarrow> (int result \<times> (int \<Rightarrow> string option)) result"   \<comment> \<open>size, and the outcome of Seek\<close>

definition CheckPasswd :: "string \<Rightarrow> string \<Rightarrow> bool result" where
  "CheckPasswd user pass = Inr True"

definition realPath :: "ftpDriver \<Rightarrow> string \<Rightarrow> string" where
  "realPath d path = filepath_Join (rootDir d) (path_Clean (CHR ''/'' # path))"

definition safePath :: "'i ftp_fs \<Rightarrow> ftpDriver \<Rightarrow> string \<Rightarrow> string result" where
  "safePath fs d path = (case fs_EvalSymlinks fs (realPath d path) of
      Inl err \<Rightarrow> Inl err
    | Inr resolved \<Rightarrow> (case fs_EvalSymlinks fs (rootDir d) of
        Inl err \<Rightarrow> Inl err
      | Inr resolvedRoot \<Rightarrow>
          if resolved \<noteq> resolvedRoot \<and> \<not> has_prefix resolved (resolvedRoot @ ''/'')
          then Inl ''path escapes root directory'' else Inr resolved))"

definition ftp_Stat :: "'i ftp_fs \<Rightarrow> ftpDriver \<Rightarrow> string \<Rightarrow> 'i result" where
  "ftp_Stat fs d path = (case safePath fs d path of Inl err \<Rightarrow> Inl err | Inr safe \<Rightarrow> fs_Stat fs safe)"

text \<open>The loop over the entries: the first error, of an entry or of the callback, ends it.\<close>

primrec list_entries ::
  "('i \<Rightarrow> 's \<Rightarrow> string option \<times> 's) \<Rightarrow> 'i result list \<Rightarrow> 's \<Rightarrow> string option \<times> 's" where
  "list_entries callback [] st = (None, st)"
| "list_entries callback (entry # entries) st = (case entry of
      Inl err \<Rightarrow> (Some err, st)
    | Inr info \<Rightarrow> (case callback info st of
        (Some err, st1) \<Rightarrow> (Some err, st1)
      | (None, st1) \<Rightarrow> list_entries callback entries st1))"

definition ftp_ListDir ::
  "'i ftp_fs \<Rightarrow> ftpDriver \<Rightarrow> string \<Rightarrow> ('i \<Rightarrow> 's \<Rightarrow> string option \<times> 's) \<Rightarrow> 's \<Rightarrow> string option \<times> 's" where
  "ftp_ListDir fs d path callback st = (case safePath fs d path of
      Inl err \<Rightarrow> (Some err, st)
    | Inr safe \<Rightarrow> (case fs_ReadDir fs safe of
        Inl err \<Rightarrow> (Some err, st)
      | Inr entries \<Rightarrow> list_entries callback entries st))"

text \<open>The announced size and the offset the file is read from.\<close>

definition ftp_GetFile :: "'i ftp_fs \<Rightarrow> ftpDriver \<Rightarrow> string \<Rightarrow> int \<Rightarrow> (int \<times> string \<times> int) result" where
  "ftp_GetFile fs d path offset = (case safePath fs d path of
      Inl err \<Rightarrow> Inl err
    | Inr safe \<Rightarrow> (case fs_Open fs safe of
        Inl err \<Rightarrow> Inl err
      | Inr (stat, seek) \<Rightarrow> (case stat of
          Inl err \<Rightarrow> Inl err
        | Inr n \<Rightarrow>
            (case (if offset > 0 then seek offset else None) of
               Some err \<Rightarrow> Inl err
             | None \<Rightarrow> Inr (wrap64 (n - offset), safe, max 0 offset)))))"

text \<open>
  An upload is read and dropped: \<open>reader\<close> is what arrives and the error that ends it, if one does;
  a limited reader stops before it sees that error.
\<close>

definition ftp_PutFile :: "ftpDriver \<Rightarrow> string \<times> string option \<Rightarrow> int \<times> string option" where
  "ftp_PutFile d reader = (case reader of (data, err) \<Rightarrow>
     if maxUploadBytes d > 0 \<and> maxUploadBytes d \<le> int (length data) then (maxUploadBytes d, None)
     else (int (length data), err))"

datatype ftp_change = DeleteDir string | DeleteFile string | MakeDir string | Rename string string

definition ftp_no_op :: "ftp_change \<Rightarrow> string option" where
  "ftp_no_op change = None"

section \<open>Notifications\<close>

datatype ftp_event =
    BeforeLoginUser string
  | AfterUserLogin string string
  | BeforePutFile string
  | AfterFilePut string
  | BeforeDeleteFile string
  | AfterFileDeleted string
  | BeforeDownloadFile string
  | AfterFileDownloaded string
  | BeforeChangeCurDir string string
  | AfterCurDirChanged string string
  | BeforeCreateDir string
  | AfterDirCreated string
  | BeforeDeleteDir string
  | AfterDirDeleted string

fun ftp_description :: "ftp_event \<Rightarrow> string" where
  "ftp_description (BeforeLoginUser u) = u @ '' logging in''"
| "ftp_description (AfterUserLogin u p) = ''user '' @ u @ '' logged in with password '' @ p"
| "ftp_description (BeforePutFile f) = ''uploading '' @ f"
| "ftp_description (AfterFilePut f) = ''uploaded '' @ f"
| "ftp_description (BeforeDeleteFile f) = ''deleting '' @ f"
| "ftp_description (AfterFileDeleted f) = ''deleted '' @ f"
| "ftp_description (BeforeDownloadFile f) = ''downloading file '' @ f"
| "ftp_description (AfterFileDownloaded f) = ''downloaded file '' @ f"
| "ftp_description (BeforeChangeCurDir a b) = ''changing directory from '' @ a @ '' to '' @ b"
| "ftp_description (AfterCurDirChanged a b) = ''changed directory from '' @ a @ '' to '' @ b"
| "ftp_description (BeforeCreateDir f) = ''creating directory '' @ f"
| "ftp_description (AfterDirCreated f) = ''created directory '' @ f"
| "ftp_description (BeforeDeleteDir f) = ''deleting directory '' @ f"
| "ftp_description (AfterDirDeleted f) = ''deleted directory '' @ f"

fun ftp_counted :: "ftp_event \<Rightarrow> bool" where
  "ftp_counted (BeforeLoginUser u) = True"
| "ftp_counted (BeforePutFile f) = True"
| "ftp_counted (BeforeDeleteFile f) = True"
| "ftp_counted (BeforeDownloadFile f) = True"
| "ftp_counted (BeforeChangeCurDir a b) = True"
| "ftp_counted (BeforeCreateDir f) = True"
| "ftp_counted (BeforeDeleteDir f) = True"
| "ftp_counted _ = False"

record ftp_context =
  ctx_Cmd :: string
  ctx_Param :: string
  ctx_remote :: string

definition ftp_interaction :: "string \<Rightarrow> string \<Rightarrow> int \<Rightarrow> Interaction" where
  "ftp_interaction rawRequest remoteAddr now =
     zero_Interaction\<lparr>Protocol := ''ftp'', RawRequest := rawRequest, RemoteAddress := remoteAddr, Timestamp := now\<rparr>"

definition captureFTPInteraction :: "'db env \<Rightarrow> string \<Rightarrow> string \<Rightarrow> 'db server \<Rightarrow> 'db server" where
  "captureFTPInteraction e rawRequest remoteAddr s = (case extraBucket s of
      None \<Rightarrow> s
    | Some bucket \<Rightarrow> (case env_marshal e (ftp_interaction rawRequest remoteAddr (env_now e)) of
        Inl err \<Rightarrow> s
      | Inr data \<Rightarrow> s\<lparr>extraBucket := Some (bucket_Append (go_bytes data) bucket)\<rparr>))"

definition ftp_capture :: "'db env \<Rightarrow> ftp_context \<Rightarrow> string \<Rightarrow> 'db server \<Rightarrow> 'db server" where
  "ftp_capture e ctx description s =
     captureFTPInteraction e (ctx_Cmd ctx @ '' '' @ ctx_Param ctx @ CHR 0x0A # description) (ctx_remote ctx) s"

definition ftp_notify :: "'db env \<Rightarrow> ftp_context \<times> ftp_event \<Rightarrow> 'db server \<Rightarrow> 'db server" where
  "ftp_notify e ce s = (case ce of (ctx, event) \<Rightarrow>
     ftp_capture e ctx (ftp_description event)
       (if ftp_counted event then s\<lparr>ftpCount := ftpCount s + 1\<rparr> else s))"

section \<open>What the start computes\<close>

definition ftp_upload_limit :: "Config \<Rightarrow> int" where
  "ftp_upload_limit cfg = (if MaxRequestSize cfg > 0 then wrap64 (MaxRequestSize cfg * 1024 * 1024) else 0)"

text \<open>The driver, or nothing when no temporary directory could be made; \<open>mkdirTemp\<close> is its outcome.\<close>

definition ftp_driver :: "string option \<Rightarrow> 'db server \<Rightarrow> ftpDriver option \<times> 'db server" where
  "ftp_driver mkdirTemp s =
     (if FTPDir (sv_cfg s) = []
      then (case mkdirTemp of
          None \<Rightarrow> (None, s)
        | Some dir \<Rightarrow> (Some \<lparr>rootDir = dir, maxUploadBytes = ftp_upload_limit (sv_cfg s)\<rparr>, s\<lparr>ftpTempDir := dir\<rparr>))
      else (Some \<lparr>rootDir = FTPDir (sv_cfg s), maxUploadBytes = ftp_upload_limit (sv_cfg s)\<rparr>, s))"

section \<open>Paths stay under the root\<close>

text \<open>An absolute path that is clean already, other than the root of the file system.\<close>

definition clean_root :: "string \<Rightarrow> bool" where
  "clean_root root \<longleftrightarrow> (\<exists>segs. segs \<noteq> [] \<and> plain_segments segs \<and> root = CHR ''/'' # join ''/'' segs)"

definition below :: "string list \<Rightarrow> string" where
  "below segs = concat (map (\<lambda>s. CHR ''/'' # s) segs)"

lemma below_simps [simp]: "below [] = []" "below (s # segs) = CHR ''/'' # s @ below segs"
  "below (xs @ ys) = below xs @ below ys"
  by (simp_all add: below_def)

lemma join_below: "segs \<noteq> [] \<Longrightarrow> CHR ''/'' # join ''/'' segs = below segs"
  by (induction segs rule: induct_list012) simp_all

lemma split_on_sep: "c \<notin> set a \<Longrightarrow> split_on c (a @ c # b) = a # split_on c b"
  by (induction a) auto

lemma split_on_none: "c \<notin> set a \<Longrightarrow> split_on c a = [a]"
  by (induction a) auto

lemma split_segments:
  "CHR ''/'' \<notin> set s \<Longrightarrow> plain_segments segs \<Longrightarrow>
     split_on CHR ''/'' (s @ below segs @ CHR ''/'' # y) = s # segs @ split_on CHR ''/'' y"
proof (induction segs arbitrary: s)
  case Nil
  then show ?case by (simp add: split_on_sep)
next
  case (Cons t ts)
  then have "CHR ''/'' \<notin> set t" "plain_segments ts" by (simp_all add: plain_segments_def)
  with Cons show ?case by (simp add: split_on_sep)
qed

lemma split_segments_end:
  "CHR ''/'' \<notin> set s \<Longrightarrow> plain_segments segs \<Longrightarrow> split_on CHR ''/'' (s @ below segs) = s # segs"
proof (induction segs arbitrary: s)
  case (Cons t ts)
  then have "CHR ''/'' \<notin> set t" "plain_segments ts" by (simp_all add: plain_segments_def)
  with Cons show ?case by (simp add: split_on_sep)
qed (simp add: split_on_none)

lemma clean_plain: "plain_segments segs \<Longrightarrow> fold (clean_segment True) segs stack = rev segs @ stack"
  by (induction segs arbitrary: stack) (simp_all add: plain_segments_def)

lemma Clean_below:
  assumes R: "plain_segments R" "R \<noteq> []" and segs: "plain_segments segs"
  shows "path_Clean (below R @ CHR ''/'' # CHR ''/'' # join ''/'' segs) = below (R @ segs)"
proof -
  have y: "fold (clean_segment True) (split_on CHR ''/'' (CHR ''/'' # join ''/'' segs)) stack = rev segs @ stack" for stack
  proof (cases "segs = []")
    case False
    then show ?thesis
      using split_segments_end [of "[]" segs] segs by (simp add: join_below [symmetric] clean_plain)
  qed simp
  have "split_on CHR ''/'' (below R @ CHR ''/'' # CHR ''/'' # join ''/'' segs)
      = [] # R @ split_on CHR ''/'' (CHR ''/'' # join ''/'' segs)"
    using split_segments [of "[]" R "CHR ''/'' # join ''/'' segs"] R by simp
  moreover have "has_prefix (below R @ z) ''/''" for z using R(2) by (cases R) (simp_all add: has_prefix_def)
  ultimately have "path_Clean (below R @ CHR ''/'' # CHR ''/'' # join ''/'' segs) = CHR ''/'' # join ''/'' (R @ segs)"
    by (simp add: path_Clean_def Let_def y clean_plain [OF R(1)] del: split_on.simps)
  then show ?thesis using R(2) join_below [of "R @ segs"] by simp
qed

lemma realPath_below:
  assumes "clean_root (rootDir d)"
  obtains segs where "plain_segments segs" "realPath d path = rootDir d @ below segs"
proof -
  obtain R where R: "plain_segments R" "R \<noteq> []" "rootDir d = below R"
    using assms join_below by (auto simp: clean_root_def)
  obtain segs where segs: "path_Clean (CHR ''/'' # path) = CHR ''/'' # join ''/'' segs" "plain_segments segs"
    by (rule path_Clean_rooted)
  have "below R \<noteq> []" using R(2) by (cases R) simp_all
  then have "realPath d path = below (R @ segs)"
    using Clean_below [OF R(1,2) segs(2)] by (simp add: realPath_def filepath_Join_def segs(1) R(3))
  then show ?thesis using that segs(2) by (simp add: R(3))
qed

text \<open>
  C19: an FTP path stays under the root.  With a root that is absolute, clean and not \<open>/\<close> itself, the
  path the driver looks at is the root followed by plain segments, without a dot segment, whatever
  the client sends; where no symbolic link is involved the check accepts it, and whatever the links
  are, a path that \<open>safePath\<close> returns is the resolved root or lies below it.
\<close>

theorem ftp_path_confined:
  assumes "clean_root (rootDir d)"
  shows "(\<exists>segs. plain_segments segs \<and> realPath d path = rootDir d @ below segs)
     \<and> (case safePath fs d path of Inl err \<Rightarrow> True
        | Inr resolved \<Rightarrow> \<exists>root. fs_EvalSymlinks fs (rootDir d) = Inr root
            \<and> (resolved = root \<or> (\<exists>rest. resolved = root @ ''/'' @ rest)))
     \<and> safePath (fs\<lparr>fs_EvalSymlinks := Inr\<rparr>) d path = Inr (realPath d path)"
proof -
  obtain segs where segs: "plain_segments segs" "realPath d path = rootDir d @ below segs"
    by (rule realPath_below [OF assms])
  have "resolved = root \<or> (\<exists>rest. resolved = root @ ''/'' @ rest)"
    if "has_prefix resolved (root @ ''/'')" for resolved root
    using that append_take_drop_id [of "length (root @ ''/'')" resolved]
    by (auto simp: has_prefix_def) (metis append_Cons append_assoc append_Nil)
  moreover have "has_prefix (rootDir d @ below segs) (rootDir d @ ''/'') \<or> segs = []"
    by (cases segs) (simp_all add: has_prefix_def)
  ultimately show ?thesis
    using segs by (auto simp: safePath_def split: sum.splits if_splits)
qed

theorem ftp_path_confined_witness:
  "safePath \<lparr>fs_EvalSymlinks = Inr, fs_Stat = (\<lambda>_. Inr ()), fs_ReadDir = (\<lambda>_. Inr []), fs_Open = (\<lambda>_. Inl [])\<rparr>
     \<lparr>rootDir = ''/srv/ftp'', maxUploadBytes = 0\<rparr> ''../../etc/passwd'' = Inr ''/srv/ftp/etc/passwd''"
proof -
  let ?d = "\<lparr>rootDir = ''/srv/ftp'', maxUploadBytes = 0\<rparr>"
  have "clean_root (rootDir ?d)"
    unfolding clean_root_def by (rule exI [of _ "[''srv'', ''ftp'']"]) (simp add: plain_segments_def)
  moreover have "realPath ?d ''../../etc/passwd'' = ''/srv/ftp/etc/passwd''" by code_simp
  ultimately show ?thesis
    using ftp_path_confined [of ?d "''../../etc/passwd''"
        "\<lparr>fs_EvalSymlinks = Inr, fs_Stat = (\<lambda>_. Inr ()), fs_ReadDir = (\<lambda>_. Inr []), fs_Open = (\<lambda>_. Inl [])\<rparr>"]
    by simp
qed

text \<open>With \<open>/\<close> as the root, the prefix that the check wants is \<open>//\<close>: every path below the root is refused.\<close>

lemma ftp_slash_root_refused:
  assumes "rootDir d = ''/''" and "fs_EvalSymlinks fs = Inr" and "realPath d path \<noteq> ''/''"
  shows "safePath fs d path = Inl ''path escapes root directory''"
proof -
  obtain segs where segs: "realPath d path = CHR ''/'' # join ''/'' segs" "plain_segments segs"
    using path_Clean_rooted [of "CHR ''/'' # path_Clean (CHR ''/'' # path)"]
    by (auto simp: realPath_def filepath_Join_def assms(1) path_Clean_def Let_def has_prefix_def)
  then obtain t ts where "segs = t # ts" using assms(3) by (cases segs) auto
  then have "\<not> has_prefix (realPath d path) ''//''"
    using segs by (cases t; cases ts) (auto simp: has_prefix_def plain_segments_def)
  then show ?thesis using assms by (simp add: safePath_def)
qed

section \<open>Notifications\<close>

text \<open>Every notification is logged once, in order; those that come before an operation are counted.\<close>

lemma ftp_notifications_logged:
  assumes "env_marshal e = (\<lambda>i. Inr (js i))"
  shows "extraBucket (fold (ftp_notify e) events s) = map_option
       (fold (\<lambda>(ctx, event). bucket_Append (go_bytes (js (ftp_interaction
          (ctx_Cmd ctx @ '' '' @ ctx_Param ctx @ CHR 0x0A # ftp_description event) (ctx_remote ctx) (env_now e))))) events)
       (extraBucket s)
     \<and> ftpCount (fold (ftp_notify e) events s) = ftpCount s + of_nat (length (filter (ftp_counted \<circ> snd) events))"
proof (induction events arbitrary: s)
  case (Cons ce events)
  obtain ctx event where ce: "ce = (ctx, event)" by (cases ce)
  have "extraBucket (ftp_notify e ce s) = map_option (bucket_Append (go_bytes (js (ftp_interaction
      (ctx_Cmd ctx @ '' '' @ ctx_Param ctx @ CHR 0x0A # ftp_description event) (ctx_remote ctx) (env_now e))))) (extraBucket s)"
    "ftpCount (ftp_notify e ce s) = ftpCount s + (if ftp_counted event then 1 else 0)"
    by (simp_all add: ce ftp_notify_def ftp_capture_def captureFTPInteraction_def assms split: option.split)
  with Cons.IH [of "ftp_notify e ce s"] show ?case by (simp add: ce option.map_comp o_def)
qed (simp add: option.map_id)

end
