(* ===== verification/Tls.thy ===== *)
theory Tls
  imports Server
begin

text \<open>
  The TLS side (\<open>oobsrv/tls.go\<close>): the choice of a certificate source, the names of the self-signed
  certificate, the loop that provisions certificates for the domains, the reloading of certificate
  files, the rewriting of the requested server name, the log filters and the evictor of expiring
  certificates.  certmagic, x509, PEM decoding and the file system are arguments; a certificate of
  the custom pair is of an arbitrary type.
\<close>

section \<open>Constants and log filters\<close>

definition certmagicStoragePath :: string where "certmagicStoragePath = ''.local/share/certmagic''"

definition serverNextProtos :: "string list" where
  "serverNextProtos = [''h2'', ''http/1.1'', ''http/1.0'', ''spdy/3'', ''spdy/2'', ''spdy/1'', ''hq'']"

definition certEvictInterval :: int where "certEvictInterval = 2 * hour"
definition certEvictWorkTimeout :: int where "certEvictWorkTimeout = 10 * minute"
definition defaultCertCheckInterval :: int where "defaultCertCheckInterval = hour"

definition defaultACMEResolvers :: "string list" where
  "defaultACMEResolvers = [''1.1.1.1:53'', ''1.0.0.1:53'', ''8.8.8.8:53'', ''8.8.4.4:53'']"

text \<open>Whether a record of the HTTP server's error log is passed on.\<close>

definition tls_error_passed :: "bool \<Rightarrow> string \<Rightarrow> bool" where
  "tls_error_passed verbose message \<longleftrightarrow>
     \<not> (\<not> verbose \<and> has_prefix message ''http: TLS handshake error from '')"

datatype log_level = DebugLevel | InfoLevel | OtherLevel string

definition certmagic_level :: "log_level \<Rightarrow> string \<Rightarrow> log_level" where
  "certmagic_level level message =
     (if level = InfoLevel \<and> \<not> contains_sub message ''certificate renewed''
         \<and> \<not> contains_sub message ''certificate obtained''
      then DebugLevel else level)"

section \<open>Reloading certificate files\<close>

record 'cert certReloader =
  cr_cert :: 'cert
  cr_modTimeNs :: int

definition latestModTime :: "int result \<Rightarrow> int result \<Rightarrow> int result" where
  "latestModTime info1 info2 = (case info1 of Inl err \<Rightarrow> Inl err
    | Inr t1 \<Rightarrow> (case info2 of Inl err \<Rightarrow> Inl err
      | Inr t2 \<Rightarrow> if t2 > t1 then Inr t2 else Inr t1))"

text \<open>\<open>pair\<close> is the outcome of \<open>tls.LoadX509KeyPair\<close>, \<open>mt\<close> of \<open>latestModTime\<close>, each at its own moment.\<close>

definition newCertReloader :: "'cert result \<Rightarrow> int result \<Rightarrow> 'cert certReloader result" where
  "newCertReloader pair mt = (case pair of
      Inl err \<Rightarrow> Inl (''loading certificate: '' @ err)
    | Inr cert \<Rightarrow> (case mt of
        Inl err \<Rightarrow> Inl (''stat certificate files: '' @ err)
      | Inr t \<Rightarrow> Inr \<lparr>cr_cert = cert, cr_modTimeNs = t\<rparr>))"

definition tryReload :: "int result \<Rightarrow> 'cert result \<Rightarrow> 'cert certReloader \<Rightarrow> 'cert certReloader" where
  "tryReload mt pair r = (case mt of
      Inl err \<Rightarrow> r
    | Inr t \<Rightarrow> if t \<le> cr_modTimeNs r then r
               else (case pair of Inl err \<Rightarrow> r | Inr cert \<Rightarrow> r\<lparr>cr_cert := cert, cr_modTimeNs := t\<rparr>))"

definition GetCertificate :: "'cert certReloader \<Rightarrow> 'cert" where
  "GetCertificate r = cr_cert r"

section \<open>The certificate source\<close>

definition self_signed_names :: "string list \<Rightarrow> string list" where
  "self_signed_names domains = ''localhost'' # concat (map (\<lambda>d. [d, ''*.'' @ d]) domains)"

datatype 'cert tls_config =
    CustomConfig "'cert certReloader"
  | ManagedConfig "string list"   \<comment> \<open>the domains the name fallback chooses from\<close>
  | SelfSignedConfig "string list"   \<comment> \<open>the names of the certificate\<close>

text \<open>\<open>key\<close> and \<open>cert\<close>: whether generating the key and signing the certificate succeeds.\<close>

definition generateSelfSignedCert ::
  "string option \<Rightarrow> string option \<Rightarrow> string list \<Rightarrow> 'cert tls_config result" where
  "generateSelfSignedCert key cert domains = (case key of
      Some err \<Rightarrow> Inl (''generating key: '' @ err)
    | None \<Rightarrow> (case cert of
        Some err \<Rightarrow> Inl (''creating certificate: '' @ err)
      | None \<Rightarrow> Inr (SelfSignedConfig (self_signed_names domains))))"

text \<open>
  One domain of the provisioning loop.  \<open>manage\<close> is \<open>ManageSync\<close> for the domain and its wildcard,
  with the flag that disables ARI; the loop carries that flag, the successes and the errors.
\<close>

record 's acme_loop =
  al_DisableARI :: bool
  al_successCount :: nat
  al_errs :: "string list"
  al_state :: 's

definition acme_domain ::
  "(bool \<Rightarrow> string list \<Rightarrow> 's \<Rightarrow> string option \<times> 's) \<Rightarrow> string \<Rightarrow> 's acme_loop \<Rightarrow> 's acme_loop" where
  "acme_domain manage domain l =
     (let names = [domain, ''*.'' @ domain];
          (err, st) = manage (al_DisableARI l) names (al_state l);
          retry = (case err of None \<Rightarrow> False
                   | Some text \<Rightarrow> \<not> al_DisableARI l \<and> contains_sub text ''ARI 'replaces' field'');
          l1 = (if retry then l\<lparr>al_DisableARI := True\<rparr> else l);
          (err1, st1) = (if retry then manage True names st else (err, st))
      in (case err1 of
            Some text \<Rightarrow> l1\<lparr>al_errs := al_errs l1 @ [''domain '' @ domain @ '': '' @ text], al_state := st1\<rparr>
          | None \<Rightarrow> l1\<lparr>al_successCount := al_successCount l1 + 1, al_state := st1\<rparr>))"

definition acme_resolvers :: "Config \<Rightarrow> string list" where
  "acme_resolvers cfg = (if Resolvers cfg = [] then defaultACMEResolvers else Resolvers cfg)"

text \<open>\<open>home\<close> is the user's home directory; the evictor is started whatever the loop has achieved.\<close>

definition provisionACME ::
  "string result \<Rightarrow> (bool \<Rightarrow> string list \<Rightarrow> 's \<Rightarrow> string option \<times> 's) \<Rightarrow> 's \<Rightarrow> 'db server
     \<Rightarrow> ('cert tls_config result \<times> bool \<times> 's) \<times> 'db server" where
  "provisionACME home manage st s = (case home of
      Inl err \<Rightarrow> ((Inl (''determining home directory: '' @ err), False, st), s)
    | Inr dir \<Rightarrow>
        let l = fold (acme_domain manage) (Domains (sv_cfg s))
                  \<lparr>al_DisableARI = False, al_successCount = 0, al_errs = [], al_state = st\<rparr>;
            s1 = addService ''cert-evictor'' s
        in if al_successCount l = 0
           then ((Inl (''all domains failed: '' @ join [CHR 0x0A] (al_errs l)), al_DisableARI l, al_state l), s1)
           else ((Inr (ManagedConfig (Domains (sv_cfg s))), al_DisableARI l \<and> al_errs l \<noteq> [], al_state l), s1))"

definition provisionTLS ::
  "'cert certReloader result \<Rightarrow> ('db server \<Rightarrow> 'cert tls_config result \<times> 'db server) \<Rightarrow> 'cert tls_config result
     \<Rightarrow> 'db server \<Rightarrow> 'cert tls_config option \<times> 'db server" where
  "provisionTLS reloader acme selfSigned s =
     (if CertFile (sv_cfg s) \<noteq> [] \<and> PrivKeyFile (sv_cfg s) \<noteq> []
      then (case reloader of
          Inl err \<Rightarrow> (None, s)
        | Inr r \<Rightarrow> (Some (CustomConfig r), addService ''cert-reloader'' s))
      else if SkipACME (sv_cfg s) then (None, s)
      else (case acme s of
          (Inr c, s1) \<Rightarrow> (Some c, s1)
        | (Inl err, s1) \<Rightarrow> (case selfSigned of Inl err2 \<Rightarrow> (None, s1) | Inr c \<Rightarrow> (Some c, s1))))"

section \<open>The server name asked for\<close>

text \<open>The name that the certificate lookup sees instead of the one in the hello.\<close>

definition wildcardFallback :: "(string \<Rightarrow> string option) \<Rightarrow> string list \<Rightarrow> string \<Rightarrow> string" where
  "wildcardFallback match domains serverName =
     (let name = to_lower serverName
      in case match name of
           Some domain \<Rightarrow>
             if name = domain \<or> count_char name CHR ''.'' \<le> count_char domain CHR ''.'' + 1 then serverName
             else ''wild.'' @ domain
         | None \<Rightarrow> (case domains of [] \<Rightarrow> serverName | domain # _ \<Rightarrow> ''wild.'' @ domain))"

section \<open>Evicting expiring certificates\<close>

record x509_leaf =
  NotBefore :: int
  NotAfter :: int

record pem_block =
  block_Type :: string
  block_Bytes :: string

datatype load_error = NotExist string | LoadError string

text \<open>
  The certificate storage and the manager, on a state of their own.  \<open>co_decode\<close> is \<open>pem.Decode\<close>,
  \<open>co_parse\<close> is \<open>x509.ParseCertificate\<close>.
\<close>

record 's cert_ops =
  co_Load :: "string \<Rightarrow> 's \<Rightarrow> load_error + string"
  co_Delete :: "string \<Rightarrow> 's \<Rightarrow> string option \<times> 's"
  co_RemoveManaged :: "string \<Rightarrow> 's \<Rightarrow> 's"
  co_ManageSync :: "string \<Rightarrow> 's \<Rightarrow> string option \<times> 's"
  co_decode :: "string \<Rightarrow> pem_block option \<times> string"
  co_parse :: "string \<Rightarrow> x509_leaf result"

definition evictor_subjects :: "string list \<Rightarrow> string list" where
  "evictor_subjects domains = concat (map (\<lambda>d. [d, ''*.'' @ d]) domains)"

text \<open>
  The loop over the blocks.  The outer option is \<open>None\<close> when it does not return; the inner one when
  the data holds no certificate.
\<close>

partial_function (option) leaf_loop ::
  "(string \<Rightarrow> pem_block option \<times> string) \<Rightarrow> (string \<Rightarrow> x509_leaf result) \<Rightarrow> string \<Rightarrow> x509_leaf result option option" where
  "leaf_loop decode parse pemBytes =
     (if pemBytes = [] then Some None
      else case decode pemBytes of
        (block, rest) \<Rightarrow> (case block of
            None \<Rightarrow> leaf_loop decode parse rest
          | Some b \<Rightarrow> if block_Type b \<noteq> ''CERTIFICATE'' then leaf_loop decode parse rest
                       else Some (Some (parse (block_Bytes b)))))"

definition loadLeaf :: "'s cert_ops \<Rightarrow> string \<Rightarrow> 's \<Rightarrow> (load_error + x509_leaf) option" where
  "loadLeaf ops subject st = (case co_Load ops subject st of
      Inl err \<Rightarrow> Some (Inl err)
    | Inr pemBytes \<Rightarrow> map_option
        (\<lambda>r. case r of None \<Rightarrow> Inl (LoadError (''no certificate found for '' @ subject))
             | Some (Inl err) \<Rightarrow> Inl (LoadError err)
             | Some (Inr leaf) \<Rightarrow> Inr leaf)
        (leaf_loop (co_decode ops) (co_parse ops) pemBytes))"

definition evictOne :: "'s cert_ops \<Rightarrow> string \<Rightarrow> 's \<Rightarrow> string option \<times> 's" where
  "evictOne ops subject st = co_Delete ops subject (co_RemoveManaged ops subject st)"

text \<open>
  More than a quarter of the lifetime is left; the code compares the quotient of two durations in
  seconds with \<open>1.0 / 4.0\<close>.
\<close>

definition comfortably_valid :: "int \<Rightarrow> x509_leaf \<Rightarrow> bool" where
  "comfortably_valid now leaf \<longleftrightarrow>
     (let lifetime = time_sub (NotAfter leaf) (NotBefore leaf)
      in lifetime > 0 \<and> 4 * time_sub (NotAfter leaf) now > lifetime)"

text \<open>A failed load has no leaf, so that every error of it is taken for a missing certificate.\<close>

definition checkAndEvict :: "int \<Rightarrow> 's cert_ops \<Rightarrow> string \<Rightarrow> 's \<Rightarrow> (bool result \<times> 's) option" where
  "checkAndEvict now ops subject st = map_option
     (\<lambda>r. case r of
         Inl err \<Rightarrow> (Inr False, st)
       | Inr leaf \<Rightarrow>
           if comfortably_valid now leaf then (Inr False, st)
           else (case evictOne ops subject st of
               (Some err, st1) \<Rightarrow> (Inl err, st1)
             | (None, st1) \<Rightarrow> (Inr True, st1)))
     (loadLeaf ops subject st)"

primrec evict_subjects :: "int \<Rightarrow> 's cert_ops \<Rightarrow> string list \<Rightarrow> 's \<Rightarrow> 's option" where
  "evict_subjects now ops [] st = Some st"
| "evict_subjects now ops (subj # subjs) st = (case checkAndEvict now ops subj st of
      None \<Rightarrow> None
    | Some (Inl err, st1) \<Rightarrow> evict_subjects now ops subjs st1
    | Some (Inr ok, st1) \<Rightarrow>
        evict_subjects now ops subjs (if ok then snd (co_ManageSync ops subj st1) else st1))"

text \<open>\<open>issuer\<close>: the configuration exists and has an issuer.\<close>

definition evictExpiring :: "int \<Rightarrow> 's cert_ops \<Rightarrow> bool \<Rightarrow> string list \<Rightarrow> 's \<Rightarrow> 's option" where
  "evictExpiring now ops issuer subjects st =
     (if \<not> issuer then Some st else evict_subjects now ops subjects st)"

end
