(* ===== verification/Tls_Properties.thy ===== *)
theory Tls_Properties
  imports Tls
begin

text \<open>
  Properties of the TLS side: the names the certificate lookup sees, the certificate a reloader
  serves as the files change, the loop over PEM blocks and when it returns, and the domains that
  provisioning gives up on.
\<close>

section \<open>The server name\<close>

lemma count_char_append [simp]: "count_char (a @ b) c = count_char a c + count_char b c"
  by (simp add: count_char_def)

lemma count_char_Cons [simp]: "count_char (x # a) c = (if x = c then 1 else 0) + count_char a c"
  by (simp add: count_char_def)

lemma count_char_0: "count_char a c = 0 \<longleftrightarrow> c \<notin> set a"
  by (auto simp: count_char_def filter_empty_conv)

text \<open>The domain itself, or one label in front of it: what a certificate for the domain and its wildcard covers.\<close>

definition covered :: "string \<Rightarrow> string \<Rightarrow> bool" where
  "covered domain name \<longleftrightarrow> name = domain \<or> (\<exists>label. name = label @ CHR ''.'' # domain \<and> CHR ''.'' \<notin> set label)"

text \<open>
  C15: every handshake asks for a name that a managed certificate covers.  Whatever server name a
  client sends, none included, the name that the certificate lookup sees is, in lower case, a
  configured domain or one label in front of one; a covered name is passed on as it came, and a
  deeper name is replaced by a name under the domain it belongs to.
\<close>

theorem server_name_covered:
  assumes "Domains (sv_cfg s) \<noteq> []" and "\<forall>d \<in> set (Domains (sv_cfg s)). to_lower d = d"
  shows "(\<exists>d \<in> set (Domains (sv_cfg s)).
            covered d (to_lower (wildcardFallback (matchedDomain s) (Domains (sv_cfg s)) name)))
     \<and> (case matchedDomain s (to_lower name) of
          None \<Rightarrow> wildcardFallback (matchedDomain s) (Domains (sv_cfg s)) name = ''wild.'' @ hd (Domains (sv_cfg s))
        | Some d \<Rightarrow> wildcardFallback (matchedDomain s) (Domains (sv_cfg s)) name
            = (if covered d (to_lower name) then name else ''wild.'' @ d))"
proof -
  let ?ds = "Domains (sv_cfg s)"
  have wild: "covered d (to_lower (''wild.'' @ d))" if "d \<in> set ?ds" for d
  proof -
    have "to_lower ''wild.'' = ''wild.''" by code_simp
    moreover have "to_lower (''wild.'' @ d) = to_lower ''wild.'' @ to_lower d" by (simp only: to_lower_def map_append)
    ultimately have "to_lower (''wild.'' @ d) = ''wild'' @ CHR ''.'' # d" using assms(2) that by simp
    then show ?thesis unfolding covered_def by (intro disjI2 exI [of _ "''wild''"]) simp
  qed
  show ?thesis
  proof (cases "matchedDomain s (to_lower name)")
    case None
    then have "wildcardFallback (matchedDomain s) ?ds name = ''wild.'' @ hd ?ds"
      using assms(1) by (cases ?ds) (simp_all add: wildcardFallback_def)
    then show ?thesis using None wild assms(1) by (auto intro!: bexI [of _ "hd ?ds"])
  next
    case (Some d)
    then have d: "d \<in> set ?ds" "domain_matches (to_lower name) d"
      by (auto simp: matchedDomain_def find_Some_iff)
    then have "covered d (to_lower name)
        \<longleftrightarrow> to_lower name = d \<or> count_char (to_lower name) CHR ''.'' \<le> count_char d CHR ''.'' + 1"
      by (auto simp: covered_def domain_matches_def has_suffix_iff count_char_0 simp flip: count_char_0)
    then have "wildcardFallback (matchedDomain s) ?ds name
        = (if covered d (to_lower name) then name else ''wild.'' @ d)"
      using Some by (simp add: wildcardFallback_def Let_def)
    then show ?thesis using Some wild d(1) by auto
  qed
qed

theorem server_name_covered_witness:
  "wildcardFallback (\<lambda>n. find (domain_matches n) [''d.e'']) [''d.e''] ''A.b.C.d.e'' = ''wild.d.e''"
proof -
  let ?s = "\<lparr>sv_cfg = zero_Config\<lparr>Domains := [''d.e'']\<rparr>, sv_storage = MemoryBackend (NewMemoryStorage zero_Config ()),
     dnsCount = 0, httpCount = 0, smtpCount = 0, ldapCount = 0, ftpCount = 0,
     dnsMatched = 0, httpMatched = 0, smtpMatched = 0, tldBuckets = None, extraBucket = None,
     sv_ips = \<lparr>IPv4 = [], IPv6 = []\<rparr>, sv_customRecords = Map.empty,
     sv_acmeStore = (\<lambda>_. []), defaultHTTPResponse = None, httpIndex = None,
     uaTracker = newUserAgentTracker 0 uaReportThreshold, sv_services = [], ftpTempDir = []\<rparr> :: unit server"
  have names: "to_lower ''A.b.C.d.e'' = ''a.b.c.d.e''" "to_lower ''d.e'' = ''d.e''"
    "to_lower ''wild.d.e'' = ''wild.d.e''" by code_simp+
  have m: "matchedDomain ?s = (\<lambda>n. find (domain_matches n) [''d.e''])" by (simp add: matchedDomain_def fun_eq_iff)
  have hit: "find (domain_matches ''a.b.c.d.e'') [''d.e''] = Some ''d.e''"
    by (simp add: domain_matches_def has_suffix_def)
  have "\<not> covered ''d.e'' ''a.b.c.d.e''"
  proof
    assume "covered ''d.e'' ''a.b.c.d.e''"
    then obtain label where "''a.b.c.d.e'' = label @ ''.d.e''" "CHR ''.'' \<notin> set label"
      by (auto simp: covered_def)
    then have "label = ''a.b.c''" using append_same_eq [of label "''.d.e''" "''a.b.c''"] by simp
    with \<open>CHR ''.'' \<notin> set label\<close> show False by simp
  qed
  then have no: "covered ''d.e'' ''a.b.c.d.e'' = False" by simp
  have dom: "Domains (sv_cfg ?s) = [''d.e'']" by simp
  have "wildcardFallback (matchedDomain ?s) (Domains (sv_cfg ?s)) ''A.b.C.d.e'' = ''wild.d.e''"
    using server_name_covered [of ?s "''A.b.C.d.e''"] names(2) unfolding names(1) m hit option.case no dom by simp
  then show ?thesis unfolding m dom .
qed

section \<open>Reloading\<close>

text \<open>
  The certificate files over time: the pair that loading gives at each moment and the latest
  modification time.  A change of the pair comes with a later modification time.
\<close>

record 'cert file_history =
  fh_pair :: "nat \<Rightarrow> 'cert result"
  fh_time :: "nat \<Rightarrow> int"

definition history_ok :: "'cert file_history \<Rightarrow> bool" where
  "history_ok h \<longleftrightarrow> (\<forall>i j. i \<le> j \<longrightarrow> fh_time h i \<le> fh_time h j
     \<and> (fh_time h i = fh_time h j \<longrightarrow> fh_pair h i = fh_pair h j))"

text \<open>A tick at which the files are looked at once and, if they are newer, loaded later on.\<close>

definition reload_tick :: "'cert file_history \<Rightarrow> nat \<times> nat \<Rightarrow> 'cert certReloader \<Rightarrow> 'cert certReloader" where
  "reload_tick h ij r = tryReload (Inr (fh_time h (fst ij))) (fh_pair h (snd ij)) r"

text \<open>The moments of ticks in order, none before \<open>n\<close> and each load after its look.\<close>

fun ticks_after :: "nat \<Rightarrow> (nat \<times> nat) list \<Rightarrow> bool" where
  "ticks_after n [] = True"
| "ticks_after n ((i, j) # rest) = (n \<le> i \<and> i \<le> j \<and> ticks_after j rest)"

definition serves :: "'cert file_history \<Rightarrow> nat \<Rightarrow> 'cert certReloader \<Rightarrow> bool" where
  "serves h n r \<longleftrightarrow> (\<exists>k \<le> n. fh_pair h k = Inr (cr_cert r) \<and> cr_modTimeNs r \<le> fh_time h k)"

lemma serves_tick:
  assumes "history_ok h" "serves h n r" "n \<le> i" "i \<le> j"
  shows "serves h j (reload_tick h (i, j) r)"
proof -
  have "fh_time h i \<le> fh_time h j" using assms(1,4) by (simp add: history_ok_def)
  moreover have "serves h j r" using assms(2-4) unfolding serves_def by (meson le_trans)
  ultimately show ?thesis
    unfolding reload_tick_def tryReload_def serves_def by (auto split: sum.split)
qed

lemma serves_ticks:
  "history_ok h \<Longrightarrow> serves h n r \<Longrightarrow> ticks_after n ijs \<Longrightarrow>
     serves h (if ijs = [] then n else snd (last ijs)) (fold (reload_tick h) ijs r)"
proof (induction ijs arbitrary: n r)
  case (Cons ij ijs)
  obtain i j where ij: "ij = (i, j)" by (cases ij)
  with Cons.prems have "serves h j (reload_tick h (i, j) r)" "ticks_after j ijs"
    using serves_tick by auto
  from Cons.IH [OF Cons.prems(1) this] show ?case by (cases ijs) (simp_all add: ij)
qed simp

lemma serves_current:
  assumes "history_ok h" "serves h n r" "n \<le> i" "fh_pair h i = Inr c"
  shows "cr_cert (reload_tick h (i, i) r) = c"
proof (cases "fh_time h i \<le> cr_modTimeNs r")
  case True
  obtain k where k: "k \<le> n" "fh_pair h k = Inr (cr_cert r)" "cr_modTimeNs r \<le> fh_time h k"
    using assms(2) by (auto simp: serves_def)
  then have "k \<le> i" using assms(3) by simp
  then have "fh_time h k \<le> fh_time h i" "fh_time h k = fh_time h i \<longrightarrow> fh_pair h k = fh_pair h i"
    using assms(1) unfolding history_ok_def by blast+
  then have "fh_pair h k = fh_pair h i" using k(3) True by linarith
  then show ?thesis using True k(2) assms(4) by (simp add: reload_tick_def tryReload_def)
qed (simp add: reload_tick_def tryReload_def assms(4))

text \<open>
  The certificate reloader serves the files' certificate after every tick.  Take a history of the
  certificate files in which a change comes with a later modification time, a reloader created while
  the files did not change, and any later ticks, however the files change between the look at the
  time and the load and whichever of them cannot be loaded: after one more tick during which the
  files are still and load, the reloader serves exactly what they hold.
\<close>

theorem cert_reloader_current:
  assumes "history_ok h" and "newCertReloader (fh_pair h n) (Inr (fh_time h n)) = Inr r"
    and "ticks_after n ijs" and "\<forall>ij \<in> set ijs. snd ij \<le> i" and "n \<le> i" and "fh_pair h i = Inr c"
  shows "GetCertificate (fold (reload_tick h) (ijs @ [(i, i)]) r) = c"
proof -
  have "serves h n r"
    using assms(2) by (auto simp: newCertReloader_def serves_def split: sum.splits)
  from serves_ticks [OF assms(1) this assms(3)]
  have "serves h (if ijs = [] then n else snd (last ijs)) (fold (reload_tick h) ijs r)" .
  moreover have "(if ijs = [] then n else snd (last ijs)) \<le> i" using assms(4,5) by simp
  ultimately show ?thesis using serves_current [OF assms(1) _ _ assms(6)] by (simp add: GetCertificate_def)
qed

theorem cert_reloader_current_witness:
  "GetCertificate (fold (reload_tick \<lparr>fh_pair = (\<lambda>k. Inr (if k < 3 then ''old'' else ''new'')), fh_time = (\<lambda>k. if k < 3 then 10 else 20)\<rparr>)
     ([(1, 2), (2, 4)] @ [(5, 5)]) \<lparr>cr_cert = ''old'', cr_modTimeNs = 10\<rparr>) = ''new''"
proof -
  let ?h = "\<lparr>fh_pair = (\<lambda>k. Inr (if k < 3 then ''old'' else ''new'')), fh_time = (\<lambda>k. if k < 3 then 10 else 20)\<rparr>"
  have "history_ok ?h" by (auto simp: history_ok_def)
  then show ?thesis
    by (rule cert_reloader_current [where n = 0]) (simp_all add: newCertReloader_def)
qed

text \<open>
  The construction looks at the time after it has loaded the pair: files that are replaced in
  between are never loaded, until they change once more.
\<close>

lemma cert_reloader_misses_swap:
  assumes "newCertReloader (Inr old) (Inr t) = Inr r"
  shows "GetCertificate (fold (\<lambda>pair. tryReload (Inr t) pair) pairs r) = old"
proof -
  have r: "r = \<lparr>cr_cert = old, cr_modTimeNs = t\<rparr>" using assms by (simp add: newCertReloader_def)
  have "fold (\<lambda>pair. tryReload (Inr t) pair) pairs r = r"
    by (induction pairs) (simp_all add: tryReload_def r)
  then show ?thesis by (simp add: GetCertificate_def r)
qed

section \<open>The loop over PEM blocks\<close>

text \<open>
  \<open>pem.Decode\<close> as it is documented: without a block the whole input is the rest, with one the rest is
  shorter.
\<close>

definition pem_ok :: "(string \<Rightarrow> pem_block option \<times> string) \<Rightarrow> bool" where
  "pem_ok decode \<longleftrightarrow> (\<forall>b. case decode b of (None, rest) \<Rightarrow> rest = b | (Some blk, rest) \<Rightarrow> length rest < length b)"

lemma pem_okD:
  assumes "pem_ok decode"
  shows "decode b = (None, rest) \<Longrightarrow> rest = b" "decode b = (Some blk, rest) \<Longrightarrow> length rest < length b"
  using spec [OF assms [unfolded pem_ok_def], of b] by simp_all

text \<open>The data from which the loop comes to a remainder that holds no block.\<close>

inductive no_block_left :: "(string \<Rightarrow> pem_block option \<times> string) \<Rightarrow> string \<Rightarrow> bool" for decode where
  here: "b \<noteq> [] \<Longrightarrow> decode b = (None, rest) \<Longrightarrow> no_block_left decode b"
| later: "b \<noteq> [] \<Longrightarrow> decode b = (Some blk, rest) \<Longrightarrow> block_Type blk \<noteq> ''CERTIFICATE'' \<Longrightarrow>
            no_block_left decode rest \<Longrightarrow> no_block_left decode b"

inductive_simps no_block_left_step: "no_block_left decode b"
inductive_simps no_block_left_Nil [simp]: "no_block_left decode []"

lemma leaf_loop_stuck:
  assumes ret: "leaf_loop decode parse b = Some r"
  shows "pem_ok decode \<longrightarrow> \<not> no_block_left decode b"
proof (rule leaf_loop.raw_induct [where P = "\<lambda>decode parse b r. pem_ok decode \<longrightarrow> \<not> no_block_left decode b",
    OF _ ret])
  fix loop decode parse b r
  assume IH: "\<And>decode parse b r. loop decode parse b = Some r \<Longrightarrow> pem_ok decode \<longrightarrow> \<not> no_block_left decode b"
    and eq: "(if b = [] then Some None else case decode b of (block, rest) \<Rightarrow> (case block of
        None \<Rightarrow> loop decode parse rest
      | Some blk \<Rightarrow> if block_Type blk \<noteq> ''CERTIFICATE'' then loop decode parse rest
                     else Some (Some (parse (block_Bytes blk))))) = Some r"
  show "pem_ok decode \<longrightarrow> \<not> no_block_left decode b"
  proof
    assume ok: "pem_ok decode"
    show "\<not> no_block_left decode b"
    proof (cases "decode b")
      case (Pair block rest)
      show ?thesis
      proof (cases block)
        case None
        with pem_okD(1) [OF ok, of b rest] Pair have "rest = b" by simp
        then show ?thesis
        proof (cases "b = []")
          case False
          with eq None Pair \<open>rest = b\<close> have "loop decode parse b = Some r" by simp
          with IH ok show ?thesis by blast
        qed simp
      next
        case (Some blk)
        with Pair eq IH [of decode parse rest r] ok show ?thesis
          by (auto simp: no_block_left_step [of decode b] split: if_splits)
      qed
    qed
  qed
qed

lemma leaf_loop_returns:
  assumes "pem_ok decode"
  shows "\<not> no_block_left decode b \<Longrightarrow> \<exists>r. leaf_loop decode parse b = Some r"
proof (induction b rule: length_induct)
  case (1 b)
  show ?case
  proof (cases "b = []")
    case False
    obtain block rest where d: "decode b = (block, rest)" by (cases "decode b")
    with 1 False obtain blk where blk: "block = Some blk" by (cases block) (auto intro: here)
    then have "length rest < length b" using pem_okD(2) [OF assms] d by simp
    moreover have "\<not> no_block_left decode rest" if "block_Type blk \<noteq> ''CERTIFICATE''"
      using 1 False d blk that by (auto intro: later)
    ultimately have "block_Type blk \<noteq> ''CERTIFICATE'' \<Longrightarrow> \<exists>r. leaf_loop decode parse rest = Some r"
      using 1 by blast
    moreover have "leaf_loop decode parse b
        = (if block_Type blk \<noteq> ''CERTIFICATE'' then leaf_loop decode parse rest else Some (Some (parse (block_Bytes blk))))"
      using False by (subst leaf_loop.simps) (simp only: d blk prod.case option.case if_False)
    ultimately show ?thesis by (cases "block_Type blk = ''CERTIFICATE''") (simp_all only: simp_thms if_True if_False, blast)
  qed (simp add: leaf_loop.simps)
qed

text \<open>
  C16: the loop over the stored PEM data returns exactly when it does not come to a remainder without
  a block.  With \<open>pem.Decode\<close> as documented, data that ends in blocks, with or without a
  certificate, is read to a result; data that is not PEM, or has text after blocks of other kinds,
  keeps the loop, and with it the evictor, running for ever.
\<close>

theorem load_leaf_returns_iff:
  assumes "pem_ok (co_decode ops)" and "co_Load ops subject st = Inr pemBytes"
  shows "((\<exists>r. loadLeaf ops subject st = Some r) \<longleftrightarrow> \<not> no_block_left (co_decode ops) pemBytes)
    \<and> ((\<exists>st1. evictExpiring now ops True [subject] st = Some st1) \<longleftrightarrow> \<not> no_block_left (co_decode ops) pemBytes)"
proof -
  have iff: "(\<exists>r. loadLeaf ops subject st = Some r) \<longleftrightarrow> \<not> no_block_left (co_decode ops) pemBytes"
    using leaf_loop_returns [OF assms(1)] leaf_loop_stuck assms(1)
    by (fastforce simp: loadLeaf_def assms(2))
  have "(\<exists>st1. evictExpiring now ops True [subject] st = Some st1) \<longleftrightarrow> (\<exists>r. loadLeaf ops subject st = Some r)"
    by (cases "loadLeaf ops subject st")
       (auto simp: evictExpiring_def checkAndEvict_def case_prod_unfold split: option.split sum.split)
  with iff show ?thesis by simp
qed

text \<open>A decoder that takes one line as a block when it starts with \<open>C\<close> or \<open>K\<close>, and finds none otherwise.\<close>

definition line_decode :: "string \<Rightarrow> pem_block option \<times> string" where
  "line_decode b = (case b of
      [] \<Rightarrow> (None, b)
    | c # rest \<Rightarrow> if c = CHR ''C'' then (Some \<lparr>block_Type = ''CERTIFICATE'', block_Bytes = takeWhile (\<lambda>x. x \<noteq> CHR ''.'') rest\<rparr>,
                     tl (dropWhile (\<lambda>x. x \<noteq> CHR ''.'') b))
                   else if c = CHR ''K'' then (Some \<lparr>block_Type = ''KEY'', block_Bytes = []\<rparr>, tl (dropWhile (\<lambda>x. x \<noteq> CHR ''.'') b))
                   else (None, b))"

lemma line_decode_ok: "pem_ok line_decode"
proof -
  have "length (dropWhile P xs) - Suc 0 < Suc (length xs)" for P and xs :: string
    using length_dropWhile_le [of P xs] by simp
  then show ?thesis by (auto simp: pem_ok_def line_decode_def split: list.split)
qed

definition line_ops :: "string \<Rightarrow> (string list) cert_ops" where
  "line_ops stored = \<lparr>co_Load = (\<lambda>_ _. Inr stored), co_Delete = (\<lambda>subj st. (None, st @ [subj])),
     co_RemoveManaged = (\<lambda>_ st. st), co_ManageSync = (\<lambda>_ st. (None, st)), co_decode = line_decode,
     co_parse = (\<lambda>_. Inr \<lparr>NotBefore = 0, NotAfter = 100\<rparr>)\<rparr>"

theorem load_leaf_returns_iff_witness:
  "(\<exists>st1. evictExpiring 90 (line_ops ''K.C.'') True [''d.e''] [] = Some st1)
     \<and> \<not> (\<exists>st1. evictExpiring 90 (line_ops ''K.x'') True [''d.e''] [] = Some st1)"
proof -
  have l: "co_Load (line_ops b) ''d.e'' [] = Inr b" "pem_ok (co_decode (line_ops b))"
    "co_decode (line_ops b) = line_decode" for b
    by (simp_all add: line_ops_def line_decode_ok)
  have "line_decode ''K.C.'' = (Some \<lparr>block_Type = ''KEY'', block_Bytes = []\<rparr>, ''C.'')"
    "line_decode ''C.'' = (Some \<lparr>block_Type = ''CERTIFICATE'', block_Bytes = []\<rparr>, [])"
    "line_decode ''K.x'' = (Some \<lparr>block_Type = ''KEY'', block_Bytes = []\<rparr>, ''x'')"
    "line_decode ''x'' = (None, ''x'')"
    by (simp_all add: line_decode_def)
  then have "\<not> no_block_left line_decode ''K.C.''" "no_block_left line_decode ''K.x''"
    by (simp_all add: no_block_left_step [of line_decode "''K.C.''"] no_block_left_step [of line_decode "''C.''"]
        no_block_left_step [of line_decode "''K.x''"] no_block_left_step [of line_decode "''x''"])
  with load_leaf_returns_iff [OF l(2,1)] show ?thesis by (simp add: l(3))
qed

section \<open>Provisioning\<close>

text \<open>Every domain ends as a success or with a recorded error: one that fails does not stop the others.\<close>

lemma acme_domains_all_tried:
  "case fold (acme_domain manage) domains
          \<lparr>al_DisableARI = ari, al_successCount = 0, al_errs = [], al_state = st\<rparr> of l \<Rightarrow>
     al_successCount l + length (al_errs l) = length domains"
proof -
  have "al_successCount (fold (acme_domain manage) domains l) + length (al_errs (fold (acme_domain manage) domains l))
      = length domains + al_successCount l + length (al_errs l)" for l
  proof (induction domains arbitrary: l)
    case (Cons d ds)
    have "al_successCount (acme_domain manage d l) + length (al_errs (acme_domain manage d l))
        = Suc (al_successCount l + length (al_errs l))"
      by (simp add: acme_domain_def Let_def split: option.split prod.split)
    with Cons.IH [of "acme_domain manage d l"] show ?case by simp
  qed simp
  then show ?thesis by simp
qed

end
