(* ===== verification/Dynamic_Urls.thy ===== *)
theory Dynamic_Urls
  imports Http_Serve Client_Ids
begin

text \<open>
  The client's helper for dynamic responses (\<open>Client.EncodedResponse\<close>) against the server that reads
  its parameters: a request to the URL is answered like a stored response with the same settings.
\<close>

text \<open>\<open>url.Values.Encode\<close> sorts by key; the values of a key stay in order.\<close>

definition response_params :: "int \<Rightarrow> string list \<Rightarrow> string \<Rightarrow> query" where
  "response_params statusCode headers body =
     (if body \<noteq> [] then [(''body'', body)] else [])
     @ map (\<lambda>h. (''header'', h)) headers
     @ (if statusCode \<noteq> 0 then [(''status'', itoa statusCode)] else [])"

definition EncodedResponse :: "string \<Rightarrow> int \<Rightarrow> string list \<Rightarrow> string \<Rightarrow> string" where
  "EncodedResponse domain statusCode headers body =
     (let u = ''https://'' @ domain; encoded = encode_pairs (response_params statusCode headers body)
      in if encoded \<noteq> [] then u @ CHR ''?'' # encoded else u)"

lemma params_values:
  "query_values (response_params st hs body) ''header'' = hs"
  "query_values (response_params st hs body) ''status'' = (if st \<noteq> 0 then [itoa st] else [])"
  "query_values (response_params st hs body) ''body'' = (if body \<noteq> [] then [body] else [])"
  "query_values (response_params st hs body) ''b64_body'' = []"
  "query_values (response_params st hs body) ''delay'' = []"
  by (simp_all add: query_values_def response_params_def o_def)

lemma query_Has_values: "query_Has q k \<longleftrightarrow> query_values q k \<noteq> []"
  by (auto simp: query_Has_def query_values_def filter_empty_conv)

lemma clamp_redirect: "clampStatusCode st = 302 \<longleftrightarrow> st = 302" "clampStatusCode st = 307 \<longleftrightarrow> st = 307"
  "clampStatusCode (clampStatusCode st) = clampStatusCode st" "clampStatusCode 200 = 200"
  by (auto simp: clampStatusCode_def)

lemma WriteHeader_clamp: "WriteHeader (clampStatusCode st) w = WriteHeader st w"
  by (simp add: WriteHeader_def clamp_redirect)

lemma Write_implicit: "Write b (WriteHeader 200 w) = Write b w"
  by (simp add: Write_def WriteHeader_def Let_def)

text \<open>
  C27: the URL that the client's helper builds is equivalent to a stored response.  When a server with
  dynamic responses gets a request whose query is that of the helper's URL, it answers exactly as it
  would answer with a stored response of the same status, headers and body, the check for
  unauthenticated servers included; every character of the headers and the body survives the URL.
\<close>

theorem encoded_response_equivalent:
  assumes "EncodedResponse domain st hs body = ''https://'' @ domain @ CHR ''?'' # rq_RawQuery r"
    and "0 \<le> st" "st \<le> max_int64" and "st \<noteq> 0 \<or> hs \<noteq> [] \<or> body \<noteq> []"
    and "dynamic_path_body r = None"
  shows "serveDynamicResponse r reflection w s =
     (let cfg = \<lparr>StatusCode = st, Headers = hs, Body = body\<rparr>
      in if Auth (sv_cfg s) \<or> IsAllowedUnauthenticated (Some cfg)
         then (True, writeResponseConfig r cfg reflection w) else (False, w))"
proof -
  let ?cfg = "\<lparr>StatusCode = st, Headers = hs, Body = body\<rparr>"
  have "rq_RawQuery r = encode_pairs (response_params st hs body)"
    using assms(1) by (auto simp: EncodedResponse_def Let_def split: if_splits)
  then have q: "rq_query r = response_params st hs body"
    by (simp add: rq_query_def parse_encode_pairs)
  have atoi: "atoi (itoa st) = Some st" using assms(2,3) by (intro atoi_itoa) (simp_all add: min_int64_def)
  have nil: "atoi [] = None" by (simp add: atoi_def)
  have Get: "query_Get (rq_query r) ''status'' = (if st \<noteq> 0 then itoa st else [])"
    "query_Get (rq_query r) ''body'' = body"
    by (simp_all add: query_Get_def q params_values)
  have has: "has_dynamic_body r \<longleftrightarrow> body \<noteq> []" "query_Has (rq_query r) ''header'' \<longleftrightarrow> hs \<noteq> []"
    "query_Has (rq_query r) ''status'' \<longleftrightarrow> st \<noteq> 0" "\<not> query_Has (rq_query r) ''b64_body''"
    "query_Has (rq_query r) ''body'' \<longleftrightarrow> body \<noteq> []" "query_values (rq_query r) ''header'' = hs"
    using assms(5) by (simp_all add: has_dynamic_body_def query_Has_values q params_values)
  have code: "dynamic_status (rq_query r) = (if st = 0 then 0 else clampStatusCode st)"
    "StatusCode (dynamic_config (rq_query r) b) = st" for b
    using assms(2) by (simp_all add: dynamic_status_def dynamic_config_def Get atoi nil)
  have "IsAllowedUnauthenticated (Some (dynamic_config (rq_query r) (body \<noteq> []))) = IsAllowedUnauthenticated (Some ?cfg)"
    by (simp add: IsAllowedUnauthenticated_iff code(2)) (simp add: dynamic_config_def has)
  moreover have "write_dynamic_body r reflection (applyDynamicParams r w) = writeResponseConfig r ?cfg reflection w"
  proof -
    let ?w = "fold (apply_header_line (st = 302 \<or> st = 307) r) hs w"
    have body: "write_dynamic_body r reflection w1 = Write (if body \<noteq> [] then body else reflection) w1" for w1
      unfolding write_dynamic_body_def Let_def assms(5) option.case using has(4,5) Get(2) by simp
    have dyn: "applyDynamicParams r w = (if st = 0 then ?w else WriteHeader st ?w)"
    proof (cases "st = 0")
      case False
      then have "dynamic_status (rq_query r) = clampStatusCode st" "clampStatusCode st > 0"
        by (simp_all add: code(1)) (simp add: clampStatusCode_def)
      with False show ?thesis
        unfolding applyDynamicParams_def Let_def has(6) by (simp only: clamp_redirect WriteHeader_clamp if_True if_False simp_thms)
    qed (simp add: applyDynamicParams_def Let_def has(6) code(1))
    have stored: "writeResponseConfig r ?cfg reflection w
        = Write (if body \<noteq> [] then body else reflection) (WriteHeader (if st = 0 then 200 else st) ?w)"
      unfolding writeResponseConfig_def Let_def ResponseConfig.select_convs by (simp add: WriteHeader_clamp)
    show ?thesis unfolding body dyn stored by (cases "st = 0") (simp_all only: Write_implicit if_True if_False simp_thms)
  qed
  moreover have "(body \<noteq> [] \<or> hs \<noteq> [] \<or> st \<noteq> 0) = True" using assms(4) by blast
  ultimately show ?thesis
    unfolding serveDynamicResponse_def Let_def has(1-3) by (simp only: simp_thms if_False) (simp only: if_not_P if_P split: if_split, blast)
qed

theorem encoded_response_equivalent_witness:
  "\<exists>r :: request. EncodedResponse ''c.d.e'' 418 [''X-A: b&c''] ''a=b'' = ''https://c.d.e?'' @ rq_RawQuery r
     \<and> (\<forall>(s :: unit server) reflection w. Auth (sv_cfg s) = True \<longrightarrow> serveDynamicResponse r reflection w s
         = (True, writeResponseConfig r \<lparr>StatusCode = 418, Headers = [''X-A: b&c''], Body = ''a=b''\<rparr> reflection w))"
proof -
  let ?q = "encode_pairs (response_params 418 [''X-A: b&c''] ''a=b'')"
  let ?r = "\<lparr>rq_Method = ''GET'', rq_RequestURI = [], rq_ProtoMajor = 1, rq_ProtoMinor = 1, rq_EscapedPath = ''/'',
     rq_Path = ''/'', rq_RawQuery = ?q, rq_Host = ''c.d.e'', rq_Header = [], rq_TransferEncoding = [], rq_Body = [],
     rq_RemoteAddr = [], rq_TLS = True\<rparr>"
  have "?q \<noteq> []" by (simp add: encode_pairs_def response_params_def encode_pair_def)
  then have url: "EncodedResponse ''c.d.e'' 418 [''X-A: b&c''] ''a=b'' = ''https://'' @ ''c.d.e'' @ CHR ''?'' # rq_RawQuery ?r"
    by (simp add: EncodedResponse_def Let_def)
  have path: "dynamic_path_body ?r = None" by (simp add: dynamic_path_body_def cut_prefix_def has_prefix_def)
  have "serveDynamicResponse ?r reflection w s
      = (True, writeResponseConfig ?r \<lparr>StatusCode = 418, Headers = [''X-A: b&c''], Body = ''a=b''\<rparr> reflection w)"
    if "Auth (sv_cfg s)" for s :: "unit server" and reflection w
    using encoded_response_equivalent [OF url _ _ _ path, where s = s and reflection = reflection and w = w] that
    by (simp add: max_int64_def)
  with url show ?thesis by (intro exI [of _ ?r]) simp
qed

end
