(* ===== verification/Services.thy ===== *)
theory Services
  imports Tls Dns Ftp Smtp Server_Demo
begin

text \<open>
  The start of the services (\<open>Server.Start\<close> in \<open>oobsrv/server.go\<close>, with \<open>startDNS\<close>, \<open>startHTTP\<close>,
  \<open>startHTTPS\<close>, \<open>startSMTP\<close>, \<open>startLDAP\<close>, \<open>startFTP\<close> of the protocol files).  The operating system
  decides which listeners open; the services that do not stop the start run in goroutines, whose
  steps interleave in every order.  The facts say that no listener is left without a service, and
  which failures stop the start.
\<close>

section \<open>Listeners\<close>

text \<open>The sockets that are open, each with its network and address, in the order they were opened.\<close>

type_synonym sockets = "(string \<times> string) list"

text \<open>What the operating system answers: \<open>None\<close> to open the socket, or the error.\<close>

type_synonym listen_os = "string \<Rightarrow> string \<Rightarrow> sockets \<Rightarrow> string option"

definition JoinHostPort :: "string \<Rightarrow> int \<Rightarrow> string" where
  "JoinHostPort host port =
     (if CHR '':'' \<in> set host then ''['' @ host @ '']:'' @ itoa port else host @ '':'' @ itoa port)"

definition net_Listen :: "listen_os \<Rightarrow> string \<Rightarrow> string \<Rightarrow> sockets \<Rightarrow> string option \<times> sockets" where
  "net_Listen os network addr socks = (case os network addr socks of
      Some err \<Rightarrow> (Some err, socks)
    | None \<Rightarrow> (None, socks @ [(network, addr)]))"

text \<open>
  The bind and \<open>svc.Start\<close>, and \<open>addService\<close> when neither has failed.  The DNS, HTTP, HTTPS, LDAP and
  profiling services bind in \<open>svc.Start\<close>.  The SMTP and FTP services are given a bound listener, and their
  \<open>svc.Start\<close> can no longer fail, so that the closing of the listener after such a failure is not reached.
\<close>

definition start_service ::
  "listen_os \<Rightarrow> string \<Rightarrow> string \<Rightarrow> string \<Rightarrow> sockets \<times> 'db server \<Rightarrow> string option \<times> sockets \<times> 'db server" where
  "start_service os name network addr st = (case st of (socks, s) \<Rightarrow>
     (case net_Listen os network addr socks of
        (Some err, socks1) \<Rightarrow> (Some err, socks1, s)
      | (None, socks1) \<Rightarrow> (None, socks1, addService name s)))"

definition startPprof :: "listen_os \<Rightarrow> sockets \<times> 'db server \<Rightarrow> string option \<times> sockets \<times> 'db server" where
  "startPprof os st = start_service os ''pprof'' ''tcp'' ''127.0.0.1:8086'' st"

definition startDNS :: "listen_os \<Rightarrow> sockets \<times> 'db server \<Rightarrow> string option \<times> sockets \<times> 'db server" where
  "startDNS os st =
     (let addr = JoinHostPort (ListenIP (sv_cfg (snd st))) (DNSPort (sv_cfg (snd st)))
      in case start_service os ''DNS-UDP'' ''udp'' addr st of
           (Some err, st1) \<Rightarrow> (Some (''DNS UDP bind '' @ addr @ '': '' @ err), st1)
         | (None, st1) \<Rightarrow> (None, snd (start_service os ''DNS-TCP'' ''tcp'' addr st1)))"

definition startHTTP :: "listen_os \<Rightarrow> sockets \<times> 'db server \<Rightarrow> string option \<times> sockets \<times> 'db server" where
  "startHTTP os st =
     (let addr = JoinHostPort (ListenIP (sv_cfg (snd st))) (HTTPPort (sv_cfg (snd st)))
      in case start_service os ''HTTP'' ''tcp'' addr st of
           (Some err, st1) \<Rightarrow> (Some (''[HTTP] bind '' @ addr @ '': '' @ err), st1)
         | (None, st1) \<Rightarrow> (None, st1))"

section \<open>The goroutines\<close>

text \<open>
  The steps of the goroutines that change what they share.  An address is tried once; a failure is
  logged, and the goroutine goes on.  A bind and the \<open>addService\<close> that follows it are one step: no
  other goroutine reads the sockets or the list in between, so the split would only change the order
  in which two goroutines enter their names after they have bound their addresses.
\<close>

datatype start_step = SetFTPTempDir string | ListenStep string string string

definition run_step :: "listen_os \<Rightarrow> start_step \<Rightarrow> sockets \<times> 'db server \<Rightarrow> sockets \<times> 'db server" where
  "run_step os x st = (case x of
      SetFTPTempDir dir \<Rightarrow> (fst st, (snd st)\<lparr>ftpTempDir := dir\<rparr>)
    | ListenStep name network addr \<Rightarrow> snd (start_service os name network addr st))"

definition listen_step :: "Config \<Rightarrow> string \<Rightarrow> int \<Rightarrow> start_step" where
  "listen_step cfg name port = ListenStep name ''tcp'' (JoinHostPort (ListenIP cfg) port)"

definition startHTTPS :: "Config \<Rightarrow> bool \<Rightarrow> start_step list" where
  "startHTTPS cfg tls = (if \<not> tls then [] else [listen_step cfg ''HTTPS'' (HTTPSPort cfg)])"

text \<open>\<open>smtp_STARTTLS\<close>: the configuration is given to the server, which then offers STARTTLS.\<close>

record smtp_server =
  smtp_Domain :: string
  smtp_AllowInsecureAuth :: bool
  smtp_ReadTimeout :: int
  smtp_WriteTimeout :: int
  smtp_MaxRecipients :: int
  smtp_STARTTLS :: bool

definition newSMTPServer :: "string \<Rightarrow> bool \<Rightarrow> bool \<Rightarrow> smtp_server" where
  "newSMTPServer hostname tlsCfg implicitTLS =
     \<lparr>smtp_Domain = hostname, smtp_AllowInsecureAuth = True, smtp_ReadTimeout = smtpReadTimeout,
      smtp_WriteTimeout = smtpWriteTimeout, smtp_MaxRecipients = smtpMaxRecipients,
      smtp_STARTTLS = (tlsCfg \<and> \<not> implicitTLS)\<rparr>"

definition startSMTP :: "Config \<Rightarrow> bool \<Rightarrow> start_step list" where
  "startSMTP cfg tls =
     [listen_step cfg ''SMTP'' (SMTPPort cfg), listen_step cfg ''SMTP-STARTTLS'' (SMTPSPort cfg)]
     @ (if tls then [listen_step cfg ''SMTPS'' (SMTPAutoTLSPort cfg)] else [])"

definition startLDAP :: "Config \<Rightarrow> start_step list" where
  "startLDAP cfg = [listen_step cfg ''LDAP'' (LDAPPort cfg)]"

text \<open>\<open>new_ftp\<close> is the error of \<open>ftpserver.NewServer\<close> for a name, if it has one.\<close>

definition startFTPPort :: "(string \<Rightarrow> string option) \<Rightarrow> Config \<Rightarrow> int \<Rightarrow> string \<Rightarrow> start_step list" where
  "startFTPPort new_ftp cfg port name = (case new_ftp name of
      Some err \<Rightarrow> []
    | None \<Rightarrow> [listen_step cfg name port])"

definition startFTP :: "string result \<Rightarrow> (string \<Rightarrow> string option) \<Rightarrow> Config \<Rightarrow> bool \<Rightarrow> start_step list" where
  "startFTP mkdirTemp new_ftp cfg tls =
     (let ports = startFTPPort new_ftp cfg (FTPPort cfg) ''FTP''
                  @ (if tls then startFTPPort new_ftp cfg (FTPSPort cfg) ''FTPS'' else [])
      in if FTPDir cfg \<noteq> [] then ports
         else (case mkdirTemp of Inl err \<Rightarrow> [] | Inr dir \<Rightarrow> SetFTPTempDir dir # ports))"

text \<open>The orders in which the steps of several goroutines can happen.\<close>

primrec interleavings :: "'a list list \<Rightarrow> 'a list set" where
  "interleavings [] = {[]}"
| "interleavings (xs # xss) = (\<Union>ys \<in> interleavings xss. shuffles xs ys)"

section \<open>Start\<close>

text \<open>
  What the start asks of its surroundings.  \<open>se_schedule\<close> is the order in which the scheduler runs
  the steps of the goroutines.
\<close>

record ('cert, 's) start_env =
  se_os :: listen_os
  se_ips :: ip_world
  se_reloader :: "'cert certReloader result"
  se_home :: "string result"
  se_manage :: "bool \<Rightarrow> string list \<Rightarrow> 's \<Rightarrow> string option \<times> 's"
  se_acme :: 's
  se_selfKey :: "string option"
  se_selfCert :: "string option"
  se_readFile :: "string \<Rightarrow> string result"
  se_mkdirTemp :: "string result"
  se_newFTP :: "string \<Rightarrow> string option"
  se_schedule :: "start_step list list \<Rightarrow> start_step list"

definition start_tls :: "('cert, 's) start_env \<Rightarrow> 'db server \<Rightarrow> 'cert tls_config option \<times> 'db server" where
  "start_tls env s = provisionTLS (se_reloader env)
     (\<lambda>s. case provisionACME (se_home env) (se_manage env) (se_acme env) s of ((r, _, _), s1) \<Rightarrow> (r, s1))
     (generateSelfSignedCert (se_selfKey env) (se_selfCert env) (Domains (sv_cfg s))) s"

definition start_goroutines :: "('cert, 's) start_env \<Rightarrow> Config \<Rightarrow> bool \<Rightarrow> start_step list list" where
  "start_goroutines env cfg tls = [startHTTPS cfg tls, startSMTP cfg tls, startLDAP cfg]
     @ (if FTP cfg then [startFTP (se_mkdirTemp env) (se_newFTP env) cfg tls] else [])"

definition Start ::
  "('cert, 's) start_env \<Rightarrow> sockets \<times> 'db server
     \<Rightarrow> string option \<times> 'cert tls_config option \<times> sockets \<times> 'db server" where
  "Start env st0 =
     (case (if EnablePprof (sv_cfg (snd st0)) then startPprof (se_os env) st0 else (None, st0)) of
        (Some err, st1) \<Rightarrow> (Some (''pprof: '' @ err), None, st1)
      | (None, st1) \<Rightarrow>
     (case resolveIPs (se_ips env) (addService ''user-agent-report'' (snd st1)) of
        (Some err, s2) \<Rightarrow> (Some (''ip resolution: '' @ err), None, fst st1, s2)
      | (None, s2) \<Rightarrow>
     (case startDNS (se_os env) (fst st1, s2) of
        (Some err, st3) \<Rightarrow> (Some err, None, st3)
      | (None, st3) \<Rightarrow>
     (case start_tls env (snd st3) of (tls, s4) \<Rightarrow>
     (case loadHTTPFiles (se_readFile env) s4 of
        (Some err, s5) \<Rightarrow> (Some (''http files: '' @ err), tls, fst st3, s5)
      | (None, s5) \<Rightarrow>
     (case startHTTP (se_os env) (fst st3, s5) of
        (Some err, st6) \<Rightarrow> (Some err, tls, st6)
      | (None, st6) \<Rightarrow>
          (None, tls, fold (run_step (se_os env))
             (se_schedule env (start_goroutines env (sv_cfg (snd st6)) (tls \<noteq> None))) st6)))))))"

section \<open>No listener is lost\<close>

definition is_listener :: "string \<Rightarrow> bool" where
  "is_listener name \<longleftrightarrow> name \<notin> {''user-agent-report'', ''cert-reloader'', ''cert-evictor''}"

definition service_port :: "Config \<Rightarrow> string \<Rightarrow> int" where
  "service_port cfg name =
     (if name = ''DNS-UDP'' \<or> name = ''DNS-TCP'' then DNSPort cfg
      else if name = ''HTTP'' then HTTPPort cfg else if name = ''HTTPS'' then HTTPSPort cfg
      else if name = ''SMTP'' then SMTPPort cfg else if name = ''SMTP-STARTTLS'' then SMTPSPort cfg
      else if name = ''SMTPS'' then SMTPAutoTLSPort cfg else if name = ''LDAP'' then LDAPPort cfg
      else if name = ''FTP'' then FTPPort cfg else FTPSPort cfg)"

definition service_socket :: "Config \<Rightarrow> string \<Rightarrow> string \<times> string" where
  "service_socket cfg name =
     (if name = ''pprof'' then (''tcp'', ''127.0.0.1:8086'')
      else (if name = ''DNS-UDP'' then ''udp'' else ''tcp'', JoinHostPort (ListenIP cfg) (service_port cfg name)))"

text \<open>Every open socket belongs to a service, in order; services are among \<open>names\<close> and start once.\<close>

definition owned :: "Config \<Rightarrow> string set \<Rightarrow> sockets \<Rightarrow> 'db server \<Rightarrow> bool" where
  "owned cfg names socks s \<longleftrightarrow> sv_cfg s = cfg \<and> distinct (sv_services s) \<and> set (sv_services s) \<subseteq> names
     \<and> socks = map (service_socket cfg) (filter is_listener (sv_services s))"

lemma owned_mono: "owned cfg names socks s \<Longrightarrow> names \<subseteq> names' \<Longrightarrow> owned cfg names' socks s"
  by (auto simp: owned_def)

lemma owned_background:
  assumes "owned cfg names socks s" "name \<notin> names" "\<not> is_listener name"
  shows "owned cfg (insert name names) socks (addService name s)"
  using assms by (auto simp: owned_def addService_def)

lemma owned_start_service:
  assumes "owned cfg names socks s" "name \<notin> names" "is_listener name" "service_socket cfg name = (network, addr)"
    and "start_service os name network addr (socks, s) = (err, socks', s')"
  shows "owned cfg (insert name names) socks' s'" "set (sv_services s) \<subseteq> set (sv_services s')"
    "err = None \<Longrightarrow> name \<in> set (sv_services s')"
  using assms by (auto simp: owned_def addService_def start_service_def net_Listen_def split: option.splits)

lemma owned_update:
  assumes "owned cfg names socks s" "sv_cfg s' = sv_cfg s" "sv_services s' = sv_services s"
  shows "owned cfg names socks s'"
  using assms by (simp add: owned_def)

lemma resolveIPs_services:
  "resolveIPs iw s = (err, s') \<Longrightarrow> sv_cfg s' = sv_cfg s \<and> sv_services s' = sv_services s"
  by (auto simp: resolveIPs_def split: if_splits option.splits sum.splits)

lemma loadHTTPFiles_services:
  "loadHTTPFiles rf s = (err, s') \<Longrightarrow> sv_cfg s' = sv_cfg s \<and> sv_services s' = sv_services s"
  by (auto simp: loadHTTPFiles_def split: if_splits sum.splits)

lemma start_tls_services:
  assumes "start_tls env s = (tls, s')" "owned cfg names socks s" "''cert-reloader'' \<notin> names" "''cert-evictor'' \<notin> names"
  shows "owned cfg (names \<union> {''cert-reloader'', ''cert-evictor''}) socks s'" "set (sv_services s) \<subseteq> set (sv_services s')"
proof -
  have "s' = s \<or> s' = addService ''cert-reloader'' s \<or> s' = addService ''cert-evictor'' s"
    using assms(1) by (auto simp: start_tls_def provisionTLS_def provisionACME_def Let_def
        split: if_splits sum.splits prod.splits)
  moreover have "\<not> is_listener ''cert-reloader''" "\<not> is_listener ''cert-evictor''" by (simp_all add: is_listener_def)
  moreover note owned_background [OF assms(2,3)] owned_background [OF assms(2,4)] assms(2)
  ultimately show "owned cfg (names \<union> {''cert-reloader'', ''cert-evictor''}) socks s'"
    by (auto intro: owned_mono [rotated])
  show "set (sv_services s) \<subseteq> set (sv_services s')"
    using \<open>s' = s \<or> _\<close> by (auto simp: addService_def)
qed

text \<open>The goroutines.\<close>

fun step_name :: "start_step \<Rightarrow> string list" where
  "step_name (ListenStep name network addr) = [name]"
| "step_name (SetFTPTempDir dir) = []"

definition step_ok :: "Config \<Rightarrow> start_step \<Rightarrow> bool" where
  "step_ok cfg x \<longleftrightarrow> (case x of SetFTPTempDir dir \<Rightarrow> True
     | ListenStep name network addr \<Rightarrow> is_listener name \<and> service_socket cfg name = (network, addr))"

lemma owned_run_steps:
  assumes "owned cfg names socks s" "\<forall>x \<in> set xs. step_ok cfg x"
    and "distinct (concat (map step_name xs))" "set (concat (map step_name xs)) \<inter> names = {}"
    and "fold (run_step os) xs (socks, s) = (socks', s')"
  shows "owned cfg (names \<union> set (concat (map step_name xs))) socks' s' \<and> set (sv_services s) \<subseteq> set (sv_services s')"
  using assms
proof (induction xs arbitrary: names socks s)
  case (Cons x xs)
  obtain socks1 s1 where step: "run_step os x (socks, s) = (socks1, s1)" by fastforce
  have one: "owned cfg (names \<union> set (step_name x)) socks1 s1 \<and> set (sv_services s) \<subseteq> set (sv_services s1)"
  proof (cases x)
    case (SetFTPTempDir dir)
    then show ?thesis using step Cons.prems(1) by (auto simp: run_step_def owned_def)
  next
    case (ListenStep name network addr)
    then obtain err where "start_service os name network addr (socks, s) = (err, socks1, s1)"
      using step by (cases "start_service os name network addr (socks, s)") (auto simp: run_step_def)
    from owned_start_service [OF Cons.prems(1) _ _ _ this] ListenStep Cons.prems(2-4)
    show ?thesis by (auto simp: step_ok_def)
  qed
  have "owned cfg (names \<union> set (step_name x) \<union> set (concat (map step_name xs))) socks' s'
      \<and> set (sv_services s1) \<subseteq> set (sv_services s')"
    using Cons.prems(2-5) step one by (intro Cons.IH [of "names \<union> set (step_name x)" socks1 s1]) auto
  with one show ?case by (auto simp: Un_assoc)
qed auto

lemma interleavings_mset: "xs \<in> interleavings xss \<Longrightarrow> mset xs = mset (concat xss)"
  by (induction xss arbitrary: xs) (auto dest: mset_shuffles)

lemma interleaved_names:
  assumes "xs \<in> interleavings xss"
  shows "mset (concat (map step_name xs)) = mset (concat (map step_name (concat xss)))"
    "set xs = set (concat xss)"
proof -
  have *: "mset xs = mset (concat xss)" by (rule interleavings_mset [OF assms])
  then have "image_mset (\<lambda>x. mset (step_name x)) (mset xs) = image_mset (\<lambda>x. mset (step_name x)) (mset (concat xss))"
    by simp
  moreover have "mset (concat (map step_name zs)) = \<Sum>\<^sub># (image_mset (\<lambda>x. mset (step_name x)) (mset zs))" for zs
    by (induction zs) auto
  ultimately show "mset (concat (map step_name xs)) = mset (concat (map step_name (concat xss)))" by simp
  show "set xs = set (concat xss)" by (rule mset_eq_setD [OF *])
qed

lemma listen_step_ok:
  "name \<in> {''HTTPS'', ''SMTP'', ''SMTP-STARTTLS'', ''SMTPS'', ''LDAP'', ''FTP'', ''FTPS''} \<Longrightarrow>
     step_ok cfg (listen_step cfg name (service_port cfg name)) \<and> step_name (listen_step cfg name p) = [name]"
  by (auto simp: step_ok_def listen_step_def is_listener_def service_socket_def)

lemma goroutine_steps:
  fixes env :: "('cert, 's) start_env" and cfg :: Config and tls :: bool
  defines "steps \<equiv> concat (start_goroutines env cfg tls)"
  shows "\<forall>x \<in> set steps. step_ok cfg x" "distinct (concat (map step_name steps))"
    "set (concat (map step_name steps)) \<subseteq> {''HTTPS'', ''SMTP'', ''SMTP-STARTTLS'', ''SMTPS'', ''LDAP'', ''FTP'', ''FTPS''}"
proof -
  note defs = steps_def start_goroutines_def startHTTPS_def startSMTP_def startLDAP_def startFTP_def startFTPPort_def
  note names = listen_step_ok [THEN conjunct2]
  show "\<forall>x \<in> set steps. step_ok cfg x"
    unfolding defs
    by (auto simp: Let_def step_ok_def listen_step_def is_listener_def service_socket_def service_port_def
        split: if_splits sum.splits option.splits)
  show "distinct (concat (map step_name steps))"
    unfolding defs by (auto simp: Let_def listen_step_def split: sum.split option.split)
  show "set (concat (map step_name steps)) \<subseteq> {''HTTPS'', ''SMTP'', ''SMTP-STARTTLS'', ''SMTPS'', ''LDAP'', ''FTP'', ''FTPS''}"
    unfolding defs by (auto simp: Let_def listen_step_def split: sum.splits option.splits if_splits)
qed

lemma owned_startDNS:
  assumes "owned cfg names socks s" "''DNS-UDP'' \<notin> names" "''DNS-TCP'' \<notin> names"
    and "startDNS os (socks, s) = (err, socks', s')"
  shows "owned cfg (names \<union> {''DNS-UDP'', ''DNS-TCP''}) socks' s'" "set (sv_services s) \<subseteq> set (sv_services s')"
    "err = None \<Longrightarrow> ''DNS-UDP'' \<in> set (sv_services s')"
proof -
  let ?a = "JoinHostPort (ListenIP cfg) (DNSPort cfg)"
  have cfg: "sv_cfg s = cfg" using assms(1) by (simp add: owned_def)
  obtain e1 socks1 s1 where one: "start_service os ''DNS-UDP'' ''udp'' ?a (socks, s) = (e1, socks1, s1)"
    by (metis surj_pair)
  obtain e2 socks2 s2 where two: "start_service os ''DNS-TCP'' ''tcp'' ?a (socks1, s1) = (e2, socks2, s2)"
    by (metis surj_pair)
  have sock: "service_socket cfg ''DNS-UDP'' = (''udp'', ?a)" "service_socket cfg ''DNS-TCP'' = (''tcp'', ?a)"
    "is_listener ''DNS-UDP''" "is_listener ''DNS-TCP''"
    by (simp_all add: service_socket_def service_port_def is_listener_def)
  note o1 = owned_start_service [OF assms(1,2) sock(3,1) one]
  have "''DNS-TCP'' \<notin> insert ''DNS-UDP'' names" using assms(3) by simp
  note o2 = owned_start_service [OF o1(1) this sock(4,2) two]
  have "(socks', s') = (if e1 = None then (socks2, s2) else (socks1, s1))" "err = None \<longleftrightarrow> e1 = None"
    using assms(4) one two cfg by (auto simp: startDNS_def Let_def split: option.splits)
  moreover have "owned cfg (names \<union> {''DNS-UDP'', ''DNS-TCP''}) socks1 s1"
    "owned cfg (names \<union> {''DNS-UDP'', ''DNS-TCP''}) socks2 s2"
    by (rule owned_mono [OF o1(1)], blast) (rule owned_mono [OF o2(1)], blast)
  ultimately show "owned cfg (names \<union> {''DNS-UDP'', ''DNS-TCP''}) socks' s'" "set (sv_services s) \<subseteq> set (sv_services s')"
    "err = None \<Longrightarrow> ''DNS-UDP'' \<in> set (sv_services s')"
    using o1(2,3) o2(2) by (auto split: if_splits)
qed

lemma owned_startHTTP:
  assumes "owned cfg names socks s" "''HTTP'' \<notin> names" "startHTTP os (socks, s) = (err, socks', s')"
  shows "owned cfg (insert ''HTTP'' names) socks' s'" "set (sv_services s) \<subseteq> set (sv_services s')"
    "err = None \<Longrightarrow> ''HTTP'' \<in> set (sv_services s')"
proof -
  let ?a = "JoinHostPort (ListenIP cfg) (HTTPPort cfg)"
  have cfg: "sv_cfg s = cfg" using assms(1) by (simp add: owned_def)
  obtain e1 where one: "start_service os ''HTTP'' ''tcp'' ?a (socks, s) = (e1, socks', s')" "err = None \<longleftrightarrow> e1 = None"
    using assms(3) cfg
    by (cases "start_service os ''HTTP'' ''tcp'' ?a (socks, s)") (auto simp: startHTTP_def Let_def split: option.splits)
  have sock: "service_socket cfg ''HTTP'' = (''tcp'', ?a)" "is_listener ''HTTP''"
    by (simp_all add: service_socket_def service_port_def is_listener_def)
  show "owned cfg (insert ''HTTP'' names) socks' s'" "set (sv_services s) \<subseteq> set (sv_services s')"
    "err = None \<Longrightarrow> ''HTTP'' \<in> set (sv_services s')"
    using owned_start_service [OF assms(1,2) sock(2,1) one(1)] one(2) by auto
qed

lemma owned_startPprof:
  assumes "owned cfg names socks s" "''pprof'' \<notin> names" "startPprof os (socks, s) = (err, socks', s')"
  shows "owned cfg (insert ''pprof'' names) socks' s'"
proof -
  have "is_listener ''pprof''" "service_socket cfg ''pprof'' = (''tcp'', ''127.0.0.1:8086'')"
    by (simp_all add: service_socket_def is_listener_def)
  from owned_start_service(1) [OF assms(1,2) this assms(3) [unfolded startPprof_def]] show ?thesis .
qed

lemma disjoint_mono: "A \<subseteq> G \<Longrightarrow> N \<inter> G = {} \<Longrightarrow> A \<inter> N = {}"
  by auto

lemma owned_goroutines:
  assumes "owned cfg names socks s" and "xs \<in> interleavings (start_goroutines env cfg tls)"
    and "names \<inter> {''HTTPS'', ''SMTP'', ''SMTP-STARTTLS'', ''SMTPS'', ''LDAP'', ''FTP'', ''FTPS''} = {}"
    and "fold (run_step os) xs (socks, s) = (socks', s')"
  shows "\<exists>names'. owned cfg names' socks' s'" "set (sv_services s) \<subseteq> set (sv_services s')"
proof -
  note ns = interleaved_names [OF assms(2)] and gs = goroutine_steps [of env cfg tls]
  have "distinct (concat (map step_name xs))"
    using gs(2) mset_eq_imp_distinct_iff [OF ns(1)] by simp
  moreover have "set (concat (map step_name xs)) \<inter> names = {}"
    unfolding mset_eq_setD [OF ns(1)] by (rule disjoint_mono [OF gs(3) assms(3)])
  moreover have "\<forall>x \<in> set xs. step_ok cfg x" using gs(1) ns(2) by simp
  ultimately show "\<exists>names'. owned cfg names' socks' s'" "set (sv_services s) \<subseteq> set (sv_services s')"
    using owned_run_steps [OF assms(1) _ _ _ assms(4)] by auto
qed

lemma six_exits:
  assumes "(if a then x1 else if b then x2 else if c then x3 else if d then x4 else if e then x5 else x6) = y"
    and "P x1" "P x2" "c \<Longrightarrow> P x3" "P x4" "e \<Longrightarrow> P x5" "\<not> c \<Longrightarrow> \<not> e \<Longrightarrow> P x6"
  shows "P y"
  using assms by (auto split: if_splits)

lemma start_owned:
  fixes s s' :: "'db server"
  assumes "sv_services s = []" and schedule: "\<And>gs. se_schedule env gs \<in> interleavings gs"
    and start: "Start env ([], s) = (err, tls, socks, s')"
  shows "(\<exists>names. owned (sv_cfg s) names socks s')
     \<and> (err = None \<longrightarrow> {''user-agent-report'', ''DNS-UDP'', ''HTTP''} \<subseteq> set (sv_services s'))"
proof -
  let ?cfg = "sv_cfg s"
  have own0: "owned ?cfg {} [] s" using assms(1) by (simp add: owned_def)
  let ?Q = "\<lambda>err socks (s' :: 'db server). (\<exists>names. owned ?cfg names socks s')
     \<and> (err = None \<longrightarrow> {''user-agent-report'', ''DNS-UDP'', ''HTTP''} \<subseteq> set (sv_services s'))"
  have result: "?Q er k z" if "owned ?cfg N k z" "er \<noteq> None" for N er k and z :: "'db server"
    using that by auto
  obtain e1 k1 s1 where r1: "(if EnablePprof ?cfg then startPprof (se_os env) ([], s) else (None, [], s)) = (e1, k1, s1)"
    by (rule prod_cases3)
  have o1: "owned ?cfg {''pprof''} k1 s1"
    using owned_startPprof [OF own0 _, of "se_os env"] owned_mono [OF own0] r1 by (auto split: if_splits)
  let ?s1 = "addService ''user-agent-report'' s1"
  obtain e2 s2 where r2: "resolveIPs (se_ips env) ?s1 = (e2, s2)" by fastforce
  have "owned ?cfg {''user-agent-report'', ''pprof''} k1 ?s1"
    by (rule owned_background [OF o1]) (simp_all add: is_listener_def)
  then have o2: "owned ?cfg {''user-agent-report'', ''pprof''} k1 s2"
    and u2: "''user-agent-report'' \<in> set (sv_services s2)"
    using resolveIPs_services [OF r2] owned_update [of _ _ _ ?s1 s2] by (auto simp: addService_def)
  obtain e3 k3 s3 where r3: "startDNS (se_os env) (k1, s2) = (e3, k3, s3)" by (rule prod_cases3)
  note o3 = owned_startDNS [OF o2 _ _ r3, simplified]
  obtain t s4 where r4: "start_tls env s3 = (t, s4)" by fastforce
  note o4 = start_tls_services [OF r4 o3(1), simplified]
  obtain e5 s5 where r5: "loadHTTPFiles (se_readFile env) s4 = (e5, s5)" by fastforce
  note same5 = loadHTTPFiles_services [OF r5]
  note o5 = owned_update [OF o4(1) conjunct1 [OF same5] conjunct2 [OF same5]]
  obtain e6 k6 s6 where r6: "startHTTP (se_os env) (k3, s5) = (e6, k6, s6)" by (rule prod_cases3)
  note o6 = owned_startHTTP [OF o5 _ r6, simplified]
  have cfg6: "sv_cfg s6 = ?cfg" using o6(1) by (simp add: owned_def)
  obtain k7 s7 where r7: "fold (run_step (se_os env)) (se_schedule env (start_goroutines env ?cfg (t \<noteq> None))) (k6, s6) = (k7, s7)"
    by fastforce
  note o7 = owned_goroutines [OF o6(1) schedule _ r7, simplified]
  have run: "Start env ([], s) =
     (if e1 \<noteq> None then (Some (''pprof: '' @ the e1), None, k1, s1)
      else if e2 \<noteq> None then (Some (''ip resolution: '' @ the e2), None, k1, s2)
      else if e3 \<noteq> None then (e3, None, k3, s3)
      else if e5 \<noteq> None then (Some (''http files: '' @ the e5), t, k3, s5)
      else if e6 \<noteq> None then (e6, t, k6, s6) else (None, t, k7, s7))"
    using r1 r2 r3 r4 r5 r6 r7 cfg6 by (auto simp: Start_def split: option.splits if_splits)
  have last: "?Q None k7 s7" if "e3 = None" "e6 = None"
    using o7 o6(2,3) o4(2) o3(2,3) u2 same5 that by auto
  have "case (err, tls, socks, s') of (er, t, k, z) \<Rightarrow> ?Q er k z"
  proof (rule six_exits [OF trans [OF run [symmetric] start]], unfold prod.case)
    show "?Q (Some (''pprof: '' @ the e1)) k1 s1" by (rule result [OF o1]) simp
    show "?Q (Some (''ip resolution: '' @ the e2)) k1 s2" by (rule result [OF o2]) simp
    show "?Q e3 k3 s3" if "e3 \<noteq> None" by (rule result [OF o3(1) that])
    show "?Q (Some (''http files: '' @ the e5)) k3 s5" by (rule result [OF o5]) simp
    show "?Q e6 k6 s6" if "e6 \<noteq> None" by (rule result [OF o6(1) that])
    show "?Q None k7 s7" if "\<not> e3 \<noteq> None" "\<not> e6 \<noteq> None"
      by (rule last) (use that in simp_all)
  qed
  then show ?thesis by simp
qed

text \<open>
  C12: no listener is left without a service.  Whatever the operating system refuses and however the
  goroutines interleave, when \<open>Start\<close> returns, with or without an error, the open sockets are those
  of the services it has added, one per service and in their order, no service was added twice, and
  \<open>Shutdown\<close> closes each of them; a start without an error has the DNS, HTTP and report services.
\<close>

theorem start_leaks_no_listener:
  fixes s s' :: "'db server"
  assumes "sv_services s = []" and schedule: "\<And>gs. se_schedule env gs \<in> interleavings gs"
    and start: "Start env ([], s) = (err, tls, socks, s')"
  shows "distinct (sv_services s') \<and> socks = map (service_socket (sv_cfg s)) (filter is_listener (sv_services s'))
     \<and> set (fst (Shutdown e remove_all s')) = set (sv_services s')
     \<and> (err = None \<longrightarrow> {''user-agent-report'', ''DNS-UDP'', ''HTTP''} \<subseteq> set (sv_services s'))"
  using start_owned [OF assms] by (auto simp: owned_def Shutdown_def)

lemma start_service_error: "fst (start_service os name network addr (socks, s)) = os network addr socks"
  by (simp add: start_service_def net_Listen_def split: option.split)

lemma start_service_cfg: "sv_cfg (snd (snd (start_service os name network addr st))) = sv_cfg (snd st)"
  by (simp add: start_service_def net_Listen_def addService_def split: option.split prod.split)

lemma resolveIPs_cong: "sv_cfg s = sv_cfg s' \<Longrightarrow> fst (resolveIPs iw s) = fst (resolveIPs iw s')"
  by (auto simp: resolveIPs_def split: option.split sum.split)

lemma loadHTTPFiles_cong: "sv_cfg s = sv_cfg s' \<Longrightarrow> fst (loadHTTPFiles rf s) = fst (loadHTTPFiles rf s')"
  by (auto simp: loadHTTPFiles_def split: sum.split)

lemma start_tls_cfg: "sv_cfg (snd (start_tls env s)) = sv_cfg s"
  by (auto simp: start_tls_def provisionTLS_def provisionACME_def addService_def Let_def
      split: sum.split prod.split)

lemma startDNS_start:
  "fst (startDNS os (socks, s)) = None \<longleftrightarrow> os ''udp'' (JoinHostPort (ListenIP (sv_cfg s)) (DNSPort (sv_cfg s))) socks = None"
  "sv_cfg (snd (snd (startDNS os (socks, s)))) = sv_cfg s"
proof -
  let ?a = "JoinHostPort (ListenIP (sv_cfg s)) (DNSPort (sv_cfg s))"
  obtain e k z where r: "start_service os ''DNS-UDP'' ''udp'' ?a (socks, s) = (e, k, z)" by (rule prod_cases3)
  have e: "e = os ''udp'' ?a socks" using start_service_error [of os _ _ ?a socks s] r by (metis fst_conv)
  have z: "sv_cfg z = sv_cfg s" using start_service_cfg [of os _ _ ?a "(socks, s)"] r by (metis snd_conv)
  show "fst (startDNS os (socks, s)) = None \<longleftrightarrow> os ''udp'' ?a socks = None"
    "sv_cfg (snd (snd (startDNS os (socks, s)))) = sv_cfg s"
    by (auto simp: startDNS_def Let_def r e z start_service_cfg split: option.split)
qed

lemma startHTTP_start:
  "fst (startHTTP os (socks, s)) = None \<longleftrightarrow> os ''tcp'' (JoinHostPort (ListenIP (sv_cfg s)) (HTTPPort (sv_cfg s))) socks = None"
proof -
  let ?a = "JoinHostPort (ListenIP (sv_cfg s)) (HTTPPort (sv_cfg s))"
  obtain e k z where r: "start_service os ''HTTP'' ''tcp'' ?a (socks, s) = (e, k, z)" by (rule prod_cases3)
  have e: "e = os ''tcp'' ?a socks" using start_service_error [of os _ _ ?a socks s] r by (metis fst_conv)
  show ?thesis by (auto simp: startHTTP_def Let_def r e split: option.split)
qed

text \<open>
  C13: what stops a start.  \<open>Start\<close> fails exactly when the profiling listener is wanted and refused,
  the addresses cannot be determined, the DNS socket for UDP or the HTTP listener is refused, or a
  configured HTTP file cannot be read; no failure of a certificate, of DNS over TCP, HTTPS, SMTP,
  LDAP or FTP stops it.  (The answers for the three essential sockets do not depend on what else is
  open; every other answer is arbitrary.)
\<close>

theorem start_fails_iff:
  assumes pprof: "\<And>socks. se_os env ''tcp'' ''127.0.0.1:8086'' socks = p"
    and dns: "\<And>socks. se_os env ''udp'' (JoinHostPort (ListenIP (sv_cfg s)) (DNSPort (sv_cfg s))) socks = d"
    and http: "\<And>socks. se_os env ''tcp'' (JoinHostPort (ListenIP (sv_cfg s)) (HTTPPort (sv_cfg s))) socks = h"
  shows "fst (Start env (socks, s)) = None \<longleftrightarrow>
     (EnablePprof (sv_cfg s) \<longrightarrow> p = None) \<and> fst (resolveIPs (se_ips env) s) = None \<and> d = None
     \<and> fst (loadHTTPFiles (se_readFile env) s) = None \<and> h = None"
proof -
  let ?cfg = "sv_cfg s"
  obtain e1 k1 s1 where r1: "(if EnablePprof ?cfg then startPprof (se_os env) (socks, s) else (None, socks, s)) = (e1, k1, s1)"
    by (rule prod_cases3)
  have c1: "sv_cfg s1 = ?cfg" and e1: "e1 = None \<longleftrightarrow> (EnablePprof ?cfg \<longrightarrow> p = None)"
    using r1 start_service_cfg [of "se_os env" "''pprof''" "''tcp''" "''127.0.0.1:8086''" "(socks, s)"]
      start_service_error [of "se_os env" "''pprof''" "''tcp''" "''127.0.0.1:8086''" socks s]
    by (auto simp: startPprof_def pprof split: if_splits)
  let ?s1 = "addService ''user-agent-report'' s1"
  have cs1: "sv_cfg ?s1 = ?cfg" using c1 by (simp add: addService_def)
  obtain e2 s2 where r2: "resolveIPs (se_ips env) ?s1 = (e2, s2)" by fastforce
  have c2: "sv_cfg s2 = ?cfg" and e2: "e2 = fst (resolveIPs (se_ips env) s)"
    using resolveIPs_services [OF r2] resolveIPs_cong [OF cs1, of "se_ips env"] r2 cs1 by simp_all
  obtain e3 k3 s3 where r3: "startDNS (se_os env) (k1, s2) = (e3, k3, s3)" by (rule prod_cases3)
  have c3: "sv_cfg s3 = ?cfg" and e3: "e3 = None \<longleftrightarrow> d = None"
    using startDNS_start [of "se_os env" k1 s2] by (simp_all add: r3 c2 dns)
  obtain t s4 where r4: "start_tls env s3 = (t, s4)" by fastforce
  have c4: "sv_cfg s4 = ?cfg" using start_tls_cfg [of env s3] r4 c3 by simp
  obtain e5 s5 where r5: "loadHTTPFiles (se_readFile env) s4 = (e5, s5)" by fastforce
  have c5: "sv_cfg s5 = ?cfg" and e5: "e5 = fst (loadHTTPFiles (se_readFile env) s)"
    using loadHTTPFiles_services [OF r5] loadHTTPFiles_cong [OF c4, of "se_readFile env"] r5 c4 by simp_all
  obtain e6 k6 s6 where r6: "startHTTP (se_os env) (k3, s5) = (e6, k6, s6)" by (rule prod_cases3)
  have e6: "e6 = None \<longleftrightarrow> h = None"
    using startHTTP_start [of "se_os env" k3 s5] by (simp add: r6 c5 http)
  have "fst (Start env (socks, s)) = None \<longleftrightarrow> e1 = None \<and> e2 = None \<and> e3 = None \<and> e5 = None \<and> e6 = None"
    using r1 by (auto simp: Start_def r2 r3 r4 r5 r6 split: option.split)
  then show ?thesis unfolding e1 e2 e3 e5 e6 by auto
qed

text \<open>A start at which everything is refused but the sockets for DNS over UDP and for HTTP.\<close>

definition demo_start :: "(unit, unit) start_env" where
  "demo_start = \<lparr>se_os = (\<lambda>network addr _. if (network, addr) \<in> set [(''udp'', '':53''), (''tcp'', '':80'')]
       then None else Some ''address already in use''),
     se_ips = \<lparr>iw_external = (\<lambda>_. Inl ''offline''), iw_interfaces = Inl ''offline'', iw_udp = (\<lambda>_. Inl ''offline'')\<rparr>,
     se_reloader = Inl ''no files'', se_home = Inl ''no home'', se_manage = (\<lambda>_ _ _. (None, ())), se_acme = (),
     se_selfKey = Some ''no entropy'', se_selfCert = None, se_readFile = (\<lambda>_. Inl ''no file''),
     se_mkdirTemp = Inl ''no space'', se_newFTP = (\<lambda>_. None), se_schedule = concat\<rparr>"

definition demo_start_server :: "(bytes \<Rightarrow> bytes option) server" where
  "demo_start_server = demo_server\<lparr>sv_cfg := demo_config\<lparr>IPs := [''192.0.2.1''], DNSPort := 53, HTTPPort := 80\<rparr>\<rparr>"

lemma concat_interleaves: "concat xss \<in> interleavings xss"
proof (induction xss)
  case (Cons xs xss)
  have "xs @ ys \<in> shuffles xs ys" for ys :: "'a list"
  proof (induction xs)
    case (Cons x xs)
    then show ?case by (cases ys) auto
  qed simp
  with Cons show ?case by auto
qed simp

lemma demo_start_facts:
  "sv_cfg demo_start_server = demo_config\<lparr>IPs := [''192.0.2.1''], DNSPort := 53, HTTPPort := 80\<rparr>"
  "sv_services demo_start_server = []" "se_schedule demo_start = concat"
  "ListenIP (sv_cfg demo_start_server) = []" "EnablePprof (sv_cfg demo_start_server) = False"
  "JoinHostPort [] 53 = '':53''" "JoinHostPort [] 80 = '':80''"
  by (simp_all add: demo_start_server_def demo_server_def demo_start_def demo_config_def zero_Config_def) code_simp+

theorem start_fails_iff_witness: "fst (Start demo_start ([], demo_start_server)) = None"
proof -
  have os: "se_os demo_start = (\<lambda>network addr _. if (network, addr) \<in> set [(''udp'', '':53''), (''tcp'', '':80'')]
       then None else Some ''address already in use'')" by (simp add: demo_start_def)
  have ports: "DNSPort (sv_cfg demo_start_server) = 53" "HTTPPort (sv_cfg demo_start_server) = 80"
    by (simp_all add: demo_start_facts)
  have "fst (resolveIPs (se_ips demo_start) demo_start_server) = None"
    by (simp add: resolveIPs_def demo_start_facts)
  moreover have "fst (loadHTTPFiles (se_readFile demo_start) demo_start_server) = None"
    by (simp add: loadHTTPFiles_def demo_start_facts demo_config_def zero_Config_def)
  ultimately show ?thesis
    using start_fails_iff [of demo_start "Some ''address already in use''" demo_start_server None None "[]"]
    by (simp add: os ports demo_start_facts(4-7))
qed

theorem start_leaks_no_listener_witness:
  "case Start demo_start ([], demo_start_server) of (err, tls, socks, s') \<Rightarrow>
     distinct (sv_services s') \<and> set (fst (Shutdown demo_env (\<lambda>_. None) s')) = set (sv_services s')
     \<and> socks = map (service_socket (sv_cfg demo_start_server)) (filter is_listener (sv_services s'))"
proof -
  have schedule: "se_schedule demo_start gs \<in> interleavings gs" for gs
    by (simp add: demo_start_facts concat_interleaves)
  obtain err tls socks s' where run: "Start demo_start ([], demo_start_server) = (err, tls, socks, s')"
    by (metis surj_pair)
  show ?thesis
    using start_leaks_no_listener [OF demo_start_facts(2) schedule run, of demo_env "\<lambda>_. None"] by (simp add: run)
qed

end
