(* ===== verification/Cli.thy ===== *)
theory Cli
  imports Client Server_Config Go_Net
begin

text \<open>
  The client program (\<open>src/config.go\<close>, \<open>src/output.go\<close>, \<open>src/main.go\<close>): its configuration from
  file and flags, the patterns, what is displayed and how, the callback with its count, and how the
  program ends.  The file system, the YAML and JSON codecs, regular expressions, time formatting and
  the writers are arguments.
\<close>

section \<open>Configuration\<close>

record cli_Config =
  cli_Server :: string
  cli_Token :: string
  cli_Number :: int
  cli_PollInterval :: int
  cli_NoHTTPFallback :: bool
  cli_CorrelationIdLength :: int
  cli_CorrelationIdNonceLength :: int
  cli_KeepAliveInterval :: int
  cli_DNSOnly :: bool
  cli_HTTPOnly :: bool
  cli_SMTPOnly :: bool
  cli_FTPOnly :: bool
  cli_LDAPOnly :: bool
  cli_JSON :: bool
  cli_Verbose :: bool
  cli_Timeout :: int
  cli_Count :: int
  cli_Redirect :: string
  cli_ResponseStatus :: int
  cli_ResponseHeaders :: "string list"
  cli_ResponseBody :: string

definition cli_defaults :: cli_Config where
  "cli_defaults = \<lparr>cli_Server = [], cli_Token = [], cli_Number = 1, cli_PollInterval = 2, cli_NoHTTPFallback = False,
     cli_CorrelationIdLength = 0, cli_CorrelationIdNonceLength = 0,
     cli_KeepAliveInterval = opt_KeepAliveInterval DefaultOptions,
     cli_DNSOnly = False, cli_HTTPOnly = False, cli_SMTPOnly = False, cli_FTPOnly = False, cli_LDAPOnly = False,
     cli_JSON = False, cli_Verbose = False, cli_Timeout = 0, cli_Count = 0, cli_Redirect = [],
     cli_ResponseStatus = 0, cli_ResponseHeaders = [], cli_ResponseBody = []\<rparr>"

text \<open>Reading the file: the error and whether it says that the file does not exist, or the content.\<close>

definition cli_LoadConfig ::
  "(string \<Rightarrow> (bool \<times> string) + string) \<Rightarrow> (string \<Rightarrow> cli_Config \<Rightarrow> string option \<times> cli_Config)
     \<Rightarrow> string \<Rightarrow> string option \<times> cli_Config" where
  "cli_LoadConfig readFile unmarshal path = (case readFile path of
      Inl (isNotExist, err) \<Rightarrow> (if isNotExist then None else Some err, cli_defaults)
    | Inr data \<Rightarrow> unmarshal data cli_defaults)"

definition buildResponseConfig :: "cli_Config \<Rightarrow> ResponseConfig option result" where
  "buildResponseConfig cfg =
     (let redirectSet = (cli_Redirect cfg \<noteq> []);
          responseSet = (cli_ResponseStatus cfg \<noteq> 0 \<or> cli_ResponseHeaders cfg \<noteq> [] \<or> cli_ResponseBody cfg \<noteq> [])
      in if redirectSet \<and> responseSet
         then Inl ''--redirect cannot be combined with --response-status/--response-header/--response-body''
         else if redirectSet
         then Inr (Some \<lparr>StatusCode = 307, Headers = [''Location: '' @ cli_Redirect cfg], Body = []\<rparr>)
         else if responseSet
         then Inr (Some \<lparr>StatusCode = (if cli_ResponseStatus cfg = 0 then 200 else cli_ResponseStatus cfg),
                         Headers = cli_ResponseHeaders cfg, Body = cli_ResponseBody cfg\<rparr>)
         else Inr None)"

definition ParseCommaSeparated :: "string \<Rightarrow> string list" where
  "ParseCommaSeparated input =
     (if input = [] then [] else filter (\<lambda>p. p \<noteq> []) (map trim_space (split_on CHR '','' input)))"

definition DefaultConfigPath :: "string option \<Rightarrow> string" where
  "DefaultConfigPath configDir = (case configDir of
      None \<Rightarrow> []
    | Some dir \<Rightarrow> filepath_Join (filepath_Join dir ''interactsh-client'') ''config.yaml'')"

text \<open>The flags that were given replace the fields they stand for.\<close>

definition cli_override :: "string set \<Rightarrow> cli_Config \<Rightarrow> cli_Config \<Rightarrow> cli_Config" where
  "cli_override ch fl c = c\<lparr>
     cli_Server := if flagChanged ch [''server''] then cli_Server fl else cli_Server c,
     cli_Token := if flagChanged ch [''token''] then cli_Token fl else cli_Token c,
     cli_Number := if flagChanged ch [''number''] then cli_Number fl else cli_Number c,
     cli_PollInterval := if flagChanged ch [''poll-interval'', ''pi''] then cli_PollInterval fl else cli_PollInterval c,
     cli_NoHTTPFallback := if flagChanged ch [''no-http-fallback'', ''nf'']
       then cli_NoHTTPFallback fl else cli_NoHTTPFallback c,
     cli_CorrelationIdLength := if flagChanged ch [''correlation-id-length'', ''cidl'']
       then cli_CorrelationIdLength fl else cli_CorrelationIdLength c,
     cli_CorrelationIdNonceLength := if flagChanged ch [''correlation-id-nonce-length'', ''cidn'']
       then cli_CorrelationIdNonceLength fl else cli_CorrelationIdNonceLength c,
     cli_KeepAliveInterval := if flagChanged ch [''keep-alive-interval'', ''kai'']
       then cli_KeepAliveInterval fl else cli_KeepAliveInterval c\<rparr>"

definition cli_override_output :: "string set \<Rightarrow> cli_Config \<Rightarrow> cli_Config \<Rightarrow> cli_Config" where
  "cli_override_output ch fl c = c\<lparr>
     cli_DNSOnly := if flagChanged ch [''dns-only''] then cli_DNSOnly fl else cli_DNSOnly c,
     cli_HTTPOnly := if flagChanged ch [''http-only''] then cli_HTTPOnly fl else cli_HTTPOnly c,
     cli_SMTPOnly := if flagChanged ch [''smtp-only''] then cli_SMTPOnly fl else cli_SMTPOnly c,
     cli_FTPOnly := if flagChanged ch [''ftp-only''] then cli_FTPOnly fl else cli_FTPOnly c,
     cli_LDAPOnly := if flagChanged ch [''ldap-only''] then cli_LDAPOnly fl else cli_LDAPOnly c,
     cli_JSON := if flagChanged ch [''json''] then cli_JSON fl else cli_JSON c,
     cli_Verbose := if flagChanged ch [''verbose''] then cli_Verbose fl else cli_Verbose c,
     cli_Timeout := if flagChanged ch [''timeout''] then cli_Timeout fl else cli_Timeout c,
     cli_Count := if flagChanged ch [''count''] then cli_Count fl else cli_Count c,
     cli_Redirect := if flagChanged ch [''redirect''] then cli_Redirect fl else cli_Redirect c,
     cli_ResponseStatus := if flagChanged ch [''response-status''] then cli_ResponseStatus fl else cli_ResponseStatus c,
     cli_ResponseHeaders := if flagChanged ch [''response-header'']
       then cli_ResponseHeaders fl else cli_ResponseHeaders c,
     cli_ResponseBody := if flagChanged ch [''response-body''] then cli_ResponseBody fl else cli_ResponseBody c\<rparr>"

section \<open>Patterns\<close>

text \<open>
  \<open>file_lines v\<close>: nothing when \<open>v\<close> is not a regular file that exists; else the error of opening it, or
  the lines that were scanned with the error that ended the scan, if one did.
\<close>

primrec expandPatterns ::
  "(string \<Rightarrow> (string list \<times> string option) result option) \<Rightarrow> string list \<Rightarrow> string list \<Rightarrow> string list result" where
  "expandPatterns file_lines [] acc = Inr acc"
| "expandPatterns file_lines (v # vs) acc = (case file_lines v of
      None \<Rightarrow> expandPatterns file_lines vs (acc @ ParseCommaSeparated v)
    | Some (Inl err) \<Rightarrow> Inl err
    | Some (Inr (ls, err)) \<Rightarrow> (case err of
        Some text \<Rightarrow> Inl text
      | None \<Rightarrow> expandPatterns file_lines vs
                  (acc @ filter (\<lambda>l. l \<noteq> [] \<and> \<not> has_prefix l ''#'') (map trim_space ls))))"

primrec compilePatterns :: "(string \<Rightarrow> 're result) \<Rightarrow> string \<Rightarrow> string list \<Rightarrow> 're list result" where
  "compilePatterns compile kind [] = Inr []"
| "compilePatterns compile kind (p # ps) = (case compile p of
      Inl err \<Rightarrow> Inl (''invalid '' @ kind @ '' pattern '' @ go_quote p @ '': '' @ err)
    | Inr re \<Rightarrow> (case compilePatterns compile kind ps of Inl err \<Rightarrow> Inl err | Inr res \<Rightarrow> Inr (re # res)))"

definition matchesInteraction :: "('re \<Rightarrow> string \<Rightarrow> bool) \<Rightarrow> Interaction \<Rightarrow> 're \<Rightarrow> bool" where
  "matchesInteraction matchString i re \<longleftrightarrow> matchString re (FullId i) \<or> matchString re (RawRequest i)
     \<or> matchString re (RawResponse i) \<or> matchString re (RemoteAddress i)"

definition shouldDisplay ::
  "('re \<Rightarrow> string \<Rightarrow> bool) \<Rightarrow> cli_Config \<Rightarrow> 're list \<Rightarrow> 're list \<Rightarrow> Interaction \<Rightarrow> bool" where
  "shouldDisplay matchString c matchRegexes filterRegexes i =
     (let noFilter = (\<not> cli_DNSOnly c \<and> \<not> cli_HTTPOnly c \<and> \<not> cli_SMTPOnly c \<and> \<not> cli_FTPOnly c \<and> \<not> cli_LDAPOnly c);
          protocol = to_lower (Protocol i);
          shown = (if protocol = ''dns'' then noFilter \<or> cli_DNSOnly c
                   else if protocol = ''http'' \<or> protocol = ''https'' then noFilter \<or> cli_HTTPOnly c
                   else if protocol = ''smtp'' then noFilter \<or> cli_SMTPOnly c
                   else if protocol = ''ftp'' then noFilter \<or> cli_FTPOnly c
                   else if protocol = ''ldap'' then noFilter \<or> cli_LDAPOnly c
                   else noFilter)
      in if \<not> shown then False
         else if matchRegexes \<noteq> [] \<and> \<not> list_ex (matchesInteraction matchString i) matchRegexes then False
         else \<not> list_ex (matchesInteraction matchString i) filterRegexes)"

section \<open>Output\<close>

definition ansi :: "string \<Rightarrow> string" where "ansi code = CHR 0x1B # ''['' @ code @ ''m''"

definition ansiReset :: string where "ansiReset = ansi ''0''"
definition ansiBold :: string where "ansiBold = ansi ''1''"
definition ansiRed :: string where "ansiRed = ansi ''31''"
definition ansiYellow :: string where "ansiYellow = ansi ''33''"
definition ansiBlue :: string where "ansiBlue = ansi ''34''"
definition ansiCyan :: string where "ansiCyan = ansi ''36''"

definition enableColors :: "bool \<Rightarrow> string \<Rightarrow> bool \<Rightarrow> bool \<Rightarrow> string \<Rightarrow> bool" where
  "enableColors jsonOutput outputFile stdoutTerminal stderrTerminal no_color \<longleftrightarrow>
     \<not> jsonOutput \<and> outputFile = [] \<and> stdoutTerminal \<and> stderrTerminal \<and> no_color = []"

text \<open>A tag is \<open>[INF]\<close>, \<open>[WRN]\<close> or \<open>[ERR]\<close>, with its letters coloured or plain.\<close>

definition tag :: "bool \<Rightarrow> string \<Rightarrow> string \<Rightarrow> string" where
  "tag useColor color letters =
     (if useColor then ''['' @ color @ letters @ ansiReset @ '']'' else ''['' @ letters @ '']'')"

definition styleWrap :: "bool \<Rightarrow> string \<Rightarrow> string \<Rightarrow> string" where
  "styleWrap useColor code s = (if useColor then code @ s @ ansiReset else s)"

abbreviation newline :: string where "newline \<equiv> [CHR 0x0A]"

definition standard_line :: "bool \<Rightarrow> (int \<Rightarrow> string) \<Rightarrow> Interaction \<Rightarrow> string" where
  "standard_line useColor format_time i =
     (let protocol = to_lower (Protocol i);
          source = '' from '' @ styleWrap useColor ansiBold (RemoteAddress i)
      in ''['' @ styleWrap useColor ansiCyan (FullId i) @ ''] '' @ styleWrap useColor ansiBold (to_upper (Protocol i))
         @ (if protocol = ''dns'' then '' '' @ styleWrap useColor ansiBold (''('' @ QType i @ '')'') @ source
            else if protocol = ''smb'' \<or> protocol = ''responder'' then [] else source)
         @ '' at '' @ format_time (Timestamp i) @ newline)"

definition raw_section :: "string \<Rightarrow> string \<Rightarrow> string \<Rightarrow> string \<Rightarrow> string" where
  "raw_section ruler protocol kind raw =
     ruler @ newline @ protocol @ '' '' @ kind @ newline @ ruler @ newline @ newline @ raw @ newline"

text \<open>A write gives the error, if there is one, and the writer after it.\<close>

type_synonym 'w writing = "string \<Rightarrow> 'w \<Rightarrow> string option \<times> 'w"

definition formatStandard ::
  "'w writing \<Rightarrow> bool \<Rightarrow> (int \<Rightarrow> string) \<Rightarrow> Interaction \<Rightarrow> bool \<Rightarrow> 'w \<Rightarrow> string option \<times> 'w" where
  "formatStandard write useColor format_time i verbose w0 =
     (let protocol = styleWrap useColor ansiBold (to_upper (Protocol i))
      in case write (standard_line useColor format_time i) w0 of
           (Some err, w1) \<Rightarrow> (Some err, w1)
         | (None, w1) \<Rightarrow>
             let w2 = (if verbose \<and> RawRequest i \<noteq> []
                       then snd (write (raw_section ''-----------'' protocol ''Request'' (RawRequest i)) w1) else w1);
                 w3 = (if verbose \<and> RawResponse i \<noteq> []
                       then snd (write (raw_section ''------------'' protocol ''Response'' (RawResponse i)) w2) else w2)
             in (None, w3))"

definition formatJSON :: "'w writing \<Rightarrow> (Interaction \<Rightarrow> string result) \<Rightarrow> Interaction \<Rightarrow> 'w \<Rightarrow> string option \<times> 'w" where
  "formatJSON write marshal i w = (case marshal (i\<lparr>Protocol := to_lower (Protocol i)\<rparr>) of
      Inl err \<Rightarrow> (Some err, w)
    | Inr data \<Rightarrow> write (data @ newline) w)"

section \<open>The callback and its count\<close>

text \<open>
  \<open>dp_closed\<close> counts how often \<open>doneCh\<close> is closed: a second time would be a panic.  Errors of
  formatting are only reported.
\<close>

record 'w display =
  dp_writer :: 'w
  dp_errors :: "string list"
  dp_count :: int
  dp_closed :: nat

definition new_display :: "'w \<Rightarrow> 'w display" where
  "new_display w = \<lparr>dp_writer = w, dp_errors = [], dp_count = 0, dp_closed = 0\<rparr>"

definition cli_on_interaction ::
  "(Interaction \<Rightarrow> bool) \<Rightarrow> (Interaction \<Rightarrow> 'w \<Rightarrow> string option \<times> 'w) \<Rightarrow> int \<Rightarrow> Interaction
     \<Rightarrow> 'w display \<Rightarrow> 'w display" where
  "cli_on_interaction display_it format limit i d =
     (if \<not> display_it i then d
      else case format i (dp_writer d) of (err, w) \<Rightarrow>
        let d1 = d\<lparr>dp_writer := w,
                   dp_errors := dp_errors d @ (case err of None \<Rightarrow> [] | Some text \<Rightarrow> [''Format error: '' @ text])\<rparr>
        in if limit > 0
           then let n = wrap64 (dp_count d1 + 1); d2 = d1\<lparr>dp_count := n\<rparr>
                in if n = limit then d2\<lparr>dp_closed := dp_closed d2 + 1\<rparr> else d2
           else d1)"

section \<open>Start and end of the program\<close>

definition cli_options :: "cli_Config \<Rightarrow> ResponseConfig option \<Rightarrow> Options" where
  "cli_options cfg responseCfg = zero_Options\<lparr>
     opt_ServerURLs := ParseCommaSeparated (cli_Server cfg), opt_Token := cli_Token cfg,
     opt_KeepAliveInterval := cli_KeepAliveInterval cfg,
     opt_DisableKeepAlive := (cli_KeepAliveInterval cfg \<le> 0),
     opt_DisableHTTPFallback := cli_NoHTTPFallback cfg,
     opt_CorrelationIdLength := cli_CorrelationIdLength cfg,
     opt_CorrelationIdNonceLength := cli_CorrelationIdNonceLength cfg,
     opt_Response := responseCfg\<rparr>"

definition payloadCount :: "cli_Config \<Rightarrow> nat" where
  "payloadCount cfg = (if cli_Number cfg < 1 then 1 else nat (cli_Number cfg))"

text \<open>
  From the loaded configuration to the options of the client, or to the message the program exits
  with; \<open>createOutput\<close> is the error of creating the output file, if one was asked for.
\<close>

definition cli_prepare ::
  "string option \<times> cli_Config \<Rightarrow> string set \<Rightarrow> cli_Config
     \<Rightarrow> (string \<Rightarrow> (string list \<times> string option) result option) \<Rightarrow> (string \<Rightarrow> 're result)
     \<Rightarrow> string list \<Rightarrow> string list \<Rightarrow> string option
     \<Rightarrow> (cli_Config \<times> 're list \<times> 're list \<times> Options) result" where
  "cli_prepare loaded ch fl file_lines compile matchPatterns filterPatterns createOutput = (case loaded of
      (Some err, _) \<Rightarrow> Inl (''Could not load config: '' @ err)
    | (None, file) \<Rightarrow>
        let cfg = cli_override_output ch fl (cli_override ch fl file)
        in if cli_Timeout cfg < 0 then Inl ''--timeout must not be negative''
           else if cli_Count cfg < 0 then Inl ''--count must not be negative''
           else (case expandPatterns file_lines matchPatterns [] of
               Inl err \<Rightarrow> Inl (''Could not read match patterns: '' @ err)
             | Inr allMatch \<Rightarrow> (case expandPatterns file_lines filterPatterns [] of
                 Inl err \<Rightarrow> Inl (''Could not read filter patterns: '' @ err)
               | Inr allFilter \<Rightarrow> (case compilePatterns compile ''match'' allMatch of
                   Inl err \<Rightarrow> Inl err
                 | Inr matchRegexes \<Rightarrow> (case compilePatterns compile ''filter'' allFilter of
                     Inl err \<Rightarrow> Inl err
                   | Inr filterRegexes \<Rightarrow> (case createOutput of
                       Some err \<Rightarrow> Inl (''Could not open output file: '' @ err)
                     | None \<Rightarrow> (case buildResponseConfig cfg of
                         Inl err \<Rightarrow> Inl err
                       | Inr responseCfg \<Rightarrow>
                           Inr (cfg, matchRegexes, filterRegexes, cli_options cfg responseCfg))))))))"

datatype end_reason = ReasonSignal | ReasonTimeout | ReasonCount

text \<open>The message at the end, if there is one, and the exit code.\<close>

definition cli_finish :: "cli_Config \<Rightarrow> end_reason \<Rightarrow> int \<Rightarrow> string option \<times> int" where
  "cli_finish cfg reason received =
     (let ratio = itoa received @ ''/'' @ itoa (cli_Count cfg)
      in case reason of
           ReasonSignal \<Rightarrow> (None, 0)
         | ReasonTimeout \<Rightarrow>
             if cli_Count cfg > 0
             then (if received \<ge> cli_Count cfg
                   then (Some (''Received '' @ ratio @ '' interactions, stopping...''), 0)
                   else (Some (''Timeout reached ('' @ ratio @ '' interactions received), stopping...''), 1))
             else (Some ''Timeout reached, stopping...'', 0)
         | ReasonCount \<Rightarrow> (Some (''Received '' @ ratio @ '' interactions, stopping...''), 0))"

section \<open>Properties\<close>

text \<open>
  A redirect needs no authentication on the server.  The response that \<open>--redirect\<close> builds is one
  that an unauthenticated server stores and serves, whatever the target; combined with a
  \<open>--response\<close> option it is an error, and without any of them no response is sent.
\<close>

theorem redirect_option_allowed:
  "case buildResponseConfig cfg of
     Inl err \<Rightarrow> cli_Redirect cfg \<noteq> [] \<and> (cli_ResponseStatus cfg, cli_ResponseHeaders cfg, cli_ResponseBody cfg) \<noteq> (0, [], [])
   | Inr rc \<Rightarrow> (if cli_Redirect cfg \<noteq> [] then rc \<noteq> None \<and> IsAllowedUnauthenticated rc
                else (rc = None) = ((cli_ResponseStatus cfg, cli_ResponseHeaders cfg, cli_ResponseBody cfg) = (0, [], [])))"
proof -
  have name: "equal_fold (trim_space ''Location'') ''location''" by code_simp
  have header: "header_name_is_location (''Location: '' @ url)" for url
  proof -
    have "takeWhile (\<lambda>x. x \<noteq> CHR '':'') (''Location: '' @ url) = ''Location''" by simp
    then show ?thesis unfolding header_name_is_location_def using name by (simp only:) simp
  qed
  show ?thesis
  proof (cases "cli_Redirect cfg = []")
    case True
    then show ?thesis by (auto simp only: buildResponseConfig_def Let_def simp_thms if_False sum.case split: if_split)
  next
    case False
    have "IsAllowedUnauthenticated (Some \<lparr>StatusCode = 307, Headers = [''Location: '' @ cli_Redirect cfg], Body = []\<rparr>)"
      using header [of "cli_Redirect cfg"] unfolding IsAllowedUnauthenticated_iff by (simp del: append.simps)
    with False show ?thesis
      unfolding buildResponseConfig_def Let_def
      by (cases "cli_ResponseStatus cfg \<noteq> 0 \<or> cli_ResponseHeaders cfg \<noteq> [] \<or> cli_ResponseBody cfg \<noteq> []")
         (simp_all only: simp_thms if_True if_False sum.case prod.inject, auto)
  qed
qed

lemma interactions_counted:
  assumes "dp_count d = int n" "dp_closed d = (if limit > 0 \<and> int n \<ge> limit then 1 else 0)" "limit > 0"
  shows "int (n + length (filter shown is)) \<le> max_int64 \<Longrightarrow>
     dp_count (fold (cli_on_interaction shown format limit) is d) = int (n + length (filter shown is))
     \<and> dp_closed (fold (cli_on_interaction shown format limit) is d)
         = (if int (n + length (filter shown is)) \<ge> limit then 1 else 0)"
  using assms
proof (induction "is" arbitrary: d n)
  case (Cons i "is")
  show ?case
  proof (cases "shown i")
    case True
    let ?d = "cli_on_interaction shown format limit i d"
    have "wrap64 (int n + 1) = int (Suc n)"
      using Cons.prems(1) True by (intro trans [OF wrap64_id]) (simp_all add: min_int64_def)
    then have "dp_count ?d = int (Suc n)" "dp_closed ?d = (if limit > 0 \<and> int (Suc n) \<ge> limit then 1 else 0)"
      using Cons.prems(2-4) True by (auto simp: cli_on_interaction_def Let_def split: prod.split)
    from Cons.IH [OF _ this Cons.prems(4)] Cons.prems(1) True show ?thesis by simp
  next
    case False
    with Cons.IH [OF _ Cons.prems(2-4)] Cons.prems(1) show ?thesis by (simp add: cli_on_interaction_def)
  qed
qed simp

text \<open>
  C28: the count ends the program once and decides its exit code.  However many interactions arrive,
  \<open>doneCh\<close> is closed at most once, exactly when the displayed ones reach a positive \<open>--count\<close>; at a
  timeout the exit code is 1 exactly when a count was asked for and not reached, and 0 otherwise.
\<close>

theorem count_closes_once:
  assumes "int (length (filter shown is)) \<le> max_int64" and "0 \<le> cli_Count cfg"
    and "d = fold (cli_on_interaction shown format (cli_Count cfg)) is (new_display w)"
  shows "dp_closed d = (if cli_Count cfg > 0 \<and> int (length (filter shown is)) \<ge> cli_Count cfg then 1 else 0)
     \<and> snd (cli_finish cfg ReasonTimeout (dp_count d))
         = (if int (length (filter shown is)) < cli_Count cfg then 1 else 0)"
proof (cases "cli_Count cfg > 0")
  case True
  then show ?thesis
    using interactions_counted [of "new_display w" 0 "cli_Count cfg" shown "is" "format"] assms
    by (simp add: new_display_def cli_finish_def Let_def)
next
  case False
  have "dp_closed (fold (cli_on_interaction shown format (cli_Count cfg)) is d0) = dp_closed d0" for d0
    using False by (induction "is" arbitrary: d0) (simp_all add: cli_on_interaction_def Let_def split: prod.split)
  then show ?thesis
    using False assms(2) by (simp add: assms(3) new_display_def cli_finish_def Let_def)
qed

theorem count_closes_once_witness:
  "let i = zero_Interaction\<lparr>Protocol := ''dns''\<rparr>;
       d = fold (cli_on_interaction (\<lambda>i. Protocol i = ''dns'') (\<lambda>i w. (None, w)) 2) [i, zero_Interaction, i, i] (new_display ())
   in dp_closed d = 1"
proof -
  let ?i = "zero_Interaction\<lparr>Protocol := ''dns''\<rparr>"
  let ?cfg = "cli_defaults\<lparr>cli_Count := 2\<rparr>"
  show ?thesis
    using count_closes_once [of "\<lambda>i. Protocol i = ''dns''" "[?i, zero_Interaction, ?i, ?i]" ?cfg _ "\<lambda>i w. (None, w)" "()", OF _ _ refl]
    by (simp add: zero_Interaction_def max_int64_def Let_def)
qed

end
