(* ===== verification/Flags.thy ===== *)
theory Flags
  imports Cli
begin

text \<open>
  The command-line flags of both programs (the \<open>main\<close> functions): which flags are declared under which
  names, with which variable and default, what the variables hold after parsing, and that a flag
  reaches the setting it stands for under each of its names.  Splitting a command line (package
  pflag) is outside: a command line is the list of the settings that it makes, in order, a use of a
  list flag with the elements that it gives.
\<close>

section \<open>Declarations\<close>

datatype flag_value =
    BoolValue bool
  | IntValue int
  | StringValue string
  | ListValue "string list"
  | DurationValue int

record flag_decl =
  fd_name :: string
  fd_short :: string
  fd_var :: string
  fd_default :: flag_value

abbreviation flagP :: "string \<Rightarrow> string \<Rightarrow> string \<Rightarrow> flag_value \<Rightarrow> flag_decl" where
  "flagP name short var v \<equiv> \<lparr>fd_name = name, fd_short = short, fd_var = var, fd_default = v\<rparr>"

abbreviation flagV :: "string \<Rightarrow> string \<Rightarrow> flag_value \<Rightarrow> flag_decl" where
  "flagV name var v \<equiv> flagP name [] var v"

text \<open>The flags of the server program.\<close>

definition srv_input_flags :: "flag_decl list" where
  "srv_input_flags = [
     flagP ''domain'' ''d'' ''domains'' (ListValue []),
     flagP ''ip'' ''i'' ''ips'' (ListValue []),
     flagV ''listen-ip'' ''listenIP'' (StringValue (ListenIP DefaultConfig)),
     flagV ''lip'' ''listenIP'' (StringValue (ListenIP DefaultConfig)),
     flagP ''eviction'' ''e'' ''eviction'' (IntValue (Eviction DefaultConfig)),
     flagV ''no-eviction'' ''noEviction'' (BoolValue False),
     flagV ''ne'' ''noEviction'' (BoolValue False),
     flagV ''eviction-strategy'' ''evictionStrategy'' (StringValue (EvictionStrategy DefaultConfig)),
     flagV ''es'' ''evictionStrategy'' (StringValue (EvictionStrategy DefaultConfig)),
     flagP ''auth'' ''a'' ''auth'' (BoolValue False),
     flagP ''token'' ''t'' ''token'' (StringValue []),
     flagV ''acao-url'' ''acaoURL'' (StringValue (ACAOUrl DefaultConfig)),
     flagV ''skip-acme'' ''skipACME'' (BoolValue False),
     flagV ''sa'' ''skipACME'' (BoolValue False),
     flagV ''scan-everywhere'' ''scanEverywhere'' (BoolValue False),
     flagV ''se'' ''scanEverywhere'' (BoolValue False),
     flagV ''correlation-id-length'' ''cidLength'' (IntValue (CorrelationIdLength DefaultConfig)),
     flagV ''cidl'' ''cidLength'' (IntValue (CorrelationIdLength DefaultConfig)),
     flagV ''correlation-id-nonce-length'' ''cidnLength'' (IntValue 0),
     flagV ''cidn'' ''cidnLength'' (IntValue 0),
     flagV ''cert'' ''certFile'' (StringValue []),
     flagV ''privkey'' ''privkeyFile'' (StringValue []),
     flagV ''origin-ip-header'' ''originIPHeader'' (StringValue []),
     flagV ''oih'' ''originIPHeader'' (StringValue []),
     flagV ''max-request-size'' ''maxRequestSize'' (IntValue (MaxRequestSize DefaultConfig)),
     flagV ''mrs'' ''maxRequestSize'' (IntValue (MaxRequestSize DefaultConfig)),
     flagV ''max-body-size'' ''maxBodySize'' (IntValue (MaxBodySize DefaultConfig)),
     flagV ''mbs'' ''maxBodySize'' (IntValue (MaxBodySize DefaultConfig))]"

definition srv_config_flags :: "flag_decl list" where
  "srv_config_flags = [
     flagV ''config'' ''configPath'' (StringValue []),
     flagP ''resolvers'' ''r'' ''resolvers'' (ListValue []),
     flagV ''dynamic-resp'' ''dynamicResp'' (BoolValue False),
     flagV ''dr'' ''dynamicResp'' (BoolValue False),
     flagV ''custom-records'' ''customRecords'' (StringValue []),
     flagV ''cr'' ''customRecords'' (StringValue []),
     flagV ''http-index'' ''httpIndex'' (StringValue []),
     flagV ''hi'' ''httpIndex'' (StringValue []),
     flagV ''http-directory'' ''httpDirectory'' (StringValue []),
     flagV ''hd'' ''httpDirectory'' (StringValue []),
     flagV ''default-http-response'' ''defaultHTTPResponse'' (StringValue []),
     flagV ''dhr'' ''defaultHTTPResponse'' (StringValue []),
     flagV ''disk'' ''disk'' (BoolValue False),
     flagV ''ds'' ''disk'' (BoolValue False),
     flagV ''disk-path'' ''diskPath'' (StringValue []),
     flagV ''dsp'' ''diskPath'' (StringValue []),
     flagV ''server-header'' ''serverHeader'' (StringValue []),
     flagV ''csh'' ''serverHeader'' (StringValue []),
     flagV ''disable-version'' ''disableVersion'' (BoolValue False),
     flagV ''dv'' ''disableVersion'' (BoolValue False)]"

definition srv_service_flags :: "flag_decl list" where
  "srv_service_flags = [
     flagV ''dns-port'' ''dnsPort'' (IntValue (DNSPort DefaultConfig)),
     flagV ''http-port'' ''httpPort'' (IntValue (HTTPPort DefaultConfig)),
     flagV ''https-port'' ''httpsPort'' (IntValue (HTTPSPort DefaultConfig)),
     flagV ''smtp-port'' ''smtpPort'' (IntValue (SMTPPort DefaultConfig)),
     flagV ''smtps-port'' ''smtpsPort'' (IntValue (SMTPSPort DefaultConfig)),
     flagV ''smtp-autotls-port'' ''smtpAutoTLSPort'' (IntValue (SMTPAutoTLSPort DefaultConfig)),
     flagV ''ldap-port'' ''ldapPort'' (IntValue (LDAPPort DefaultConfig)),
     flagV ''ldap'' ''ldap'' (BoolValue False),
     flagV ''wildcard'' ''wildcard'' (BoolValue False),
     flagV ''wc'' ''wildcard'' (BoolValue False),
     flagV ''ftp'' ''ftp'' (BoolValue False),
     flagV ''ftp-port'' ''ftpPort'' (IntValue (FTPPort DefaultConfig)),
     flagV ''ftps-port'' ''ftpsPort'' (IntValue (FTPSPort DefaultConfig)),
     flagV ''ftp-dir'' ''ftpDir'' (StringValue [])]"

definition srv_debug_flags :: "flag_decl list" where
  "srv_debug_flags = [
     flagV ''version'' ''showVersion'' (BoolValue False),
     flagV ''debug'' ''debugFlag'' (BoolValue False),
     flagP ''verbose'' ''v'' ''verbose'' (BoolValue False),
     flagV ''enable-pprof'' ''enablePprof'' (BoolValue False),
     flagV ''ep'' ''enablePprof'' (BoolValue False),
     flagV ''health-check'' ''healthCheck'' (BoolValue False),
     flagV ''hc'' ''healthCheck'' (BoolValue False),
     flagV ''metrics'' ''metrics'' (BoolValue False),
     flagV ''disable-update-check'' ''disableUpdateCheck'' (BoolValue False),
     flagV ''duc'' ''disableUpdateCheck'' (BoolValue False),
     flagV ''config-update'' ''configUpdate'' (BoolValue False)]"

definition srv_flags :: "flag_decl list" where
  "srv_flags = srv_input_flags @ srv_config_flags @ srv_service_flags @ srv_debug_flags"

text \<open>The flags of the client program.\<close>

definition cli_client_flags :: "flag_decl list" where
  "cli_client_flags = [
     flagP ''server'' ''s'' ''serverFlag'' (StringValue []),
     flagV ''config'' ''configFlag'' (StringValue []),
     flagP ''number'' ''n'' ''numberFlag'' (IntValue 0),
     flagP ''token'' ''t'' ''tokenFlag'' (StringValue []),
     flagV ''poll-interval'' ''pollIntervalFlag'' (IntValue 0),
     flagV ''pi'' ''pollIntervalFlag'' (IntValue 0),
     flagV ''no-http-fallback'' ''noHTTPFallback'' (BoolValue False),
     flagV ''nf'' ''noHTTPFallback'' (BoolValue False),
     flagV ''correlation-id-length'' ''cidLength'' (IntValue 0),
     flagV ''cidl'' ''cidLength'' (IntValue 0),
     flagV ''correlation-id-nonce-length'' ''cidnLength'' (IntValue 0),
     flagV ''cidn'' ''cidnLength'' (IntValue 0),
     flagV ''session-file'' ''sessionFile'' (StringValue []),
     flagV ''sf'' ''sessionFile'' (StringValue []),
     flagV ''keep-alive-interval'' ''keepAliveFlag'' (DurationValue 0),
     flagV ''kai'' ''keepAliveFlag'' (DurationValue 0)]"

definition cli_output_flags :: "flag_decl list" where
  "cli_output_flags = [
     flagP ''match'' ''m'' ''matchPatterns'' (ListValue []),
     flagP ''filter'' ''f'' ''filterPatterns'' (ListValue []),
     flagV ''dns-only'' ''dnsOnly'' (BoolValue False),
     flagV ''http-only'' ''httpOnly'' (BoolValue False),
     flagV ''smtp-only'' ''smtpOnly'' (BoolValue False),
     flagV ''ftp-only'' ''ftpOnly'' (BoolValue False),
     flagV ''ldap-only'' ''ldapOnly'' (BoolValue False),
     flagP ''output'' ''o'' ''outputFile'' (StringValue []),
     flagV ''json'' ''jsonOutput'' (BoolValue False),
     flagP ''verbose'' ''v'' ''verbose'' (BoolValue False),
     flagV ''payload-store'' ''payloadStore'' (BoolValue False),
     flagV ''ps'' ''payloadStore'' (BoolValue False),
     flagV ''payload-store-file'' ''payloadStoreFile'' (StringValue ''interactsh_payload.txt''),
     flagV ''psf'' ''payloadStoreFile'' (StringValue ''interactsh_payload.txt'')]"

definition cli_response_flags :: "flag_decl list" where
  "cli_response_flags = [
     flagV ''redirect'' ''redirectFlag'' (StringValue []),
     flagV ''response-status'' ''responseStatusFlag'' (IntValue 0),
     flagV ''response-header'' ''responseHeaderFlag'' (ListValue []),
     flagV ''response-body'' ''responseBodyFlag'' (StringValue []),
     flagV ''timeout'' ''timeoutFlag'' (DurationValue 0),
     flagP ''count'' ''c'' ''countFlag'' (IntValue 0),
     flagV ''version'' ''showVersion'' (BoolValue False),
     flagV ''health-check'' ''healthCheck'' (BoolValue False),
     flagV ''hc'' ''healthCheck'' (BoolValue False)]"

definition cli_flags :: "flag_decl list" where
  "cli_flags = cli_client_flags @ cli_output_flags @ cli_response_flags"

section \<open>Parsing\<close>

text \<open>
  A declaration stores the default in its variable.  Each setting, given by the long name of its flag,
  then replaces the value of the flag's variable; but a list flag that the command line has used
  before adds its elements to those that are there (\<open>StringSlice\<close> and \<open>StringArray\<close> of pflag).  The
  state is the names of the flags used so far (\<open>Changed\<close>) and the variables.
\<close>

type_synonym flag_state = "string set \<times> (string \<rightharpoonup> flag_value)"

definition flag_named :: "flag_decl list \<Rightarrow> string \<Rightarrow> flag_decl option" where
  "flag_named ds name = find (\<lambda>d. fd_name d = name) ds"

definition declare_flags :: "flag_decl list \<Rightarrow> string \<rightharpoonup> flag_value" where
  "declare_flags ds = fold (\<lambda>d m. m(fd_var d \<mapsto> fd_default d)) ds Map.empty"

fun set_value :: "bool \<Rightarrow> flag_value option \<Rightarrow> flag_value \<Rightarrow> flag_value" where
  "set_value True (Some (ListValue old)) (ListValue new) = ListValue (old @ new)"
| "set_value used old v = v"

definition set_flag :: "flag_decl list \<Rightarrow> string \<times> flag_value \<Rightarrow> flag_state \<Rightarrow> flag_state" where
  "set_flag ds nv st = (case (nv, st) of ((n, v), (used, m)) \<Rightarrow>
     (case flag_named ds n of
        None \<Rightarrow> (used, m)
      | Some d \<Rightarrow> (insert n used, m(fd_var d \<mapsto> set_value (n \<in> used) (m (fd_var d)) v))))"

definition flag_variables :: "flag_decl list \<Rightarrow> (string \<times> flag_value) list \<Rightarrow> string \<rightharpoonup> flag_value" where
  "flag_variables ds settings = snd (fold (set_flag ds) settings ({}, declare_flags ds))"

fun bool_of :: "flag_value option \<Rightarrow> bool" where
  "bool_of (Some (BoolValue b)) = b"
| "bool_of _ = False"

fun int_of :: "flag_value option \<Rightarrow> int" where
  "int_of (Some (IntValue n)) = n"
| "int_of (Some (DurationValue n)) = n"
| "int_of _ = 0"

fun string_of :: "flag_value option \<Rightarrow> string" where
  "string_of (Some (StringValue s)) = s"
| "string_of _ = []"

fun list_of :: "flag_value option \<Rightarrow> string list" where
  "list_of (Some (ListValue l)) = l"
| "list_of _ = []"

text \<open>The variables of each program that the settings are taken from.\<close>

definition srv_flag_config :: "(string \<rightharpoonup> flag_value) \<Rightarrow> Config" where
  "srv_flag_config vars = zero_Config\<lparr>
     Domains := list_of (vars ''domains''), IPs := list_of (vars ''ips''), ListenIP := string_of (vars ''listenIP''),
     Eviction := int_of (vars ''eviction''), NoEviction := bool_of (vars ''noEviction''),
     EvictionStrategy := string_of (vars ''evictionStrategy''), Auth := bool_of (vars ''auth''),
     Token := string_of (vars ''token''), ACAOUrl := string_of (vars ''acaoURL''),
     SkipACME := bool_of (vars ''skipACME''), ScanEverywhere := bool_of (vars ''scanEverywhere''),
     CorrelationIdLength := int_of (vars ''cidLength''), CertFile := string_of (vars ''certFile''),
     PrivKeyFile := string_of (vars ''privkeyFile''), OriginIPHeader := string_of (vars ''originIPHeader''),
     MaxRequestSize := int_of (vars ''maxRequestSize''), MaxBodySize := int_of (vars ''maxBodySize''),
     Resolvers := list_of (vars ''resolvers''), DynamicResp := bool_of (vars ''dynamicResp''),
     CustomRecords := string_of (vars ''customRecords''), HTTPIndex := string_of (vars ''httpIndex''),
     HTTPDirectory := string_of (vars ''httpDirectory''),
     DefaultHTTPResponse := string_of (vars ''defaultHTTPResponse''), Disk := bool_of (vars ''disk''),
     DiskPath := string_of (vars ''diskPath''), ServerHeader := string_of (vars ''serverHeader''),
     DisableVersion := bool_of (vars ''disableVersion''), DNSPort := int_of (vars ''dnsPort''),
     HTTPPort := int_of (vars ''httpPort''), HTTPSPort := int_of (vars ''httpsPort''),
     SMTPPort := int_of (vars ''smtpPort''), SMTPSPort := int_of (vars ''smtpsPort''),
     SMTPAutoTLSPort := int_of (vars ''smtpAutoTLSPort''), LDAPPort := int_of (vars ''ldapPort''),
     LDAP := bool_of (vars ''ldap''), Wildcard := bool_of (vars ''wildcard''), FTP := bool_of (vars ''ftp''),
     FTPPort := int_of (vars ''ftpPort''), FTPSPort := int_of (vars ''ftpsPort''),
     FTPDir := string_of (vars ''ftpDir''), Debug := bool_of (vars ''debugFlag''),
     EnablePprof := bool_of (vars ''enablePprof''), Metrics := bool_of (vars ''metrics'')\<rparr>"

definition cli_flag_config :: "(string \<rightharpoonup> flag_value) \<Rightarrow> cli_Config" where
  "cli_flag_config vars = cli_defaults\<lparr>
     cli_Server := string_of (vars ''serverFlag''), cli_Token := string_of (vars ''tokenFlag''),
     cli_Number := int_of (vars ''numberFlag''), cli_PollInterval := int_of (vars ''pollIntervalFlag''),
     cli_NoHTTPFallback := bool_of (vars ''noHTTPFallback''), cli_CorrelationIdLength := int_of (vars ''cidLength''),
     cli_CorrelationIdNonceLength := int_of (vars ''cidnLength''),
     cli_KeepAliveInterval := int_of (vars ''keepAliveFlag''), cli_DNSOnly := bool_of (vars ''dnsOnly''),
     cli_HTTPOnly := bool_of (vars ''httpOnly''), cli_SMTPOnly := bool_of (vars ''smtpOnly''),
     cli_FTPOnly := bool_of (vars ''ftpOnly''), cli_LDAPOnly := bool_of (vars ''ldapOnly''),
     cli_JSON := bool_of (vars ''jsonOutput''), cli_Verbose := bool_of (vars ''verbose''),
     cli_Timeout := int_of (vars ''timeoutFlag''), cli_Count := int_of (vars ''countFlag''),
     cli_Redirect := string_of (vars ''redirectFlag''), cli_ResponseStatus := int_of (vars ''responseStatusFlag''),
     cli_ResponseHeaders := list_of (vars ''responseHeaderFlag''),
     cli_ResponseBody := string_of (vars ''responseBodyFlag'')\<rparr>"

text \<open>The setting that each variable stands for.\<close>

definition srv_fields :: "(string \<times> (Config \<Rightarrow> flag_value)) list" where
  "srv_fields = [
     (''domains'', ListValue \<circ> Domains), (''ips'', ListValue \<circ> IPs),
     (''listenIP'', StringValue \<circ> ListenIP), (''eviction'', IntValue \<circ> Eviction),
     (''noEviction'', BoolValue \<circ> NoEviction), (''evictionStrategy'', StringValue \<circ> EvictionStrategy),
     (''auth'', BoolValue \<circ> Auth), (''token'', StringValue \<circ> Token),
     (''acaoURL'', StringValue \<circ> ACAOUrl), (''skipACME'', BoolValue \<circ> SkipACME),
     (''scanEverywhere'', BoolValue \<circ> ScanEverywhere), (''cidLength'', IntValue \<circ> CorrelationIdLength),
     (''certFile'', StringValue \<circ> CertFile), (''privkeyFile'', StringValue \<circ> PrivKeyFile),
     (''originIPHeader'', StringValue \<circ> OriginIPHeader), (''maxRequestSize'', IntValue \<circ> MaxRequestSize),
     (''maxBodySize'', IntValue \<circ> MaxBodySize), (''resolvers'', ListValue \<circ> Resolvers),
     (''dynamicResp'', BoolValue \<circ> DynamicResp), (''customRecords'', StringValue \<circ> CustomRecords),
     (''httpIndex'', StringValue \<circ> HTTPIndex), (''httpDirectory'', StringValue \<circ> HTTPDirectory),
     (''defaultHTTPResponse'', StringValue \<circ> DefaultHTTPResponse), (''disk'', BoolValue \<circ> Disk),
     (''diskPath'', StringValue \<circ> DiskPath), (''serverHeader'', StringValue \<circ> ServerHeader),
     (''disableVersion'', BoolValue \<circ> DisableVersion), (''dnsPort'', IntValue \<circ> DNSPort),
     (''httpPort'', IntValue \<circ> HTTPPort), (''httpsPort'', IntValue \<circ> HTTPSPort),
     (''smtpPort'', IntValue \<circ> SMTPPort), (''smtpsPort'', IntValue \<circ> SMTPSPort),
     (''smtpAutoTLSPort'', IntValue \<circ> SMTPAutoTLSPort), (''ldapPort'', IntValue \<circ> LDAPPort),
     (''ldap'', BoolValue \<circ> LDAP), (''wildcard'', BoolValue \<circ> Wildcard), (''ftp'', BoolValue \<circ> FTP),
     (''ftpPort'', IntValue \<circ> FTPPort), (''ftpsPort'', IntValue \<circ> FTPSPort),
     (''ftpDir'', StringValue \<circ> FTPDir), (''debugFlag'', BoolValue \<circ> Debug),
     (''enablePprof'', BoolValue \<circ> EnablePprof), (''metrics'', BoolValue \<circ> Metrics)]"

definition cli_fields :: "(string \<times> (cli_Config \<Rightarrow> flag_value)) list" where
  "cli_fields = [
     (''serverFlag'', StringValue \<circ> cli_Server), (''tokenFlag'', StringValue \<circ> cli_Token),
     (''numberFlag'', IntValue \<circ> cli_Number), (''pollIntervalFlag'', IntValue \<circ> cli_PollInterval),
     (''noHTTPFallback'', BoolValue \<circ> cli_NoHTTPFallback),
     (''cidLength'', IntValue \<circ> cli_CorrelationIdLength),
     (''cidnLength'', IntValue \<circ> cli_CorrelationIdNonceLength),
     (''keepAliveFlag'', DurationValue \<circ> cli_KeepAliveInterval), (''dnsOnly'', BoolValue \<circ> cli_DNSOnly),
     (''httpOnly'', BoolValue \<circ> cli_HTTPOnly), (''smtpOnly'', BoolValue \<circ> cli_SMTPOnly),
     (''ftpOnly'', BoolValue \<circ> cli_FTPOnly), (''ldapOnly'', BoolValue \<circ> cli_LDAPOnly),
     (''jsonOutput'', BoolValue \<circ> cli_JSON), (''verbose'', BoolValue \<circ> cli_Verbose),
     (''timeoutFlag'', DurationValue \<circ> cli_Timeout), (''countFlag'', IntValue \<circ> cli_Count),
     (''redirectFlag'', StringValue \<circ> cli_Redirect),
     (''responseStatusFlag'', IntValue \<circ> cli_ResponseStatus),
     (''responseHeaderFlag'', ListValue \<circ> cli_ResponseHeaders),
     (''responseBodyFlag'', StringValue \<circ> cli_ResponseBody)]"

section \<open>The first steps of the programs\<close>

text \<open>\<open>init\<close>: the version that was linked in, or that of the build, or that of the client library.\<close>

definition srv_version :: "string \<Rightarrow> string option \<Rightarrow> string \<Rightarrow> string" where
  "srv_version linked build library =
     (if linked \<noteq> ''dev'' then linked
      else case build of
          Some v \<Rightarrow> if v \<noteq> [] \<and> v \<noteq> ''(devel)'' then v else library
        | None \<Rightarrow> library)"

datatype 'r program_end = ProgramExit int string | ProgramRunning 'r

text \<open>Either the program ends here, or it goes on with the path of its file and whether that was named.\<close>

definition srv_early :: "(string \<rightharpoonup> flag_value) \<Rightarrow> string set \<Rightarrow> string \<Rightarrow> string \<Rightarrow> (string \<Rightarrow> bool \<Rightarrow> string)
     \<Rightarrow> (string \<times> bool) program_end" where
  "srv_early vars changed version default_path health =
     (if bool_of (vars ''showVersion'') then ProgramExit 0 (''interactsh-srv version '' @ version)
      else let configPath = string_of (vars ''configPath''); explicit = flagChanged changed [''config''];
               cfgPath = (if configPath = [] then default_path else configPath)
           in if bool_of (vars ''healthCheck'') then ProgramExit 0 (health cfgPath explicit)
              else ProgramRunning (cfgPath, explicit))"

definition cli_early :: "(string \<rightharpoonup> flag_value) \<Rightarrow> string \<Rightarrow> (string \<Rightarrow> string) \<Rightarrow> string program_end" where
  "cli_early vars default_path health =
     (if bool_of (vars ''showVersion'') then ProgramExit 0 []
      else let configFlag = string_of (vars ''configFlag'');
               configPath = (if configFlag = [] then default_path else configFlag)
           in if bool_of (vars ''healthCheck'') then ProgramExit 0 (health configPath)
              else ProgramRunning configPath)"

section \<open>Facts\<close>

fun value_kind :: "flag_value \<Rightarrow> nat" where
  "value_kind (BoolValue b) = 0"
| "value_kind (IntValue n) = 1"
| "value_kind (StringValue s) = 2"
| "value_kind (ListValue l) = 3"
| "value_kind (DurationValue d) = 4"

text \<open>What pflag makes of a command line: settings of declared flags, with values of their types.\<close>

definition settings_ok :: "flag_decl list \<Rightarrow> (string \<times> flag_value) list \<Rightarrow> bool" where
  "settings_ok ds st \<longleftrightarrow> (\<forall>(n, v) \<in> set st. \<exists>d \<in> set ds. fd_name d = n \<and> value_kind v = value_kind (fd_default d))"

definition names_of :: "flag_decl list \<Rightarrow> string \<Rightarrow> string list" where
  "names_of ds var = map fd_name (filter (\<lambda>d. fd_var d = var) ds)"

text \<open>
  What a list of settings says of a variable with the given names: nothing when none of the names is
  used; all elements given, in order, for a list; and else the last value given.
\<close>

definition given :: "string list \<Rightarrow> (string \<times> flag_value) list \<Rightarrow> flag_value list" where
  "given names st = map snd (filter (\<lambda>(n, v). n \<in> set names) st)"

definition flag_setting :: "string list \<Rightarrow> (string \<times> flag_value) list \<Rightarrow> flag_value option" where
  "flag_setting names st =
     (if given names st = [] then None
      else Some (case last (given names st) of
          ListValue _ \<Rightarrow> ListValue (concat (map (\<lambda>v. list_of (Some v)) (given names st)))
        | v \<Rightarrow> v))"

definition var_kind :: "flag_decl list \<Rightarrow> string \<Rightarrow> nat \<Rightarrow> bool" where
  "var_kind ds var k \<longleftrightarrow> (\<forall>d \<in> set ds. fd_var d = var \<longrightarrow> value_kind (fd_default d) = k)"

lemma flag_named_iff:
  "distinct (map fd_name ds) \<Longrightarrow> flag_named ds n = Some d \<longleftrightarrow> d \<in> set ds \<and> fd_name d = n"
  by (induction ds) (auto simp: flag_named_def)

lemma in_names_of: "n \<in> set (names_of ds var) \<longleftrightarrow> (\<exists>d \<in> set ds. fd_name d = n \<and> fd_var d = var)"
  by (auto simp: names_of_def)

lemma given_snoc [simp]:
  "given names [] = []"
  "given names (st @ [(n, v)]) = given names st @ (if n \<in> set names then [v] else [])"
  by (simp_all add: given_def)

lemma given_Nil: "given names st = [] \<longleftrightarrow> \<not> flagChanged (fst ` set st) names"
  by (auto simp: given_def filter_empty_conv flagChanged_def)

lemma flag_setting_None: "flag_setting names st = None \<longleftrightarrow> \<not> flagChanged (fst ` set st) names"
  by (simp add: flag_setting_def given_Nil)

lemma settings_ok_snoc: "settings_ok ds (st @ [nv]) \<Longrightarrow> settings_ok ds st"
  by (simp add: settings_ok_def)

lemma value_kind_list: "value_kind v = 3 \<longleftrightarrow> (\<exists>l. v = ListValue l)"
  by (cases v) simp_all

lemma set_value_other: "value_kind v \<noteq> 3 \<Longrightarrow> set_value used old v = v"
  by (cases v) simp_all

lemma settings_named:
  assumes "distinct (map fd_name ds)" "settings_ok ds st" "(n, v) \<in> set st"
  obtains d where "d \<in> set ds" "fd_name d = n" "flag_named ds n = Some d" "value_kind v = value_kind (fd_default d)"
proof -
  from assms(2,3) obtain d where "d \<in> set ds" "fd_name d = n" "value_kind v = value_kind (fd_default d)"
    by (auto simp: settings_ok_def)
  with flag_named_iff [OF assms(1)] that show thesis by blast
qed

lemma given_kind:
  assumes "distinct (map fd_name ds)" "settings_ok ds st" "var_kind ds var k"
  shows "\<forall>v \<in> set (given (names_of ds var) st). value_kind v = k"
proof
  fix v assume "v \<in> set (given (names_of ds var) st)"
  then obtain n where n: "n \<in> set (names_of ds var)" "(n, v) \<in> set st" by (auto simp: given_def)
  obtain d where d: "d \<in> set ds" "fd_name d = n" "flag_named ds n = Some d" "value_kind v = value_kind (fd_default d)"
    by (rule settings_named [OF assms(1,2) n(2)])
  from n(1) obtain d' where "d' \<in> set ds" "fd_name d' = n" "fd_var d' = var" by (auto simp: in_names_of)
  with d assms(1) have "fd_var d = var" by (metis flag_named_iff option.inject)
  with d assms(3) show "value_kind v = k" by (simp add: var_kind_def)
qed

lemma flag_setting_kind:
  assumes "distinct (map fd_name ds)" "settings_ok ds st" "var_kind ds var k"
    and "flag_setting (names_of ds var) st = Some v"
  shows "value_kind v = k"
proof -
  have "given (names_of ds var) st \<noteq> []" using assms(4) by (auto simp: flag_setting_def)
  then have "value_kind (last (given (names_of ds var) st)) = k" using given_kind [OF assms(1-3)] by simp
  with assms(4) show ?thesis by (auto simp: flag_setting_def split: if_splits flag_value.splits)
qed

lemma flag_setting_skip:
  "n \<notin> set names \<Longrightarrow> flag_setting names (st @ [(n, v)]) = flag_setting names st"
  by (simp only: flag_setting_def given_snoc if_False append_Nil2)

lemma flag_setting_snoc:
  assumes "\<forall>v \<in> set (given names st). value_kind v = value_kind v'"
  shows "flag_setting names (st @ [(n, v')])
     = (if n \<in> set names then Some (set_value True (flag_setting names st) v') else flag_setting names st)"
proof (cases "n \<in> set names \<and> given names st \<noteq> []")
  case True
  then have "value_kind (last (given names st)) = value_kind v'" using assms by simp
  then show ?thesis using True
    by (cases v'; cases "last (given names st)") (simp_all add: flag_setting_def)
next
  case False
  show ?thesis
  proof (cases "n \<in> set names")
    case True
    with False show ?thesis by (cases v') (simp_all add: flag_setting_def)
  qed (simp add: flag_setting_skip)
qed

text \<open>The names used so far are those of the settings; a list variable has a single name.\<close>

lemma flag_run:
  assumes ds: "distinct (map fd_name ds)" and "settings_ok ds st" and k: "var_kind ds var k"
    and single: "k = 3 \<Longrightarrow> length (names_of ds var) = 1"
  shows "fst (fold (set_flag ds) st ({}, m)) = fst ` set st
     \<and> snd (fold (set_flag ds) st ({}, m)) var
        = (case flag_setting (names_of ds var) st of Some v \<Rightarrow> Some v | None \<Rightarrow> m var)"
  using assms(2)
proof (induction st rule: rev_induct)
  case (snoc nv st)
  obtain n v where nv: "nv = (n, v)" by (cases nv)
  let ?names = "names_of ds var"
  obtain used m1 where run: "fold (set_flag ds) st ({}, m) = (used, m1)" by fastforce
  note ok = settings_ok_snoc [OF snoc.prems]
  from snoc.IH [OF ok] have used: "used = fst ` set st"
    and m1: "m1 var = (case flag_setting ?names st of Some v \<Rightarrow> Some v | None \<Rightarrow> m var)"
    by (simp_all add: run)
  obtain d where d: "d \<in> set ds" "fd_name d = n" "flag_named ds n = Some d" "value_kind v = value_kind (fd_default d)"
    by (rule settings_named [OF ds snoc.prems, of n v]) (simp add: nv)
  have n: "n \<in> set ?names \<longleftrightarrow> fd_var d = var"
    using d flag_named_iff [OF ds] by (auto simp: in_names_of) (metis option.inject)
  have step: "fold (set_flag ds) (st @ [nv]) ({}, m)
      = (insert n used, m1(fd_var d \<mapsto> set_value (n \<in> used) (m1 (fd_var d)) v))"
    by (simp add: nv run set_flag_def d(3))
  show ?case
  proof (cases "fd_var d = var")
    case False
    then have same: "flag_setting ?names (st @ [nv]) = flag_setting ?names st"
      using n by (simp add: nv flag_setting_skip)
    from False show ?thesis unfolding step same by (simp add: nv used m1)
  next
    case True
    then have vk: "value_kind v = k" using d k by (simp add: var_kind_def)
    then have next_setting: "flag_setting ?names (st @ [nv]) = Some (set_value True (flag_setting ?names st) v)"
      using True n given_kind [OF ds ok k] by (simp add: nv flag_setting_snoc)
    have "set_value (n \<in> used) (m1 var) v = set_value True (flag_setting ?names st) v"
    proof (cases "k = 3")
      case True
      then obtain l where l: "v = ListValue l" using vk by (auto simp: value_kind_list)
      from single [OF True] \<open>fd_var d = var\<close> n have "?names = [n]" by (auto simp: length_Suc_conv)
      then have "n \<in> used \<longleftrightarrow> flag_setting ?names st \<noteq> None"
        by (simp add: flag_setting_None used flagChanged_def)
      then show ?thesis by (cases "n \<in> used") (auto simp: m1 l)
    qed (use vk set_value_other in simp)
    then show ?thesis unfolding step next_setting by (simp add: nv True used)
  qed
qed (simp add: flag_setting_def)

lemma flag_variables_setting:
  assumes "distinct (map fd_name ds)" "settings_ok ds st" "var_kind ds var k"
    and "k = 3 \<Longrightarrow> length (names_of ds var) = 1"
  shows "flag_variables ds st var = (case flag_setting (names_of ds var) st of
       Some v \<Rightarrow> Some v | None \<Rightarrow> declare_flags ds var)"
  using flag_run [OF assms, of "declare_flags ds"] by (simp add: flag_variables_def)

text \<open>One override: the setting, whose type the getter reads, replaces the field.\<close>

lemma override_applies:
  assumes "distinct (map fd_name ds)" "settings_ok ds st" "var_kind ds var k" "names_of ds var = names"
    and "k = 3 \<Longrightarrow> length names = 1" and "\<And>v. value_kind v = k \<Longrightarrow> wrap (get (Some v)) = v"
  shows "wrap (if flagChanged (fst ` set st) names then get (flag_variables ds st var) else x)
       = (case flag_setting (names_of ds var) st of Some v \<Rightarrow> v | None \<Rightarrow> wrap x)"
proof (cases "flag_setting names st")
  case None
  then show ?thesis using flag_setting_None [of names st] by (simp add: assms(4))
next
  case (Some v)
  then have "flagChanged (fst ` set st) names" using flag_setting_None [of names st] by auto
  with Some show ?thesis
    using flag_variables_setting [OF assms(1-3)] flag_setting_kind [OF assms(1-3), of v] assms(5,6)
    by (simp add: assms(4))
qed

lemma wraps:
  "value_kind v = 0 \<Longrightarrow> BoolValue (bool_of (Some v)) = v"
  "value_kind v = 1 \<Longrightarrow> IntValue (int_of (Some v)) = v"
  "value_kind v = 2 \<Longrightarrow> StringValue (string_of (Some v)) = v"
  "value_kind v = 3 \<Longrightarrow> ListValue (list_of (Some v)) = v"
  "value_kind v = 4 \<Longrightarrow> DurationValue (int_of (Some v)) = v"
  by (cases v; simp)+

lemma override_kinds:
  assumes "distinct (map fd_name ds)" "settings_ok ds st" "names_of ds var = names"
  shows "var_kind ds var 0 \<Longrightarrow> BoolValue (if flagChanged (fst ` set st) names then bool_of (flag_variables ds st var) else b)
       = (case flag_setting (names_of ds var) st of Some v \<Rightarrow> v | None \<Rightarrow> BoolValue b)"
    "var_kind ds var 1 \<Longrightarrow> IntValue (if flagChanged (fst ` set st) names then int_of (flag_variables ds st var) else n)
       = (case flag_setting (names_of ds var) st of Some v \<Rightarrow> v | None \<Rightarrow> IntValue n)"
    "var_kind ds var 2 \<Longrightarrow> StringValue (if flagChanged (fst ` set st) names then string_of (flag_variables ds st var) else s)
       = (case flag_setting (names_of ds var) st of Some v \<Rightarrow> v | None \<Rightarrow> StringValue s)"
    "var_kind ds var 3 \<Longrightarrow> names = [name] \<Longrightarrow> ListValue (if flagChanged (fst ` set st) names then list_of (flag_variables ds st var) else l)
       = (case flag_setting (names_of ds var) st of Some v \<Rightarrow> v | None \<Rightarrow> ListValue l)"
    "var_kind ds var 4 \<Longrightarrow> DurationValue (if flagChanged (fst ` set st) names then int_of (flag_variables ds st var) else n)
       = (case flag_setting (names_of ds var) st of Some v \<Rightarrow> v | None \<Rightarrow> DurationValue n)"
  by (rule override_applies [OF assms(1,2) _ assms(3)], assumption, simp, erule wraps)+

text \<open>
  Declaring a flag name or a letter twice panics; no program does, and the names of one variable
  agree on its default.
\<close>

lemma flags_declared_once:
  "distinct (map fd_name srv_flags)" "distinct (filter (\<lambda>s. s \<noteq> []) (map fd_short srv_flags))"
  "distinct (map fd_name cli_flags)" "distinct (filter (\<lambda>s. s \<noteq> []) (map fd_short cli_flags))"
  by code_simp+

text \<open>The type and the names of every setting.\<close>

lemma srv_flag_names:
  "list_all (\<lambda>(var, k, names). var_kind srv_flags var k \<and> names_of srv_flags var = names) [
     (''domains'', 3, [''domain'']), (''ips'', 3, [''ip'']), (''listenIP'', 2, [''listen-ip'', ''lip'']),
     (''eviction'', 1, [''eviction'']), (''noEviction'', 0, [''no-eviction'', ''ne'']),
     (''evictionStrategy'', 2, [''eviction-strategy'', ''es'']), (''auth'', 0, [''auth'']),
     (''token'', 2, [''token'']), (''acaoURL'', 2, [''acao-url'']), (''skipACME'', 0, [''skip-acme'', ''sa'']),
     (''scanEverywhere'', 0, [''scan-everywhere'', ''se'']),
     (''cidLength'', 1, [''correlation-id-length'', ''cidl'']), (''certFile'', 2, [''cert'']),
     (''privkeyFile'', 2, [''privkey'']), (''originIPHeader'', 2, [''origin-ip-header'', ''oih'']),
     (''maxRequestSize'', 1, [''max-request-size'', ''mrs'']), (''maxBodySize'', 1, [''max-body-size'', ''mbs'']),
     (''resolvers'', 3, [''resolvers'']), (''dynamicResp'', 0, [''dynamic-resp'', ''dr'']),
     (''customRecords'', 2, [''custom-records'', ''cr'']), (''httpIndex'', 2, [''http-index'', ''hi'']),
     (''httpDirectory'', 2, [''http-directory'', ''hd'']),
     (''defaultHTTPResponse'', 2, [''default-http-response'', ''dhr'']), (''disk'', 0, [''disk'', ''ds'']),
     (''diskPath'', 2, [''disk-path'', ''dsp'']), (''serverHeader'', 2, [''server-header'', ''csh'']),
     (''disableVersion'', 0, [''disable-version'', ''dv'']), (''dnsPort'', 1, [''dns-port'']),
     (''httpPort'', 1, [''http-port'']), (''httpsPort'', 1, [''https-port'']), (''smtpPort'', 1, [''smtp-port'']),
     (''smtpsPort'', 1, [''smtps-port'']), (''smtpAutoTLSPort'', 1, [''smtp-autotls-port'']),
     (''ldapPort'', 1, [''ldap-port'']), (''ldap'', 0, [''ldap'']), (''wildcard'', 0, [''wildcard'', ''wc'']),
     (''ftp'', 0, [''ftp'']), (''ftpPort'', 1, [''ftp-port'']), (''ftpsPort'', 1, [''ftps-port'']),
     (''ftpDir'', 2, [''ftp-dir'']), (''debugFlag'', 0, [''debug'']),
     (''enablePprof'', 0, [''enable-pprof'', ''ep'']), (''metrics'', 0, [''metrics''])]"
  by code_simp

lemma cli_flag_names:
  "list_all (\<lambda>(var, k, names). var_kind cli_flags var k \<and> names_of cli_flags var = names) [
     (''serverFlag'', 2, [''server'']), (''tokenFlag'', 2, [''token'']), (''numberFlag'', 1, [''number'']),
     (''pollIntervalFlag'', 1, [''poll-interval'', ''pi'']), (''noHTTPFallback'', 0, [''no-http-fallback'', ''nf'']),
     (''cidLength'', 1, [''correlation-id-length'', ''cidl'']),
     (''cidnLength'', 1, [''correlation-id-nonce-length'', ''cidn'']),
     (''keepAliveFlag'', 4, [''keep-alive-interval'', ''kai'']), (''dnsOnly'', 0, [''dns-only'']),
     (''httpOnly'', 0, [''http-only'']), (''smtpOnly'', 0, [''smtp-only'']), (''ftpOnly'', 0, [''ftp-only'']),
     (''ldapOnly'', 0, [''ldap-only'']), (''jsonOutput'', 0, [''json'']), (''verbose'', 0, [''verbose'']),
     (''timeoutFlag'', 4, [''timeout'']), (''countFlag'', 1, [''count'']), (''redirectFlag'', 2, [''redirect'']),
     (''responseStatusFlag'', 1, [''response-status'']), (''responseHeaderFlag'', 3, [''response-header'']),
     (''responseBodyFlag'', 2, [''response-body''])]"
  by code_simp

section \<open>Every flag reaches its setting\<close>

definition srv_override :: "(string \<times> flag_value) list \<Rightarrow> Config \<Rightarrow> Config" where
  "srv_override st c =
     (let changed = fst ` set st; flags = srv_flag_config (flag_variables srv_flags st)
      in override_services changed flags (override_config changed flags (override_input changed flags c)))"

definition cli_override_all :: "(string \<times> flag_value) list \<Rightarrow> cli_Config \<Rightarrow> cli_Config" where
  "cli_override_all st c =
     (let changed = fst ` set st; flags = cli_flag_config (flag_variables cli_flags st)
      in cli_override_output changed flags (cli_override changed flags c))"

lemma srv_fields_overridden:
  assumes ok: "settings_ok srv_flags st"
  shows "list_all (\<lambda>(var, field). field (srv_override st c)
     = (case flag_setting (names_of srv_flags var) st of Some v \<Rightarrow> v | None \<Rightarrow> field c)) srv_fields"
proof -
  define ch where "ch = fst ` set st"
  define vars where "vars = flag_variables srv_flags st"
  define fl where "fl = srv_flag_config vars"
  define c1 where "c1 = override_input ch fl c"
  define c2 where "c2 = override_config ch fl c1"
  have run: "srv_override st c = override_services ch fl c2"
    by (simp only: srv_override_def Let_def ch_def vars_def fl_def c1_def c2_def)
  note table = srv_flag_names [unfolded list.pred_inject prod.case]
  note applies = override_kinds [OF flags_declared_once(1) ok, folded ch_def vars_def]
  show ?thesis
    unfolding srv_fields_def list.pred_inject prod.case run o_apply
    apply (intro conjI TrueI)
    apply (simp_all add: override_services_def split del: if_split cong del: if_weak_cong)
    apply (simp_all add: c2_def override_config_def split del: if_split cong del: if_weak_cong)
    apply (simp_all add: c1_def override_input_def split del: if_split cong del: if_weak_cong)
    apply (simp_all add: fl_def srv_flag_config_def split del: if_split cong del: if_weak_cong)
    apply (rule applies; (rule refl | simp only: table))+
    done
qed

lemma cli_fields_overridden:
  assumes ok: "settings_ok cli_flags st"
  shows "list_all (\<lambda>(var, field). field (cli_override_all st c)
     = (case flag_setting (names_of cli_flags var) st of Some v \<Rightarrow> v | None \<Rightarrow> field c)) cli_fields"
proof -
  define ch where "ch = fst ` set st"
  define vars where "vars = flag_variables cli_flags st"
  define fl where "fl = cli_flag_config vars"
  define c1 where "c1 = cli_override ch fl c"
  have run: "cli_override_all st c = cli_override_output ch fl c1"
    by (simp only: cli_override_all_def Let_def ch_def vars_def fl_def c1_def)
  note table = cli_flag_names [unfolded list.pred_inject prod.case]
  note applies = override_kinds [OF flags_declared_once(3) ok, folded ch_def vars_def]
  show ?thesis
    unfolding cli_fields_def list.pred_inject prod.case run o_apply
    apply (intro conjI TrueI)
    apply (simp_all add: cli_override_output_def split del: if_split cong del: if_weak_cong)
    apply (simp_all add: c1_def cli_override_def split del: if_split cong del: if_weak_cong)
    apply (simp_all add: fl_def cli_flag_config_def split del: if_split cong del: if_weak_cong)
    apply (rule applies; (rule refl | simp only: table))+
    done
qed

text \<open>
  C30: every flag of both programs does what it says.  Whatever settings a command line makes, and
  under whichever of its names each flag is given, every setting of the configuration is the last
  one that the command line makes under one of the names of its flag, or for a list the elements of
  all of them, in order; and it is what the file said when there is none.  No name is declared twice.
\<close>

theorem flags_reach_settings:
  assumes "settings_ok srv_flags srv_settings" "settings_ok cli_flags cli_settings"
    and "(srv_var, srv_field) \<in> set srv_fields" "(cli_var, cli_field) \<in> set cli_fields"
  shows "srv_field (srv_override srv_settings c)
       = (case flag_setting (names_of srv_flags srv_var) srv_settings of Some v \<Rightarrow> v | None \<Rightarrow> srv_field c)
     \<and> cli_field (cli_override_all cli_settings cli_c)
       = (case flag_setting (names_of cli_flags cli_var) cli_settings of Some v \<Rightarrow> v | None \<Rightarrow> cli_field cli_c)
     \<and> distinct (map fd_name srv_flags) \<and> distinct (map fd_name cli_flags)"
  using srv_fields_overridden [OF assms(1), of c] cli_fields_overridden [OF assms(2), of cli_c] assms(3,4) flags_declared_once
  unfolding list_all_iff by fastforce

theorem flags_reach_settings_witness:
  "EvictionStrategy (srv_override [(''es'', StringValue ''fixed''), (''ne'', BoolValue True),
       (''eviction-strategy'', StringValue ''sliding'')] DefaultConfig) = ''sliding''
   \<and> cli_ResponseHeaders (cli_override_all [(''response-header'', ListValue [''X: y'']), (''pi'', IntValue 7),
       (''response-header'', ListValue [''Z: w''])] cli_defaults) = [''X: y'', ''Z: w'']"
proof -
  let ?st = "[(''es'', StringValue ''fixed''), (''ne'', BoolValue True), (''eviction-strategy'', StringValue ''sliding'')]"
  let ?ct = "[(''response-header'', ListValue [''X: y'']), (''pi'', IntValue 7), (''response-header'', ListValue [''Z: w''])]"
  have "settings_ok srv_flags ?st" "settings_ok cli_flags ?ct" by code_simp+
  moreover have "(''evictionStrategy'', StringValue \<circ> EvictionStrategy) \<in> set srv_fields"
    "(''responseHeaderFlag'', ListValue \<circ> cli_ResponseHeaders) \<in> set cli_fields"
    by (simp_all add: srv_fields_def cli_fields_def)
  moreover have "flag_setting (names_of srv_flags ''evictionStrategy'') ?st = Some (StringValue ''sliding'')"
    "flag_setting (names_of cli_flags ''responseHeaderFlag'') ?ct = Some (ListValue [''X: y'', ''Z: w''])"
    by code_simp+
  ultimately show ?thesis using flags_reach_settings [of ?st ?ct] by fastforce
qed

end
