(* ===== verification/Client_Program.thy ===== *)
theory Client_Program
  imports Flags
begin

text \<open>
  The client program as a whole (\<open>main\<close> of \<open>src/main.go\<close>): from the prepared configuration to the exit
  code, with what it prints, the payload file it writes and what it asks of the client, in order.  The
  client is an argument, with the outcome of each of its calls, and so is how the wait ends.
\<close>

section \<open>What the program does\<close>

datatype cli_action =
    Stdout string
  | Stderr string
  | PayloadFile string "string list"
  | PollingStarted int
  | PollingStopped
  | SessionSaved string
  | ClientClosed

text \<open>
  The outside: whether a file exists, loading a session, making a client, the payload it gives next,
  the error of creating a file, of the start of the polling and of saving, and the end of the wait
  with the number of interactions displayed by then.
\<close>

record 'c client_world =
  cw_stat :: "string \<Rightarrow> bool"
  cw_load :: "string \<Rightarrow> Options \<Rightarrow> 'c result"
  cw_new :: "Options \<Rightarrow> 'c result"
  cw_domain :: "'c \<Rightarrow> string \<times> 'c"
  cw_create :: "string \<Rightarrow> string option"
  cw_start :: "int \<Rightarrow> 'c \<Rightarrow> string option"
  cw_save :: "string \<Rightarrow> 'c \<Rightarrow> string option"
  cw_wait :: "'c \<Rightarrow> end_reason \<times> int"

abbreviation tagINF :: "bool \<Rightarrow> string" where "tagINF uc \<equiv> tag uc ansiBlue ''INF''"
abbreviation tagWRN :: "bool \<Rightarrow> string" where "tagWRN uc \<equiv> tag uc ansiYellow ''WRN''"
abbreviation tagERR :: "bool \<Rightarrow> string" where "tagERR uc \<equiv> tag uc ansiRed ''ERR''"

definition tagged :: "string \<Rightarrow> string \<Rightarrow> string" where
  "tagged prefix message = prefix @ CHR '' '' # message @ newline"

text \<open>A session file that is there is loaded, otherwise a client registers.\<close>

definition cli_open_client ::
  "'c client_world \<Rightarrow> bool \<Rightarrow> string \<Rightarrow> Options \<Rightarrow> string + cli_action list \<times> 'c" where
  "cli_open_client w uc sessionFile opts =
     (if sessionFile \<noteq> [] \<and> cw_stat w sessionFile
      then case cw_load w sessionFile opts of
          Inl err \<Rightarrow> Inl (''Could not load session: '' @ err)
        | Inr c \<Rightarrow> Inr ([Stdout (tagged (tagINF uc) (''Loaded session from '' @ sessionFile))], c)
      else case cw_new w opts of
          Inl err \<Rightarrow> Inl (''Could not create client: '' @ err)
        | Inr c \<Rightarrow> Inr ([], c))"

primrec cli_payloads :: "('c \<Rightarrow> string \<times> 'c) \<Rightarrow> nat \<Rightarrow> 'c \<Rightarrow> string list \<times> 'c" where
  "cli_payloads domain 0 c = ([], c)"
| "cli_payloads domain (Suc n) c = (case domain c of (p, c1) \<Rightarrow> apfst (Cons p) (cli_payloads domain n c1))"

definition cli_list_payloads :: "bool \<Rightarrow> string list \<Rightarrow> cli_action list" where
  "cli_list_payloads uc payloads =
     Stdout (tagged (tagINF uc) (''Listing '' @ itoa (int (length payloads)) @ '' payload for OOB Testing''))
     # map (\<lambda>p. Stdout (tagged (tagINF uc) p)) payloads"

definition cli_store_payloads ::
  "'c client_world \<Rightarrow> bool \<Rightarrow> bool \<Rightarrow> string \<Rightarrow> string list \<Rightarrow> cli_action list" where
  "cli_store_payloads w uc payloadStore payloadStoreFile payloads =
     (if \<not> payloadStore then []
      else case cw_create w payloadStoreFile of
          Some err \<Rightarrow> [Stderr (tagged (tagWRN uc) (''Could not store payloads: '' @ err))]
        | None \<Rightarrow> [PayloadFile payloadStoreFile payloads])"

text \<open>With a session file the session is kept for the next run, without one it is given up.\<close>

definition cli_end_client :: "'c client_world \<Rightarrow> bool \<Rightarrow> string \<Rightarrow> 'c \<Rightarrow> cli_action list" where
  "cli_end_client w uc sessionFile c =
     (if sessionFile \<noteq> []
      then PollingStopped # SessionSaved sessionFile # (case cw_save w sessionFile c of
          Some err \<Rightarrow> [Stderr (tagged (tagWRN uc) (''Could not save session: '' @ err))]
        | None \<Rightarrow> [])
      else [ClientClosed])"

definition cli_pollInterval :: "cli_Config \<Rightarrow> int" where
  "cli_pollInterval cfg = wrap64 (cli_PollInterval cfg * second)"

definition cli_poll ::
  "'c client_world \<Rightarrow> bool \<Rightarrow> string \<Rightarrow> cli_Config \<Rightarrow> 'c \<Rightarrow> cli_action list \<times> int" where
  "cli_poll w uc sessionFile cfg c =
     (case cw_start w (cli_pollInterval cfg) c of
        Some err \<Rightarrow>
          ([Stderr (tagged (tagERR uc) (''Could not start polling: '' @ err)), ClientClosed], 1)
      | None \<Rightarrow> (case cw_wait w c of (reason, received) \<Rightarrow>
          (case cli_finish cfg reason received of (message, code) \<Rightarrow>
            (PollingStarted (cli_pollInterval cfg) # cli_end_client w uc sessionFile c
               @ (case message of None \<Rightarrow> [] | Some text \<Rightarrow> [Stdout (tagged (tagINF uc) text)]),
             code))))"

definition cli_run ::
  "'c client_world \<Rightarrow> bool \<Rightarrow> (string \<rightharpoonup> flag_value) \<Rightarrow> cli_Config \<Rightarrow> Options \<Rightarrow> cli_action list \<times> int" where
  "cli_run w uc vars cfg opts =
     (let sessionFile = string_of (vars ''sessionFile'')
      in case cli_open_client w uc sessionFile opts of
           Inl err \<Rightarrow> ([Stderr (tagged (tagERR uc) err)], 1)
         | Inr (loaded, c) \<Rightarrow> (case cli_payloads (cw_domain w) (payloadCount cfg) c of (payloads, c1) \<Rightarrow>
             apfst (\<lambda>acts. loaded @ cli_list_payloads uc payloads
                 @ cli_store_payloads w uc (bool_of (vars ''payloadStore'')) (string_of (vars ''payloadStoreFile'')) payloads
                 @ acts)
               (cli_poll w uc sessionFile cfg c1)))"

section \<open>How the program leaves the session\<close>

fun client_call :: "cli_action \<Rightarrow> bool" where
  "client_call (PollingStarted d) = True"
| "client_call PollingStopped = True"
| "client_call (SessionSaved f) = True"
| "client_call ClientClosed = True"
| "client_call _ = False"

lemma payloads_length: "length (fst (cli_payloads domain n c)) = n"
  by (induction n arbitrary: c) (simp_all add: case_prod_unfold)

lemma no_client_calls [simp]:
  "filter client_call (cli_list_payloads uc ps) = []"
  "filter client_call (cli_store_payloads w uc b f ps) = []"
  by (simp_all add: cli_list_payloads_def cli_store_payloads_def filter_map o_def split: option.split)

lemma open_client_calls: "cli_open_client w uc f opts = Inr (acts, c) \<Longrightarrow> filter client_call acts = []"
  by (auto simp: cli_open_client_def split: if_splits sum.splits)

lemma end_client_calls:
  "filter client_call (cli_end_client w uc f c) = (if f \<noteq> [] then [PollingStopped, SessionSaved f] else [ClientClosed])"
  by (simp add: cli_end_client_def split: option.split)

text \<open>
  C29: the client program never walks away from a session.  Once it has a client, whatever fails
  afterwards, it makes exactly these calls: with a session file the polling is stopped and the
  session is saved under that name, and it is not deregistered; without one, or when the polling
  does not start, the client is closed, once.  It exits with 1 exactly when the polling does not
  start or the time is over before the requested number of interactions has come; as many payloads
  are listed as asked for, at least one, and a payload file that is written has the same ones.
\<close>

theorem client_program_ends:
  assumes "cli_open_client w uc (string_of (vars ''sessionFile'')) opts = Inr (loaded, c)"
    and "cli_payloads (cw_domain w) (payloadCount cfg) c = (payloads, c1)"
    and "cli_run w uc vars cfg opts = (actions, code)"
  shows "filter client_call actions = (if cw_start w (cli_pollInterval cfg) c1 \<noteq> None then [ClientClosed]
       else PollingStarted (cli_pollInterval cfg)
         # (if string_of (vars ''sessionFile'') = [] then [ClientClosed]
            else [PollingStopped, SessionSaved (string_of (vars ''sessionFile''))]))
     \<and> code = (if cw_start w (cli_pollInterval cfg) c1 \<noteq> None
         \<or> fst (cw_wait w c1) = ReasonTimeout \<and> cli_Count cfg > snd (cw_wait w c1) \<and> cli_Count cfg > 0 then 1 else 0)
     \<and> length payloads = max 1 (nat (cli_Number cfg))
     \<and> (\<forall>name ps. PayloadFile name ps \<in> set actions \<longrightarrow> ps = payloads)
     \<and> set (map (\<lambda>p. Stdout (tagged (tagINF uc) p)) payloads) \<subseteq> set actions"
proof -
  let ?f = "string_of (vars ''sessionFile'')"
  obtain acts where acts: "cli_poll w uc ?f cfg c1 = (acts, code)"
    and run: "actions = loaded @ cli_list_payloads uc payloads
       @ cli_store_payloads w uc (bool_of (vars ''payloadStore'')) (string_of (vars ''payloadStoreFile'')) payloads @ acts"
    using assms(3) by (auto simp: cli_run_def assms(1,2) Let_def apfst_def map_prod_def split: prod.splits)
  have poll: "filter client_call acts = (if cw_start w (cli_pollInterval cfg) c1 \<noteq> None then [ClientClosed]
       else PollingStarted (cli_pollInterval cfg)
         # (if ?f = [] then [ClientClosed] else [PollingStopped, SessionSaved ?f]))"
    and code: "code = (if cw_start w (cli_pollInterval cfg) c1 \<noteq> None
         \<or> fst (cw_wait w c1) = ReasonTimeout \<and> cli_Count cfg > snd (cw_wait w c1) \<and> cli_Count cfg > 0 then 1 else 0)"
    using acts by (auto simp: cli_poll_def cli_finish_def Let_def end_client_calls
        split: option.splits prod.splits end_reason.splits if_splits)
  have no_file: "PayloadFile name ps \<notin> set acts \<and> PayloadFile name ps \<notin> set loaded" for name ps
    using acts assms(1)
    by (auto simp: cli_poll_def cli_end_client_def cli_open_client_def split: option.splits prod.splits if_splits sum.splits)
  have "length payloads = max 1 (nat (cli_Number cfg))"
    using payloads_length [of "cw_domain w" "payloadCount cfg" c] assms(2) by (simp add: payloadCount_def)
  moreover have "ps = payloads" if "PayloadFile name ps \<in> set actions" for name ps
    using that no_file
    by (auto simp: run cli_list_payloads_def cli_store_payloads_def split: if_splits option.splits)
  moreover have "set (map (\<lambda>p. Stdout (tagged (tagINF uc) p)) payloads) \<subseteq> set actions"
    by (auto simp: run cli_list_payloads_def)
  moreover have "filter client_call actions = filter client_call acts"
    by (simp add: run open_client_calls [OF assms(1)])
  ultimately show ?thesis unfolding poll by (intro conjI allI impI code) assumption+
qed

definition demo_world :: "nat client_world" where
  "demo_world = \<lparr>cw_stat = \<lambda>f. f = ''s'', cw_load = \<lambda>f opts. Inr 3, cw_new = \<lambda>opts. Inr 0,
     cw_domain = \<lambda>n. (replicate n CHR ''x'', Suc n), cw_create = \<lambda>f. None, cw_start = \<lambda>d n. None,
     cw_save = \<lambda>f n. Some ''disk full'', cw_wait = \<lambda>n. (ReasonTimeout, 1)\<rparr>"

theorem client_program_ends_witness:
  "let (actions, code) = cli_run demo_world False (flag_variables cli_flags
        [(''sf'', StringValue ''s''), (''payload-store'', BoolValue True)])
        (cli_defaults\<lparr>cli_Number := 2, cli_Count := 2\<rparr>) zero_Options
   in filter client_call actions = [PollingStarted (2 * second), PollingStopped, SessionSaved ''s''] \<and> code = 1"
proof -
  let ?vars = "flag_variables cli_flags [(''sf'', StringValue ''s''), (''payload-store'', BoolValue True)]"
  let ?cfg = "cli_defaults\<lparr>cli_Number := 2, cli_Count := 2\<rparr>"
  have vars: "string_of (?vars ''sessionFile'') = ''s''" by code_simp
  have opened: "cli_open_client demo_world False (string_of (?vars ''sessionFile'')) zero_Options
     = Inr ([Stdout (tagged (tagINF False) ''Loaded session from s'')], 3)"
    unfolding vars by (simp add: cli_open_client_def demo_world_def)
  obtain payloads c1 where payloads: "cli_payloads (cw_domain demo_world) (payloadCount ?cfg) 3 = (payloads, c1)"
    by fastforce
  obtain actions code where run: "cli_run demo_world False ?vars ?cfg zero_Options = (actions, code)" by fastforce
  have "cli_pollInterval ?cfg = 2 * second"
    by (simp add: cli_pollInterval_def cli_defaults_def duration_defs wrap64_def)
  then have "filter client_call actions = [PollingStarted (2 * second), PollingStopped, SessionSaved ''s''] \<and> code = 1"
    using client_program_ends [OF opened payloads run] vars by (simp add: demo_world_def cli_defaults_def)
  then show ?thesis by (simp add: run)
qed

end
