(* ===== verification/Programs.thy ===== *)
theory Programs
  imports Services Client_Program
begin

text \<open>
  The two programs around the libraries: how the server program (\<open>src/interactsh-srv/main.go\<close>) goes
  from its configuration to a running server, its log lines and saved configuration, the health
  checks of both programs, and the polling interval the client program (\<open>src/main.go\<close>) asks for.
\<close>

section \<open>Log lines\<close>

text \<open>\<open>slog\<close>'s levels are the integers -4, 0, 4 and 8; attributes are keys with their printed values.\<close>

record cleanHandler =
  ch_level :: int
  ch_attrs :: "(string \<times> string) list"

definition cleanHandler_Enabled :: "cleanHandler \<Rightarrow> int \<Rightarrow> bool" where
  "cleanHandler_Enabled h l \<longleftrightarrow> l \<ge> ch_level h"

definition log_tag :: "int \<Rightarrow> string" where
  "log_tag level = (if level \<ge> 8 then ''[ERR]'' else if level \<ge> 4 then ''[WRN]''
     else if level \<ge> 0 then ''[INF]'' else ''[DBG]'')"

definition log_attrs :: "(string \<times> string) list \<Rightarrow> string" where
  "log_attrs attrs = concat (map (\<lambda>(key, value). '' '' @ key @ ''='' @ value) attrs)"

definition cleanHandler_Handle :: "cleanHandler \<Rightarrow> int \<Rightarrow> string \<Rightarrow> (string \<times> string) list \<Rightarrow> string" where
  "cleanHandler_Handle h level message attrs =
     log_tag level @ '' '' @ message @ log_attrs (ch_attrs h) @ log_attrs attrs @ newline"

definition cleanHandler_WithAttrs :: "(string \<times> string) list \<Rightarrow> cleanHandler \<Rightarrow> cleanHandler" where
  "cleanHandler_WithAttrs attrs h = h\<lparr>ch_attrs := ch_attrs h @ attrs\<rparr>"

section \<open>Saving the configuration\<close>

definition filepath_Dir :: "string \<Rightarrow> string" where
  "filepath_Dir path = path_Clean (rev (dropWhile (\<lambda>x. x \<noteq> CHR ''/'') (rev path)))"

definition SaveConfig ::
  "(Config \<Rightarrow> string result) \<Rightarrow> (string \<Rightarrow> 'f \<Rightarrow> string option \<times> 'f) \<Rightarrow> (string \<Rightarrow> string \<Rightarrow> 'f \<Rightarrow> string option \<times> 'f)
     \<Rightarrow> string \<Rightarrow> Config \<Rightarrow> 'f \<Rightarrow> string option \<times> 'f" where
  "SaveConfig marshal mkdirAll writeFile path cfg fs = (case marshal cfg of
      Inl err \<Rightarrow> (Some (''marshal config: '' @ err), fs)
    | Inr data \<Rightarrow>
        (case (if filepath_Dir path \<noteq> [] then mkdirAll (filepath_Dir path) fs else (None, fs)) of
           (Some err, fs1) \<Rightarrow> (Some (''create config directory: '' @ err), fs1)
         | (None, fs1) \<Rightarrow> writeFile path data fs1))"

section \<open>The server program\<close>

text \<open>
  \<open>loaded\<close> is the outcome of \<open>LoadConfig\<close>, \<open>prepare\<close> what the flags and the environment make of it,
  \<open>save\<close> the error of \<open>SaveConfig\<close>, \<open>build\<close> is \<open>New\<close> and \<open>start\<close> is \<open>Start\<close>.
\<close>

definition srv_main ::
  "string option \<times> Config \<Rightarrow> (Config \<Rightarrow> Config result) \<Rightarrow> bool \<Rightarrow> string \<Rightarrow> (Config \<Rightarrow> string option)
     \<Rightarrow> (Config \<Rightarrow> 's result) \<Rightarrow> ('s \<Rightarrow> string option \<times> 'r) \<Rightarrow> 'r program_end" where
  "srv_main loaded prepare configUpdate path save build start = (case loaded of
      (Some err, _) \<Rightarrow> ProgramExit 1 (''Could not load config: '' @ err)
    | (None, file) \<Rightarrow> (case prepare file of
        Inl err \<Rightarrow> ProgramExit 1 err
      | Inr cfg \<Rightarrow>
          if configUpdate
          then (case save cfg of
              Some err \<Rightarrow> ProgramExit 1 (''Could not save config: '' @ err)
            | None \<Rightarrow> ProgramExit 0 (''Config written: '' @ path))
          else (case build cfg of
              Inl err \<Rightarrow> ProgramExit 1 (''Could not create server: '' @ err)
            | Inr s \<Rightarrow> (case start s of
                (Some err, _) \<Rightarrow> ProgramExit 1 (''Could not start server: '' @ err)
              | (None, r) \<Rightarrow> ProgramRunning r))))"

section \<open>Health checks\<close>

text \<open>\<open>stat\<close> and \<open>readFile\<close>: \<open>None\<close>, or whether the error says the file does not exist, with its text.\<close>

definition srv_health_config :: "(string \<Rightarrow> (bool \<times> string) option) \<Rightarrow> (string \<Rightarrow> string option) \<Rightarrow> string \<Rightarrow> bool \<Rightarrow> string" where
  "srv_health_config stat readFile configPath configExplicit = ''Config: '' @ configPath @
     (case stat configPath of
        Some (isNotExist, err) \<Rightarrow>
          if isNotExist \<and> \<not> configExplicit then '' (not found)'' else '' (ERROR: '' @ err @ '')''
      | None \<Rightarrow> (case readFile configPath of
          Some err \<Rightarrow> '' (ERROR: '' @ err @ '')''
        | None \<Rightarrow> '' (readable)''))"

definition srv_health_dial :: "string \<Rightarrow> string \<Rightarrow> string option \<Rightarrow> string" where
  "srv_health_dial label target outcome = label @ '' ('' @ target @ ''): '' @
     (case outcome of Some err \<Rightarrow> ''FAIL ('' @ err @ '')'' | None \<Rightarrow> ''OK'')"

text \<open>\<open>info\<close>: operating system, architecture and version of Go; \<open>dial\<close>: the error for network and address.\<close>

definition srv_runHealthCheck ::
  "(string \<times> string \<times> string) \<Rightarrow> (string \<Rightarrow> (bool \<times> string) option) \<Rightarrow> (string \<Rightarrow> string option)
     \<Rightarrow> (string \<Rightarrow> string \<Rightarrow> string option) \<Rightarrow> string \<Rightarrow> string \<Rightarrow> bool \<Rightarrow> string list" where
  "srv_runHealthCheck info stat readFile dial ver configPath configExplicit = (case info of (os, arch, go) \<Rightarrow>
     [''interactsh-srv '' @ ver, ''OS: '' @ os @ ''/'' @ arch, ''Go: '' @ go, [],
      srv_health_config stat readFile configPath configExplicit, [],
      srv_health_dial ''UDP '' ''scanme.sh:53'' (dial ''udp'' ''scanme.sh:53''),
      srv_health_dial ''TCP4'' ''scanme.sh:80'' (dial ''tcp4'' ''scanme.sh:80''),
      srv_health_dial ''TCP6'' ''scanme.sh:80'' (dial ''tcp6'' ''scanme.sh:80'')])"

definition health_read :: "(bool \<times> string) option \<Rightarrow> string \<Rightarrow> string" where
  "health_read outcome configPath = ''Config file '' @ go_quote configPath @ '' Read => '' @
     (case outcome of None \<Rightarrow> ''Ok''
      | Some (isNotExist, err) \<Rightarrow> if isNotExist then ''Ok (file does not exist)'' else ''Ko ('' @ err @ '')'')"

definition health_write :: "(bool \<times> string) option \<Rightarrow> (string \<Rightarrow> bool) \<Rightarrow> string \<Rightarrow> string" where
  "health_write outcome not_exist configPath = ''Config file '' @ go_quote configPath @ '' Write => '' @
     (case outcome of None \<Rightarrow> ''Ok''
      | Some (isNotExist, err) \<Rightarrow>
          if isNotExist
          then (if not_exist (filepath_Dir configPath) then ''Ko (directory does not exist)''
                else ''Ok (file does not exist, directory writable)'')
          else ''Ko ('' @ err @ '')'')"

definition checkConnectivity :: "(string \<Rightarrow> string \<Rightarrow> string option) \<Rightarrow> string \<Rightarrow> string \<Rightarrow> string \<Rightarrow> int \<Rightarrow> string" where
  "checkConnectivity dial network label host port =
     (let addr = JoinHostPort host port
      in label @ '' connectivity to '' @ addr @ '' => '' @
         (case dial network addr of Some err \<Rightarrow> ''Ko ('' @ err @ '')'' | None \<Rightarrow> ''Ok''))"

text \<open>\<open>info\<close>: operating system, architecture, version of Go and compiler.\<close>

definition cli_runHealthCheck ::
  "(string \<times> string \<times> string \<times> string) \<Rightarrow> (string \<Rightarrow> (bool \<times> string) option) \<Rightarrow> (string \<Rightarrow> (bool \<times> string) option)
     \<Rightarrow> (string \<Rightarrow> bool) \<Rightarrow> (string \<Rightarrow> string \<Rightarrow> string option) \<Rightarrow> string \<Rightarrow> string \<Rightarrow> string list" where
  "cli_runHealthCheck info readFile openFile not_exist dial version configPath = (case info of (os, arch, go, compiler) \<Rightarrow>
     [''Version: '' @ version, ''Operating System: '' @ os, ''Architecture: '' @ arch, ''Go Version: '' @ go,
      ''Compiler: '' @ compiler,
      health_read (readFile configPath) configPath, health_write (openFile configPath) not_exist configPath,
      checkConnectivity dial ''udp'' ''UDP'' ''scanme.sh'' 53,
      checkConnectivity dial ''tcp4'' ''IPv4'' ''scanme.sh'' 80,
      checkConnectivity dial ''tcp6'' ''IPv6'' ''scanme.sh'' 80])"

section \<open>The polling interval of the client program\<close>

text \<open>\<open>pollLoop\<close> starts with \<open>time.NewTicker\<close>, which panics on an interval that is not positive.\<close>

definition time_NewTicker :: "int \<Rightarrow> int result" where
  "time_NewTicker d = (if d \<le> 0 then Inl ''non-positive interval for NewTicker'' else Inr d)"

section \<open>Properties\<close>

lemma srv_main_running:
  assumes "srv_main loaded prepare configUpdate path save build start = ProgramRunning r"
  obtains raw cfg s where "prepare raw = Inr cfg" "build cfg = Inr s" "start s = (None, r)"
  using assms by (auto simp: srv_main_def split: prod.splits option.splits sum.splits if_splits)

lemma New_server_start:
  "New_server now recs od cfg = Inr s \<Longrightarrow> sv_services s = [] \<and> sv_cfg s = normalise_domains cfg"
  by (auto simp: New_server_def Let_def split: option.splits sum.splits if_splits)

text \<open>
  C11: a server program that runs is configured safely.  Whatever the file, the flags and the
  environment say, when the program is past its start, FTP, LDAP and wildcard capture are only
  enabled with authentication, authentication only with a token that is not empty, there is a domain
  and every domain is in lower case, and every open listener belongs to a service.
\<close>

theorem server_program_secured:
  assumes "\<And>bs. rand = Inr bs \<Longrightarrow> bs \<noteq> []" and schedule: "\<And>gs. se_schedule env gs \<in> interleavings gs"
    and run: "srv_main loaded (prepare_config changed flags rand expand envMax version) configUpdate path save
       (New_server now records open_disk) (\<lambda>s. Start env ([], s)) = ProgramRunning (tls, socks, s)"
  shows "(FTP (sv_cfg s) \<or> LDAP (sv_cfg s) \<or> Wildcard (sv_cfg s) \<longrightarrow> Auth (sv_cfg s))
     \<and> (Auth (sv_cfg s) \<longrightarrow> Token (sv_cfg s) \<noteq> [])
     \<and> Domains (sv_cfg s) \<noteq> [] \<and> (\<forall>d \<in> set (Domains (sv_cfg s)). to_lower d = d)
     \<and> socks = map (service_socket (sv_cfg s)) (filter is_listener (sv_services s))"
proof -
  obtain raw cfg s0 where prepared: "prepare_config changed flags rand expand envMax version raw = Inr cfg"
    and built: "New_server now records open_disk cfg = Inr s0" and start: "Start env ([], s0) = (None, tls, socks, s)"
    using srv_main_running [OF run] by blast
  have ok: "Validate cfg = None \<and> (FTP cfg \<or> LDAP cfg \<or> Wildcard cfg \<longrightarrow> Auth cfg \<and> Token cfg \<noteq> [])
      \<and> (Auth cfg \<longrightarrow> Token cfg \<noteq> [])"
    using prepare_config_authenticated [where changed = changed and flags = flags and expand = expand
      and envMax = envMax and version = version and loaded = raw and rand = rand] assms(1) prepared by simp
  note s0 = New_server_start [OF built]
  obtain names where own: "owned (sv_cfg s0) names socks s"
    using start_owned [OF _ schedule start] s0 by blast
  then have cfg: "sv_cfg s = normalise_domains cfg" using s0 by (simp add: owned_def)
  have "Domains cfg \<noteq> []" using ok by (simp add: Validate_None_iff)
  moreover have "length (Domains (sv_cfg s)) = length (Domains cfg)" by (simp add: cfg normalise_domains_def)
  ultimately have "Domains (sv_cfg s) \<noteq> []" by auto
  moreover have "\<forall>d \<in> set (Domains (sv_cfg s)). to_lower d = d"
    by (auto simp: cfg normalise_domains_def)
  ultimately show ?thesis using ok own s0 cfg by (simp add: owned_def normalise_domains_def)
qed

text \<open>
  The polling interval is not checked: with an interval of 0 in the file or the flags the program
  prepares a client without complaint, and the ticker of its poll loop panics.
\<close>

lemma poll_interval_unchecked:
  "case cli_prepare (None, cli_defaults) {''poll-interval''} (cli_defaults\<lparr>cli_PollInterval := 0\<rparr>)
       (\<lambda>_. None) (\<lambda>_. Inr ()) [] [] None of
     Inl err \<Rightarrow> False
   | Inr (cfg, _, _, _) \<Rightarrow> time_NewTicker (cli_pollInterval cfg) = Inl ''non-positive interval for NewTicker''"
proof -
  have "wrap64 0 = 0" by code_simp
  then show ?thesis
    by (simp add: cli_prepare_def cli_override_def cli_override_output_def flagChanged_def cli_defaults_def
        buildResponseConfig_def cli_pollInterval_def time_NewTicker_def Let_def)
qed

theorem server_program_secured_witness:
  "case srv_main (None, DefaultConfig\<lparr>Domains := [''A.com''], IPs := [''192.0.2.1''], ListenIP := [], Token := ''t''\<rparr>)
        (prepare_config {} zero_Config (Inr [1, 2]) Inr [] ''v1'') False ''c.yaml'' (\<lambda>_. None)
        (New_server 0 (Inr Map.empty) (\<lambda>_. Inl []) :: Config \<Rightarrow> unit server result) (\<lambda>s. Start demo_start ([], s)) of
      ProgramExit code text \<Rightarrow> False
    | ProgramRunning (tls, socks, s) \<Rightarrow> Domains (sv_cfg s) \<noteq> []
        \<and> socks = map (service_socket (sv_cfg s)) (filter is_listener (sv_services s))"
proof -
  let ?file = "DefaultConfig\<lparr>Domains := [''A.com''], IPs := [''192.0.2.1''], ListenIP := [], Token := ''t''\<rparr>"
  let ?cfg = "?file\<lparr>Auth := True, ConfigVersion := ''v1''\<rparr>"
  have prepared: "prepare_config {} zero_Config (Inr [1, 2]) Inr [] ''v1'' ?file = Inr ?cfg"
    by (simp add: prepare_config_def override_services_def override_config_def override_input_def flagChanged_def
        auto_auth_def env_max_shared_def Validate_def DefaultConfig_def zero_Config_def Let_def)
  let ?new = "New_server 0 (Inr Map.empty) (\<lambda>_. Inl []) :: Config \<Rightarrow> unit server result"
  have valid: "Validate ?cfg = None"
    by (simp add: Validate_None_iff DefaultConfig_def zero_Config_def EvictionSliding_def)
  have disk: "Disk (normalise_domains ?cfg) = False"
    by (simp add: normalise_domains_def DefaultConfig_def zero_Config_def)
  obtain s0 where s0: "?new ?cfg = Inr s0"
    unfolding New_server_def Let_def valid option.case sum.case disk if_False by blast
  have s0_cfg: "sv_cfg s0 = normalise_domains ?cfg" using New_server_start [OF s0] by simp
  have ports: "DNSPort (sv_cfg s0) = 53" "HTTPPort (sv_cfg s0) = 80" "ListenIP (sv_cfg s0) = []"
    "IPs (sv_cfg s0) = [''192.0.2.1'']" "EnablePprof (sv_cfg s0) = False"
    "DefaultHTTPResponse (sv_cfg s0) = []" "HTTPIndex (sv_cfg s0) = []"
    "CertFile (sv_cfg s0) = []" "SkipACME (sv_cfg s0) = False"
    by (simp_all add: s0_cfg normalise_domains_def DefaultConfig_def zero_Config_def)
  have "fst (Start demo_start ([], s0)) = None"
    by (simp add: Start_def startDNS_def startHTTP_def start_service_def net_Listen_def addService_def resolveIPs_def
        start_tls_def provisionTLS_def provisionACME_def generateSelfSignedCert_def loadHTTPFiles_def Let_def
        demo_start_def ports demo_start_facts(6,7))
  then obtain tls socks s where start: "Start demo_start ([], s0) = (None, tls, socks, s)"
    by (metis prod.collapse)
  have run: "srv_main (None, ?file) (prepare_config {} zero_Config (Inr [1, 2]) Inr [] ''v1'') False ''c.yaml'' (\<lambda>_. None)
      ?new (\<lambda>s. Start demo_start ([], s)) = ProgramRunning (tls, socks, s)"
    by (simp add: srv_main_def prepared s0 start)
  have schedule: "se_schedule demo_start gs \<in> interleavings gs" for gs
    by (simp add: demo_start_facts concat_interleaves)
  show ?thesis
    using server_program_secured [OF _ schedule run] by (simp add: run)
qed

end
