(* ===== verification/Backend_Equivalence.thy ===== *)
theory Backend_Equivalence
  imports Disk_Storage
begin

text \<open>
  The two storage backends against one abstract machine.  Its state is a map from ids to accounts;
  a capture appends to an account, a poll empties it.  Every storage that keeps the storage contract
  refines this machine, answer by answer; the memory and the disk backend keep it, so whoever only
  sees the answers cannot tell them apart.
\<close>

section \<open>Runs\<close>

text \<open>The answers of all polls of a run, refusals included, and the state at its end.\<close>

fun storage_run :: "(bytes result \<Rightarrow> string \<Rightarrow> bytes \<Rightarrow> 's \<Rightarrow> 's) \<Rightarrow> (string \<Rightarrow> string \<Rightarrow> 's \<Rightarrow> bytes list result \<times> 's)
     \<Rightarrow> traffic list \<Rightarrow> 's \<Rightarrow> bytes list result list \<times> 's" where
  "storage_run app poll [] s = ([], s)"
| "storage_run app poll (Capture r c x # es) s = storage_run app poll es (app r c x s)"
| "storage_run app poll (Poll c sk # es) s = (case poll c sk s of (r, s1) \<Rightarrow>
     (case storage_run app poll es s1 of (rs, s2) \<Rightarrow> (r # rs, s2)))"

section \<open>The abstract machine\<close>

type_synonym accounts = "string \<Rightarrow> account option"

definition spec_append ::
  "(account \<Rightarrow> bytes \<Rightarrow> bytes \<Rightarrow> bytes) \<Rightarrow> bytes result \<Rightarrow> string \<Rightarrow> bytes \<Rightarrow> accounts \<Rightarrow> accounts" where
  "spec_append enc r c x A = (case (r, A c) of
      (Inr iv, Some acc) \<Rightarrow> A(c \<mapsto> acc\<lparr>acc_pending := acc_pending acc @ [enc acc iv x]\<rparr>)
    | _ \<Rightarrow> A)"

definition spec_poll :: "string \<Rightarrow> string \<Rightarrow> accounts \<Rightarrow> bytes list result \<times> accounts" where
  "spec_poll c sk A = (case A c of
      None \<Rightarrow> (Inl ''could not get correlation-id'', A)
    | Some acc \<Rightarrow> if acc_secret acc \<noteq> go_bytes sk then (Inl ''invalid secret key passed for user'', A)
                   else (Inr (acc_pending acc), A(c \<mapsto> acc\<lparr>acc_pending := []\<rparr>)))"

text \<open>The machine keeps the contract itself.\<close>

interpretation spec_contract:
  storage_contract "\<lambda>_. True" "\<lambda>A. A" "spec_append (encrypt_for aes)" spec_poll "encrypt_for aes" "\<lambda>_ _. True" for aes
  by unfold_locales (auto simp: spec_append_def spec_poll_def encrypt_for_def fun_eq_iff split: sum.split option.split)

text \<open>A capture names an account: a matcher has found the id live.\<close>

fun names_account :: "accounts \<Rightarrow> traffic \<Rightarrow> bool" where
  "names_account A (Capture r c x) \<longleftrightarrow> A c \<noteq> None"
| "names_account A (Poll c sk) \<longleftrightarrow> True"

lemma names_account_dom: "dom A = dom B \<Longrightarrow> names_account A = names_account B"
proof
  fix e assume "dom A = dom B" then show "names_account A e = names_account B e"
    by (cases e) (auto simp: dom_def)
qed

lemma spec_dom [simp]: "dom (spec_append enc r c x A) = dom A" "dom (snd (spec_poll c sk A)) = dom A"
  by (auto simp: spec_append_def spec_poll_def split: sum.split option.split)

section \<open>Every storage under the contract refines the machine\<close>

context storage_contract
begin

lemma append_refines:
  assumes "good s" "fits r x" "acct s c \<noteq> None"
  shows "acct (app r c x s) = spec_append enc r c x (acct s)"
proof
  fix c'
  show "acct (app r c x s) c' = spec_append enc r c x (acct s) c'"
    using assms append_acct append_fails append_other [of s c' c r x]
    by (cases r; cases "c' = c") (auto simp: spec_append_def)
qed

lemma poll_refines:
  assumes "good s"
  shows "fst (poll c sk s) = fst (spec_poll c sk (acct s))" "acct (snd (poll c sk s)) = snd (spec_poll c sk (acct s))"
proof -
  have "acct (snd (poll c sk s)) c' = snd (spec_poll c sk (acct s)) c'" for c'
    using poll_acct [OF assms, of c _ sk] poll_denied [OF assms, of c _ sk] poll_absent [OF assms, of c sk]
      poll_other [OF assms, of c' c sk]
    by (cases "c' = c") (auto simp: spec_poll_def split: option.split)
  then show "acct (snd (poll c sk s)) = snd (spec_poll c sk (acct s))" ..
  show "fst (poll c sk s) = fst (spec_poll c sk (acct s))"
    using poll_acct [OF assms, of c _ sk] poll_denied [OF assms, of c _ sk] poll_absent [OF assms, of c sk]
    by (auto simp: spec_poll_def split: option.split)
qed

lemma run_refines:
  assumes "good s" "list_all (traffic_fits fits) es" "list_all (names_account (acct s)) es"
  shows "fst (storage_run app poll es s) = fst (storage_run (spec_append enc) spec_poll es (acct s))
     \<and> acct (snd (storage_run app poll es s)) = snd (storage_run (spec_append enc) spec_poll es (acct s))"
  using assms
proof (induction es arbitrary: s)
  case (Cons e es)
  show ?case
  proof (cases e)
    case (Capture r c x)
    have step: "acct (app r c x s) = spec_append enc r c x (acct s)"
      using Cons.prems Capture by (intro append_refines) simp_all
    have "names_account (acct (app r c x s)) = names_account (acct s)"
      by (rule names_account_dom) (simp add: step)
    with Cons.IH [of "app r c x s"] Cons.prems Capture show ?thesis
      by (simp add: append_good step)
  next
    case (Poll c sk)
    note step = poll_refines [OF Cons.prems(1), of c sk]
    have "names_account (acct (snd (poll c sk s))) = names_account (acct s)"
      by (rule names_account_dom) (simp add: step)
    with Cons.IH [of "snd (poll c sk s)"] Cons.prems Poll poll_good [OF Cons.prems(1)] step
    show ?thesis by (simp add: split: prod.split) (metis fst_conv snd_conv)
  qed
qed simp

end

section \<open>The backends are equivalent\<close>

text \<open>
  The memory and the disk backend are equivalent at one instant.  From states that hold the same accounts, every
  sequence of captures for live ids and of polls, with any ids and secrets, gets the same answers
  from both, refusals included, and ends in states that hold the same accounts again.
\<close>

theorem backends_equivalent_at:
  assumes "mem_good aes now m" and "disk_good aes ldb contents now d" and same: "view now m = disk_view contents now d"
    and "list_all (traffic_fits record_fits) es" and "list_all (names_account (view now m)) es"
  shows "fst (storage_run (disk_AppendInteraction ldb now) (disk_poll_session ldb now) es d)
       = fst (storage_run (AppendInteraction now) (poll_session now) es m)
     \<and> disk_view contents now (snd (storage_run (disk_AppendInteraction ldb now) (disk_poll_session ldb now) es d))
       = view now (snd (storage_run (AppendInteraction now) (poll_session now) es m))"
proof -
  have "list_all (traffic_fits (\<lambda>_ _. True)) es"
    by (simp add: list_all_iff) (metis traffic_fits.simps traffic.exhaust)
  with memory_contract.run_refines [OF assms(1) _ assms(5)] disk_contract.run_refines [OF assms(2,4)] assms(5)
  show ?thesis by (simp add: same)
qed

theorem backends_equivalent_at_witness:
  "fst (storage_run (disk_AppendInteraction map_leveldb 6) (disk_poll_session map_leveldb 6)
       [Capture (Inr (replicate 16 0)) ''c'' [7], Poll ''c'' ''wrong'', Poll ''d'' ''k'', Poll ''c'' ''k''] demo_d1)
     = fst (storage_run (AppendInteraction 6) (poll_session 6)
       [Capture (Inr (replicate 16 0)) ''c'' [7], Poll ''c'' ''wrong'', Poll ''d'' ''k'', Poll ''c'' ''k''] demo_m1)"
proof -
  let ?es = "[Capture (Inr (replicate 16 0)) ''c'' [7], Poll ''c'' ''wrong'', Poll ''d'' ''k'', Poll ''c'' ''k'']"
  have m: "mem_good demo_cipher 6 demo_m1" by (rule demo_m1_good) (simp_all add: max_int64_def)
  have c: "view 6 demo_m1 ''c'' = Some demo_account" by (rule demo_m1_view) (simp_all add: duration_defs)
  have "view 6 demo_m1 x = disk_view (\<lambda>d. d) 6 demo_d1 x" for x
  proof (cases "x = ''c''")
    case True
    have "disk_view (\<lambda>d. d) 6 demo_d1 ''c'' = Some demo_account"
      by (simp add: disk_view_def view_def demo_d1_facts isExpired_def pending_of_def account_of_def
          demo_account_def demo_session_def)
    with c True show ?thesis by simp
  next
    case False
    then show ?thesis by (simp add: disk_view_def view_def find_session_def demo_m1_fields demo_d1_facts)
  qed
  then have same: "view 6 demo_m1 = disk_view (\<lambda>d. d) 6 demo_d1" ..
  have "list_all (traffic_fits record_fits) ?es" "list_all (names_account (view 6 demo_m1)) ?es"
    by (simp_all add: record_fits_def c)
  from conjunct1 [OF backends_equivalent_at [OF m demo_d1_good same this]] show ?thesis .
qed

end
