(* ===== verification/Backend_Histories.thy ===== *)
theory Backend_Histories
  imports Backend_Equivalence
begin

text \<open>
  The two storage backends over whole histories: every operation of the storage, in any order, with
  any ids and secrets, each call at an instant of its own.  Sessions expire, are refreshed, evicted
  and replaced on the way.  The session table that the disk backend embeds runs in lockstep with that
  of the memory backend, so both take every decision alike; and the value that LevelDB holds for an
  id is the framing of the list that the memory backend keeps in the session.
\<close>

section \<open>The session table without its interactions\<close>

definition erase :: "Session \<Rightarrow> Session" where
  "erase s = s\<lparr>interactions := []\<rparr>"

definition table :: "'d memoryStorage \<Rightarrow> unit memoryStorage" where
  "table m = \<lparr>sessions = sessions m, heap = (\<lambda>a. map_option erase (heap m a)), next_session = next_session m,
     lruList = lruList m, lruMap = lruMap m, next_elem = next_elem m, ttl = ttl m, noEviction = noEviction m,
     slidingTTL = slidingTTL m, hits = hits m, misses = misses m, evictions = evictions m,
     sessionsTotal = sessionsTotal m, onEvict = None, onRegister = None, backing = ()\<rparr>"

lemma erase_simps [simp]:
  "PublicKey (erase s) = PublicKey s" "AESKey (erase s) = AESKey s" "AESBlock (erase s) = AESBlock s"
  "SecretKey (erase s) = SecretKey s" "Response (erase s) = Response s" "interactions (erase s) = []"
  "lastAccess (erase s) = lastAccess s" "createdAt (erase s) = createdAt s"
  "erase (s\<lparr>lastAccess := t\<rparr>) = (erase s)\<lparr>lastAccess := t\<rparr>" "erase (s\<lparr>interactions := q\<rparr>) = erase s"
  by (simp_all add: erase_def)

lemma table_fields [simp]:
  "sessions (table m) = sessions m" "lruList (table m) = lruList m" "lruMap (table m) = lruMap m"
  "noEviction (table m) = noEviction m" "slidingTTL (table m) = slidingTTL m" "ttl (table m) = ttl m"
  "isExpired now (table m) = isExpired now m"
  by (simp_all add: table_def isExpired_def fun_eq_iff)

lemma find_table: "find_session (table m) c = map_option (apsnd erase) (find_session m c)"
  by (cases "sessions m c") (simp_all add: find_session_def table_def option.map_comp o_def)

lemma isExpired_erase [simp]: "isExpired now m (erase s) = isExpired now m s"
  by (simp add: isExpired_def)

lemma table_update:
  assumes "\<And>s. erase (f s) = g (erase s)"
  shows "table (update_session a f m) = update_session a g (table m)"
  using assms by (auto simp: table_def update_session_def fun_eq_iff option.map_comp o_def)

lemma table_interactions: "table (update_session a (\<lambda>s. s\<lparr>interactions := f s\<rparr>) m) = table m"
  by (auto simp: table_def update_session_def fun_eq_iff option.map_comp o_def)

lemma table_commutes [simp]:
  "table (hit m) = hit (table m)" "table (miss m) = miss (table m)" "table (evicted m) = evicted (table m)"
  "table (promoteLRU c m) = promoteLRU c (table m)" "table (removeLocked c m) = removeLocked c (table m)"
  "table (touch_if_sliding now a m) = touch_if_sliding now a (table m)"
  "table (insert_session c s m) = insert_session c (erase s) (table m)"
  "table (m\<lparr>backing := b\<rparr>) = table m"
proof -
  show "table (touch_if_sliding now a m) = touch_if_sliding now a (table m)"
    using table_update [of "\<lambda>s. s\<lparr>lastAccess := wrap64 now\<rparr>" "\<lambda>s. s\<lparr>lastAccess := wrap64 now\<rparr>" a m]
    by (simp add: touch_if_sliding_def touchSession_def)
  show "table (insert_session c s m) = insert_session c (erase s) (table m)"
    by (auto simp: table_def insert_session_def Let_def fun_eq_iff split: option.split)
qed (auto simp: table_def hit_def miss_def evicted_def promoteLRU_def removeLocked_def Let_def split: option.split)

lemma evict_probe_table:
  "evict_probe n es (table m) v t = apfst table (evict_probe n es m v t)"
proof (induction n arbitrary: es m v t)
  case (Suc n)
  have drop: "(table m)\<lparr>lruList := l, lruMap := k\<rparr> = table (m\<lparr>lruList := l, lruMap := k\<rparr>)" for l k
    by (simp add: table_def)
  show ?case
    by (auto simp: find_table Suc.IH drop split: list.split option.split)
qed simp

lemma evict_probe_kept:
  "find_session (fst (evict_probe n es m v t)) = find_session m \<and> backing (fst (evict_probe n es m v t)) = backing m
     \<and> onEvict (fst (evict_probe n es m v t)) = onEvict m \<and> onRegister (fst (evict_probe n es m v t)) = onRegister m
     \<and> (ptr_ok (fst (evict_probe n es m v t)) \<longleftrightarrow> ptr_ok m)"
proof (induction n arbitrary: es m v t)
  case (Suc n)
  have "find_session (m\<lparr>lruList := l, lruMap := k\<rparr>) = find_session m" "ptr_ok (m\<lparr>lruList := l, lruMap := k\<rparr>) = ptr_ok m" for l k
    by (auto simp: find_session_def ptr_ok_def fun_eq_iff split: option.split)
  note kept = this Suc.IH
  show ?case
  proof (cases es)
    case (Cons x next_es)
    obtain e cid where x: "x = (e, cid)" by (cases x)
    show ?thesis
    proof (cases "find_session m cid")
      case None
      then show ?thesis by (simp add: Cons x kept)
    next
      case (Some as)
      then show ?thesis by (cases as) (simp add: Cons x kept)
    qed
  qed simp
qed simp

section \<open>The relation\<close>

definition paired :: "'db leveldb \<Rightarrow> ('db \<Rightarrow> bytes \<Rightarrow> bytes option) \<Rightarrow> 'd memoryStorage \<Rightarrow> 'db memoryStorage \<Rightarrow> bool" where
  "paired ldb contents m d \<longleftrightarrow> table m = table d \<and> ptr_ok m \<and> disk_hooks ldb d
     \<and> (\<forall>c a s. find_session m c = Some (a, s) \<longrightarrow> framed (contents (backing d) (go_bytes c)) (interactions s))"

lemma paired_fields:
  assumes "paired ldb contents m d"
  shows "sessions m = sessions d" "lruList m = lruList d" "slidingTTL m = slidingTTL d" "isExpired now m = isExpired now d"
proof -
  from assms have t: "table m = table d" by (simp add: paired_def)
  show "sessions m = sessions d" "lruList m = lruList d" "slidingTTL m = slidingTTL d" "isExpired now m = isExpired now d"
    using arg_cong [OF t, of sessions] arg_cong [OF t, of lruList] arg_cong [OF t, of slidingTTL]
      arg_cong [OF t, of "isExpired now"] by simp_all
qed

lemma paired_find:
  assumes "paired ldb contents m d"
  obtains (absent) "find_session m c = None" "find_session d c = None"
  | (found) a s s2 where "find_session m c = Some (a, s)" "find_session d c = Some (a, s2)" "erase s2 = erase s"
      "SecretKey s2 = SecretKey s" "AESKey s2 = AESKey s" "AESBlock s2 = AESBlock s" "Response s2 = Response s"
      "\<And>now. isExpired now d s2 = isExpired now m s"
proof -
  from assms have "map_option (apsnd erase) (find_session m c) = map_option (apsnd erase) (find_session d c)"
    by (simp add: paired_def flip: find_table)
  then consider "find_session m c = None" "find_session d c = None"
    | a s s2 where "find_session m c = Some (a, s)" "find_session d c = Some (a, s2)" "erase s2 = erase s"
    by (cases "find_session m c"; cases "find_session d c") auto
  then show thesis
  proof cases
    case (2 a s s2)
    have "isExpired now d s2 = isExpired now m s" for now
      using isExpired_erase [of now d s2] isExpired_erase [of now m s] paired_fields(4) [OF assms, of now] 2(3) by simp
    moreover have "SecretKey s2 = SecretKey s" "AESKey s2 = AESKey s" "AESBlock s2 = AESBlock s" "Response s2 = Response s"
      using arg_cong [OF 2(3), of SecretKey] arg_cong [OF 2(3), of AESKey] arg_cong [OF 2(3), of AESBlock]
        arg_cong [OF 2(3), of Response] by simp_all
    ultimately show thesis using found 2 by blast
  qed (rule absent)
qed

lemma paired_pending:
  "paired ldb contents m d \<Longrightarrow> find_session m c = Some (a, s) \<Longrightarrow>
     framed (contents (backing d) (go_bytes c)) (interactions s)"
  by (simp add: paired_def)

section \<open>The helpers keep the relation\<close>

lemma paired_counters:
  assumes "paired ldb contents m d"
  shows "paired ldb contents (hit m) (hit d)" "paired ldb contents (miss m) (miss d)"
    "paired ldb contents (evicted m) (evicted d)" "paired ldb contents (promoteLRU c m) (promoteLRU c d)"
  using assms by (simp_all add: paired_def ptr_ok_def)

lemma paired_touch:
  assumes "paired ldb contents m d" "find_session m c = Some (a, s)"
  shows "paired ldb contents (touch_if_sliding now a m) (touch_if_sliding now a d)"
proof -
  have p: "ptr_ok m" using assms(1) by (simp add: paired_def)
  have "framed (contents (backing d) (go_bytes c')) (interactions s')"
    if "find_session (touch_if_sliding now a m) c' = Some (b, s')" for c' b s'
    using that paired_pending [OF assms(1), of c'] find_session_update [OF p assms(2)] assms(2)
    by (auto simp: touch_if_sliding_def touchSession_def split: if_splits)
  then show ?thesis
    using assms(1) by (auto simp: paired_def) (simp add: touch_if_sliding_def touchSession_def)
qed

lemma paired_remove:
  assumes "leveldb_ok ldb contents" "paired ldb contents m d"
  shows "paired ldb contents (removeLocked c m) (removeLocked c d)"
proof -
  have "backing (removeLocked c d) = db_Delete ldb (go_bytes c) (backing d)"
    using assms(2) by (intro backing_removeLocked) (simp add: paired_def)
  then show ?thesis
    using assms(2) leveldb_okD(3) [OF assms(1)] by (auto simp: paired_def ptr_ok_removeLocked split: if_splits)
qed

lemma paired_evictLRU:
  assumes "leveldb_ok ldb contents" "paired ldb contents m d"
  shows "paired ldb contents (evictLRU m) (evictLRU d)"
proof -
  let ?pm = "evict_probe maxProbe (lruList m) m [] max_int64" and ?pd = "evict_probe maxProbe (lruList d) d [] max_int64"
  have t: "table m = table d" using assms(2) by (simp add: paired_def)
  have "apfst table ?pm = apfst table ?pd"
    by (simp add: t paired_fields(2) [OF assms(2)] flip: evict_probe_table)
  then have same: "table (fst ?pm) = table (fst ?pd)" "snd ?pm = snd ?pd"
    by (metis fst_apfst, metis snd_apfst)
  have probed: "paired ldb contents (fst ?pm) (fst ?pd)"
    using assms(2) same(1) evict_probe_kept [of maxProbe "lruList m" m "[]" max_int64]
      evict_probe_kept [of maxProbe "lruList d" d "[]" max_int64]
    by (simp add: paired_def disk_hooks_def)
  then show ?thesis
    using probed paired_counters(3) [OF paired_remove [OF assms(1) probed]] same(2)
    by (simp add: evictLRU_def case_prod_unfold)
qed

lemma paired_insert:
  assumes "leveldb_ok ldb contents" "paired ldb contents m d" "interactions s = []"
  shows "paired ldb contents (insert_session c s m) (insert_session c s d)"
proof -
  have p: "ptr_ok m" and h: "disk_hooks ldb d" using assms(2) by (simp_all add: paired_def)
  have fresh: "sessions m c' \<noteq> Some (next_session m)" for c'
    using p by (force simp: ptr_ok_def ran_def)
  have "ptr_ok (insert_session c s m)"
    using p fresh by (auto simp: ptr_ok_def inj_on_def ran_def less_Suc_eq split: if_splits)
  moreover have "backing (insert_session c s d) = db_Delete ldb (go_bytes c) (backing d)"
    using h by (simp add: insert_session_def Let_def disk_hooks_def)
  moreover have "disk_hooks ldb (insert_session c s d)"
    using h by (simp add: insert_session_def Let_def disk_hooks_def)
  moreover have "find_session (insert_session c s m) c' = (if c' = c then Some (next_session m, s) else find_session m c')" for c'
    using fresh [of c'] by (auto simp: find_session_def split: option.split)
  ultimately show ?thesis
    using assms(2,3) leveldb_okD(3) [OF assms(1)] by (auto simp: paired_def framed_None split: if_splits)
qed

section \<open>The operations keep the relation\<close>

lemmas paired_steps = paired_counters paired_touch paired_remove paired_evictLRU paired_insert

lemma paired_getSession:
  assumes ldb: "leveldb_ok ldb contents" and p: "paired ldb contents m d"
  shows "fst (getSession now c sk d) = fst (getSession now c sk m)
     \<and> paired ldb contents (snd (getSession now c sk m)) (snd (getSession now c sk d))"
  using p
proof (cases rule: paired_find [of ldb contents m d c])
  case absent
  with paired_counters(2) [OF p] show ?thesis by (simp add: getSession_def getSession_read_def)
next
  case (found a s s2)
  have "paired ldb contents (promoteLRU c (touch_if_sliding now a (hit m))) (promoteLRU c (touch_if_sliding now a (hit d)))"
    using found(1) by (intro paired_counters paired_touch [where c = c and s = s] p) simp
  moreover have "paired ldb contents (miss (evicted (removeLocked c m))) (miss (evicted (removeLocked c d)))"
    by (intro paired_counters paired_remove ldb p)
  ultimately show ?thesis
    using found p by (simp add: getSession_def getSession_read_def getSession_locked_def getSession_touch_def)
qed

lemma paired_register_new:
  assumes ldb: "leveldb_ok ldb contents" and p: "paired ldb contents m d"
  shows "fst (register_new aes now rand c pk sk resp d) = fst (register_new aes now rand c pk sk resp m)
     \<and> paired ldb contents (snd (register_new aes now rand c pk sk resp m)) (snd (register_new aes now rand c pk sk resp d))"
proof -
  define m2 where "m2 = (if maxCacheCapacity \<le> card (dom (sessions m)) then evictLRU (miss m) else miss m)"
  define d2 where "d2 = (if maxCacheCapacity \<le> card (dom (sessions d)) then evictLRU (miss d) else miss d)"
  from paired_fields(1) [OF p] paired_counters(2) [OF p] paired_evictLRU [OF ldb paired_counters(2) [OF p]]
  have room: "paired ldb contents m2 d2" by (simp add: m2_def d2_def)
  have tail: "register_new aes now rand c pk sk resp m = (case GenerateAESKey rand of
        Inl err \<Rightarrow> (Inl (''failed to generate AES key: '' @ err), m2)
      | Inr aesKey \<Rightarrow> (case NewCipher aes aesKey of
          Inl err \<Rightarrow> (Inl (''failed to create AES cipher: '' @ err), m2)
        | Inr aesBlock \<Rightarrow> (Inr (aesKey, True), insert_session c
              \<lparr>PublicKey = pk, AESKey = aesKey, AESBlock = aesBlock, SecretKey = go_bytes sk, Response = resp,
               interactions = [], lastAccess = wrap64 now, createdAt = now\<rparr> m2)))"
    if "m2 = (if maxCacheCapacity \<le> card (dom (sessions m)) then evictLRU (miss m) else miss m)"
    for m m2 :: "'x memoryStorage"
    unfolding register_new_def Let_def that counters_simps by (rule refl)
  show ?thesis
    using room paired_insert [OF ldb room] unfolding tail [OF m2_def] tail [OF d2_def]
    by (simp split: sum.split)
qed

lemma paired_Register:
  assumes ldb: "leveldb_ok ldb contents" and p: "paired ldb contents m d"
  shows "fst (Register aes now rand c pk sk resp d) = fst (Register aes now rand c pk sk resp m)
     \<and> paired ldb contents (snd (Register aes now rand c pk sk resp m)) (snd (Register aes now rand c pk sk resp d))"
proof -
  have "fst (registerInternal aes now rand c pk sk resp d) = fst (registerInternal aes now rand c pk sk resp m)
     \<and> paired ldb contents (snd (registerInternal aes now rand c pk sk resp m)) (snd (registerInternal aes now rand c pk sk resp d))"
    using p
  proof (cases rule: paired_find [of ldb contents m d c])
    case absent
    with paired_register_new [OF ldb p] show ?thesis by (simp add: registerInternal_def)
  next
    case (found a s s2)
    have "paired ldb contents (evicted (removeLocked c m)) (evicted (removeLocked c d))"
      by (intro paired_counters paired_remove ldb p)
    note new = paired_register_new [OF ldb this, of aes now rand c pk sk resp]
    have "paired ldb contents (promoteLRU c (touch_if_sliding now a (hit m))) (promoteLRU c (touch_if_sliding now a (hit d)))"
      using found(1) by (intro paired_counters paired_touch [where c = c and s = s] p) simp
    with new paired_counters(1) [OF p] show ?thesis
      using found by (simp add: registerInternal_def Let_def)
  qed
  then show ?thesis
    by (auto simp: Register_def split: prod.split sum.split)
qed

lemma paired_Delete:
  assumes ldb: "leveldb_ok ldb contents" and p: "paired ldb contents m d"
  shows "fst (Delete c sk d) = fst (Delete c sk m) \<and> paired ldb contents (snd (Delete c sk m)) (snd (Delete c sk d))"
  using p
proof (cases rule: paired_find [of ldb contents m d c])
  case (found a s s2)
  with paired_counters(1) [OF p] paired_remove [OF ldb paired_counters(1) [OF p]] show ?thesis
    by (simp add: Delete_def Let_def)
qed (use paired_counters(2) [OF p] in \<open>simp add: Delete_def\<close>)

lemma paired_HasCorrelationID:
  assumes ldb: "leveldb_ok ldb contents" and p: "paired ldb contents m d"
  shows "fst (HasCorrelationID now c d) = fst (HasCorrelationID now c m)
     \<and> paired ldb contents (snd (HasCorrelationID now c m)) (snd (HasCorrelationID now c d))"
  using p
proof (cases rule: paired_find [of ldb contents m d c])
  case (found a s s2)
  with p paired_counters(3) [OF paired_remove [OF ldb p]] show ?thesis
    by (simp add: HasCorrelationID_def has_read_def has_locked_def)
qed (use p in \<open>simp add: HasCorrelationID_def has_read_def\<close>)

lemma paired_GetResponse:
  assumes "paired ldb contents m d"
  shows "GetResponse now c d = GetResponse now c m"
  using assms by (cases rule: paired_find [of ldb contents m d c]) (simp_all add: GetResponse_def)

text \<open>Draining, and appending with a working random source.\<close>

lemma paired_store:
  assumes p: "paired ldb contents m d" and f: "find_session m c = Some (a, s)"
    and "framed v (g (interactions s))" and "contents b = (contents (backing d))(go_bytes c := v)"
  shows "paired ldb contents (update_session a (\<lambda>s. s\<lparr>interactions := g (interactions s)\<rparr>) m) (d\<lparr>backing := b\<rparr>)"
proof -
  have "ptr_ok m" using p by (simp add: paired_def)
  note find_session_update [OF this f, of "\<lambda>s. s\<lparr>interactions := g (interactions s)\<rparr>"]
  then show ?thesis
    using p assms(3,4) by (auto simp: paired_def table_interactions split: if_splits)
qed

definition backends_paired ::
  "'db leveldb \<Rightarrow> ('db \<Rightarrow> bytes \<Rightarrow> bytes option) \<Rightarrow> 'd memoryStorage \<Rightarrow> 'db diskStorage \<Rightarrow> bool" where
  "backends_paired ldb contents m d \<longleftrightarrow> paired ldb contents m (mem d) \<and> \<not> closed d"

lemma paired_drain:
  assumes ldb: "leveldb_ok ldb contents" and p: "backends_paired ldb contents m d"
    and f: "find_session m c = Some (a, s)"
  shows "fst (disk_GetAndClearInteractions ldb c d) = fst (GetAndClearInteractions a m)
     \<and> backends_paired ldb contents (snd (GetAndClearInteractions a m)) (snd (disk_GetAndClearInteractions ldb c d))"
proof -
  let ?v = "contents (backing (mem d)) (go_bytes c)"
  have q: "paired ldb contents m (mem d)" "\<not> closed d" using p by (simp_all add: backends_paired_def)
  have fr: "framed ?v (interactions s)" by (rule paired_pending [OF q(1) f])
  have m: "GetAndClearInteractions a m = (Inr (interactions s), update_session a (\<lambda>s. s\<lparr>interactions := []\<rparr>) m)"
    using f by (simp add: GetAndClearInteractions_def find_session_Some)
  show ?thesis
  proof (cases ?v)
    case None
    then have "interactions s = []" using fr by (simp add: framed_def)
    moreover have "paired ldb contents (update_session a (\<lambda>s. s\<lparr>interactions := []\<rparr>) m) ((mem d)\<lparr>backing := backing (mem d)\<rparr>)"
      by (rule paired_store [OF q(1) f framed_None]) (use None in auto)
    ultimately show ?thesis
      using q(2) None leveldb_okD(1) [OF ldb] by (simp add: m disk_GetAndClearInteractions_def backends_paired_def Let_def)
  next
    case (Some v)
    then have "parse_records v 0 = interactions s" using framed_pending [OF fr] by simp
    moreover have "paired ldb contents (update_session a (\<lambda>s. s\<lparr>interactions := []\<rparr>) m)
        ((mem d)\<lparr>backing := db_Delete ldb (go_bytes c) (backing (mem d))\<rparr>)"
      by (rule paired_store [OF q(1) f framed_None]) (simp add: leveldb_okD(3) [OF ldb])
    ultimately show ?thesis
      using q(2) Some leveldb_okD(1) [OF ldb] by (simp add: m disk_GetAndClearInteractions_def backends_paired_def Let_def)
  qed
qed

lemma paired_poll:
  assumes ldb: "leveldb_ok ldb contents" and p: "backends_paired ldb contents m d"
  shows "fst (disk_poll_session ldb now c sk d) = fst (poll_session now c sk m)
     \<and> backends_paired ldb contents (snd (poll_session now c sk m)) (snd (disk_poll_session ldb now c sk d))"
proof -
  have q: "paired ldb contents m (mem d)" "\<not> closed d" using p by (simp_all add: backends_paired_def)
  obtain r m1 where g: "getSession now c sk m = (r, m1)" by fastforce
  obtain d1 where h: "getSession now c sk (mem d) = (r, d1)" "paired ldb contents m1 d1"
    using paired_getSession [OF ldb q(1), of now c sk] g by (metis fst_conv prod.collapse snd_conv)
  then have d1: "disk_GetSession now c sk d = (r, d\<lparr>mem := d1\<rparr>)" "backends_paired ldb contents m1 (d\<lparr>mem := d1\<rparr>)"
    using q(2) by (simp_all add: disk_GetSession_def backends_paired_def)
  show ?thesis
  proof (cases r)
    case (Inl err)
    with g d1 show ?thesis by (simp add: poll_session_def disk_poll_session_def)
  next
    case (Inr a)
    have pm: "ptr_ok (hit m)" using q(1) by (simp add: paired_def ptr_ok_def)
    from g Inr obtain s where s: "find_session m c = Some (a, s)" "m1 = promoteLRU c (touch_if_sliding now a (hit m))"
      by (auto elim: getSession_Inr)
    then have "find_session (hit m) c = Some (a, s)" by simp
    from find_touch [OF pm this] s(2) obtain t where "find_session m1 c = Some (a, s\<lparr>lastAccess := t\<rparr>)" by auto
    from paired_drain [OF ldb d1(2) this] g d1(1) Inr show ?thesis
      by (simp add: poll_session_def disk_poll_session_def)
  qed
qed

lemma paired_append:
  assumes ldb: "leveldb_ok ldb contents" and p: "backends_paired ldb contents m d" and fits: "record_fits (Inr iv) x"
  shows "backends_paired ldb contents (AppendInteraction now (Inr iv) c x m) (disk_AppendInteraction ldb now (Inr iv) c x d)"
proof -
  have q: "paired ldb contents m (mem d)" "\<not> closed d" using p by (simp_all add: backends_paired_def)
  show ?thesis
    using q(1)
  proof (cases rule: paired_find [of ldb contents m "mem d" c])
    case absent
    with paired_counters(2) [OF q(1)] q(2) show ?thesis
      by (simp add: AppendInteraction_def append_lookup_def disk_AppendInteraction_def backends_paired_def)
  next
    case (found a s s2)
    define m2 where "m2 = touch_if_sliding now a (hit m)"
    define d2 where "d2 = touch_if_sliding now a (hit (mem d))"
    define enc where "enc = iv @ ctr_xor (AESBlock s) iv x"
    have hit: "find_session (hit m) c = Some (a, s)" using found(1) by simp
    have p2: "paired ldb contents m2 d2"
      unfolding m2_def d2_def by (rule paired_touch [OF paired_counters(1) [OF q(1)] hit])
    have "ptr_ok (hit m)" using q(1) by (simp add: paired_def ptr_ok_def)
    from find_touch [OF this hit] obtain t where f2: "find_session m2 c = Some (a, s\<lparr>lastAccess := t\<rparr>)"
      unfolding m2_def by blast
    then have heap2: "heap m2 a = Some (s\<lparr>lastAccess := t\<rparr>)" by (simp add: find_session_Some)
    have len: "length enc < 2 ^ 32"
      using fits length_encrypt [of "AESBlock s" iv x] by (simp add: enc_def record_fits_def)
    have encrypt: "EncryptInteractionBlock (Inr iv) x (AESBlock s) = Inr enc"
      by (simp add: EncryptInteractionBlock_def enc_def)
    have mem: "AppendInteraction now (Inr iv) c x m
        = update_session a (\<lambda>s. s\<lparr>interactions := interactions s @ [enc]\<rparr>) m2"
      using found(1) heap2
      by (simp add: AppendInteraction_def append_lookup_def append_encrypt_def append_store_def Let_def
          encrypt flip: m2_def)
    let ?v = "contents (backing d2) (go_bytes c)"
    let ?new = "(case ?v of None \<Rightarrow> [] | Some e \<Rightarrow> e) @ frame enc"
    have disk: "disk_AppendInteraction ldb now (Inr iv) c x d
        = d\<lparr>mem := d2\<lparr>backing := db_Put ldb (go_bytes c) ?new (backing d2)\<rparr>\<rparr>"
      using found(2,6) leveldb_okD(1) [OF ldb]
      by (auto simp: disk_AppendInteraction_def encrypt Let_def frame_def simp flip: d2_def split: option.split)
    have "framed (Some ?new) (interactions (s\<lparr>lastAccess := t\<rparr>) @ [enc])"
      by (rule framed_snoc [OF paired_pending [OF p2 f2] len])
    from paired_store [OF p2 f2, where g = "\<lambda>q. q @ [enc]", OF this leveldb_okD(2) [OF ldb]] q(2)
    show ?thesis by (simp add: mem disk backends_paired_def)
  qed
qed

section \<open>Histories\<close>

text \<open>
  The calls of the storage interface.  A poll looks the session up and drains it; a registration and
  an append carry the outcome of the random source.
\<close>

datatype storage_call =
    RegisterCall "bytes result" string rsa_public_key string "ResponseConfig option"
  | AppendCall "bytes result" string bytes
  | PollCall string string
  | DeleteCall string string
  | LookupCall string
  | ResponseCall string

datatype storage_answer =
    KeyAnswer "bytes result"
  | NoAnswer
  | DrainAnswer "bytes list result"
  | DeleteAnswer "string option"
  | LookupAnswer bool
  | ResponseAnswer "ResponseConfig option"

definition memory_call ::
  "block_cipher \<Rightarrow> int \<times> storage_call \<Rightarrow> 'd memoryStorage \<Rightarrow> storage_answer \<times> 'd memoryStorage" where
  "memory_call aes tc m = (case tc of (now, call) \<Rightarrow> (case call of
      RegisterCall rand c pk sk resp \<Rightarrow> apfst KeyAnswer (Register aes now rand c pk sk resp m)
    | AppendCall rand c x \<Rightarrow> (NoAnswer, AppendInteraction now rand c x m)
    | PollCall c sk \<Rightarrow> apfst DrainAnswer (poll_session now c sk m)
    | DeleteCall c sk \<Rightarrow> apfst DeleteAnswer (Delete c sk m)
    | LookupCall c \<Rightarrow> apfst LookupAnswer (HasCorrelationID now c m)
    | ResponseCall c \<Rightarrow> (ResponseAnswer (GetResponse now c m), m)))"

definition disk_call ::
  "block_cipher \<Rightarrow> 'db leveldb \<Rightarrow> int \<times> storage_call \<Rightarrow> 'db diskStorage \<Rightarrow> storage_answer \<times> 'db diskStorage" where
  "disk_call aes ldb tc d = (case tc of (now, call) \<Rightarrow> (case call of
      RegisterCall rand c pk sk resp \<Rightarrow> apfst KeyAnswer (disk_Register aes now rand c pk sk resp d)
    | AppendCall rand c x \<Rightarrow> (NoAnswer, disk_AppendInteraction ldb now rand c x d)
    | PollCall c sk \<Rightarrow> apfst DrainAnswer (disk_poll_session ldb now c sk d)
    | DeleteCall c sk \<Rightarrow> apfst DeleteAnswer (disk_Delete c sk d)
    | LookupCall c \<Rightarrow> apfst LookupAnswer (disk_HasCorrelationID now c d)
    | ResponseCall c \<Rightarrow> (ResponseAnswer (GetResponse now c (mem d)), d)))"

text \<open>The answers of a list of calls, and the state at its end.\<close>

primrec history :: "('c \<Rightarrow> 's \<Rightarrow> 'a \<times> 's) \<Rightarrow> 'c list \<Rightarrow> 's \<Rightarrow> 'a list \<times> 's" where
  "history f [] s = ([], s)"
| "history f (c # cs) s = (case f c s of (a, s1) \<Rightarrow> apfst (Cons a) (history f cs s1))"

text \<open>
  What an append needs: the random source works, as that of Go always does, and the record fits its
  four-byte length.  (When the source fails, the memory backend has refreshed the session already
  and the disk backend has not; from then on they may expire it at different times.)
\<close>

fun call_ok :: "int \<times> storage_call \<Rightarrow> bool" where
  "call_ok (now, AppendCall rand c x) \<longleftrightarrow> (case rand of Inl err \<Rightarrow> False | Inr iv \<Rightarrow> length iv + length x < 2 ^ 32)"
| "call_ok _ \<longleftrightarrow> True"

lemma call_paired:
  assumes ldb: "leveldb_ok ldb contents" and p: "backends_paired ldb contents m d" and ok: "call_ok tc"
  shows "fst (disk_call aes ldb tc d) = fst (memory_call aes tc m)
     \<and> backends_paired ldb contents (snd (memory_call aes tc m)) (snd (disk_call aes ldb tc d))"
proof -
  have q: "paired ldb contents m (mem d)" "\<not> closed d" using p by (simp_all add: backends_paired_def)
  obtain now call where tc: "tc = (now, call)" by (cases tc)
  show ?thesis
  proof (cases call)
    case (RegisterCall rand c pk sk resp)
    with paired_Register [OF ldb q(1)] q(2) show ?thesis
      by (simp add: tc memory_call_def disk_call_def disk_Register_def backends_paired_def case_prod_unfold)
  next
    case (AppendCall rand c x)
    with ok obtain iv where "rand = Inr iv" "record_fits (Inr iv) x"
      by (auto simp: tc record_fits_def split: sum.splits)
    with AppendCall paired_append [OF ldb p] show ?thesis by (simp add: tc memory_call_def disk_call_def)
  next
    case (PollCall c sk)
    with paired_poll [OF ldb p] show ?thesis by (simp add: tc memory_call_def disk_call_def)
  next
    case (DeleteCall c sk)
    with paired_Delete [OF ldb q(1)] q(2) show ?thesis
      by (simp add: tc memory_call_def disk_call_def disk_Delete_def backends_paired_def case_prod_unfold)
  next
    case (LookupCall c)
    with paired_HasCorrelationID [OF ldb q(1)] q(2) show ?thesis
      by (simp add: tc memory_call_def disk_call_def disk_HasCorrelationID_def backends_paired_def case_prod_unfold)
  next
    case (ResponseCall c)
    with paired_GetResponse [OF q(1)] p show ?thesis by (simp add: tc memory_call_def disk_call_def)
  qed
qed

lemma history_paired:
  assumes ldb: "leveldb_ok ldb contents" and "backends_paired ldb contents m d" and "list_all call_ok calls"
  shows "fst (history (disk_call aes ldb) calls d) = fst (history (memory_call aes) calls m)
     \<and> backends_paired ldb contents (snd (history (memory_call aes) calls m)) (snd (history (disk_call aes ldb) calls d))"
  using assms(2,3)
proof (induction calls arbitrary: m d)
  case (Cons tc calls)
  obtain a m1 where m1: "memory_call aes tc m = (a, m1)" by fastforce
  obtain d1 where d1: "disk_call aes ldb tc d = (a, d1)" "backends_paired ldb contents m1 d1"
    using call_paired [OF ldb Cons.prems(1), of tc aes] Cons.prems(2) m1
    by (cases "disk_call aes ldb tc d") simp
  from Cons.IH [OF d1(2)] Cons.prems(2) show ?case by (simp add: m1 d1(1))
qed simp

text \<open>The two constructors start the relation, whatever an old database holds.\<close>

lemma New_paired:
  assumes "NewDiskStorage ldb openFile randBytes cfg = Inr d"
  shows "backends_paired ldb contents (NewMemoryStorage cfg u) d"
proof -
  from assms obtain db where "mem d = (NewMemoryStorage cfg db)
      \<lparr>onEvict := Some (\<lambda>correlationID session db. db_Delete ldb (go_bytes correlationID) db),
       onRegister := Some (\<lambda>correlationID db. db_Delete ldb (go_bytes correlationID) db)\<rparr>" "\<not> closed d"
    by (auto simp: NewDiskStorage_def Let_def split: sum.splits)
  then show ?thesis
    by (simp add: backends_paired_def paired_def table_def disk_hooks_def ptr_ok_def find_session_def
        NewMemoryStorage_def Let_def)
qed

lemma paired_views:
  assumes "backends_paired ldb contents m d"
  shows "disk_view contents now d = view now m"
proof
  fix c
  have p: "paired ldb contents m (mem d)" using assms by (simp add: backends_paired_def)
  then show "disk_view contents now d c = view now m c"
  proof (cases rule: paired_find [of ldb contents m "mem d" c])
    case (found a s s2)
    have "pending_of contents d c = interactions s"
      unfolding pending_of_def by (rule framed_pending [OF paired_pending [OF p found(1)]])
    moreover have "(account_of s2)\<lparr>acc_pending := q\<rparr> = (account_of s)\<lparr>acc_pending := q\<rparr>" for q
      using arg_cong [OF found(3), of PublicKey] found(4,5,7) by (simp add: account_of_def)
    moreover have "(account_of s)\<lparr>acc_pending := interactions s\<rparr> = account_of s" by (simp add: account_of_def)
    ultimately show ?thesis using found by (simp add: disk_view_def view_def)
  qed (simp add: disk_view_def view_def)
qed

text \<open>
  C21: the memory and the disk backend are equivalent.  Start both from the same configuration, the
  disk one on any database, and make any sequence of calls on both: registrations, appends, polls,
  deletions and lookups, with any ids, secrets and keys, each at any instant, so that sessions expire,
  are refreshed, evicted and replaced on the way.  Both give the same answers, refusals included, and
  at the end they hold the same accounts at every instant.  (An append has a working random source
  and a record shorter than 4 GB.)
\<close>

theorem backends_equivalent:
  assumes "leveldb_ok ldb contents" and "NewDiskStorage ldb openFile randBytes cfg = Inr d"
    and "list_all call_ok calls"
  shows "fst (history (disk_call aes ldb) calls d) = fst (history (memory_call aes) calls (NewMemoryStorage cfg u))
     \<and> (\<forall>now. disk_view contents now (snd (history (disk_call aes ldb) calls d))
          = view now (snd (history (memory_call aes) calls (NewMemoryStorage cfg u))))"
proof -
  have "backends_paired ldb contents (NewMemoryStorage cfg u) d" by (rule New_paired [OF assms(2)])
  note run = history_paired [OF assms(1) this assms(3), of aes]
  from conjunct1 [OF run] paired_views [OF conjunct2 [OF run]] show ?thesis by simp
qed

text \<open>A session that is registered, used, expires, and is registered again.\<close>

definition demo_calls :: "(int \<times> storage_call) list" where
  "demo_calls = [(5, RegisterCall (Inr (replicate 32 0)) ''c'' \<lparr>rsa_N = 1, rsa_E = 1\<rparr> ''k'' None),
     (6, AppendCall (Inr (replicate 16 0)) ''c'' [7]), (7, PollCall ''c'' ''wrong''), (8, PollCall ''c'' ''k''),
     (9, AppendCall (Inr (replicate 16 0)) ''c'' [8]), (100 * 24 * hour, LookupCall ''c''),
     (101 * 24 * hour, RegisterCall (Inr (replicate 32 1)) ''c'' \<lparr>rsa_N = 1, rsa_E = 1\<rparr> ''k2'' None), (102 * 24 * hour, DeleteCall ''c'' ''k2'')]"

theorem backends_equivalent_witness:
  "\<exists>d. NewDiskStorage map_leveldb (\<lambda>_. Inr (\<lambda>k. Some [1, 2, 3])) (Inr [0, 1]) DefaultConfig = Inr d
     \<and> fst (history (disk_call demo_cipher map_leveldb) demo_calls d)
       = fst (history (memory_call demo_cipher) demo_calls (NewMemoryStorage DefaultConfig ()))"
proof -
  obtain d where d: "NewDiskStorage map_leveldb (\<lambda>_. Inr (\<lambda>k. Some [1, 2, 3])) (Inr [0, 1]) DefaultConfig = Inr d"
    by (simp add: NewDiskStorage_def Let_def)
  have "list_all call_ok demo_calls" by (simp add: demo_calls_def)
  from backends_equivalent [OF map_leveldb_ok d this, of demo_cipher "()"] d show ?thesis by blast
qed

end
