(* ===== verification/Client_Session.thy ===== *)
theory Client_Session
  imports Client
begin

text \<open>
  The client's key and its session file (\<open>src/oobclient/client.go\<close>): the text form of the public key
  that registration sends, its decoding, and saving and loading a session through the file system.
  The codecs (PKIX, PKCS1, PEM, YAML) and the file system are arguments.
\<close>

section \<open>The public key\<close>

definition encodePublicKey ::
  "(rsa_public_key \<Rightarrow> bytes result) \<Rightarrow> (string \<Rightarrow> bytes \<Rightarrow> bytes) \<Rightarrow> rsa_public_key \<Rightarrow> string result" where
  "encodePublicKey marshal_pkix pem_encode k = (case marshal_pkix k of
      Inl err \<Rightarrow> Inl (''failed to marshal public key: '' @ err)
    | Inr block \<Rightarrow> Inr (b64_encode (pem_encode ''RSA PUBLIC KEY'' block)))"

definition decodePublicKey :: "key_decoders \<Rightarrow> string \<Rightarrow> rsa_public_key result" where
  "decodePublicKey dec data = (case b64_decode data of
      None \<Rightarrow> Inl ''illegal base64 data''
    | Some decoded \<Rightarrow> (case pem_decode dec decoded of
        None \<Rightarrow> Inl ''failed to decode PEM block''
      | Some block \<Rightarrow> (case parse_pkix dec block of
          Inl err \<Rightarrow> Inl err
        | Inr OtherKey \<Rightarrow> Inl ''not an RSA public key''
        | Inr (RSAKey k) \<Rightarrow> Inr k)))"

text \<open>The decoders read what the encoders write.\<close>

definition key_codecs :: "(rsa_public_key \<Rightarrow> bytes result) \<Rightarrow> (string \<Rightarrow> bytes \<Rightarrow> bytes) \<Rightarrow> key_decoders \<Rightarrow> bool" where
  "key_codecs marshal_pkix pem_encode dec \<longleftrightarrow>
     (\<forall>t b. pem_decode dec (pem_encode t b) = Some b)
     \<and> (\<forall>k b. marshal_pkix k = Inr b \<longrightarrow> parse_pkix dec b = Inr (RSAKey k))"

lemma encoded_key_decodes:
  assumes "key_codecs marshal_pkix pem_encode dec" and "encodePublicKey marshal_pkix pem_encode k = Inr b64"
  shows "decodePublicKey dec b64 = Inr k" "ParsePublicKey dec b64 = Inr k"
proof -
  obtain block where block: "marshal_pkix k = Inr block" "b64 = b64_encode (pem_encode ''RSA PUBLIC KEY'' block)"
    using assms(2) by (auto simp: encodePublicKey_def split: sum.splits)
  with assms(1) show "decodePublicKey dec b64 = Inr k" "ParsePublicKey dec b64 = Inr k"
    by (simp_all add: ParsePublicKey_def decodePublicKey_def key_codecs_def)
qed

text \<open>
  The server encrypts for the key of the client.  What the client sends as its public key is
  read by the server's parser, and by the client when it loads the session, as exactly that key.
\<close>

theorem public_key_roundtrip:
  assumes "key_codecs marshal_pkix pem_encode dec" and "encodePublicKey marshal_pkix pem_encode k = Inr b64"
  shows "ParsePublicKey dec b64 = Inr k \<and> decodePublicKey dec b64 = Inr k"
  using encoded_key_decodes [OF assms] by simp

definition demo_marshal_pkix :: "rsa_public_key \<Rightarrow> bytes result" where
  "demo_marshal_pkix k = (if k = \<lparr>rsa_N = 15, rsa_E = 3\<rparr> then Inr [15, 3] else Inl ''too large'')"

definition demo_pem :: "string \<Rightarrow> bytes \<Rightarrow> bytes" where
  "demo_pem t b = 45 # b"

definition demo_decoders :: key_decoders where
  "demo_decoders = \<lparr>pem_decode = (\<lambda>b. if b \<noteq> [] \<and> hd b = 45 then Some (tl b) else None),
     parse_pkix = (\<lambda>b. if b = [15, 3] then Inr (RSAKey \<lparr>rsa_N = 15, rsa_E = 3\<rparr>) else Inl ''not a key'')\<rparr>"

lemma demo_key_codecs: "key_codecs demo_marshal_pkix demo_pem demo_decoders"
  by (simp add: key_codecs_def demo_marshal_pkix_def demo_pem_def demo_decoders_def)

theorem public_key_roundtrip_witness:
  "\<exists>b64. encodePublicKey demo_marshal_pkix demo_pem \<lparr>rsa_N = 15, rsa_E = 3\<rparr> = Inr b64
     \<and> ParsePublicKey demo_decoders b64 = Inr \<lparr>rsa_N = 15, rsa_E = 3\<rparr>"
proof -
  obtain b64 where "encodePublicKey demo_marshal_pkix demo_pem \<lparr>rsa_N = 15, rsa_E = 3\<rparr> = Inr b64"
    by (simp add: encodePublicKey_def demo_marshal_pkix_def)
  with public_key_roundtrip [OF demo_key_codecs this] show ?thesis by blast
qed

section \<open>The session file\<close>

text \<open>Files by path; a write can fail, and then it may leave any state.\<close>

record 'f session_io =
  sio_Marshal :: "sessionInfo \<Rightarrow> string result"
  sio_Unmarshal :: "string \<Rightarrow> sessionInfo result"
  sio_Write :: "string \<Rightarrow> string \<Rightarrow> 'f \<Rightarrow> string option \<times> 'f"
  sio_Read :: "string \<Rightarrow> 'f \<Rightarrow> string result"

text \<open>A client without a server has no session to save: the code would dereference a nil pointer.\<close>

definition SaveSession :: "'f session_io \<Rightarrow> string \<Rightarrow> string \<Rightarrow> client \<Rightarrow> 'f \<Rightarrow> (string option \<times> 'f) option" where
  "SaveSession io privateKeyDER path c fs = map_option
     (\<lambda>session. case sio_Marshal io session of
         Inl err \<Rightarrow> (Some (''failed to marshal session: '' @ err), fs)
       | Inr data \<Rightarrow> apfst (map_option (\<lambda>err. ''failed to write session file: '' @ err)) (sio_Write io path data fs))
     (SaveSession_info privateKeyDER c)"

definition session_of_file :: "'f session_io \<Rightarrow> string \<Rightarrow> 'f \<Rightarrow> sessionInfo result" where
  "session_of_file io path fs = (case sio_Read io path fs of
      Inl err \<Rightarrow> Inl (''failed to read session file: '' @ err)
    | Inr data \<Rightarrow> (case sio_Unmarshal io data of
        Inl err \<Rightarrow> Inl (''failed to parse session file: '' @ err)
      | Inr session \<Rightarrow> Inr session))"

definition failure :: "'a result \<Rightarrow> string option" where
  "failure r = (case r of Inl err \<Rightarrow> Some err | Inr _ \<Rightarrow> None)"

definition LoadSession_path ::
  "'w net \<Rightarrow> codec \<Rightarrow> 'f session_io \<Rightarrow> key_decoders \<Rightarrow> (string \<Rightarrow> 'k result) \<Rightarrow> string \<Rightarrow> 'f \<Rightarrow> Options option \<Rightarrow> 'w
     \<Rightarrow> (client_error + client) \<times> 'w" where
  "LoadSession_path net codec io dec parse_private path fs opts w =
     LoadSession net codec (session_of_file io path fs) (\<lambda>der. failure (parse_private der))
       (\<lambda>key. failure (decodePublicKey dec key)) opts w"

text \<open>A file that was written is read back, and YAML reads what it has written.\<close>

definition session_io_ok :: "'f session_io \<Rightarrow> bool" where
  "session_io_ok io \<longleftrightarrow>
     (\<forall>path data fs fs'. sio_Write io path data fs = (None, fs') \<longrightarrow> sio_Read io path fs' = Inr data)
     \<and> (\<forall>si data. sio_Marshal io si = Inr data \<longrightarrow> sio_Unmarshal io data = Inr si)"

text \<open>
  C24: a session survives the restart of the program.  When saving has succeeded, loading the file
  with the same path gives the client back (with default behaviour settings): correlation id,
  secret, token, key, nonce length, response and server, provided the server accepts the
  registration, which is repeated once with the credentials of the saved client.
\<close>

theorem session_file_roundtrip:
  assumes io: "session_io_ok io" and keys: "key_codecs marshal_pkix pem_encode dec"
    and key: "encodePublicKey marshal_pkix pem_encode k = Inr (cl_publicKeyB64 c)"
    and der: "parse_private der = Inr privKey" and nonce: "0 < cl_nonceLength c"
    and saved: "SaveSession io der path c fs = Some (None, fs')"
    and url: "cl_serverURL c = Some u" "net_ParseURL net (url_String u) = Inr u"
    and registered: "performRegistration net codec c u w = (None, w')"
  shows "LoadSession_path net codec io dec parse_private path fs' None w
     = (Inr (c\<lparr>cl_keepAliveInterval := opt_KeepAliveInterval DefaultOptions, cl_disableHTTPFallback := False\<rparr>), w')"
proof -
  have public: "failure (decodePublicKey dec (cl_publicKeyB64 c)) = None"
    using encoded_key_decodes [OF keys key] by (simp add: failure_def)
  have priv: "failure (parse_private der) = None" using der by (simp add: failure_def)
  note roundtrip = session_roundtrip [where der = der and private_ok = "\<lambda>der. failure (parse_private der)"
      and public_ok = "\<lambda>key. failure (decodePublicKey dec key)", OF url priv public nonce registered]
  from roundtrip obtain si where si: "SaveSession_info der c = Some si"
    and load: "LoadSession net codec (Inr si) (\<lambda>der. failure (parse_private der)) (\<lambda>key. failure (decodePublicKey dec key)) None w
      = (Inr (c\<lparr>cl_keepAliveInterval := opt_KeepAliveInterval DefaultOptions, cl_disableHTTPFallback := False\<rparr>), w')"
    by (elim exE conjE)
  obtain data where data: "sio_Marshal io si = Inr data" "sio_Write io path data fs = (None, fs')"
    using saved si by (auto simp: SaveSession_def apfst_def map_prod_def split: sum.splits prod.splits)
  then have "session_of_file io path fs' = Inr si"
    using io by (simp add: session_of_file_def session_io_ok_def)
  with load show ?thesis by (simp add: LoadSession_path_def)
qed

definition demo_session_io :: "sessionInfo \<Rightarrow> (string \<rightharpoonup> string) session_io" where
  "demo_session_io session = \<lparr>sio_Marshal = (\<lambda>si. if si = session then Inr ''yaml'' else Inl ''unsupported''),
     sio_Unmarshal = (\<lambda>data. if data = ''yaml'' then Inr session else Inl ''unsupported''),
     sio_Write = (\<lambda>path data fs. (None, fs(path \<mapsto> data))),
     sio_Read = (\<lambda>path fs. case fs path of None \<Rightarrow> Inl ''no such file'' | Some data \<Rightarrow> Inr data)\<rparr>"

lemma demo_session_io_ok: "session_io_ok (demo_session_io session)"
  by (auto simp: session_io_ok_def demo_session_io_def split: if_splits)

theorem session_file_roundtrip_witness:
  "\<exists>c fs session. SaveSession (demo_session_io session) ''der'' ''s.yaml'' c Map.empty = Some (None, fs)
     \<and> (\<exists>c'. fst (LoadSession_path demo_ok demo_codec (demo_session_io session) demo_decoders (\<lambda>_. Inr ()) ''s.yaml'' fs None []) = Inr c'
            \<and> cl_correlationID c' = ''abcd'')"
proof -
  let ?u = "\<lparr>url_Scheme = ''https'', url_Host = ''h'', url_Path = []\<rparr>"
  obtain b64 where key: "encodePublicKey demo_marshal_pkix demo_pem \<lparr>rsa_N = 15, rsa_E = 3\<rparr> = Inr b64"
    by (simp add: encodePublicKey_def demo_marshal_pkix_def)
  define c where "c = demo_client\<lparr>cl_serverURL := Some ?u, cl_publicKeyB64 := b64\<rparr>"
  have c: "cl_serverURL c = Some ?u" "cl_publicKeyB64 c = b64" "cl_nonceLength c = 4" "cl_correlationID c = ''abcd''"
    by (simp_all add: c_def demo_client_def)
  obtain session where session: "SaveSession_info ''der'' c = Some session" by (simp add: SaveSession_info_def c)
  have saved: "SaveSession (demo_session_io session) ''der'' ''s.yaml'' c Map.empty = Some (None, [''s.yaml'' \<mapsto> ''yaml''])"
    by (simp add: SaveSession_def session demo_session_io_def)
  obtain w' where registered: "performRegistration demo_ok demo_codec c ?u [] = (None, w')"
    using demo_register_ok [of ?u c "[]"] by auto
  have url: "net_ParseURL demo_ok (url_String ?u) = Inr ?u"
    by (simp add: demo_ok_def demo_net_def demo_parse_def has_prefix_def url_String_def)
  have nonce: "0 < cl_nonceLength c" by (simp add: c)
  note session_file_roundtrip [where parse_private = "\<lambda>_. Inr ()", OF demo_session_io_ok demo_key_codecs key [folded c(2)] refl nonce saved c(1) url registered]
  with saved c(4) show ?thesis by fastforce
qed

end
