(* ===== verification/Traffic.thy ===== *)
theory Traffic
  imports Http_Capture Dns_Properties Smtp_Properties Ldap_Properties Ftp
begin

text \<open>
  All protocols together.  Whatever arrives from outside, over HTTP, DNS, SMTP, LDAP or FTP, in any
  order, with every scanning mode and with failing codecs or random sources: the sessions that are
  live keep their secrets, keys and responses, and what they hold is only added to.
\<close>

section \<open>Adding only\<close>

definition only_adds :: "('db \<Rightarrow> bytes \<Rightarrow> bytes option) \<Rightarrow> 'db env \<Rightarrow> 'db server \<Rightarrow> 'db server \<Rightarrow> bool" where
  "only_adds contents e s s' \<longleftrightarrow> storage_good contents e (sv_storage s') \<and> sv_cfg s' = sv_cfg s
     \<and> (\<forall>c acc. account_at contents e s c = Some acc \<longrightarrow>
          (\<exists>xs. account_at contents e s' c = Some (acc\<lparr>acc_pending := acc_pending acc @ xs\<rparr>)))"

lemma only_adds_same:
  assumes "storage_good contents e (sv_storage s)" "sv_storage s' = sv_storage s" "sv_cfg s' = sv_cfg s"
  shows "only_adds contents e s s'"
  using assms by (auto simp: only_adds_def intro: exI [of _ "[]"])

lemma only_adds_trans:
  assumes "only_adds contents e s1 s2" "only_adds contents e s2 s3"
  shows "only_adds contents e s1 s3"
  unfolding only_adds_def
proof (intro conjI allI impI)
  fix c acc assume "account_at contents e s1 c = Some acc"
  with assms(1) obtain xs where "account_at contents e s2 c = Some (acc\<lparr>acc_pending := acc_pending acc @ xs\<rparr>)"
    by (auto simp: only_adds_def)
  with assms(2) obtain ys where
    "account_at contents e s3 c = Some (acc\<lparr>acc_pending := acc_pending acc @ xs\<rparr>\<lparr>acc_pending := (acc_pending acc @ xs) @ ys\<rparr>)"
    by (fastforce simp: only_adds_def)
  then show "\<exists>zs. account_at contents e s3 c = Some (acc\<lparr>acc_pending := acc_pending acc @ zs\<rparr>)"
    by (auto intro: exI [of _ "xs @ ys"])
qed (use assms in \<open>auto simp: only_adds_def\<close>)

lemma only_adds_good: "only_adds contents e s s' \<Longrightarrow> storage_good contents e (sv_storage s')"
  by (simp add: only_adds_def)

lemma same_server_adds: "same_server contents e s s' \<Longrightarrow> only_adds contents e s s'"
proof -
  assume s: "same_server contents e s s'"
  then have "s' = s\<lparr>sv_storage := sv_storage s'\<rparr>" by (simp add: same_server_def)
  then have "sv_cfg s' = sv_cfg s" by (metis server.select_convs(1) server.surjective server.update_convs(2))
  with s show ?thesis by (auto simp: only_adds_def same_server_def intro: exI [of _ "[]"])
qed

text \<open>The codec and the random source may fail; what they give fits a record of the disk backend.\<close>

definition env_fits :: "'db env \<Rightarrow> bool" where
  "env_fits e \<longleftrightarrow> (\<forall>i data c. env_marshal e i = Inr data \<longrightarrow> record_fits (env_iv e c) (go_bytes data))"

lemma append_adds:
  assumes "storage_good contents e (sv_storage s)" "record_fits (env_iv e c) x"
  shows "only_adds contents e s (s\<lparr>sv_storage := snd (Storage_AppendInteraction e c x (sv_storage s))\<rparr>)"
  unfolding only_adds_def Storage_AppendInteraction_append
proof (intro conjI allI impI)
  show "storage_good contents e (sv_storage (s\<lparr>sv_storage := storage_append e (env_iv e c) c x (sv_storage s)\<rparr>))"
    using server_storage.append_good [OF assms] by simp
  fix c' acc assume acc: "account_at contents e s c' = Some acc"
  show "\<exists>xs. account_at contents e (s\<lparr>sv_storage := storage_append e (env_iv e c) c x (sv_storage s)\<rparr>) c'
      = Some (acc\<lparr>acc_pending := acc_pending acc @ xs\<rparr>)"
  proof (cases "c' = c")
    case False
    with acc server_storage.append_other [OF assms(1) False] show ?thesis by (auto intro: exI [of _ "[]"])
  next
    case True
    show ?thesis
    proof (cases "env_iv e c")
      case (Inl err)
      with acc True server_storage.append_fails [OF assms(1)] show ?thesis by (auto intro: exI [of _ "[]"])
    next
      case (Inr iv)
      with acc True server_storage.append_acct [OF assms(1)] assms(2) show ?thesis by auto
    qed
  qed
qed simp

lemma storeMatched_adds:
  assumes "env_fits e" "storage_good contents e (sv_storage s)"
  shows "only_adds contents e s (storeMatchedInteractions e ms i s)"
  using assms(2)
proof (induction ms arbitrary: s)
  case (Cons m ms)
  let ?s = "case env_marshal e (i\<lparr>InteractionUniqueID := UniqueID m, FullId := FullID m\<rparr>) of
      Inl err \<Rightarrow> s
    | Inr data \<Rightarrow> s\<lparr>sv_storage := snd (Storage_AppendInteraction e (UniqueID m) (go_bytes data) (sv_storage s))\<rparr>"
  have "only_adds contents e s ?s"
    using assms(1) Cons.prems only_adds_same [OF Cons.prems refl refl]
    by (auto simp: env_fits_def split: sum.split intro!: append_adds)
  from only_adds_trans [OF this Cons.IH [OF only_adds_good [OF this]]] show ?case by simp
qed (simp add: only_adds_same)

lemma find_matches_adds:
  assumes "storage_good contents e (sv_storage s)"
  shows "only_adds contents e s (snd (find_matches e mi si s))"
proof -
  note kept = same_server_lookup and refl = same_server_refl [OF assms]
  have "same_server contents e s (snd (find_matches e mi si s))"
    unfolding find_matches_def Let_def
    using MatchCorrelationID_kept [OF kept refl] MatchCorrelationIDEverywhere_kept [OF kept refl] by (simp split: if_split)
  then show ?thesis by (rule same_server_adds)
qed

lemma capture_adds:
  assumes "env_fits e" "storage_good contents e (sv_storage s)"
  shows "only_adds contents e s (snd (captureInteraction e d mi si wi i s))"
proof -
  let ?w = "captureWildcard e d wi s"
  have w: "only_adds contents e s ?w" using assms(2) by (intro only_adds_same) simp_all
  obtain ms s1 where m: "find_matches e mi si ?w = (ms, s1)" by fastforce
  have s1: "only_adds contents e ?w s1" using find_matches_adds [OF only_adds_good [OF w], of mi si] m by simp
  have "only_adds contents e s1 (storeMatchedInteractions e ms i s1)"
    by (rule storeMatched_adds [OF assms(1) only_adds_good [OF s1]])
  from only_adds_trans [OF w only_adds_trans [OF s1 this]] show ?thesis by (simp add: captureInteraction_def m)
qed

section \<open>The protocols\<close>

lemma then_same:
  assumes "only_adds contents e s s1" "sv_storage s2 = sv_storage s1" "sv_cfg s2 = sv_cfg s1"
  shows "only_adds contents e s s2"
  by (rule only_adds_trans [OF assms(1) only_adds_same [OF only_adds_good [OF assms(1)] assms(2,3)]])

lemma same_then:
  assumes "storage_good contents e (sv_storage s)" "sv_storage s1 = sv_storage s" "sv_cfg s1 = sv_cfg s"
    and "only_adds contents e s1 s2"
  shows "only_adds contents e s s2"
  by (rule only_adds_trans [OF only_adds_same [OF assms(1-3)] assms(4)])

lemma counters_add:
  assumes "only_adds contents e s s1"
  shows "only_adds contents e s (s1\<lparr>httpMatched := n\<rparr>)" "only_adds contents e s (s1\<lparr>dnsMatched := n\<rparr>)"
    "only_adds contents e s (s1\<lparr>smtpMatched := n\<rparr>)"
  by (rule then_same [OF assms]; simp)+

lemma counted_adds:
  assumes "storage_good contents e (sv_storage s)"
  shows "only_adds contents e (s\<lparr>httpCount := n\<rparr>) s1 \<Longrightarrow> only_adds contents e s s1"
    "only_adds contents e (s\<lparr>dnsCount := n\<rparr>) s1 \<Longrightarrow> only_adds contents e s s1"
    "only_adds contents e (s\<lparr>smtpCount := n\<rparr>) s1 \<Longrightarrow> only_adds contents e s s1"
    "only_adds contents e (count_ldap s) s1 \<Longrightarrow> only_adds contents e s s1"
  by (rule same_then [OF assms], simp_all)+

lemma http_adds:
  assumes "env_fits e" "storage_good contents e (sv_storage s)"
  shows "only_adds contents e s (onHTTPInteraction e r rq rs ra h d s)"
proof (rule counted_adds(1) [OF assms(2)])
  let ?s = "s\<lparr>httpCount := httpCount s + 1\<rparr>"
  let ?i = "(http_interaction r rq rs ra (env_now e))"
  have good: "storage_good contents e (sv_storage ?s)" using assms(2) by simp
  obtain m s1 where run: "captureInteraction e d h rq (?i\<lparr>InteractionUniqueID := h, FullId := h\<rparr>) ?i ?s = (m, s1)"
    by fastforce
  from capture_adds [OF assms(1) good, of d h rq "?i\<lparr>InteractionUniqueID := h, FullId := h\<rparr>" ?i]
  have "only_adds contents e ?s s1" by (simp add: run)
  then show "only_adds contents e ?s (onHTTPInteraction e r rq rs ra h d s)"
    using only_adds_same [OF good refl refl]
    by (simp add: onHTTPInteraction_def Let_def run counters_add)
qed

lemma Handler_adds:
  assumes fits: "env_fits e" and good: "storage_good contents e (sv_storage s)"
    and route: "\<not> api_route (find_route (Metrics (sv_cfg s)) r)"
  shows "only_adds contents e s (snd (Handler e r newResponseRecorder s))"
proof (cases "find_route (Metrics (sv_cfg s)) r = RouteDefault")
  case True
  define rb where "rb = body_limited s (size_limited s r)"
  obtain rec s1 where chain: "recorded_chain e s rb newResponseRecorder s = (rec, s1)" by fastforce
  have s1: "only_adds contents e s s1"
    using recorded_chain_same [OF good, of rb newResponseRecorder] chain by (auto intro: same_server_adds)
  from only_adds_trans [OF s1 http_adds [OF fits only_adds_good [OF s1]]]
  show ?thesis by (simp add: Handler_default [OF True rb_def chain])
next
  case False
  with route have "snd (Handler e r newResponseRecorder s) = s"
    by (auto simp: Handler_dispatch dispatch_def api_route_def split: route.split)
  with good show ?thesis by (simp add: only_adds_same)
qed

lemma captureDNS_adds:
  assumes "env_fits e" "storage_good contents e (sv_storage s)"
  shows "only_adds contents e s (captureDNSInteraction e dt r raw q d sub remote s)"
proof -
  let ?i = "dns_interaction (type_String dt (q_Type q)) (query_String dt r) raw (stripHostPort remote) (env_now e)"
  let ?n = "normalizeFQDN (q_Name q)"
  obtain m s1 where run: "captureInteraction e d sub (query_String dt r)
      (?i\<lparr>InteractionUniqueID := ?n, FullId := ?n\<rparr>) ?i s = (m, s1)" by fastforce
  from capture_adds [OF assms, of d sub "query_String dt r" "?i\<lparr>InteractionUniqueID := ?n, FullId := ?n\<rparr>" ?i]
  show ?thesis by (simp add: captureDNSInteraction_def Let_def run counters_add)
qed

lemma handleDNS_adds:
  assumes "env_fits e" "storage_good contents e (sv_storage s)"
  shows "only_adds contents e s (snd (handleDNS e dt remote r s))"
proof (cases "dq_Question r")
  case Nil
  then show ?thesis using assms(2) by (simp add: handleDNS_def only_adds_same)
next
  case (Cons q qs)
  let ?s = "s\<lparr>dnsCount := dnsCount s + 1\<rparr>"
  have good: "storage_good contents e (sv_storage ?s)" using assms(2) by simp
  have "snd (handleDNS e dt remote r s) = ?s
      \<or> (\<exists>raw d sub. snd (handleDNS e dt remote r s) = captureDNSInteraction e dt r raw q d sub remote ?s)"
    by (auto simp: handleDNS_def Cons Let_def split: option.split)
  then show ?thesis
    using counted_adds(2) [OF assms(2)] captureDNS_adds [OF assms(1) good] only_adds_same [OF good refl refl] by metis
qed

lemma smtp_store_adds:
  assumes "env_fits e" "storage_good contents e (sv_storage s)"
  shows "only_adds contents e s (snd (snd (smtp_store e mk body ms stored seen s)))"
  using assms(2)
proof (induction ms arbitrary: stored seen s)
  case (Cons m ms)
  let ?i = "(mk (if UniqueID m \<in> seen_cids seen then [] else body))\<lparr>InteractionUniqueID := UniqueID m, FullId := FullID m\<rparr>"
  show ?case
  proof (cases "env_marshal e ?i")
    case (Inl err)
    with Cons show ?thesis by (simp add: Let_def)
  next
    case (Inr data)
    let ?s = "s\<lparr>sv_storage := snd (Storage_AppendInteraction e (UniqueID m) (go_bytes data) (sv_storage s))\<rparr>"
    have "only_adds contents e s ?s" using assms(1) Inr Cons.prems by (intro append_adds) (auto simp: env_fits_def)
    from only_adds_trans [OF this Cons.IH [OF only_adds_good [OF this]]] show ?thesis
      using Inr by (simp add: Let_def case_prod_unfold)
  qed
qed (simp add: only_adds_same)

lemma captureSMTP_adds:
  assumes "env_fits e" "storage_good contents e (sv_storage s)"
  shows "only_adds contents e s (snd (snd (captureSMTPInteraction e sender rcpt body ip seen s)))"
proof -
  obtain a dom ok where c: "cut CHR ''@'' rcpt = (a, dom, ok)" by (cases "cut CHR ''@'' rcpt") auto
  show ?thesis
  proof (cases "ok \<and> matchedDomain s (to_lower dom) \<noteq> None")
    case False
    with assms(2) show ?thesis by (auto simp: captureSMTPInteraction_def c only_adds_same)
  next
    case True
    then obtain domain where d: "ok" "matchedDomain s (to_lower dom) = Some domain" by auto
    let ?mk = "\<lambda>b. smtp_interaction sender rcpt b ip (env_now e)"
    let ?w = "captureWildcard e domain ((?mk body)\<lparr>InteractionUniqueID := to_lower dom, FullId := to_lower dom\<rparr>) s"
    define s1 where "s1 = (if domain \<notin> seen_domains seen then ?w else s)"
    have s1: "only_adds contents e s s1"
      using assms(2) by (cases "domain \<in> seen_domains seen") (auto simp: s1_def intro: only_adds_same)
    obtain ms s2 where m: "MatchCorrelationID (to_lower dom) (nat (CorrelationIdLength (sv_cfg s1)))
        (Domains (sv_cfg s1)) (server_lookup e) s1 = (ms, s2)" by fastforce
    have "same_server contents e s1 s2"
      using MatchCorrelationID_kept [OF same_server_lookup same_server_refl [OF only_adds_good [OF s1]]] m
      by (metis snd_conv)
    from only_adds_trans [OF s1 same_server_adds [OF this]] have s2: "only_adds contents e s s2" .
    obtain seen1 where "snd (snd (captureSMTPInteraction e sender rcpt body ip seen s))
        = snd (snd (smtp_store e ?mk body ms False seen1 s2))"
      using m unfolding s1_def by (cases "domain \<in> seen_domains seen") (auto simp: captureSMTPInteraction_def c d Let_def)
    with only_adds_trans [OF s2 smtp_store_adds [OF assms(1) only_adds_good [OF s2]]] show ?thesis by simp
  qed
qed

text \<open>The draws of a message are its own; what is added and what is good do not depend on them.\<close>

lemma only_adds_iv [simp]: "only_adds contents (e\<lparr>env_iv := f\<rparr>) s s1 = only_adds contents e s s1"
  by (simp add: only_adds_def)

lemma recipients_add:
  assumes "\<And>r. env_fits (e\<lparr>env_iv := ivs r\<rparr>)" "storage_good contents e (sv_storage s)"
  shows "only_adds contents e s (snd (snd (smtp_recipients_loop e ivs sender body ip rs matched seen s)))"
  using assms(2)
proof (induction rs arbitrary: matched seen s)
  case (Cons r rs)
  obtain m seen1 s1 where c: "captureSMTPInteraction (e\<lparr>env_iv := ivs r\<rparr>) sender r body ip
      (seen\<lparr>seen_recipients := insert r (seen_recipients seen)\<rparr>) s = (m, seen1, s1)" by (metis prod_cases3)
  have "only_adds contents e s s1"
    using captureSMTP_adds [where e = "e\<lparr>env_iv := ivs r\<rparr>" and contents = contents and s = s and sender = sender and rcpt = r and body = body and ip = ip and seen = "seen\<lparr>seen_recipients := insert r (seen_recipients seen)\<rparr>"]
      assms(1) [of r] Cons.prems by (simp add: c)
  from only_adds_trans [OF this Cons.IH [OF only_adds_good [OF this]]] Cons show ?case by (simp add: c)
qed (simp add: only_adds_same)

lemma onSMTPData_adds:
  assumes "\<And>r. env_fits (e\<lparr>env_iv := ivs r\<rparr>)" "storage_good contents e (sv_storage s)"
  shows "only_adds contents e s (onSMTPData e ivs sender rs body remote s)"
proof (rule counted_adds(3) [OF assms(2)])
  let ?s = "s\<lparr>smtpCount := smtpCount s + 1\<rparr>" and ?seen = "\<lparr>seen_recipients = {}, seen_domains = {}, seen_cids = {}\<rparr>"
  obtain m seen1 s1 where c: "smtp_recipients_loop e ivs sender body (stripHostPort remote) rs False ?seen ?s = (m, seen1, s1)"
    by (metis prod_cases3)
  have "only_adds contents e ?s s1"
    using recipients_add [where ivs = ivs and e = e and s = ?s and contents = contents and sender = sender and body = body
      and ip = "stripHostPort remote" and rs = rs and matched = False and seen = ?seen, OF assms(1)] assms(2)
    by (simp add: c)
  then show "only_adds contents e ?s (onSMTPData e ivs sender rs body remote s)"
    by (simp add: onSMTPData_def Let_def c counters_add)
qed

lemma smtp_Data_adds:
  assumes "\<And>r. env_fits (e\<lparr>env_iv := ivs r\<rparr>)" "storage_good contents e (sv_storage s)"
  shows "only_adds contents e s (snd (snd (smtp_Data e ivs reader ss s)))"
  using onSMTPData_adds [where ivs = ivs and e = e, OF assms] only_adds_same [OF assms(2) refl refl]
  by (simp add: smtp_Data_def Let_def case_prod_unfold)

lemma search_adds:
  assumes "env_fits e" "storage_good contents e (sv_storage s)"
  shows "only_adds contents e s (captureLDAPSearchInteraction e dn raw remote s)"
proof -
  obtain ms s1 where m: "MatchLDAPCorrelationID dn (nat (CorrelationIdLength (sv_cfg s))) (Domains (sv_cfg s))
      (server_lookup e) s = (ms, s1)" by fastforce
  have "same_server contents e s s1"
    using MatchLDAP_kept [OF same_server_lookup same_server_refl [OF assms(2)]] m by (metis snd_conv)
  from same_server_adds [OF this] have s1: "only_adds contents e s s1" .
  from only_adds_trans [OF s1 storeMatched_adds [OF assms(1) only_adds_good [OF s1]]]
  show ?thesis by (simp add: captureLDAPSearchInteraction_def m)
qed

lemma log_adds: "storage_good contents e (sv_storage s) \<Longrightarrow> only_adds contents e s (log_ldap e raw remote (count_ldap s))"
  by (rule only_adds_same) simp_all

lemma search_logged_adds:
  assumes "env_fits e" "storage_good contents e (sv_storage s)"
  shows "only_adds contents e s (captureLDAPSearchInteraction e dn raw remote (log_ldap e raw' remote' (count_ldap s)))"
  by (rule same_then [OF assms(2), of "log_ldap e raw' remote' (count_ldap s)"], simp, simp, rule search_adds)
     (use assms in simp_all)

lemma serve_adds:
  assumes "env_fits e" "storage_good contents e (sv_storage s)"
  shows "only_adds contents e s (snd (snd (ldap_serve e names tls remote r c s)))"
proof -
  obtain req hs where r: "r = (req, hs)" by (cases r)
  show ?thesis
    using log_adds [OF assms(2)] search_logged_adds [OF assms]
    unfolding r
    by (cases req)
       (simp_all add: ldap_serve_def handleLDAPBind_def handleLDAPSearch_def handleLDAPAdd_def handleLDAPDelete_def
          handleLDAPModify_def handleLDAPCompare_def handleLDAPAbandon_def handleLDAPStartTLS_def handleLDAPWhoAmI_def
          handleLDAPNotFound_def Let_def del: append.simps split: if_split)
qed

lemma ldap_run_adds:
  assumes "env_fits e" "storage_good contents e (sv_storage s)"
  shows "only_adds contents e s (snd (snd (snd (ldap_run e names tls remote rs c s))))"
  using assms(2)
proof (induction rs arbitrary: c s)
  case (Cons r rs)
  have one: "only_adds contents e s (snd (snd (ldap_serve e names tls remote r c s)))"
    by (rule serve_adds [OF assms(1) Cons.prems])
  from only_adds_trans [OF this Cons.IH [OF only_adds_good [OF this]]] Cons.prems
  show ?case by (simp add: case_prod_unfold only_adds_same)
qed (simp add: only_adds_same)

lemma ftp_adds: "storage_good contents e (sv_storage s) \<Longrightarrow> only_adds contents e s (ftp_notify e ce s)"
  by (rule only_adds_same)
     (auto simp: ftp_notify_def ftp_capture_def captureFTPInteraction_def split: prod.split option.split sum.split)

section \<open>Traffic\<close>

text \<open>
  What reaches the server from outside: a request to the HTTP server that no API route takes, a DNS
  query, the end of a message of an SMTP session, the requests of one LDAP connection, a
  notification of the FTP server.
\<close>

datatype traffic_event =
    HttpEvent request
  | DnsEvent dns_text string dns_query
  | SmtpEvent "string \<times> string option" smtpSession
  | LdapEvent ldap_names bool string "(ldap_request \<times> bool) list" ldap_client
  | FtpEvent ftp_context ftp_event

text \<open>Each event comes with the random source of its appends: by recipient, where it has several, and by session.\<close>

type_synonym draws = "string \<Rightarrow> string \<Rightarrow> bytes result"

definition serve_event :: "'db env \<Rightarrow> draws \<times> traffic_event \<Rightarrow> 'db server \<Rightarrow> 'db server" where
  "serve_event e de s = (case de of (ivs, event) \<Rightarrow> let e1 = e\<lparr>env_iv := ivs []\<rparr> in (case event of
      HttpEvent r \<Rightarrow> snd (Handler e1 r newResponseRecorder s)
    | DnsEvent dt remote r \<Rightarrow> snd (handleDNS e1 dt remote r s)
    | SmtpEvent reader ss \<Rightarrow> snd (snd (smtp_Data e1 ivs reader ss s))
    | LdapEvent names tls remote rs c \<Rightarrow> snd (snd (snd (ldap_run e1 names tls remote rs c s)))
    | FtpEvent ctx event \<Rightarrow> ftp_notify e1 (ctx, event) s))"

definition public_event :: "Config \<Rightarrow> traffic_event \<Rightarrow> bool" where
  "public_event cfg event = (case event of HttpEvent r \<Rightarrow> \<not> api_route (find_route (Metrics cfg) r) | _ \<Rightarrow> True)"

lemma event_adds:
  assumes "\<And>r. env_fits (e\<lparr>env_iv := ivs r\<rparr>)" "storage_good contents e (sv_storage s)"
    and "public_event (sv_cfg s) event"
  shows "only_adds contents e s (serve_event e (ivs, event) s)"
proof -
  let ?e = "e\<lparr>env_iv := ivs []\<rparr>"
  have pre: "env_fits ?e" "storage_good contents ?e (sv_storage s)" using assms(1,2) by simp_all
  have smtp: "env_fits (?e\<lparr>env_iv := ivs r\<rparr>)" for r using assms(1) by simp
  have "only_adds contents ?e s (serve_event e (ivs, event) s)"
  proof (cases event)
    case (HttpEvent r)
    with assms(3) Handler_adds [OF pre, of r] show ?thesis by (simp add: serve_event_def public_event_def)
  next
    case (DnsEvent dt remote r)
    with handleDNS_adds [OF pre, of dt remote r] show ?thesis by (simp add: serve_event_def)
  next
    case (SmtpEvent reader ss)
    with smtp_Data_adds [where e = ?e and ivs = ivs, OF smtp pre(2)] show ?thesis by (simp add: serve_event_def)
  next
    case (LdapEvent names tls remote rs c)
    with ldap_run_adds [OF pre, of names tls remote rs c] show ?thesis by (simp add: serve_event_def)
  next
    case (FtpEvent ctx ev)
    with ftp_adds [OF pre(2), of "(ctx, ev)"] show ?thesis by (simp add: serve_event_def)
  qed
  then show ?thesis by simp
qed

lemma events_add:
  assumes "storage_good contents e (sv_storage s)"
    and "\<And>ivs event r. (ivs, event) \<in> set events \<Longrightarrow> env_fits (e\<lparr>env_iv := ivs r\<rparr>) \<and> public_event (sv_cfg s) event"
  shows "only_adds contents e s (fold (serve_event e) events s)"
  using assms
proof (induction events arbitrary: s)
  case (Cons de events)
  obtain ivs event where de: "de = (ivs, event)" by (cases de)
  have one: "only_adds contents e s (serve_event e de s)"
    unfolding de using Cons.prems by (intro event_adds) (auto simp: de)
  then have "sv_cfg (serve_event e de s) = sv_cfg s" by (simp add: only_adds_def)
  with Cons.prems(2) have "only_adds contents e (serve_event e de s) (fold (serve_event e) events (serve_event e de s))"
    by (intro Cons.IH [OF only_adds_good [OF one]]) auto
  from only_adds_trans [OF one this] show ?case by simp
qed (simp add: only_adds_same)

text \<open>
  Nothing that arrives from outside takes anything from a session.  After any sequence of HTTP
  requests outside the API, DNS queries, SMTP messages, LDAP connections and FTP notifications, in
  any order, in every scanning mode, with appends that draw bytes of their own or fail to, a client
  that polls with its secret receives everything that its session held before, in the order it had,
  followed by what the traffic added; its session is then empty and has kept its key, its secret and
  its stored response.
\<close>

theorem traffic_only_adds:
  assumes "storage_good contents e (sv_storage s)"
    and "\<And>ivs event r. (ivs, event) \<in> set events \<Longrightarrow> env_fits (e\<lparr>env_iv := ivs r\<rparr>) \<and> public_event (sv_cfg s) event"
    and "account_at contents e s cid = Some acc" and "acc_secret acc = go_bytes secret"
  shows "\<exists>added. let (polled, st) = storage_poll e cid secret (sv_storage (fold (serve_event e) events s))
     in polled = Inr (acc_pending acc @ added) \<and> storage_view contents (env_now e) st cid = Some (acc\<lparr>acc_pending := []\<rparr>)"
proof -
  let ?s = "fold (serve_event e) events s"
  have adds: "only_adds contents e s ?s" by (rule events_add [OF assms(1)], rule assms(2))
  with assms(3) obtain xs where "account_at contents e ?s cid = Some (acc\<lparr>acc_pending := acc_pending acc @ xs\<rparr>)"
    by (auto simp: only_adds_def)
  from server_storage.poll_acct [OF only_adds_good [OF adds] this, of secret] assms(4)
  show ?thesis by (intro exI [of _ xs]) (simp add: case_prod_unfold)
qed

theorem traffic_only_adds_witness:
  "\<exists>added. let (polled, st) = storage_poll demo_env ''c'' ''k'' (sv_storage (fold (serve_event demo_env)
       [(\<lambda>_ _. Inr (replicate 16 1), HttpEvent (demo_request ''GET'' ''/a'' ''b=c'')),
        (\<lambda>_ _. Inl ''no entropy'', DnsEvent \<lparr>query_String = \<lambda>_. ''q'', reply_String = \<lambda>_. ''r'', type_String = \<lambda>_. ''A''\<rparr>
           ''192.0.2.7:53'' \<lparr>dq_Question = [\<lparr>q_Name = ''C.d.e.'', q_Type = TypeA\<rparr>], dq_Rest = []\<rparr>),
        (\<lambda>_ _. Inr (replicate 16 2), LdapEvent \<lparr>NoticeOfStartTLS = ''1'', NoticeOfWhoAmI = ''2''\<rparr> False ''192.0.2.7:389''
           [(SearchRequest ''ou=C,dc=d'' ''(cn=x)'' [], False)] \<lparr>lc_startTLSDone = False, lc_open = True\<rparr>)] demo_server))
   in polled = Inr (acc_pending demo_account @ added)
     \<and> storage_view (\<lambda>_ _. None) (env_now demo_env) st ''c'' = Some (demo_account\<lparr>acc_pending := []\<rparr>)"
proof (rule traffic_only_adds)
  have cfg: "sv_cfg demo_server = demo_config" by (simp add: demo_server_def)
  show "storage_good (\<lambda>_ _. None) demo_env (sv_storage demo_server)"
    "account_at (\<lambda>_ _. None) demo_env demo_server ''c'' = Some demo_account"
    using demo_m1_good [of 6] demo_m1_view [of 6]
    by (simp_all add: demo_server_def demo_env_def duration_defs max_int64_def)
  show "acc_secret demo_account = go_bytes ''k''" by (simp add: demo_account_def)
  have fits: "env_fits (demo_env\<lparr>env_iv := \<lambda>_. Inr (replicate 16 b)\<rparr>)" "env_fits (demo_env\<lparr>env_iv := \<lambda>_. Inl ''no entropy''\<rparr>)" for b
    by (simp_all add: env_fits_def demo_env_def record_fits_def)
  have "\<not> api_route (find_route (Metrics demo_config) (demo_request ''GET'' ''/a'' ''b=c''))" by code_simp
  with fits show "env_fits (demo_env\<lparr>env_iv := ivs r\<rparr>) \<and> public_event (sv_cfg demo_server) event"
    if "(ivs, event) \<in> set
       [(\<lambda>_ _. Inr (replicate 16 1), HttpEvent (demo_request ''GET'' ''/a'' ''b=c'')),
        (\<lambda>_ _. Inl ''no entropy'', DnsEvent \<lparr>query_String = \<lambda>_. ''q'', reply_String = \<lambda>_. ''r'', type_String = \<lambda>_. ''A''\<rparr>
           ''192.0.2.7:53'' \<lparr>dq_Question = [\<lparr>q_Name = ''C.d.e.'', q_Type = TypeA\<rparr>], dq_Rest = []\<rparr>),
        (\<lambda>_ _. Inr (replicate 16 2), LdapEvent \<lparr>NoticeOfStartTLS = ''1'', NoticeOfWhoAmI = ''2''\<rparr> False ''192.0.2.7:389''
           [(SearchRequest ''ou=C,dc=d'' ''(cn=x)'' [], False)] \<lparr>lc_startTLSDone = False, lc_open = True\<rparr>)]"
    for ivs event r
    using that by (auto simp: public_event_def cfg)
qed

end
