(* ===== verification/Storage_Removal.thy ===== *)
theory Storage_Removal
  imports Server_Capture
begin

text \<open>
  Which operations of the storages can take a session away.  A registration takes away at most what
  the eviction of a full table chooses, and never touches what a live session holds; a deletion needs
  the secret of the session it deletes.  Both backends, seen through their views.
\<close>

section \<open>Taking sessions away\<close>

text \<open>
  \<open>m'\<close> has fewer live sessions than \<open>m\<close>; the records of those that are left are as they were, and no
  record is new.
\<close>

definition shrinks ::
  "'db leveldb \<Rightarrow> ('db \<Rightarrow> bytes \<Rightarrow> bytes option) \<Rightarrow> int \<Rightarrow> 'db memoryStorage \<Rightarrow> 'db memoryStorage \<Rightarrow> bool" where
  "shrinks ldb contents now m m' \<longleftrightarrow> disk_hooks ldb m' \<and> view now m' \<subseteq>\<^sub>m view now m
     \<and> (\<forall>k. contents (backing m') k \<in> {contents (backing m) k, None})
     \<and> (\<forall>c. view now m' c \<noteq> None \<longrightarrow> contents (backing m') (go_bytes c) = contents (backing m) (go_bytes c))"

lemma shrinks_same:
  "disk_hooks ldb m' \<Longrightarrow> view now m' = view now m \<Longrightarrow> backing m' = backing m \<Longrightarrow> shrinks ldb contents now m m'"
  by (simp add: shrinks_def)

lemma shrinks_trans:
  assumes "shrinks ldb contents now m m1" "shrinks ldb contents now m1 m2"
  shows "shrinks ldb contents now m m2"
proof -
  have live: "view now m1 c \<noteq> None" if "view now m2 c \<noteq> None" for c
    using assms(2) that by (auto simp: shrinks_def map_le_def dom_def)
  have "view now m2 \<subseteq>\<^sub>m view now m" using assms by (auto simp: shrinks_def intro: map_le_trans)
  moreover have "contents (backing m2) k \<in> {contents (backing m) k, None}" for k
  proof -
    have "contents (backing m1) k \<in> {contents (backing m) k, None}" "contents (backing m2) k \<in> {contents (backing m1) k, None}"
      using assms unfolding shrinks_def by blast+
    then show ?thesis by auto
  qed
  ultimately show ?thesis using assms live unfolding shrinks_def by metis
qed

lemma shrinks_removeLocked:
  assumes "leveldb_ok ldb contents" "disk_hooks ldb m"
  shows "shrinks ldb contents now m (removeLocked cid m)"
  using assms by (auto simp: shrinks_def backing_removeLocked leveldb_okD map_le_def)

lemma evictLRU_removes:
  assumes "mem_ok aes m"
  obtains "evictLRU m = m" | v where "evictLRU m = evicted (removeLocked v m)"
proof (cases "lruList m = []")
  case True
  with that(1) show ?thesis by (simp add: evictLRU_def maxProbe_def eval_nat_numeral)
next
  case False
  with that(2) show ?thesis by (elim evictLRU_live [OF assms])
qed

lemma evictLRU_shrinks:
  assumes "mem_ok aes m" "leveldb_ok ldb contents" "disk_hooks ldb m"
  shows "shrinks ldb contents now m (evictLRU m)"
  using assms(1)
proof (cases rule: evictLRU_removes)
  case 1
  with assms(3) show ?thesis by (simp add: shrinks_same)
next
  case (2 v)
  have "shrinks ldb contents now (removeLocked v m) (evicted (removeLocked v m))"
    using assms(3) by (intro shrinks_same) simp_all
  with shrinks_trans [OF shrinks_removeLocked [OF assms(2,3)]] 2 show ?thesis by simp
qed

lemma evictLRU_view: "mem_ok aes m \<Longrightarrow> view now (evictLRU m) \<subseteq>\<^sub>m view now m"
  by (erule evictLRU_removes) (auto simp: map_le_def)

section \<open>Registration\<close>

abbreviation session_table :: "'d memoryStorage \<Rightarrow> string set" where
  "session_table m \<equiv> dom (sessions m)"

text \<open>The state before the session is inserted, from the state in which the id is free.\<close>

definition make_room :: "'d memoryStorage \<Rightarrow> 'd memoryStorage" where
  "make_room m = (if card (dom (sessions (miss m))) \<ge> maxCacheCapacity then evictLRU (miss m) else miss m)"

lemma view_insert:
  assumes "mem_ok aes m" "c \<noteq> cid"
  shows "view now (insert_session cid s m) c = view now m c"
proof -
  have "sessions m c \<noteq> Some (next_session m)"
    using assms(1) by (auto simp: mem_ok_def ptr_ok_def ran_def)
  with assms(2) show ?thesis
    by (auto simp: view_def find_session_def isExpired_def split: option.split)
qed

lemma make_room_view:
  assumes "mem_ok aes m"
  shows "view now (make_room m) c = view now m c
     \<or> view now (make_room m) c = None \<and> maxCacheCapacity \<le> card (session_table m)"
proof (cases "maxCacheCapacity \<le> card (session_table m)")
  case True
  have "view now (evictLRU (miss m)) \<subseteq>\<^sub>m view now m" using evictLRU_view [of aes "miss m" now] assms by simp
  with True show ?thesis by (cases "view now (evictLRU (miss m)) c") (auto simp: make_room_def map_le_def dom_def)
qed (simp add: make_room_def)

lemma make_room_shrinks:
  assumes "mem_ok aes m" "leveldb_ok ldb contents" "disk_hooks ldb m"
  shows "shrinks ldb contents now m (make_room m)"
proof -
  have s: "shrinks ldb contents now m (miss m)" using assms(3) by (intro shrinks_same) simp_all
  have "shrinks ldb contents now (miss m) (evictLRU (miss m))" using assms by (intro evictLRU_shrinks) simp_all
  with s shrinks_trans [OF s] show ?thesis by (simp add: make_room_def)
qed

lemma register_new_room:
  assumes "register_new aes now rand cid pk sk resp m = (r, m')"
  obtains "m' = make_room m" | s where "m' = insert_session cid s (make_room m)"
  using assms by (cases rule: register_new_cases) (auto simp: make_room_def)

text \<open>What a registration does to a live session: nothing, or it was in a full table and is gone.\<close>

lemma register_new_view:
  assumes "register_new aes now rand cid pk sk resp m = (r, m')" "mem_ok aes m" "c \<noteq> cid"
  shows "view now m' c = view now m c \<or> view now m' c = None \<and> maxCacheCapacity \<le> card (session_table m)"
proof -
  have "mem_ok aes (make_room m)" using mem_ok_evict_if_full(1) [OF assms(2)] by (simp add: make_room_def)
  then have "view now m' c = view now (make_room m) c"
    using register_new_room [OF assms(1)] view_insert assms(3) by metis
  then show ?thesis using make_room_view [OF assms(2)] by simp
qed

lemma Register_view:
  assumes good: "mem_good aes now m" and run: "Register aes now rand cid pk sk resp m = (r, m')"
    and live: "view now m c = Some acc"
  shows "view now m' c = Some acc \<or> view now m' c = None \<and> maxCacheCapacity \<le> card (session_table m)"
proof -
  have ok: "mem_ok aes m" and ttl: "0 \<le> ttl m" and clock: "clock_ok now" using good by (simp_all add: mem_good_def)
  obtain r' where reg: "registerInternal aes now rand cid pk sk resp m = (r', m')"
    using run by (auto simp: Register_def split: prod.splits sum.splits)
  show ?thesis
    using reg
  proof (cases rule: registerInternal_cases)
    case fresh
    then have "c \<noteq> cid" using live by (auto simp: view_def)
    with register_new_view [OF fresh(2) ok] live show ?thesis by metis
  next
    case (replace a s)
    then have c: "c \<noteq> cid" using live by (auto simp: view_def)
    have "card (session_table (evicted (removeLocked cid m))) \<le> card (session_table m)"
      using ok by (intro card_mono) (auto simp: mem_ok_def dest: lru_sessions_finite)
    with register_new_view [OF replace(3) _ c] ok live c show ?thesis by (fastforce simp: mem_ok_removeLocked)
  next
    case taken
    with live show ?thesis by simp
  next
    case (keep_alive a s)
    have "ptr_ok (hit m)" using ok by (simp add: mem_ok_def ptr_ok_def)
    with keep_alive view_touch [OF this, of cid a s now] clock ttl live show ?thesis by simp
  qed
qed

lemma register_new_disk:
  assumes run: "register_new aes now rand cid pk sk resp m = (r, m')"
    and ok: "mem_ok aes m" "leveldb_ok ldb contents" "disk_hooks ldb m"
  shows "disk_hooks ldb m'" "contents (backing m') k \<in> {contents (backing m) k, None}"
    "c \<noteq> cid \<Longrightarrow> view now m' c \<noteq> None \<Longrightarrow> contents (backing m') (go_bytes c) = contents (backing m) (go_bytes c)"
proof -
  have room: "shrinks ldb contents now m (make_room m)" by (rule make_room_shrinks [OF ok])
  have "mem_ok aes (make_room m)" using mem_ok_evict_if_full(1) [OF ok(1)] by (simp add: make_room_def)
  note other = view_insert [OF this]
  have ins: "disk_hooks ldb (insert_session cid s (make_room m))"
    "backing (insert_session cid s (make_room m)) = db_Delete ldb (go_bytes cid) (backing (make_room m))" for s
    using room by (auto simp: shrinks_def insert_session_def disk_hooks_def Let_def)
  have "disk_hooks ldb m' \<and> contents (backing m') k \<in> {contents (backing m) k, None}
      \<and> (c \<noteq> cid \<longrightarrow> view now m' c \<noteq> None \<longrightarrow> contents (backing m') (go_bytes c) = contents (backing m) (go_bytes c))"
    using run
  proof (cases rule: register_new_room)
    case 1
    show ?thesis unfolding 1 using room by (simp add: shrinks_def)
  next
    case (2 s)
    have left: "contents (backing m') x = (if x = go_bytes cid then None else contents (backing (make_room m)) x)" for x
      by (simp add: 2 ins(2) leveldb_okD [OF ok(2)])
    have key: "contents (backing (make_room m)) k \<in> {contents (backing m) k, None}"
      "view now (make_room m) c \<noteq> None \<longrightarrow> contents (backing (make_room m)) (go_bytes c) = contents (backing m) (go_bytes c)"
      using room unfolding shrinks_def by blast+
    have "c \<noteq> cid \<Longrightarrow> view now m' c = view now (make_room m) c" unfolding 2 by (rule other)
    with key ins(1) [of s] show ?thesis by (simp add: left) (simp add: 2)
  qed
  then show "disk_hooks ldb m'" "contents (backing m') k \<in> {contents (backing m) k, None}"
    "c \<noteq> cid \<Longrightarrow> view now m' c \<noteq> None \<Longrightarrow> contents (backing m') (go_bytes c) = contents (backing m) (go_bytes c)"
    by blast+
qed

lemma Register_disk:
  assumes good: "mem_good aes now m" and ldb: "leveldb_ok ldb contents" and hooks: "disk_hooks ldb m"
    and run: "Register aes now rand cid pk sk resp m = (r, m')"
  shows "disk_hooks ldb m'" "contents (backing m') k \<in> {contents (backing m) k, None}"
    "view now m c \<noteq> None \<Longrightarrow> view now m' c \<noteq> None
       \<Longrightarrow> contents (backing m') (go_bytes c) = contents (backing m) (go_bytes c)"
proof -
  have ok: "mem_ok aes m" using good by (simp add: mem_good_def)
  let ?m1 = "evicted (removeLocked cid m)"
  have gone: "shrinks ldb contents now m ?m1"
    using shrinks_trans [OF shrinks_removeLocked [OF ldb hooks] shrinks_same, of ?m1] hooks by simp
  obtain r' where reg: "registerInternal aes now rand cid pk sk resp m = (r', m')"
    using run by (auto simp: Register_def split: prod.splits sum.splits)
  have "disk_hooks ldb m' \<and> contents (backing m') k \<in> {contents (backing m) k, None}
      \<and> (view now m c \<noteq> None \<longrightarrow> view now m' c \<noteq> None
           \<longrightarrow> contents (backing m') (go_bytes c) = contents (backing m) (go_bytes c))"
    using reg
  proof (cases rule: registerInternal_cases)
    case fresh
    have "view now m cid = None" using fresh(1) by (simp add: view_def)
    note new = register_new_disk [OF fresh(2) ok ldb hooks]
    with \<open>view now m cid = None\<close> new(1) new(2) [of k] new(3) [of c] show ?thesis by (cases "c = cid") simp_all
  next
    case (replace a s)
    then have none: "view now m cid = None" by (simp add: view_def)
    have m1: "mem_ok aes ?m1" "disk_hooks ldb ?m1" using ok hooks by (simp_all add: mem_ok_removeLocked)
    have del: "contents (backing (removeLocked cid m)) j = (if j = go_bytes cid then None else contents (backing m) j)" for j
      using hooks by (simp add: backing_removeLocked leveldb_okD [OF ldb])
    note new = register_new_disk [OF replace(3) m1(1) ldb m1(2)]
    have "contents (backing m') k \<in> {contents (backing m) k, None}" using new(2) [of k] by (simp add: del split: if_splits)
    with none new(1) new(3) [of c] show ?thesis by (cases "c = cid") (simp_all add: del)
  qed (use hooks in simp_all)
  then show "disk_hooks ldb m'" "contents (backing m') k \<in> {contents (backing m) k, None}"
    "view now m c \<noteq> None \<Longrightarrow> view now m' c \<noteq> None
       \<Longrightarrow> contents (backing m') (go_bytes c) = contents (backing m) (go_bytes c)"
    by blast+
qed

section \<open>The server's storage\<close>

text \<open>The table of the storage is full: the next registration evicts.\<close>

definition storage_full :: "'db Storage \<Rightarrow> bool" where
  "storage_full st \<longleftrightarrow> maxCacheCapacity \<le> card (case st of
      MemoryBackend m \<Rightarrow> session_table m | DiskBackend d \<Rightarrow> session_table (mem d))"

lemma ttl_make_room: "mem_ok aes m \<Longrightarrow> ttl (make_room m) = ttl m"
  using mem_ok_evict_if_full(6) [of aes m] by (simp add: make_room_def)

lemma Register_ttl:
  assumes "mem_ok aes m" "Register aes now rand cid pk sk resp m = (r, m')"
  shows "ttl m' = ttl m"
proof -
  obtain r' where reg: "registerInternal aes now rand cid pk sk resp m = (r', m')"
    using assms(2) by (auto simp: Register_def split: prod.splits sum.splits)
  have new: "ttl m' = ttl m1" if "register_new aes now rand cid pk sk resp m1 = (r', m')" "mem_ok aes m1" for m1
    using register_new_room [OF that(1)] ttl_make_room [OF that(2)] by (metis insert_session_simps(7))
  show ?thesis
    using reg
  proof (cases rule: registerInternal_cases)
    case fresh
    with new assms(1) show ?thesis by blast
  next
    case (replace a s)
    from new [OF replace(3)] assms(1) show ?thesis by (simp add: mem_ok_removeLocked)
  qed simp_all
qed

lemma Register_good:
  assumes "mem_good aes now m" "cid \<noteq> []" "rand_ok rand 32" "Register aes now rand cid pk sk resp m = (r, m')"
  shows "mem_good aes now m'"
  using assms mem_ok_Register [OF assms(4)] Register_ttl [of aes m, OF _ assms(4)] by (auto simp: mem_good_def)

lemma disk_Register_good:
  assumes good: "disk_good aes ldb contents now d" and ok: "cid \<noteq> []" "rand_ok rand 32"
  shows "disk_good aes ldb contents now (snd (disk_Register aes now rand cid pk sk resp d))"
proof -
  obtain r m' where run: "Register aes now rand cid pk sk resp (mem d) = (r, m')" by fastforce
  have pre: "mem_good aes now (mem d)" "leveldb_ok ldb contents" "disk_hooks ldb (mem d)" "\<not> closed d"
    using good by (simp_all add: disk_good_def)
  note new = Register_disk [OF pre(1-3) run]
  have "\<exists>xs. framed (contents (backing m') (go_bytes c)) xs" for c
  proof -
    from good obtain xs where "framed (contents (backing (mem d)) (go_bytes c)) xs" by (auto simp: disk_good_def)
    with new(2) [of "go_bytes c"] framed_None show ?thesis by auto
  qed
  with pre new(1) Register_good [OF pre(1) ok run] show ?thesis by (simp add: disk_Register_def run disk_good_def)
qed

lemma disk_Register_view:
  assumes good: "disk_good aes ldb contents now d" and live: "disk_view contents now d c = Some acc"
  shows "disk_view contents now (snd (disk_Register aes now rand cid pk sk resp d)) c = Some acc
     \<or> disk_view contents now (snd (disk_Register aes now rand cid pk sk resp d)) c = None
         \<and> maxCacheCapacity \<le> card (session_table (mem d))"
proof -
  obtain r m' where run: "Register aes now rand cid pk sk resp (mem d) = (r, m')" by fastforce
  have pre: "mem_good aes now (mem d)" "leveldb_ok ldb contents" "disk_hooks ldb (mem d)"
    using good by (simp_all add: disk_good_def)
  obtain acc0 where acc0: "view now (mem d) c = Some acc0" "acc = acc0\<lparr>acc_pending := pending_of contents d c\<rparr>"
    using live by (auto simp: disk_view_def)
  from Register_view [OF pre(1) run acc0(1)] Register_disk(3) [OF pre run, of c] acc0
  show ?thesis by (auto simp: disk_Register_def run disk_view_def pending_of_def)
qed

lemma storage_Register:
  assumes "storage_good contents e st" "cid \<noteq> []" "rand_ok (env_key e) 32"
  shows "storage_good contents e (snd (Storage_Register e cid pk sk resp st))"
    "storage_view contents (env_now e) st c = Some acc \<Longrightarrow>
       storage_view contents (env_now e) (snd (Storage_Register e cid pk sk resp st)) c = Some acc
       \<or> storage_view contents (env_now e) (snd (Storage_Register e cid pk sk resp st)) c = None \<and> storage_full st"
proof -
  have split: "Register (env_aes e) (env_now e) (env_key e) cid pk sk resp m
      = (fst (Register (env_aes e) (env_now e) (env_key e) cid pk sk resp m),
         snd (Register (env_aes e) (env_now e) (env_key e) cid pk sk resp m))" for m :: "unit memoryStorage"
    by simp
  show "storage_good contents e (snd (Storage_Register e cid pk sk resp st))"
    using assms(1) Register_good [OF _ assms(2,3) split] disk_Register_good [OF _ assms(2,3)]
    by (cases st) (simp_all add: Storage_Register_def)
  show "storage_view contents (env_now e) (snd (Storage_Register e cid pk sk resp st)) c = Some acc
       \<or> storage_view contents (env_now e) (snd (Storage_Register e cid pk sk resp st)) c = None \<and> storage_full st"
    if "storage_view contents (env_now e) st c = Some acc"
  proof (cases st)
    case (MemoryBackend m)
    with that assms(1) Register_view [OF _ split, of m c acc] show ?thesis
      by (simp add: Storage_Register_def storage_full_def)
  next
    case (DiskBackend d)
    with that assms(1) disk_Register_view [of "env_aes e" "env_leveldb e" contents "env_now e" d c acc] show ?thesis
      by (simp add: Storage_Register_def storage_full_def)
  qed
qed

section \<open>Deletion\<close>

lemma Delete_other:
  assumes "mem_good aes now m"
    and "view now m c = Some acc" "c \<noteq> cid \<or> acc_secret acc \<noteq> go_bytes sk"
  shows "mem_good aes now (snd (Delete cid sk m))" "view now (snd (Delete cid sk m)) c = Some acc"
proof -
  have "ttl (snd (Delete cid sk m)) = ttl m" by (simp add: Delete_def Let_def split: option.split)
  with assms(1) show "mem_good aes now (snd (Delete cid sk m))" by (simp add: mem_good_def mem_ok_Delete)
  show "view now (snd (Delete cid sk m)) c = Some acc"
    using assms(2,3) by (auto simp: Delete_def Let_def view_Some split: option.split)
qed

lemma Delete_disk:
  assumes "leveldb_ok ldb contents" "disk_hooks ldb m"
  shows "disk_hooks ldb (snd (Delete cid sk m))"
    "contents (backing (snd (Delete cid sk m))) k \<in> {contents (backing m) k, None}"
    "view now m c = Some acc \<Longrightarrow> c \<noteq> cid \<or> acc_secret acc \<noteq> go_bytes sk
       \<Longrightarrow> contents (backing (snd (Delete cid sk m))) (go_bytes c) = contents (backing m) (go_bytes c)"
  using assms by (auto simp: Delete_def Let_def backing_removeLocked leveldb_okD view_Some split: option.split)

lemma storage_Delete:
  assumes "storage_good contents e st" "storage_view contents (env_now e) st c = Some acc"
    and "c \<noteq> cid \<or> acc_secret acc \<noteq> go_bytes sk"
  shows "storage_good contents e (snd (Storage_Delete cid sk st))
     \<and> storage_view contents (env_now e) (snd (Storage_Delete cid sk st)) c = Some acc"
proof (cases st)
  case (MemoryBackend m)
  with assms Delete_other [of "env_aes e" "env_now e" m c acc cid sk] show ?thesis by (simp add: Storage_Delete_def)
next
  case (DiskBackend d)
  with assms have pre: "mem_good (env_aes e) (env_now e) (mem d)" "leveldb_ok (env_leveldb e) contents"
    "disk_hooks (env_leveldb e) (mem d)" and good: "disk_good (env_aes e) (env_leveldb e) contents (env_now e) d"
    by (simp_all add: disk_good_def)
  obtain acc0 where acc0: "view (env_now e) (mem d) c = Some acc0" "acc = acc0\<lparr>acc_pending := pending_of contents d c\<rparr>"
    using assms(2) DiskBackend by (auto simp: disk_view_def)
  with assms(3) have stranger: "c \<noteq> cid \<or> acc_secret acc0 \<noteq> go_bytes sk" by simp
  note mem = Delete_other [OF pre(1) acc0(1) stranger] and disk = Delete_disk [OF pre(2,3)]
  have "\<exists>xs. framed (contents (backing (snd (Delete cid sk (mem d)))) (go_bytes x)) xs" for x
  proof -
    from good obtain xs where "framed (contents (backing (mem d)) (go_bytes x)) xs" by (auto simp: disk_good_def)
    with disk(2) [of cid sk "go_bytes x"] framed_None show ?thesis by auto
  qed
  with good mem(1) disk(1) have "disk_good (env_aes e) (env_leveldb e) contents (env_now e) (snd (disk_Delete cid sk d))"
    by (simp add: disk_Delete_def case_prod_unfold disk_good_def)
  moreover have "disk_view contents (env_now e) (snd (disk_Delete cid sk d)) c = Some acc"
    using mem(2) disk(3) [OF acc0(1) stranger] acc0(2)
    by (simp add: disk_Delete_def case_prod_unfold disk_view_def pending_of_def)
  ultimately show ?thesis using DiskBackend by (simp add: Storage_Delete_def)
qed

end
