(* ===== verification/Session_Ownership.thy ===== *)
theory Session_Ownership
  imports Traffic Storage_Removal
begin

text \<open>
  Whose a session is.  Nobody who does not present the secret of a session takes anything from it:
  neither the traffic of the five protocols nor the requests to the API.  What strangers can do is
  register sessions of their own until the table of the server is full and evicts.
\<close>

section \<open>Requests to the API\<close>

text \<open>
  A request that presents the secret of a session where it counts: in a poll of its id, or in its
  deregistration.
\<close>

definition presents :: "'db env \<Rightarrow> 'db server \<Rightarrow> string \<Rightarrow> bytes \<Rightarrow> request \<Rightarrow> bool" where
  "presents e s cid sk r = (case find_route (Metrics (sv_cfg s)) r of
      RoutePoll \<Rightarrow> check_id s (query_Get (rq_query r) ''id'') = Inr cid
        \<and> go_bytes (query_Get (rq_query r) ''secret'') = sk
    | RouteDeregister \<Rightarrow> (case env_decode_deregister e (rq_Body (size_limited s r)) of
          Inl err \<Rightarrow> False
        | Inr req \<Rightarrow> check_id s (sd_CorrelationID req) = Inr cid \<and> go_bytes (sd_SecretKey req) = sk)
    | _ \<Rightarrow> False)"

lemma presents_cfg:
  "sv_cfg s1 = sv_cfg s \<Longrightarrow> presents e s1 cid sk r = presents e s cid sk r"
  by (simp add: presents_def check_id_def size_limited_def cong: route.case_cong sum.case_cong)

lemma wrapAPI_step: "\<exists>w'. snd (wrapAPI h r w s) = s \<or> wrapAPI h r w s = h r w' s"
  by (simp add: wrapAPI_def ResponseHeadersMiddleware_def CORSMiddleware_def AuthMiddleware_def Let_def) blast

lemma read_buckets_cfg [simp]:
  "sv_cfg (snd (read_extra now c s)) = sv_cfg s" "sv_cfg (snd (read_tld now c s)) = sv_cfg s"
  by (simp_all add: read_extra_def read_tld_def case_prod_unfold split: option.split)

lemma handlePoll_storage:
  "sv_cfg (snd (handlePoll e r w s)) = sv_cfg s
   \<and> (sv_storage (snd (handlePoll e r w s)) = sv_storage s
      \<or> (\<exists>cid. check_id s (query_Get (rq_query r) ''id'') = Inr cid
           \<and> sv_storage (snd (handlePoll e r w s))
               = snd (storage_poll e cid (query_Get (rq_query r) ''secret'') (sv_storage s))))"
  by (auto simp: handlePoll_def storage_poll_def Let_def case_prod_unfold split: sum.split)

text \<open>What one request to the API does to a live session of somebody else.\<close>

lemma api_spares:
  assumes good: "storage_good contents e (sv_storage s)" and ids: "0 < CorrelationIdLength (sv_cfg s)"
    and key: "rand_ok (env_key e) 32" and route: "api_route (find_route (Metrics (sv_cfg s)) r)"
    and stranger: "\<not> presents e s cid (acc_secret acc) r" and acc: "account_at contents e s cid = Some acc"
  shows "storage_good contents e (sv_storage (snd (Handler e r newResponseRecorder s)))
     \<and> sv_cfg (snd (Handler e r newResponseRecorder s)) = sv_cfg s
     \<and> (account_at contents e (snd (Handler e r newResponseRecorder s)) cid = Some acc
        \<or> account_at contents e (snd (Handler e r newResponseRecorder s)) cid = None
          \<and> find_route (Metrics (sv_cfg s)) r = RouteRegister \<and> storage_full (sv_storage s))"
proof -
  let ?r = "size_limited s r" and ?rt = "find_route (Metrics (sv_cfg s)) r"
  let ?ok = "\<lambda>s'. storage_good contents e (sv_storage s') \<and> sv_cfg s' = sv_cfg s
     \<and> (account_at contents e s' cid = Some acc
        \<or> account_at contents e s' cid = None \<and> ?rt = RouteRegister \<and> storage_full (sv_storage s))"
  have same: "?ok s'" if "sv_storage s' = sv_storage s" "sv_cfg s' = sv_cfg s" for s'
    using that good acc by simp
  have wrapped: "?ok (snd (wrapAPI h ?r newResponseRecorder s))" if "\<And>w. ?ok (snd (h ?r w s))" for h
    using wrapAPI_step [of h ?r newResponseRecorder s] that same [of s] by (elim exE disjE) simp_all
  consider "?rt = RouteRegister" | "?rt = RoutePoll" | "?rt = RouteDeregister" | "?rt = RouteMetrics"
    using route by (auto simp: api_route_def)
  then show ?thesis
  proof cases
    case 1
    have "?ok (snd (handleRegister e ?r w s))" for w
    proof (cases "env_decode_register e (rq_Body ?r)")
      case (Inl err)
      with same show ?thesis by (simp add: handleRegister_def)
    next
      case req: (Inr req)
      show ?thesis
      proof (cases "validate_register e s req")
        case (Inl err)
        with req same show ?thesis by (simp add: handleRegister_def)
      next
        case (Inr cp)
        obtain c pk where cp: "cp = (c, pk)" by (cases cp)
        have "c \<noteq> []" using Inr ids by (auto simp: cp validate_register_Inr check_id_Inr)
        note reg = storage_Register [where pk = pk and sk = "sr_SecretKey req" and resp = "sr_Response req", OF good this key]
        obtain res st where run: "Storage_Register e c pk (sr_SecretKey req) (sr_Response req) (sv_storage s) = (res, st)"
          by fastforce
        have "sv_storage (snd (handleRegister e ?r w s)) = st" "sv_cfg (snd (handleRegister e ?r w s)) = sv_cfg s"
          using Inr by (simp_all add: handleRegister_def req cp run split: sum.split)
        with reg(1) reg(2) [OF acc] 1 show ?thesis by (simp add: run)
      qed
    qed
    with 1 wrapped [of "handleRegister e"] show ?thesis by (simp add: Handler_dispatch dispatch_def)
  next
    case 2
    have "?ok (snd (handlePoll e ?r w s))" for w
    proof (cases "sv_storage (snd (handlePoll e ?r w s)) = sv_storage s")
      case True
      with same handlePoll_storage [of e ?r w s] show ?thesis by simp
    next
      case False
      then obtain c where c: "check_id s (query_Get (rq_query r) ''id'') = Inr c"
        "sv_storage (snd (handlePoll e ?r w s)) = snd (storage_poll e c (query_Get (rq_query r) ''secret'') (sv_storage s))"
        using handlePoll_storage [of e ?r w s] by auto
      then have "c \<noteq> cid \<or> acc_secret acc \<noteq> go_bytes (query_Get (rq_query r) ''secret'')"
        using stranger 2 by (auto simp: presents_def)
      then have "storage_view contents (env_now e) (sv_storage (snd (handlePoll e ?r w s))) cid = Some acc"
        using server_storage.poll_other [OF good, of cid c] server_storage.poll_denied [OF good, of c acc] acc
        unfolding c(2) by (cases "c = cid") auto
      with c(2) server_storage.poll_good [OF good] handlePoll_storage [of e ?r w s] show ?thesis by simp
    qed
    with 2 wrapped [of "handlePoll e"] show ?thesis by (simp add: Handler_dispatch dispatch_def)
  next
    case 3
    have "?ok (snd (handleDeregister e ?r w s))" for w
    proof (cases "env_decode_deregister e (rq_Body ?r)")
      case (Inl err)
      with same show ?thesis by (simp add: handleDeregister_def)
    next
      case req: (Inr req)
      show ?thesis
      proof (cases "check_id s (sd_CorrelationID req)")
        case (Inl err)
        with req same show ?thesis by (simp add: handleDeregister_def)
      next
        case (Inr c)
        obtain res st where run: "Storage_Delete c (sd_SecretKey req) (sv_storage s) = (res, st)" by fastforce
        have "cid \<noteq> c \<or> acc_secret acc \<noteq> go_bytes (sd_SecretKey req)"
          using stranger 3 req Inr by (auto simp: presents_def)
        note del = storage_Delete [OF good acc this]
        have "sv_storage (snd (handleDeregister e ?r w s)) = st" "sv_cfg (snd (handleDeregister e ?r w s)) = sv_cfg s"
          using Inr by (simp_all add: handleDeregister_def req run split: option.split)
        with del show ?thesis by (simp add: run)
      qed
    qed
    with 3 wrapped [of "handleDeregister e"] show ?thesis by (simp add: Handler_dispatch dispatch_def)
  next
    case 4
    have "?ok (snd (handleMetrics e ?r w s))" for w using same by (simp add: handleMetrics_def case_prod_unfold)
    with 4 wrapped [of "handleMetrics e"] show ?thesis by (simp add: Handler_dispatch dispatch_def)
  qed
qed

section \<open>Strangers\<close>

text \<open>An event in which nobody presents the secret of the session.\<close>

definition by_stranger :: "'db env \<Rightarrow> 'db server \<Rightarrow> string \<Rightarrow> bytes \<Rightarrow> traffic_event \<Rightarrow> bool" where
  "by_stranger e s cid sk event = (case event of HttpEvent r \<Rightarrow> \<not> presents e s cid sk r | _ \<Rightarrow> True)"

lemma presents_iv [simp]: "presents (e\<lparr>env_iv := f\<rparr>) s cid sk r = presents e s cid sk r"
  by (simp add: presents_def cong: route.case_cong)

lemma by_stranger_cfg: "sv_cfg s1 = sv_cfg s \<Longrightarrow> by_stranger e s1 cid sk event = by_stranger e s cid sk event"
  by (cases event) (simp_all add: by_stranger_def presents_cfg [of s1 s])

text \<open>One event: the session has only gained, or it was evicted from a full table.\<close>

definition evicts :: "'db server \<Rightarrow> traffic_event \<Rightarrow> bool" where
  "evicts s event = (case event of
      HttpEvent r \<Rightarrow> find_route (Metrics (sv_cfg s)) r = RouteRegister \<and> storage_full (sv_storage s)
    | _ \<Rightarrow> False)"

lemma event_spares:
  assumes fits: "\<And>r. env_fits (e\<lparr>env_iv := ivs r\<rparr>)" and good: "storage_good contents e (sv_storage s)"
    and ids: "0 < CorrelationIdLength (sv_cfg s)" and key: "rand_ok (env_key e) 32"
    and stranger: "by_stranger e s cid (acc_secret acc) event" and acc: "account_at contents e s cid = Some acc"
  shows "storage_good contents e (sv_storage (serve_event e (ivs, event) s))
     \<and> sv_cfg (serve_event e (ivs, event) s) = sv_cfg s
     \<and> ((\<exists>xs. account_at contents e (serve_event e (ivs, event) s) cid
              = Some (acc\<lparr>acc_pending := acc_pending acc @ xs\<rparr>))
        \<or> account_at contents e (serve_event e (ivs, event) s) cid = None \<and> evicts s event)"
proof (cases "public_event (sv_cfg s) event")
  case True
  from event_adds [where e = e and ivs = ivs, OF fits good this] acc show ?thesis unfolding only_adds_def by blast
next
  case False
  then obtain r where r: "event = HttpEvent r" "api_route (find_route (Metrics (sv_cfg s)) r)"
    by (cases event) (simp_all add: public_event_def)
  let ?e = "e\<lparr>env_iv := ivs []\<rparr>"
  have "\<not> presents ?e s cid (acc_secret acc) r" using stranger by (simp add: by_stranger_def r(1))
  from api_spares [of contents ?e s r cid acc, OF _ ids _ r(2) this] good key acc
  show ?thesis by (auto simp: serve_event_def r(1) evicts_def intro: exI [of _ "[]"])
qed

lemma events_spare:
  assumes "storage_good contents e (sv_storage s)" "0 < CorrelationIdLength (sv_cfg s)" "rand_ok (env_key e) 32"
    and "\<And>ivs event r. (ivs, event) \<in> set events \<Longrightarrow>
           env_fits (e\<lparr>env_iv := ivs r\<rparr>) \<and> by_stranger e s cid (acc_secret acc) event"
    and "account_at contents e s cid = Some acc"
  shows "storage_good contents e (sv_storage (fold (serve_event e) events s))
       \<and> (\<exists>xs. account_at contents e (fold (serve_event e) events s) cid = Some (acc\<lparr>acc_pending := acc_pending acc @ xs\<rparr>))
     \<or> (\<exists>before ivs event after. events = before @ (ivs, event) # after
          \<and> evicts (fold (serve_event e) before s) event
          \<and> account_at contents e (fold (serve_event e) (before @ [(ivs, event)]) s) cid = None)"
  using assms
proof (induction events arbitrary: s acc)
  case Nil
  then show ?case by (auto intro: exI [of _ "[]"])
next
  case (Cons de events)
  obtain ivs event where de: "de = (ivs, event)" by (cases de)
  let ?s1 = "serve_event e de s"
  have "\<And>r. env_fits (e\<lparr>env_iv := ivs r\<rparr>)" "by_stranger e s cid (acc_secret acc) event"
    using Cons.prems(4) [of ivs event] by (simp_all add: de)
  note one = event_spares [where e = e and ivs = ivs, OF this(1) Cons.prems(1-3) this(2) Cons.prems(5), folded de]
  then have cfg: "sv_cfg ?s1 = sv_cfg s" by simp
  from one [THEN conjunct2, THEN conjunct2] show ?case
  proof (elim disjE exE conjE)
    assume "account_at contents e ?s1 cid = None" "evicts s event"
    then show ?thesis
      by (intro disjI2 exI [of _ "[]"] exI [of _ ivs] exI [of _ event] exI [of _ events]) (simp add: de)
  next
    fix xs assume gained: "account_at contents e ?s1 cid = Some (acc\<lparr>acc_pending := acc_pending acc @ xs\<rparr>)"
    let ?acc = "acc\<lparr>acc_pending := acc_pending acc @ xs\<rparr>"
    have "env_fits (e\<lparr>env_iv := iv r\<rparr>) \<and> by_stranger e ?s1 cid (acc_secret ?acc) ev"
      if "(iv, ev) \<in> set events" for iv ev r
      using Cons.prems(4) [of iv ev r] that by (simp add: by_stranger_cfg [OF cfg])
    with Cons.IH [of ?s1 ?acc] one gained Cons.prems(2,3)
    consider (kept) ys where "storage_good contents e (sv_storage (fold (serve_event e) events ?s1))"
        "account_at contents e (fold (serve_event e) events ?s1) cid
           = Some (?acc\<lparr>acc_pending := acc_pending ?acc @ ys\<rparr>)"
      | (later) before ivs' ev after where "events = before @ (ivs', ev) # after"
          "evicts (fold (serve_event e) before ?s1) ev"
          "account_at contents e (fold (serve_event e) (before @ [(ivs', ev)]) ?s1) cid = None"
      by (auto simp: cfg)
    then show ?thesis
    proof cases
      case kept
      then show ?thesis by (auto intro: exI [of _ "xs @ ys"])
    next
      case later
      then show ?thesis
        by (intro disjI2 exI [of _ "de # before"] exI [of _ ivs'] exI [of _ ev] exI [of _ after]) simp
    qed
  qed
qed

text \<open>
  C2: only who presents its secret takes anything from a session.  After any sequence of HTTP
  requests, to the API or not, DNS queries, SMTP messages, LDAP connections and FTP notifications, in
  any order, in which no poll of the session and no deregistration of it presents the secret, the
  owner's poll returns everything that the session held, in order, followed by what was added, and
  leaves the account with its key, secret and response; unless, at some registration that found the
  table of the server full, the session was evicted as a whole.  Both backends, any scanning mode,
  any failures of codecs and random sources.
\<close>

theorem strangers_take_nothing:
  assumes "storage_good contents e (sv_storage s)" "0 < CorrelationIdLength (sv_cfg s)" "rand_ok (env_key e) 32"
    and "\<And>ivs event r. (ivs, event) \<in> set events \<Longrightarrow>
           env_fits (e\<lparr>env_iv := ivs r\<rparr>) \<and> by_stranger e s cid (acc_secret acc) event"
    and "account_at contents e s cid = Some acc" "acc_secret acc = go_bytes secret"
  shows "(\<exists>added. let (polled, st) = storage_poll e cid secret (sv_storage (fold (serve_event e) events s))
       in polled = Inr (acc_pending acc @ added) \<and> storage_view contents (env_now e) st cid = Some (acc\<lparr>acc_pending := []\<rparr>))
     \<or> (\<exists>before ivs event after. events = before @ (ivs, event) # after
          \<and> evicts (fold (serve_event e) before s) event
          \<and> account_at contents e (fold (serve_event e) (before @ [(ivs, event)]) s) cid = None)"
proof -
  let ?s = "fold (serve_event e) events s"
  consider (kept) xs where "storage_good contents e (sv_storage ?s)"
      "account_at contents e ?s cid = Some (acc\<lparr>acc_pending := acc_pending acc @ xs\<rparr>)"
    | (lost) "\<exists>before ivs event after. events = before @ (ivs, event) # after
          \<and> evicts (fold (serve_event e) before s) event
          \<and> account_at contents e (fold (serve_event e) (before @ [(ivs, event)]) s) cid = None"
    using events_spare [OF assms(1-3) _ assms(5), of events] assms(4) by blast
  then show ?thesis
  proof cases
    case kept
    from server_storage.poll_acct [OF kept, of secret] assms(6)
    show ?thesis by (intro disjI1 exI [of _ xs]) (simp add: case_prod_unfold)
  next
    case lost
    then show ?thesis ..
  qed
qed

definition demo_hostile :: "(draws \<times> traffic_event) list" where
  "demo_hostile =
     [(\<lambda>_ _. Inr (replicate 16 1), HttpEvent (demo_request ''GET'' ''/poll'' ''id=c&secret=guess'')),
      (\<lambda>_ _. Inr (replicate 16 1), HttpEvent (demo_request ''POST'' ''/deregister'' [])),
      (\<lambda>_ _. Inr (replicate 16 1), HttpEvent (demo_request ''POST'' ''/register'' [])),
      (\<lambda>_ _. Inl ''no entropy'', HttpEvent (demo_request ''GET'' ''/a'' ''b=c''))]"

theorem strangers_take_nothing_witness:
  "(\<exists>added. let (polled, st) = storage_poll demo_env ''c'' ''k'' (sv_storage (fold (serve_event demo_env) demo_hostile demo_server))
       in polled = Inr (acc_pending demo_account @ added)
         \<and> storage_view (\<lambda>_ _. None) (env_now demo_env) st ''c'' = Some (demo_account\<lparr>acc_pending := []\<rparr>))
     \<or> (\<exists>before ivs event after. demo_hostile = before @ (ivs, event) # after
          \<and> evicts (fold (serve_event demo_env) before demo_server) event
          \<and> account_at (\<lambda>_ _. None) demo_env (fold (serve_event demo_env) (before @ [(ivs, event)]) demo_server) ''c'' = None)"
proof (rule strangers_take_nothing)
  have cfg: "sv_cfg demo_server = demo_config" "CorrelationIdLength demo_config = 1"
    by (simp_all add: demo_server_def demo_config_def zero_Config_def)
  show "storage_good (\<lambda>_ _. None) demo_env (sv_storage demo_server)"
    "account_at (\<lambda>_ _. None) demo_env demo_server ''c'' = Some demo_account"
    using demo_m1_good [of 6] demo_m1_view [of 6]
    by (simp_all add: demo_server_def demo_env_def duration_defs max_int64_def)
  show "acc_secret demo_account = go_bytes ''k''" by (simp add: demo_account_def)
  show "0 < CorrelationIdLength (sv_cfg demo_server)" by (simp add: cfg)
  show "rand_ok (env_key demo_env) 32" by (simp add: demo_env_def rand_ok_def)
  have fits: "env_fits (demo_env\<lparr>env_iv := \<lambda>_. Inr (replicate 16 1)\<rparr>)" "env_fits (demo_env\<lparr>env_iv := \<lambda>_. Inl ''no entropy''\<rparr>)"
    by (simp_all add: env_fits_def demo_env_def record_fits_def)
  have guess: "query_Get (rq_query (demo_request ''GET'' ''/poll'' ''id=c&secret=guess'')) ''secret'' \<noteq> ''k''" by code_simp
  have routes: "find_route (Metrics demo_config) (demo_request ''POST'' ''/deregister'' []) = RouteDeregister"
    "find_route (Metrics demo_config) (demo_request ''POST'' ''/register'' []) = RouteRegister"
    "find_route (Metrics demo_config) (demo_request ''GET'' ''/poll'' ''id=c&secret=guess'') = RoutePoll"
    "find_route (Metrics demo_config) (demo_request ''GET'' ''/a'' ''b=c'') = RouteDefault"
    by code_simp+
  have sk: "acc_secret demo_account = go_bytes ''k''" by (simp add: demo_account_def)
  have decode: "env_decode_deregister demo_env body = Inl ''eof''" for body by (simp add: demo_env_def)
  have "\<not> presents demo_env demo_server ''c'' (acc_secret demo_account) (demo_request ''GET'' ''/poll'' ''id=c&secret=guess'')"
    by (simp only: presents_def cfg routes route.case sk go_bytes_inject guess simp_thms)
  moreover have "\<not> presents demo_env demo_server ''c'' (acc_secret demo_account) (demo_request ''POST'' ''/deregister'' [])"
    by (simp only: presents_def cfg routes route.case decode sum.case simp_thms)
  moreover have "\<not> presents demo_env demo_server ''c'' (acc_secret demo_account) (demo_request ''POST'' ''/register'' [])"
    "\<not> presents demo_env demo_server ''c'' (acc_secret demo_account) (demo_request ''GET'' ''/a'' ''b=c'')"
    by (simp_all only: presents_def cfg routes route.case simp_thms)
  ultimately show "env_fits (demo_env\<lparr>env_iv := ivs r\<rparr>)
      \<and> by_stranger demo_env demo_server ''c'' (acc_secret demo_account) event"
    if "(ivs, event) \<in> set demo_hostile" for ivs event r
    using that fits
    by (simp only: demo_hostile_def list.set insert_iff empty_iff prod.inject by_stranger_def)
       (elim disjE conjE; simp only: traffic_event.case simp_thms)
qed

end
