(* ===== verification/Spec2Isabelle.thy ===== *)
theory Spec2Isabelle
  imports End_To_End Client_Lifecycle Dns_Properties Acme Smtp_Properties Ldap_Properties Ftp Tls_Properties
    Dynamic_Urls Programs Backend_Histories Client_Session
    Session_Ownership
begin

text \<open>
  Verification library for interactsh-lite: an out-of-band interaction server
  (\<open>src/interactsh-srv\<close>, package \<open>oobsrv\<close>), its client library (\<open>src/oobclient\<close>) and its client
  program (\<open>src/main.go\<close>, \<open>src/config.go\<close>, \<open>src/output.go\<close>).

  \<^bold>\<open>The program.\<close> A client registers a correlation id with a public key and a secret.  It hands out
  host names that begin with the id.  Whatever arrives for such a name over HTTP, DNS, SMTP or LDAP
  is matched against the live ids, encrypted under the session's AES key and appended to the
  session; the client polls, presents its secret, gets the list and the AES key encrypted for its
  public key, and decrypts.  FTP, LDAP and wildcard traffic that names no id goes into shared
  buckets, which every poller reads at its own offset.

  \<^bold>\<open>Vocabulary.\<close> \<open>Prelude\<close> (bytes, 64-bit arithmetic as \<open>wrap64\<close> on int, instants and durations in
  nanoseconds), \<open>Go_Strings\<close>, \<open>Go_Encoding\<close>, \<open>Go_Net\<close>, \<open>Go_IP\<close> and \<open>Http_Types\<close> model what the source
  uses of Go's standard library, under Go's names; strings are lists of bytes.  \<open>Oob_Types\<close> has the
  types that client and server share (\<open>interaction.go\<close>, \<open>options.go\<close>, \<open>errors.go\<close>).

  \<^bold>\<open>Theories and the code they model\<close> (files of \<open>oobsrv\<close> unless said otherwise):

  \<^item> \<open>Correlation\<close>: \<open>correlation.go\<close>, the sliding-window matchers; the lookup is a callback that may
    change the storage, and the locale \<open>registry\<close> states what the matchers need of it.  \<open>Matching\<close>
    instantiates them with the session table.
  \<^item> \<open>Encrypt\<close>: \<open>encrypt.go\<close> and the client's \<open>decryptInteraction\<close>; CTR mode over an abstract block cipher.
  \<^item> \<open>Server_Config\<close>: \<open>config.go\<close> and how \<open>interactsh-srv/main.go\<close> combines file, flags and environment.
  \<^item> \<open>Memory_Storage\<close>, \<open>Memory_Invariant\<close>, \<open>Memory_View\<close>, \<open>Memory_Properties\<close>: \<open>memoryStorage\<close> of \<open>storage.go\<close> as a
    heap of sessions with the LRU list and maps, one definition per critical section; the invariant;
    the abstract view (ids to accounts) with the locale \<open>storage_contract\<close>; single operations on
    every branch.  \<open>Memory_Concurrency\<close>: the interleavings of concurrent calls as a step relation.
  \<^item> \<open>Disk_Storage\<close>: \<open>diskStorage\<close> over LevelDB.  \<open>Backend_Equivalence\<close>: both backends refine one abstract
    machine at an instant.  \<open>Backend_Histories\<close>: both run in lockstep over any calls at any instants.
    \<open>Shared_Bucket\<close>: \<open>SharedBucket\<close>.
  \<^item> \<open>Server\<close>, \<open>Server_Capture\<close>: \<open>server.go\<close>, the state of a server, construction, the storage
    interface and the capture path; the locale \<open>capture_contract\<close> extends \<open>storage_contract\<close> by the
    lookup and gives \<open>registry\<close>.  \<open>Server_Demo\<close>: a concrete server for the witnesses.
  \<^item> \<open>Http_Middleware\<close>, \<open>Http_Api\<close>, \<open>Http_Serve\<close>: \<open>middleware.go\<close>, \<open>endpoints.go\<close> with \<open>metrics.go\<close> (and
    \<open>Host_Metrics\<close>), \<open>httpapi.go\<close>; \<open>Handler\<close> composes them as \<open>New\<close> does.  \<open>Http_Properties\<close>, \<open>Http_Capture\<close>: their facts.
  \<^item> \<open>Dns\<close>, \<open>Dns_Properties\<close>, \<open>Acme\<close>: \<open>dns.go\<close>, \<open>ipdetect.go\<close>, and the certificate provider of \<open>tls.go\<close> with the
    locale \<open>challenge_store\<close>.
  \<^item> \<open>Smtp\<close>, \<open>Ldap\<close>, \<open>Ftp\<close>, \<open>Tls\<close> with their \<open>_Properties\<close>: the file of the same name.
  \<^item> \<open>Services\<close>: \<open>Start\<close> and the \<open>start\<close> functions of every protocol file, with \<open>http.go\<close>.
  \<^item> \<open>User_Agents\<close>: \<open>useragent.go\<close>.
  \<^item> \<open>Client\<close>, \<open>Client_Ids\<close>, \<open>Client_Lifecycle\<close>, \<open>Client_Session\<close>, \<open>Dynamic_Urls\<close>: \<open>oobclient/client.go\<close>, the
    requests, the identifiers, the life cycle as a step relation, keys and session files, and the
    helper that builds response URLs.
  \<^item> \<open>Flags\<close>: the command-line flags of both programs, their variables and defaults.  \<open>Cli\<close>,
    \<open>Client_Program\<close>: the client program, its parts and the whole of its \<open>main\<close>.  \<open>Programs\<close>: the \<open>main\<close> of
    the server program, log lines and health checks.
  \<^item> \<open>End_To_End\<close>: the client on the network that the server's own handler makes.  \<open>Traffic\<close>: the five
    protocols on one server.  \<open>Storage_Removal\<close>, \<open>Session_Ownership\<close>: what registrations and deletions
    can take away, and whose a session is.

  \<^bold>\<open>What the properties show.\<close> Matching is exact: every live id that occurs is reported once, in order.
  Under every interleaving of storage calls the structures of the storage agree, nothing that was
  captured is lost or delivered twice, and a poller gets its own session's interactions only; both
  backends deliver exactly once, and over any history of calls, whenever sessions expire on the way,
  they cannot be told apart.  A request, query, message or search that names a live id, by the host,
  name, recipient or DN, or anywhere in the text of a request or query under \<open>ScanEverywhere\<close>,
  reaches that account and no other, and an HTTP request reaches the client's
  callback at its next poll, decrypted, with the fields the server recorded.  Whatever arrives over
  the five protocols and at the API, in any order, takes nothing from a session whose secret it does
  not present, short of an eviction from a full table.  The API answers 401
  without the token, an unauthenticated server answers redirects only (static files aside), FTP
  paths stay under the root, LDAP connections negotiate TLS once and log each
  request as itself.  The server starts without losing
  a listener and is never configured with FTP, LDAP or wildcard capture but no authentication.  The
  client polls with one loop, deregisters last and once, registers in the clear with the fallback
  disabled only where it was told to and otherwise repeats every refused registration in the clear, its keys and sessions survive a round trip,
  and its response URLs do what a stored response would do.  Both programs take each setting from
  the last use of any name of its flag, a list from all uses, and the client program never walks away from a session.

  \<^bold>\<open>Interfaces.\<close> \<open>registry\<close> (matching), \<open>storage_contract\<close> (both backends and the abstract machine),
  \<open>capture_contract\<close> (the server's storage, whichever backend is in use) and \<open>challenge_store\<close> (ACME).
  Each is interpreted on the definitions of the model, and the properties of the client of an
  interface are proved once inside it.

  \<^bold>\<open>Time, width and termination.\<close> Instants and durations are 64-bit nanoseconds, wrapped where the code
  computes; counters are words of 64 bits.  Loops are structural or have a measure, with one
  exception: the loop over PEM blocks (\<open>leaf_loop\<close>) is a partial function, since it need not return,
  and the property about it says when it does.  No definition uses fuel.

  \<^bold>\<open>Parameters.\<close> Code that is not in the repository is an argument of the definitions that use it:
  AES, RSA, PEM and PKIX, LevelDB, JSON and YAML, regular expressions, pflag, the readings of the
  host, the DNS, SMTP, LDAP and FTP packages (their calls into the program are the operations of the
  model), certmagic, the file system, the network, the clock and the random source.  Where a property relies on one of them, the
  hypothesis names the documented behaviour, and a witness has a concrete instance.

  \<^bold>\<open>Not modelled.\<close> The splitting of a command line into settings (package pflag) and the help texts,
  signals, log calls (other than the log handler), the tickers of the certificate reloader and
  evictor (their ticks are), the settings of the HTTP transport, the handlers of the profiling
  service, and the repository's tests and workflows.  Concurrent calls are interleaved at the locks for the
  storage, the life cycle of the client and the start of the services; elsewhere an operation is one
  step.
\<close>

end
